(* ===== verification/Prelude.thy ===== *)
theory Prelude
  imports Main "HOL-Library.Word" "HOL-Library.Signed_Division"
begin

text \<open>
  What every theory of the development shares: the fact collections, the C integer helpers
  (32-bit and 64-bit signed conversions, truncating division), the exit codes, and generic
  lemmas on lists, options and maps.
\<close>

section \<open>Fact collections\<close>

named_theorems queue_simps \<open>equations of the descriptor ring buffer\<close>
named_theorems str_simps \<open>equations of the C string functions\<close>
named_theorems file_simps \<open>equations of the stdio file model\<close>
named_theorems chunk_simps \<open>equations of the metadata chunk writer\<close>
named_theorems fs_simps \<open>equations of the directory tree model\<close>

section \<open>C integers\<close>

type_synonym u8 = "8 word"
type_synonym u16 = "16 word"
type_synonym u32 = "32 word"
type_synonym u64 = "64 word"

text \<open>Conversion of a mathematical integer to a two's complement C type.\<close>

definition s32 :: "int \<Rightarrow> int" where
  "s32 x = sint (word_of_int x :: 32 word)"

definition s64 :: "int \<Rightarrow> int" where
  "s64 x = sint (word_of_int x :: 64 word)"

text \<open>\<open>LONG_MAX\<close> and \<open>LONG_MIN\<close> of the 64-bit targets the makefiles build for.\<close>

definition LONG_MAX :: int where "LONG_MAX = 9223372036854775807"
definition LONG_MIN :: int where "LONG_MIN = - 9223372036854775808"

lemma s32_id [simp]: "- 2147483648 \<le> x \<Longrightarrow> x < 2147483648 \<Longrightarrow> s32 x = x"
  by (simp add: s32_def sint_sbintrunc' signed_take_bit_int_eq_self)

lemma s64_id [simp]:
  "- 9223372036854775808 \<le> x \<Longrightarrow> x < 9223372036854775808 \<Longrightarrow> s64 x = x"
  by (simp add: s64_def sint_sbintrunc' signed_take_bit_int_eq_self)

text \<open>C division and remainder truncate towards zero; on non-negative values they are \<open>div\<close>
and \<open>mod\<close>.\<close>

lemma sdiv_nonneg [simp]: "0 \<le> (a::int) \<Longrightarrow> 0 < b \<Longrightarrow> a sdiv b = a div b"
  by (cases "a = 0") (simp_all add: signed_divide_int_def)

lemma smod_nonneg [simp]: "0 \<le> (a::int) \<Longrightarrow> 0 < b \<Longrightarrow> a smod b = a mod b"
  by (cases "a = 0") (simp_all add: signed_modulo_int_def)

text \<open>The exit codes of \<open>stdlib.h\<close>.\<close>

datatype exit_code = EXIT_SUCCESS | EXIT_FAILURE

section \<open>Lists\<close>

text \<open>Overwriting a run of a list, as writing a byte range of a file or a buffer does.\<close>

definition splice :: "'a list \<Rightarrow> nat \<Rightarrow> 'a list \<Rightarrow> 'a list" where
  "splice xs i ys = take i xs @ ys @ drop (i + length ys) xs"

lemma length_splice [simp]:
  "i + length ys \<le> length xs \<Longrightarrow> length (splice xs i ys) = length xs"
  by (simp add: splice_def)

lemma splice_end [simp]: "splice xs (length xs) ys = xs @ ys"
  by (simp add: splice_def)

lemma take_splice: "i \<le> length xs \<Longrightarrow> n \<le> i \<Longrightarrow> take n (splice xs i ys) = take n xs"
  by (simp add: splice_def)

lemma take_drop_splice [simp]:
  "i \<le> length xs \<Longrightarrow> take (length ys) (drop i (splice xs i ys)) = ys"
  by (simp add: splice_def)

lemma drop_splice:
  "i \<le> length xs \<Longrightarrow> i + length ys \<le> n \<Longrightarrow> drop n (splice xs i ys) = drop n xs"
  by (simp add: splice_def)

lemma find_last_append: "filter P (xs @ [x]) = (if P x then filter P xs @ [x] else filter P xs)"
  by simp

lemma dropWhile_hd: "xs \<noteq> [] \<Longrightarrow> \<not> P (hd xs) \<Longrightarrow> dropWhile P xs = xs"
  by (cases xs) auto

section \<open>Options and maps\<close>

text \<open>A loop over a list whose body may fail.\<close>

primrec foldM :: "('a \<Rightarrow> 's \<Rightarrow> 's option) \<Rightarrow> 'a list \<Rightarrow> 's \<Rightarrow> 's option" where
  "foldM f [] s = Some s"
| "foldM f (x # xs) s = (case f x s of None \<Rightarrow> None | Some s' \<Rightarrow> foldM f xs s')"

lemma foldM_append: "foldM f (xs @ ys) s = Option.bind (foldM f xs s) (foldM f ys)"
  by (induction xs arbitrary: s) (auto split: option.splits)

lemma foldM_inv:
  assumes "foldM f xs s = Some s'" "P s"
    and "\<And>x s s'. x \<in> set xs \<Longrightarrow> P s \<Longrightarrow> f x s = Some s' \<Longrightarrow> P s'"
  shows "P s'"
  using assms
proof (induction xs arbitrary: s)
  case (Cons x xs)
  from Cons.prems(1) obtain s1 where s1: "f x s = Some s1" "foldM f xs s1 = Some s'"
    by (auto split: option.splits)
  show ?case
  proof (rule Cons.IH [OF s1(2)])
    show "P s1" using Cons.prems(3) [OF _ Cons.prems(2) s1(1)] by simp
  qed (use Cons.prems(3) in auto)
qed simp

lemma foldM_total:
  assumes "P s" and "\<And>x s. x \<in> set xs \<Longrightarrow> P s \<Longrightarrow> \<exists>s'. f x s = Some s' \<and> P s'"
  shows "\<exists>s'. foldM f xs s = Some s' \<and> P s'"
  using assms
proof (induction xs arbitrary: s)
  case (Cons x xs)
  then obtain s1 where "f x s = Some s1" "P s1" by fastforce
  with Cons.IH [of s1] Cons.prems(2) show ?case by auto
qed simp

lemma map_option_SomeD: "map_option f x = Some y \<Longrightarrow> \<exists>z. x = Some z \<and> y = f z"
  by (cases x) auto

end
