(* ===== verification/Fifo.thy ===== *)
theory Fifo
  imports Prelude
begin

text \<open>
  The contract of a bounded first-in first-out buffer, as the metadata interface relies on it:
  enqueueing appends unless the buffer is full, in which case the element is refused; dequeueing
  removes the oldest element. The clients' facts (order, conservation, capacity over a whole run of
  operations) are proved once here and reach the ring buffer by interpretation.
\<close>

section \<open>Runs of operations\<close>

datatype 'a fifo_op = Enq 'a | Deq

text \<open>
  Running a list of operations: the results of the dequeues that returned an element, in order,
  and the final state.
\<close>

fun fifo_run ::
    "('q \<Rightarrow> 'a \<Rightarrow> 'q) \<Rightarrow> ('q \<Rightarrow> 'a option \<times> 'q) \<Rightarrow> 'q \<Rightarrow> 'a fifo_op list \<Rightarrow> 'a list \<times> 'q" where
  "fifo_run enq deq q [] = ([], q)"
| "fifo_run enq deq q (Enq x # ops) = fifo_run enq deq (enq q x) ops"
| "fifo_run enq deq q (Deq # ops) =
     (let (r, q1) = deq q; (out, q2) = fifo_run enq deq q1 ops
      in (case r of None \<Rightarrow> out | Some x \<Rightarrow> x # out, q2))"

text \<open>The abstract run on a list of at most \<open>cap\<close> elements: outputs, accepted inputs, contents.\<close>

fun fifo_spec :: "nat \<Rightarrow> 'a list \<Rightarrow> 'a fifo_op list \<Rightarrow> 'a list \<times> 'a list \<times> 'a list" where
  "fifo_spec cap xs [] = ([], [], xs)"
| "fifo_spec cap xs (Enq x # ops) =
     (if length xs < cap
      then (let (out, acc, ys) = fifo_spec cap (xs @ [x]) ops in (out, x # acc, ys))
      else fifo_spec cap xs ops)"
| "fifo_spec cap xs (Deq # ops) =
     (case xs of
        [] \<Rightarrow> fifo_spec cap [] ops
      | x # xs' \<Rightarrow> (let (out, acc, ys) = fifo_spec cap xs' ops in (x # out, acc, ys)))"

lemma fifo_spec_conserves:
  "fifo_spec cap xs ops = (out, acc, ys) \<Longrightarrow> out @ ys = xs @ acc"
proof (induction cap xs ops arbitrary: out acc ys rule: fifo_spec.induct)
  case (2 cap xs x ops)
  then show ?case by (fastforce split: if_splits prod.splits)
next
  case (3 cap xs ops)
  then show ?case by (fastforce split: list.splits prod.splits)
qed auto

lemma fifo_spec_capacity:
  "fifo_spec cap xs ops = (out, acc, ys) \<Longrightarrow> length xs \<le> cap \<Longrightarrow> length ys \<le> cap"
proof (induction cap xs ops arbitrary: out acc ys rule: fifo_spec.induct)
  case (2 cap xs x ops)
  then show ?case by (auto split: if_splits prod.splits)
next
  case (3 cap xs ops)
  then show ?case by (auto split: list.splits prod.splits)
qed auto

section \<open>The contract\<close>

locale bounded_fifo =
  fixes enq :: "'q \<Rightarrow> 'a \<Rightarrow> 'q"
    and deq :: "'q \<Rightarrow> 'a option \<times> 'q"
    and items :: "'q \<Rightarrow> 'a list"
    and invar :: "'q \<Rightarrow> bool"
    and cap :: nat
  assumes invar_enq: "invar q \<Longrightarrow> invar (enq q x)"
    and invar_deq: "invar q \<Longrightarrow> invar (snd (deq q))"
    and items_enq: "invar q \<Longrightarrow>
          items (enq q x) = (if length (items q) < cap then items q @ [x] else items q)"
    and fst_deq: "invar q \<Longrightarrow>
          fst (deq q) = (case items q of [] \<Rightarrow> None | y # _ \<Rightarrow> Some y)"
    and items_deq: "invar q \<Longrightarrow> items (snd (deq q)) = tl (items q)"
begin

lemma invar_run: "invar q \<Longrightarrow> invar (snd (fifo_run enq deq q ops))"
proof (induction ops arbitrary: q)
  case Nil
  then show ?case by simp
next
  case (Cons a ops)
  then show ?case
    by (cases a) (auto simp: invar_enq split: prod.splits, metis invar_deq snd_conv)
qed

text \<open>The implementation refines the list specification on every run.\<close>

lemma run_refines_spec:
  "invar q \<Longrightarrow> fifo_spec cap (items q) ops = (out, acc, ys) \<Longrightarrow>
     fst (fifo_run enq deq q ops) = out \<and> items (snd (fifo_run enq deq q ops)) = ys"
proof (induction ops arbitrary: q out acc ys)
  case Nil
  then show ?case by simp
next
  case (Cons a ops)
  show ?case
  proof (cases a)
    case (Enq x)
    with Cons.prems Cons.IH [OF invar_enq [OF Cons.prems(1)], of x] show ?thesis
      by (auto simp: items_enq split: if_splits prod.splits)
  next
    case Deq
    obtain r q1 where d: "deq q = (r, q1)" by fastforce
    with Cons.prems(1) have "invar q1" "items q1 = tl (items q)"
      "r = (case items q of [] \<Rightarrow> None | y # _ \<Rightarrow> Some y)"
      using invar_deq items_deq fst_deq by force+
    with Deq d Cons.prems(2) Cons.IH [of q1] show ?thesis
      by (auto split: list.splits prod.splits)
  qed
qed

lemma run_fifo_order:
  assumes "invar q"
  shows "\<exists>acc. fst (fifo_run enq deq q ops) @ items (snd (fifo_run enq deq q ops))
           = items q @ acc"
proof -
  obtain out acc ys where s: "fifo_spec cap (items q) ops = (out, acc, ys)"
    by (metis prod_cases3)
  from run_refines_spec [OF assms s] fifo_spec_conserves [OF s] show ?thesis by metis
qed

end

end
