(* ===== verification/Meta_Queue.thy ===== *)
theory Meta_Queue
  imports Fifo
begin

text \<open>
  \<open>metarec/src/metaqueue.c\<close> and \<open>metarec/include/metaqueue.h\<close>: the ring buffer of metadata
  descriptors between the PTC message callbacks (producers) and the recording thread (consumer).

  The record \<open>meta_desc_q\<close> is the struct \<open>meta_desc_q_t\<close>: the flags \<open>initialized\<close>, \<open>full\<close> and
  \<open>empty\<close> are booleans, the mutex is a boolean that says whether it is held, and each condition
  variable is the number of times it has been signalled since it was initialised. A queue pointer
  is an option, \<open>None\<close> for \<open>NULL\<close>; the descriptor pointer that \<open>meta_q_deq\<close> returns points into
  the buffer and is the index of the slot. Waiting on a condition variable releases the mutex, so
  its outcome is an argument: the code \<open>pthread_cond_timedwait\<close> returns and the queue as the other
  threads left it.
\<close>

section \<open>The ring buffer\<close>

definition METADATA_DESC_QUEUE_SIZE :: nat where
  "METADATA_DESC_QUEUE_SIZE = 10"

record 'd meta_desc_q =
  initialized :: bool
  buf :: "'d list"
  head :: nat
  tail :: nat
  full :: bool
  empty :: bool
  s_mut :: bool
  s_not_full :: nat
  s_not_empty :: nat

text \<open>The result of a call that may block: \<open>None\<close> when the caller blocks.\<close>

definition meta_q_lock :: "'d meta_desc_q option \<Rightarrow> (int \<times> 'd meta_desc_q option) option" where
  "meta_q_lock p =
     (case p of
        None \<Rightarrow> Some (-1, None)
      | Some q \<Rightarrow>
          if initialized q then
            (if s_mut q then None else Some (0, Some (q\<lparr>s_mut := True\<rparr>)))
          else Some (-1, Some q))"

definition meta_q_unlock :: "'d meta_desc_q option \<Rightarrow> int \<times> 'd meta_desc_q option" where
  "meta_q_unlock p =
     (case p of
        None \<Rightarrow> (-1, None)
      | Some q \<Rightarrow>
          if initialized q then (0, Some (q\<lparr>s_mut := False\<rparr>)) else (-1, Some q))"

definition meta_q_isfull :: "'d meta_desc_q option \<Rightarrow> bool" where
  "meta_q_isfull p = (case p of Some q \<Rightarrow> full q | None \<Rightarrow> False)"

definition meta_q_isempty :: "'d meta_desc_q option \<Rightarrow> bool" where
  "meta_q_isempty p = (case p of Some q \<Rightarrow> empty q | None \<Rightarrow> True)"

text \<open>The outcome of a timed wait: its return code and the queue when the mutex is held again.\<close>

type_synonym 'd wait_outcome = "'d meta_desc_q \<Rightarrow> int \<times> 'd meta_desc_q"

definition meta_q_wait_for_room ::
    "'d wait_outcome \<Rightarrow> 'd meta_desc_q option \<Rightarrow> int \<times> 'd meta_desc_q option" where
  "meta_q_wait_for_room timedwait p =
     (case p of
        None \<Rightarrow> (-1, None)
      | Some q \<Rightarrow>
          if initialized q then
            (if full q then (let (rc, q') = timedwait q in (rc, Some q')) else (0, Some q))
          else (-1, Some q))"

definition meta_q_wait_for_data ::
    "'d wait_outcome \<Rightarrow> 'd meta_desc_q option \<Rightarrow> int \<times> 'd meta_desc_q option" where
  "meta_q_wait_for_data timedwait p =
     (case p of
        None \<Rightarrow> (-1, None)
      | Some q \<Rightarrow>
          if initialized q then
            (if empty q then (let (rc, q') = timedwait q in (rc, Some q')) else (0, Some q))
          else (-1, Some q))"

definition meta_q_signal_notempty :: "'d meta_desc_q \<Rightarrow> 'd meta_desc_q" where
  "meta_q_signal_notempty q = q\<lparr>s_not_empty := Suc (s_not_empty q)\<rparr>"

definition meta_q_signal_notfull :: "'d meta_desc_q \<Rightarrow> 'd meta_desc_q" where
  "meta_q_signal_notfull q = q\<lparr>s_not_full := Suc (s_not_full q)\<rparr>"

definition meta_q_deinit :: "'d meta_desc_q option \<Rightarrow> 'd meta_desc_q option" where
  "meta_q_deinit p =
     (case p of
        None \<Rightarrow> None
      | Some q \<Rightarrow>
          if initialized q
          then Some (q\<lparr>s_mut := False, s_not_full := 0, s_not_empty := 0, initialized := False\<rparr>)
          else Some q)"

definition meta_q_init :: "'d meta_desc_q option \<Rightarrow> 'd meta_desc_q option" where
  "meta_q_init p =
     (case p of
        None \<Rightarrow> None
      | Some q \<Rightarrow>
          let q1 = (if initialized q then the (meta_q_deinit (Some q)) else q);
              q2 = q1\<lparr>empty := True, full := False, head := 0, tail := 0,
                      s_mut := False, s_not_full := 0, s_not_empty := 0\<rparr>
          in Some ((meta_q_signal_notfull q2)\<lparr>initialized := True\<rparr>))"

text \<open>\<open>meta_q_enq\<close> and \<open>meta_q_deq\<close> on a queue that is there; \<open>enq_slot\<close> is the write of the
descriptor into the slot at \<open>tail\<close> and the advance of \<open>tail\<close>.\<close>

definition q_enq :: "'d meta_desc_q \<Rightarrow> 'd \<Rightarrow> 'd meta_desc_q" where
  "q_enq q x =
     (if \<not> full q then
        let t = Suc (tail q);
            t' = (if t = METADATA_DESC_QUEUE_SIZE then 0 else t);
            q1 = q\<lparr>buf := (buf q)[tail q := x], tail := t'\<rparr>;
            q2 = (if t' = head q1 then q1\<lparr>full := True\<rparr> else q1)
        in meta_q_signal_notempty (q2\<lparr>empty := False\<rparr>)
      else q)"

definition meta_q_enq :: "'d meta_desc_q option \<Rightarrow> 'd \<Rightarrow> 'd meta_desc_q option" where
  "meta_q_enq p x = (case p of None \<Rightarrow> None | Some q \<Rightarrow> Some (q_enq q x))"

definition q_deq :: "'d meta_desc_q \<Rightarrow> nat option \<times> 'd meta_desc_q" where
  "q_deq q =
     (if empty q then (None, q)
      else
        let h = Suc (head q);
            h' = (if h = METADATA_DESC_QUEUE_SIZE then 0 else h);
            q1 = q\<lparr>head := h'\<rparr>;
            q2 = (if h' = tail q1 then q1\<lparr>empty := True\<rparr> else q1);
            q3 = (if full q2 then meta_q_signal_notfull (q2\<lparr>full := False\<rparr>) else q2)
        in (Some (head q), q3))"

definition meta_q_deq :: "'d meta_desc_q option \<Rightarrow> nat option \<times> 'd meta_desc_q option" where
  "meta_q_deq p =
     (case p of None \<Rightarrow> (None, None) | Some q \<Rightarrow> (let (out, q') = q_deq q in (out, Some q')))"

definition meta_q_peek :: "'d meta_desc_q \<Rightarrow> nat option" where
  "meta_q_peek q = (if \<not> empty q then Some (head q) else None)"

section \<open>Invariant and abstraction\<close>

definition q_invar :: "'d meta_desc_q \<Rightarrow> bool" where
  "q_invar q \<longleftrightarrow> length (buf q) = METADATA_DESC_QUEUE_SIZE \<and>
     head q < METADATA_DESC_QUEUE_SIZE \<and> tail q < METADATA_DESC_QUEUE_SIZE \<and>
     \<not> (full q \<and> empty q) \<and> (head q = tail q \<longleftrightarrow> full q \<or> empty q)"

definition q_count :: "'d meta_desc_q \<Rightarrow> nat" where
  "q_count q =
     (if full q then METADATA_DESC_QUEUE_SIZE
      else (tail q + METADATA_DESC_QUEUE_SIZE - head q) mod METADATA_DESC_QUEUE_SIZE)"

definition q_items :: "'d meta_desc_q \<Rightarrow> 'd list" where
  "q_items q = map (\<lambda>i. buf q ! ((head q + i) mod METADATA_DESC_QUEUE_SIZE)) [0..<q_count q]"

text \<open>Dequeueing as its callers use it: the slot is read out before the queue changes again.\<close>

definition q_take :: "'d meta_desc_q \<Rightarrow> 'd option \<times> 'd meta_desc_q" where
  "q_take q = (case q_deq q of (out, q') \<Rightarrow> (map_option (\<lambda>i. buf q' ! i) out, q'))"

lemmas [queue_simps] = METADATA_DESC_QUEUE_SIZE_def Let_def meta_q_signal_notempty_def
  meta_q_signal_notfull_def

lemma q_count_cases:
  assumes "q_invar q"
  shows "q_count q =
    (if full q then METADATA_DESC_QUEUE_SIZE
     else if head q \<le> tail q then tail q - head q
     else tail q + METADATA_DESC_QUEUE_SIZE - head q)"
proof -
  have h: "head q < 10" "tail q < 10"
    using assms by (simp_all add: q_invar_def METADATA_DESC_QUEUE_SIZE_def)
  show ?thesis
  proof (cases "head q \<le> tail q")
    case True
    then have "tail q + 10 - head q = (tail q - head q) + 10" by simp
    then have "(tail q + 10 - head q) mod 10 = tail q - head q"
      using h by (metis mod_add_self2 mod_less less_imp_diff_less)
    with True show ?thesis by (simp add: q_count_def METADATA_DESC_QUEUE_SIZE_def)
  next
    case False
    with h show ?thesis by (simp add: q_count_def METADATA_DESC_QUEUE_SIZE_def)
  qed
qed

lemma length_q_items [simp]: "length (q_items q) = q_count q"
  by (simp add: q_items_def)

lemma q_count_le: "q_count q \<le> METADATA_DESC_QUEUE_SIZE"
  by (simp add: q_count_def METADATA_DESC_QUEUE_SIZE_def less_imp_le)

lemma q_count_full: "q_invar q \<Longrightarrow> q_count q < METADATA_DESC_QUEUE_SIZE \<longleftrightarrow> \<not> full q"
  by (simp add: q_count_def METADATA_DESC_QUEUE_SIZE_def)

lemma q_count_empty: "q_invar q \<Longrightarrow> q_count q = 0 \<longleftrightarrow> empty q"
  by (simp add: q_count_cases) (auto simp: q_invar_def METADATA_DESC_QUEUE_SIZE_def)

lemma q_enq_invar: "q_invar q \<Longrightarrow> q_invar (q_enq q x)"
  by (auto simp: q_invar_def q_enq_def queue_simps)

lemma q_deq_invar: "q_invar q \<Longrightarrow> q_invar (snd (q_deq q))"
  by (auto simp: q_invar_def q_deq_def queue_simps)

lemma q_enq_full: "full q \<Longrightarrow> q_enq q x = q"
  by (simp add: q_enq_def)

lemma q_enq_frame [simp]:
  "head (q_enq q x) = head q" "initialized (q_enq q x) = initialized q"
  "s_mut (q_enq q x) = s_mut q"
  by (simp_all add: q_enq_def queue_simps)

lemma q_enq_buf: "\<not> full q \<Longrightarrow> buf (q_enq q x) = (buf q)[tail q := x]"
  by (simp add: q_enq_def queue_simps)

lemma q_deq_frame [simp]:
  "tail (snd (q_deq q)) = tail q" "buf (snd (q_deq q)) = buf q"
  "initialized (snd (q_deq q)) = initialized q" "s_mut (snd (q_deq q)) = s_mut q"
  by (simp_all add: q_deq_def queue_simps)

lemma q_count_enq:
  assumes "q_invar q" "\<not> full q"
  shows "q_count (q_enq q x) = Suc (q_count q)"
proof -
  have "q_invar (q_enq q x)" using assms(1) by (rule q_enq_invar)
  with assms show ?thesis
    by (simp add: q_count_cases)
       (auto simp: q_invar_def q_enq_def queue_simps split: if_splits)
qed

lemma q_count_deq:
  assumes "q_invar q"
  shows "q_count (snd (q_deq q)) = q_count q - 1"
proof -
  have "q_invar (snd (q_deq q))" using assms by (rule q_deq_invar)
  with assms show ?thesis
    by (simp add: q_count_cases)
       (auto simp: q_invar_def q_deq_def queue_simps split: if_splits)
qed

text \<open>The slot at \<open>tail\<close> is the one just past the last element.\<close>

lemma tail_slot:
  assumes "q_invar q" "\<not> full q"
  shows "tail q = (head q + q_count q) mod METADATA_DESC_QUEUE_SIZE"
proof -
  have h: "head q < 10" "tail q < 10"
    using assms(1) by (simp_all add: q_invar_def METADATA_DESC_QUEUE_SIZE_def)
  show ?thesis
  proof (cases "head q \<le> tail q")
    case True
    with assms h show ?thesis by (simp add: q_count_cases METADATA_DESC_QUEUE_SIZE_def)
  next
    case False
    with assms h show ?thesis by (simp add: q_count_cases METADATA_DESC_QUEUE_SIZE_def)
  qed
qed

lemma slots_distinct:
  "i < j \<Longrightarrow> j < METADATA_DESC_QUEUE_SIZE \<Longrightarrow>
     (h + i) mod METADATA_DESC_QUEUE_SIZE \<noteq> (h + j) mod METADATA_DESC_QUEUE_SIZE"
proof
  assume ij: "i < j" "j < METADATA_DESC_QUEUE_SIZE"
    and "(h + i) mod METADATA_DESC_QUEUE_SIZE = (h + j) mod METADATA_DESC_QUEUE_SIZE"
  then have "METADATA_DESC_QUEUE_SIZE dvd (h + j) - (h + i)"
    by (metis mod_eq_dvd_iff_nat add_le_cancel_left less_imp_le)
  with ij show False by (auto dest: dvd_imp_le)
qed

lemma q_items_enq:
  assumes "q_invar q" "\<not> full q"
  shows "q_items (q_enq q x) = q_items q @ [x]"
proof -
  let ?N = METADATA_DESC_QUEUE_SIZE and ?n = "q_count q"
  have n: "?n < ?N" using assms by (simp add: q_count_full)
  have len: "length (buf q) = ?N" using assms(1) by (simp add: q_invar_def)
  have "buf (q_enq q x) ! ((head q + i) mod ?N) = buf q ! ((head q + i) mod ?N)"
    if "i < ?n" for i
    using slots_distinct [OF that n, of "head q"] assms
    by (simp add: q_enq_buf tail_slot)
  moreover have "buf (q_enq q x) ! ((head q + ?n) mod ?N) = x"
    using assms len by (simp add: q_enq_buf tail_slot METADATA_DESC_QUEUE_SIZE_def)
  ultimately show ?thesis
    using assms by (simp add: q_items_def q_count_enq)
qed

lemma q_items_deq:
  assumes "q_invar q"
  shows "q_items (snd (q_deq q)) = tl (q_items q)"
proof (cases "empty q")
  case True
  with assms have "q_items q = []" by (simp add: q_items_def q_count_empty)
  with True show ?thesis by (simp add: q_deq_def)
next
  case False
  let ?N = METADATA_DESC_QUEUE_SIZE
  obtain n where n: "q_count q = Suc n"
    using False assms q_count_empty [of q] by (cases "q_count q") auto
  have h: "head (snd (q_deq q)) = Suc (head q) mod ?N"
    using False assms by (auto simp: q_deq_def queue_simps q_invar_def)
  have "tl [0..<Suc n] = map Suc [0..<n]"
    by (simp add: upt_conv_Cons map_Suc_upt del: upt_Suc)
  then have "tl (q_items q) = map (\<lambda>i. buf q ! ((head q + Suc i) mod ?N)) [0..<n]"
    by (simp add: q_items_def n map_tl [symmetric] o_def del: upt_Suc)
  also have "\<dots> = q_items (snd (q_deq q))"
    using assms by (simp add: q_items_def q_count_deq n h mod_simps)
  finally show ?thesis by simp
qed

lemma fst_q_take:
  assumes "q_invar q"
  shows "fst (q_take q) = (case q_items q of [] \<Rightarrow> None | x # _ \<Rightarrow> Some x)"
proof (cases "empty q")
  case True
  with assms have "q_items q = []" by (simp add: q_items_def q_count_empty)
  with True show ?thesis by (simp add: q_take_def q_deq_def)
next
  case False
  obtain n where n: "q_count q = Suc n"
    using False assms q_count_empty [of q] by (cases "q_count q") auto
  have "q_items q = buf q ! head q # tl (q_items q)"
    using assms n
    by (simp add: q_items_def upt_conv_Cons q_invar_def METADATA_DESC_QUEUE_SIZE_def del: upt_Suc)
  moreover have "fst (q_take q) = Some (buf q ! head q)"
    using False by (simp add: q_take_def q_deq_def queue_simps)
  ultimately show ?thesis by (metis list.simps(5))
qed

lemma snd_q_take [simp]: "snd (q_take q) = snd (q_deq q)"
  by (simp add: q_take_def split: prod.splits)

interpretation mq: bounded_fifo q_enq q_take q_items q_invar METADATA_DESC_QUEUE_SIZE
proof unfold_locales
  fix q :: "'a meta_desc_q" and x
  assume "q_invar q"
  then show "q_items (q_enq q x) =
      (if length (q_items q) < METADATA_DESC_QUEUE_SIZE then q_items q @ [x] else q_items q)"
    by (simp add: q_count_full q_items_enq q_enq_full)
qed (simp_all add: q_enq_invar q_deq_invar q_items_deq fst_q_take)

section \<open>The slot handed out by a dequeue\<close>

text \<open>
  The pointer \<open>meta_q_deq\<close> returns stays valid while the queue was not full before the call: the
  next enqueue goes to another slot. When the queue was full, the next enqueue goes to that very
  slot.
\<close>

lemma deq_slot: "\<not> empty q \<Longrightarrow> fst (q_deq q) = Some (head q)"
  by (simp add: q_deq_def queue_simps)

lemma full_tail_head: "q_invar q \<Longrightarrow> full q \<Longrightarrow> tail q = head q"
  by (auto simp: q_invar_def)

lemma q_deq_not_full: "\<not> empty q \<Longrightarrow> \<not> full (snd (q_deq q))"
  by (simp add: q_deq_def queue_simps)

lemma slot_kept:
  assumes "q_invar q" "\<not> empty q" "\<not> full q"
  shows "buf (q_enq (snd (q_deq q)) x) ! head q = buf q ! head q"
proof -
  have "tail q \<noteq> head q" using assms by (auto simp: q_invar_def)
  with assms q_deq_not_full [of q] show ?thesis by (simp add: q_enq_buf)
qed

lemma slot_overwritten:
  assumes "q_invar q" "\<not> empty q" "full q"
  shows "buf (q_enq (snd (q_deq q)) x) ! head q = x"
proof -
  have "tail q = head q" "head q < length (buf q)"
    using assms(1,3) by (auto simp: q_invar_def)
  with assms(2) q_deq_not_full [of q] show ?thesis by (simp add: q_enq_buf)
qed

lemma head_item:
  assumes "q_invar q" "\<not> empty q"
  shows "q_items q = buf q ! head q # tl (q_items q)"
proof -
  have "fst (q_take q) = Some (buf q ! head q)"
    using assms(2) by (simp add: q_take_def q_deq_def queue_simps)
  then show ?thesis
    using fst_q_take [OF assms(1)] by (auto split: list.splits)
qed

section \<open>Initialisation\<close>

definition q_ready :: "'d meta_desc_q \<Rightarrow> bool" where
  "q_ready q \<longleftrightarrow> q_invar q \<and> initialized q \<and> \<not> s_mut q"

lemma q_readyD: "q_ready q \<Longrightarrow> q_invar q" "q_ready q \<Longrightarrow> initialized q" "q_ready q \<Longrightarrow> \<not> s_mut q"
  by (simp_all add: q_ready_def)

lemma q_items_empty: "q_invar q \<Longrightarrow> empty q \<Longrightarrow> q_items q = []"
  by (simp add: q_items_def q_count_empty)

lemma meta_q_init_ready:
  assumes "length (buf q) = METADATA_DESC_QUEUE_SIZE" "meta_q_init (Some q) = Some q'"
  shows "q_ready q' \<and> q_items q' = [] \<and> buf q' = buf q"
proof -
  have b: "buf q' = buf q" and e: "empty q'" and i: "q_invar q'" and r: "q_ready q'"
    using assms by (auto simp: meta_q_init_def meta_q_deinit_def q_ready_def q_invar_def queue_simps)
  from i e have "q_items q' = []" by (rule q_items_empty)
  with b r show ?thesis by simp
qed

text \<open>The mutex does not matter to the contents.\<close>

lemma q_items_mutex [simp]: "q_items (q\<lparr>s_mut := b\<rparr>) = q_items q"
  by (simp add: q_items_def q_count_def)

lemma q_invar_mutex [simp]: "q_invar (q\<lparr>s_mut := b\<rparr>) = q_invar q"
  by (simp add: q_invar_def)

lemma q_enq_mutex [simp]: "q_enq (q\<lparr>s_mut := b\<rparr>) x = (q_enq q x)\<lparr>s_mut := b\<rparr>"
  by (simp add: q_enq_def queue_simps)

lemma q_deq_mutex [simp]:
  "fst (q_deq (q\<lparr>s_mut := b\<rparr>)) = fst (q_deq q)"
  "snd (q_deq (q\<lparr>s_mut := b\<rparr>)) = (snd (q_deq q))\<lparr>s_mut := b\<rparr>"
  by (simp_all add: q_deq_def queue_simps)

lemma mutex_idem [simp]: "\<not> s_mut q \<Longrightarrow> q\<lparr>s_mut := False\<rparr> = q"
  by (cases q) simp

section \<open>Properties\<close>

text \<open>
  C1: the ring buffer is a first-in first-out queue of at most ten descriptors. On every sequence
  of enqueues and dequeues that starts from the buffer \<open>meta_q_init\<close> sets up, the dequeued
  descriptors and the remaining contents are exactly those of the list specification, in which an
  enqueue into ten elements is refused and a dequeue removes the oldest one.
\<close>

theorem meta_q_refines_fifo:
  assumes "length (buf q0) = METADATA_DESC_QUEUE_SIZE"
    and "meta_q_init (Some q0) = Some q"
  shows "(let (out, q') = fifo_run q_enq q_take q ops;
              (out', _, xs) = fifo_spec METADATA_DESC_QUEUE_SIZE [] ops
          in out = out' \<and> q_items q' = xs \<and> q_invar q')"
proof -
  have q: "q_invar q" "q_items q = []"
    using meta_q_init_ready [OF assms] by (simp_all add: q_readyD)
  obtain out acc ys where s: "fifo_spec METADATA_DESC_QUEUE_SIZE [] ops = (out, acc, ys)"
    by (metis prod_cases3)
  show ?thesis
    using mq.run_refines_spec [OF q(1), of ops] mq.invar_run [OF q(1), of ops] s q(2)
    by (simp add: case_prod_unfold Let_def)
qed

lemma meta_q_refines_fifo_witness:
  "(let q0 = \<lparr>initialized = False, buf = replicate 10 (0::nat), head = 3, tail = 7, full = True,
              empty = False, s_mut = True, s_not_full = 0, s_not_empty = 0\<rparr>;
        q = the (meta_q_init (Some q0));
        (out, q') = fifo_run q_enq q_take q [Enq 1, Enq 2, Deq, Enq 3, Deq]
    in length (buf q0) = METADATA_DESC_QUEUE_SIZE \<and> out = [1, 2] \<and> q_items q' = [3])"
proof -
  define q0 where "q0 = \<lparr>initialized = False, buf = replicate 10 (0::nat), head = 3, tail = 7,
    full = True, empty = False, s_mut = True, s_not_full = 0, s_not_empty = 0\<rparr>"
  have l: "length (buf q0) = METADATA_DESC_QUEUE_SIZE"
    by (simp add: q0_def METADATA_DESC_QUEUE_SIZE_def)
  have i: "meta_q_init (Some q0) = Some (the (meta_q_init (Some q0)))"
    by (simp add: meta_q_init_def Let_def)
  show ?thesis
    using meta_q_refines_fifo [OF l i, of "[Enq 1, Enq 2, Deq, Enq 3, Deq]"] l
    by (simp add: q0_def case_prod_unfold Let_def METADATA_DESC_QUEUE_SIZE_def)
qed

end
