(* ===== verification/C_String.thy ===== *)
theory C_String
  imports Prelude
begin

text \<open>
  The functions of the C library's \<open>string.h\<close>, \<open>ctype.h\<close> and \<open>stdlib.h\<close> that the program calls
  on its strings. A C string is the list of its characters before the terminating NUL; a pointer
  into a string is the suffix it points at. Number parsing follows \<open>strtol\<close> with base 10 (leading
  white space, one sign, the longest run of digits, saturation at \<open>LONG_MAX\<close> / \<open>LONG_MIN\<close>);
  \<open>atoi\<close> is its conversion to \<open>int\<close>.
\<close>

section \<open>Searching\<close>

text \<open>\<open>strrchr\<close>: the suffix that starts at the last occurrence of a character.\<close>

fun strrchr :: "string \<Rightarrow> char \<Rightarrow> string option" where
  "strrchr [] c = None"
| "strrchr (x # xs) c =
     (case strrchr xs c of
        Some r \<Rightarrow> Some r
      | None \<Rightarrow> if x = c then Some (x # xs) else None)"

text \<open>\<open>strchr\<close>: the suffix that starts at the first occurrence.\<close>

fun strchr :: "string \<Rightarrow> char \<Rightarrow> string option" where
  "strchr [] c = None"
| "strchr (x # xs) c = (if x = c then Some (x # xs) else strchr xs c)"

fun is_prefix :: "string \<Rightarrow> string \<Rightarrow> bool" where
  "is_prefix [] ys = True"
| "is_prefix (x # xs) [] = False"
| "is_prefix (x # xs) (y # ys) = (x = y \<and> is_prefix xs ys)"

text \<open>\<open>strstr\<close>: the suffix that starts at the first occurrence of a string.\<close>

fun strstr :: "string \<Rightarrow> string \<Rightarrow> string option" where
  "strstr [] sub = (if sub = [] then Some [] else None)"
| "strstr (x # xs) sub = (if is_prefix sub (x # xs) then Some (x # xs) else strstr xs sub)"

lemma strrchr_None [simp]: "strrchr s c = None \<longleftrightarrow> c \<notin> set s"
  by (induction s) (auto split: option.splits)

lemma strrchr_notin [str_simps]: "c \<notin> set b \<Longrightarrow> strrchr b c = None"
  by simp

lemma strrchr_append [str_simps]:
  "c \<notin> set b \<Longrightarrow> strrchr (a @ c # b) c = Some (c # b)"
  by (induction a) (simp_all add: str_simps)

lemma strrchr_Some_split: "strrchr s c = Some r \<Longrightarrow> \<exists>a b. s = a @ c # b \<and> r = c # b \<and> c \<notin> set b"
proof (induction s)
  case Nil
  then show ?case by simp
next
  case (Cons x xs)
  show ?case
  proof (cases "strrchr xs c")
    case None
    with Cons.prems have "x = c" "r = x # xs" "c \<notin> set xs" by (auto split: if_splits)
    then have "x # xs = [] @ c # xs" "r = c # xs" by simp_all
    with \<open>c \<notin> set xs\<close> show ?thesis by blast
  next
    case (Some r')
    with Cons obtain a b where "xs = a @ c # b" "r = c # b" "c \<notin> set b" by auto
    then have "x # xs = (x # a) @ c # b" by simp
    with \<open>r = c # b\<close> \<open>c \<notin> set b\<close> show ?thesis by blast
  qed
qed

lemma is_prefix_iff: "is_prefix p s \<longleftrightarrow> (\<exists>r. s = p @ r)"
  by (induction p s rule: is_prefix.induct) auto

lemma strstr_None: "strstr s sub = None \<longleftrightarrow> (\<forall>a b. s \<noteq> a @ sub @ b)"
proof (induction s sub rule: strstr.induct)
  case (1 sub)
  then show ?case by simp
next
  case (2 x xs sub)
  show ?case
  proof (cases "is_prefix sub (x # xs)")
    case True
    then obtain r where r: "x # xs = sub @ r" by (auto simp: is_prefix_iff)
    then have "x # xs = [] @ sub @ r" by simp
    with True show ?thesis by (metis option.simps(3) strstr.simps(2))
  next
    case False
    then have np: "\<And>b. x # xs \<noteq> sub @ b" by (auto simp: is_prefix_iff)
    have "(\<forall>a b. x # xs \<noteq> a @ sub @ b) \<longleftrightarrow> (\<forall>a b. xs \<noteq> a @ sub @ b)"
    proof (intro iffI allI notI)
      fix a b
      assume all: "\<forall>a b. x # xs \<noteq> a @ sub @ b" and "xs = a @ sub @ b"
      then have "x # xs = (x # a) @ sub @ b" by simp
      with all show False by blast
    next
      fix a b
      assume all: "\<forall>a b. xs \<noteq> a @ sub @ b" and eq: "x # xs = a @ sub @ b"
      show False
      proof (cases a)
        case Nil
        with eq np show False by simp
      next
        case (Cons y ys)
        with eq all show False by simp
      qed
    qed
    with False 2 show ?thesis by simp
  qed
qed

section \<open>Character classes and number parsing\<close>

definition is_digit :: "char \<Rightarrow> bool" where
  "is_digit c \<longleftrightarrow> 48 \<le> (of_char c :: nat) \<and> (of_char c :: nat) \<le> 57"

definition is_alpha :: "char \<Rightarrow> bool" where
  "is_alpha c \<longleftrightarrow> (65 \<le> (of_char c :: nat) \<and> (of_char c :: nat) \<le> 90) \<or>
     (97 \<le> (of_char c :: nat) \<and> (of_char c :: nat) \<le> 122)"

definition is_space :: "char \<Rightarrow> bool" where
  "is_space c \<longleftrightarrow> (of_char c :: nat) = 32 \<or>
     (9 \<le> (of_char c :: nat) \<and> (of_char c :: nat) \<le> 13)"

definition digit_val :: "char \<Rightarrow> int" where
  "digit_val c = of_char c - 48"

fun digits_val :: "int \<Rightarrow> string \<Rightarrow> int" where
  "digits_val acc [] = acc"
| "digits_val acc (c # cs) =
     (if is_digit c then digits_val (10 * acc + digit_val c) cs else acc)"

definition strtol10 :: "string \<Rightarrow> int" where
  "strtol10 s =
     (case dropWhile is_space s of
        [] \<Rightarrow> 0
      | c # r \<Rightarrow>
          if c = CHR ''-'' then - digits_val 0 r
          else if c = CHR ''+'' then digits_val 0 r
          else digits_val 0 (c # r))"

definition clamp_long :: "int \<Rightarrow> int" where
  "clamp_long x = max LONG_MIN (min LONG_MAX x)"

definition atol :: "string \<Rightarrow> int" where
  "atol s = clamp_long (strtol10 s)"

definition atoi :: "string \<Rightarrow> int" where
  "atoi s = s32 (atol s)"

section \<open>Number printing\<close>

definition digit_char :: "nat \<Rightarrow> char" where
  "digit_char d = char_of (48 + d)"

fun nat_str :: "nat \<Rightarrow> string" where
  "nat_str n = (if n < 10 then [digit_char n] else nat_str (n div 10) @ [digit_char (n mod 10)])"

declare nat_str.simps [simp del]

definition int_str :: "int \<Rightarrow> string" where
  "int_str i = (if i < 0 then CHR ''-'' # nat_str (nat (- i)) else nat_str (nat i))"

text \<open>Left padding to a width, as \<open>%0wd\<close> (on non-negative values) and \<open>%wd\<close> do.\<close>

definition pad_left :: "char \<Rightarrow> nat \<Rightarrow> string \<Rightarrow> string" where
  "pad_left c w s = replicate (w - length s) c @ s"

definition pad0 :: "nat \<Rightarrow> nat \<Rightarrow> string" where
  "pad0 w n = pad_left CHR ''0'' w (nat_str n)"

text \<open>\<open>snprintf\<close> writes at most \<open>sz - 1\<close> characters.\<close>

definition snprintf :: "nat \<Rightarrow> string \<Rightarrow> string" where
  "snprintf sz s = take (sz - 1) s"

section \<open>Printing and parsing are inverse\<close>

lemma of_char_digit_char [simp]: "d < 10 \<Longrightarrow> (of_char (digit_char d) :: nat) = 48 + d"
  by (simp add: digit_char_def)

lemma is_digit_digit_char [simp]: "d < 10 \<Longrightarrow> is_digit (digit_char d)"
  by (simp add: is_digit_def)

lemma digit_val_digit_char [simp]: "d < 10 \<Longrightarrow> digit_val (digit_char d) = int d"
proof -
  assume d: "d < 10"
  have "(of_char (digit_char d) :: int) = int (of_char (digit_char d) :: nat)"
    by (simp only: of_nat_of_char)
  with d show ?thesis by (simp add: digit_val_def)
qed

lemma is_digit_0 [simp]: "is_digit CHR ''0''"
  by (simp add: is_digit_def)

lemma digit_not_special:
  "is_digit c \<Longrightarrow> \<not> is_space c \<and> c \<noteq> CHR ''-'' \<and> c \<noteq> CHR ''+'' \<and> c \<noteq> CHR ''/'' \<and> c \<noteq> CHR ''.'' \<and> \<not> is_alpha c"
  by (auto simp: is_digit_def is_space_def is_alpha_def)

lemma nat_str_digits: "c \<in> set (nat_str n) \<Longrightarrow> is_digit c"
proof (induction n rule: nat_str.induct)
  case (1 n)
  then show ?case
    by (cases "n < 10") (auto simp: nat_str.simps [of n])
qed

lemma nat_str_nonempty [simp]: "nat_str n \<noteq> []"
  by (simp add: nat_str.simps [of n])

lemma pad0_digits: "c \<in> set (pad0 w n) \<Longrightarrow> is_digit c"
  by (auto simp: pad0_def pad_left_def nat_str_digits)

lemma pad0_nonempty [simp]: "pad0 w n \<noteq> []"
  by (simp add: pad0_def pad_left_def)

lemma length_nat_str: "n < 10 ^ k \<Longrightarrow> 0 < k \<Longrightarrow> length (nat_str n) \<le> k"
proof (induction n arbitrary: k rule: nat_str.induct)
  case (1 n)
  show ?case
  proof (cases "n < 10")
    case True
    with 1 show ?thesis by (simp add: nat_str.simps [of n])
  next
    case False
    with "1.prems" obtain j where k: "k = Suc j" "0 < j"
      by (cases k; cases "k - 1") auto
    with "1.prems" have "n div 10 < 10 ^ j" by (simp add: less_mult_imp_div_less)
    with False k "1.IH" show ?thesis by (simp add: nat_str.simps [of n])
  qed
qed

lemma length_pad0 [simp]: "n < 10 ^ w \<Longrightarrow> 0 < w \<Longrightarrow> length (pad0 w n) = w"
  using length_nat_str [of n w] by (simp add: pad0_def pad_left_def)

lemma digits_val_append_digits:
  "\<forall>c \<in> set a. is_digit c \<Longrightarrow> digits_val acc (a @ b) = digits_val (digits_val acc a) b"
  by (induction acc a rule: digits_val.induct) auto

lemma digits_val_stop: "b = [] \<or> \<not> is_digit (hd b) \<Longrightarrow> digits_val acc b = acc"
  by (cases b) auto

lemma digits_val_zeros: "digits_val 0 (replicate k CHR ''0'' @ s) = digits_val 0 s"
  by (induction k) (simp_all add: digit_val_def)

lemma digits_val_nat_str: "digits_val 0 (nat_str n) = int n"
proof (induction n rule: nat_str.induct)
  case (1 n)
  show ?case
  proof (cases "n < 10")
    case True
    then show ?thesis by (simp add: nat_str.simps [of n])
  next
    case False
    then have "digits_val 0 (nat_str n)
        = digits_val (digits_val 0 (nat_str (n div 10))) [digit_char (n mod 10)]"
      by (subst nat_str.simps) (simp add: digits_val_append_digits nat_str_digits)
    also have "\<dots> = int n"
      using 1 [OF False] by simp presburger
    finally show ?thesis .
  qed
qed

lemma digits_val_pad0:
  "b = [] \<or> \<not> is_digit (hd b) \<Longrightarrow> digits_val 0 (pad0 w n @ b) = int n"
proof -
  assume b: "b = [] \<or> \<not> is_digit (hd b)"
  have "digits_val 0 (pad0 w n @ b) = digits_val (digits_val 0 (pad0 w n)) b"
    by (rule digits_val_append_digits) (simp add: pad0_digits)
  also have "digits_val 0 (pad0 w n) = int n"
    by (simp add: pad0_def pad_left_def digits_val_zeros digits_val_nat_str)
  finally show ?thesis using b by (simp add: digits_val_stop)
qed

lemma strtol10_digits:
  assumes "s \<noteq> []" "is_digit (hd s)"
  shows "strtol10 s = digits_val 0 s"
proof -
  obtain c r where s: "s = c # r" using assms(1) by (cases s) auto
  with assms(2) have "is_digit c" by simp
  then show ?thesis
    using digit_not_special [of c] by (simp add: s strtol10_def)
qed

lemma strtol10_pad0 [str_simps]:
  assumes "b = [] \<or> \<not> is_digit (hd b)"
  shows "strtol10 (pad0 w n @ b) = int n"
proof -
  have "hd (pad0 w n @ b) \<in> set (pad0 w n)" by simp
  then have "is_digit (hd (pad0 w n @ b))" by (rule pad0_digits)
  then show ?thesis
    using assms by (simp add: strtol10_digits digits_val_pad0)
qed

lemma atol_pad0 [str_simps]:
  assumes "b = [] \<or> \<not> is_digit (hd b)" "int n \<le> LONG_MAX"
  shows "atol (pad0 w n @ b) = int n"
  using assms by (simp add: atol_def clamp_long_def strtol10_pad0 LONG_MAX_def LONG_MIN_def)

lemma atoi_pad0 [str_simps]:
  assumes "b = [] \<or> \<not> is_digit (hd b)" "int n < 2147483648"
  shows "atoi (pad0 w n @ b) = int n"
  using assms by (simp add: atoi_def atol_pad0 LONG_MAX_def)

lemma atol_bounds: "LONG_MIN \<le> atol s \<and> atol s \<le> LONG_MAX"
  by (simp add: atol_def clamp_long_def LONG_MAX_def LONG_MIN_def)

end
