(* ===== verification/Meta_Types.thy ===== *)
theory Meta_Types
  imports C_String
begin

text \<open>
  The data the metadata recorder and the metadata collector share. The header that declares these
  structs and constants (\<open>metadata_def.h\<close>, \<open>metaio.h\<close>, \<open>metachunk.h\<close>) is not part of the
  repository, so only the fields the sources name appear here, and every size, capacity, constant
  and binary layout is a component of the record \<open>meta_layout\<close>, an argument of the definitions
  that use it. Integers read from or written to the structs are mathematical integers; the places
  where a C conversion can change the value write it out.
\<close>

section \<open>Metadata records\<close>

datatype eMetaDataType = eGPS | eTimeInfo | eVideoEvent | eLocomotiveId | eCorruption

record meta_gps_memory =
  latitude_dd_m :: int
  longitude_dd_m :: int
  speed_mph_m :: int

record meta_time_memory =
  linux_time_sec_m :: int
  timeoffset_sec_m :: int
  time_src :: string

record meta_event_recording =
  digital_name :: string
  digital_value :: int

record meta_loco_id =
  loco_id :: string

text \<open>What a descriptor's \<open>pData\<close> points at: one of the four structs, chosen by \<open>data_type\<close>.\<close>

datatype meta_payload =
    GPS_data meta_gps_memory
  | Time_data meta_time_memory
  | Event_data meta_event_recording
  | Loco_data meta_loco_id

fun payload_type :: "meta_payload \<Rightarrow> eMetaDataType" where
  "payload_type (GPS_data _) = eGPS"
| "payload_type (Time_data _) = eTimeInfo"
| "payload_type (Event_data _) = eVideoEvent"
| "payload_type (Loco_data _) = eLocomotiveId"

text \<open>\<open>struct timeval\<close> and \<open>struct timespec\<close>.\<close>

record timeval =
  tv_sec :: int
  tv_usec :: int

record timespec =
  ts_sec :: int
  ts_nsec :: int

record metadata_desc =
  pData :: "meta_payload option"
  data_type :: eMetaDataType
  data_length :: nat
  tod :: timeval
  ts :: timespec

text \<open>One entry of a chunk's record index, and the prefix structs in front of it.\<close>

record rcd_idx =
  timestamp :: int
  byteoffset :: nat
  recordtype :: eMetaDataType
  recordlength :: nat

record digital_config =
  dig_num :: int
  dig_name :: string

record subpfx_1 =
  shebang :: string
  digital_mappings :: "digital_config list"

record subpfx_2 =
  max_records :: nat
  num_records :: nat

record digital_input_descriptor =
  di_name :: string
  di_number :: int
  di_recording :: bool

section \<open>Sizes, constants and binary layout\<close>

record meta_layout =
  NUM_DIGITAL_INPUTS :: nat
  EVENT_NAME_LENGTH :: nat
  TIME_SOURCE_NAME_LEN :: nat
  MAX_LOCO_ID_SIZE :: nat
  sizeof_digital_name :: nat
  sizeof_dig_name :: nat
  sizeof_payload :: "eMetaDataType \<Rightarrow> nat"
  sizeof_subpfx_1 :: nat
  sizeof_subpfx_2 :: nat
  sizeof_rcd_idx :: nat
  sizeof_file_pfx :: nat
  sizeof_chunk_hdr :: nat
  enc_payload :: "meta_payload \<Rightarrow> u8 list"
  dec_payload :: "eMetaDataType \<Rightarrow> u8 list \<Rightarrow> meta_payload"
  enc_rcd_idx :: "rcd_idx \<Rightarrow> u8 list"
  dec_rcd_idx :: "u8 list \<Rightarrow> rcd_idx"
  enc_subpfx_1 :: "subpfx_1 \<Rightarrow> u8 list"
  dec_subpfx_1 :: "u8 list \<Rightarrow> subpfx_1"
  enc_subpfx_2 :: "subpfx_2 \<Rightarrow> u8 list"
  enc_chunk_hdr :: "timeval \<Rightarrow> u8 list"

section \<open>A concrete layout\<close>

text \<open>
  A small layout that satisfies every hypothesis the theorems put on \<open>meta_layout\<close>; the witnesses
  use it. Integers take one byte (offsets two), strings are padded with zero bytes.
\<close>

definition type_code :: "eMetaDataType \<Rightarrow> u8" where
  "type_code t = (case t of eGPS \<Rightarrow> 0 | eTimeInfo \<Rightarrow> 1 | eVideoEvent \<Rightarrow> 2 | eLocomotiveId \<Rightarrow> 3
     | eCorruption \<Rightarrow> 4)"

definition code_type :: "u8 \<Rightarrow> eMetaDataType" where
  "code_type b = (if b = 0 then eGPS else if b = 1 then eTimeInfo else if b = 2 then eVideoEvent
     else if b = 3 then eLocomotiveId else eCorruption)"

definition str_bytes :: "nat \<Rightarrow> string \<Rightarrow> u8 list" where
  "str_bytes n s = take n (map (\<lambda>c. of_nat (of_char c)) s @ replicate n 0)"

definition bytes_str :: "u8 list \<Rightarrow> string" where
  "bytes_str bs = map (\<lambda>b. char_of (unat b)) (takeWhile (\<lambda>b. b \<noteq> 0) bs)"

fun demo_enc :: "meta_payload \<Rightarrow> u8 list" where
  "demo_enc (GPS_data g) =
     [of_int (latitude_dd_m g), of_int (longitude_dd_m g), of_int (speed_mph_m g), 0, 0, 0, 0, 0]"
| "demo_enc (Time_data t) =
     [of_int (linux_time_sec_m t), of_int (timeoffset_sec_m t)] @ str_bytes 6 (time_src t)"
| "demo_enc (Event_data e) = of_int (digital_value e) # str_bytes 7 (digital_name e)"
| "demo_enc (Loco_data l) = str_bytes 8 (loco_id l)"

definition demo_dec :: "eMetaDataType \<Rightarrow> u8 list \<Rightarrow> meta_payload" where
  "demo_dec t bs =
     (case t of
        eGPS \<Rightarrow> GPS_data \<lparr>latitude_dd_m = uint (bs ! 0), longitude_dd_m = uint (bs ! 1),
                         speed_mph_m = uint (bs ! 2)\<rparr>
      | eTimeInfo \<Rightarrow> Time_data \<lparr>linux_time_sec_m = uint (bs ! 0),
                               timeoffset_sec_m = uint (bs ! 1),
                               time_src = bytes_str (drop 2 bs)\<rparr>
      | eVideoEvent \<Rightarrow> Event_data \<lparr>digital_name = bytes_str (drop 1 bs),
                                  digital_value = uint (bs ! 0)\<rparr>
      | _ \<Rightarrow> Loco_data \<lparr>loco_id = bytes_str bs\<rparr>)"

definition demo_enc_idx :: "rcd_idx \<Rightarrow> u8 list" where
  "demo_enc_idx r = [of_int (timestamp r), of_nat (byteoffset r div 256), of_nat (byteoffset r),
     type_code (recordtype r), of_nat (recordlength r)]"

definition demo_dec_idx :: "u8 list \<Rightarrow> rcd_idx" where
  "demo_dec_idx bs =
     \<lparr>timestamp = uint (bs ! 0), byteoffset = 256 * unat (bs ! 1) + unat (bs ! 2),
      recordtype = code_type (bs ! 3), recordlength = unat (bs ! 4)\<rparr>"

definition demo_layout :: meta_layout where
  "demo_layout = \<lparr>
     NUM_DIGITAL_INPUTS = 3, EVENT_NAME_LENGTH = 6, TIME_SOURCE_NAME_LEN = 5,
     MAX_LOCO_ID_SIZE = 7, sizeof_digital_name = 7, sizeof_dig_name = 7,
     sizeof_payload = (\<lambda>_. 8),
     sizeof_subpfx_1 = 1776, sizeof_subpfx_2 = 2, sizeof_rcd_idx = 5, sizeof_file_pfx = 2048,
     sizeof_chunk_hdr = 2,
     enc_payload = demo_enc, dec_payload = demo_dec,
     enc_rcd_idx = demo_enc_idx, dec_rcd_idx = demo_dec_idx,
     enc_subpfx_1 = (\<lambda>p. str_bytes 1776 (shebang p)),
     dec_subpfx_1 = (\<lambda>bs. \<lparr>shebang = bytes_str bs, digital_mappings = []\<rparr>),
     enc_subpfx_2 = (\<lambda>p. [of_nat (max_records p), of_nat (num_records p)]),
     enc_chunk_hdr = (\<lambda>t. [of_int (tv_sec t), of_int (tv_usec t)])\<rparr>"

lemma length_str_bytes [simp]: "length (str_bytes n s) = n"
  by (simp add: str_bytes_def)

lemma length_demo_enc [simp]: "length (demo_enc p) = 8"
  by (cases p) simp_all

end
