(* ===== verification/Meta_Intf.thy ===== *)
theory Meta_Intf
  imports Meta_Queue Meta_Types
begin

text \<open>
  \<open>metarec/src/metaintf.c\<close>: the functions the PTC callbacks call to record one piece of metadata
  (\<open>set_gps\<close>, \<open>set_time_info\<close>, \<open>set_locomotive_id\<close>, \<open>set_video_event\<close>), the function the recording
  thread calls to fetch the next one (\<open>get_metadata_descriptor\<close>), and the table of digital inputs.

  The file's static variables are the record \<open>intf_state\<close>. A call that blocks on the queue's mutex
  is \<open>None\<close>. What the clocks read is an argument (\<open>clock\<close>), as is the outcome of a timed wait. The
  descriptor that is enqueued points at a fresh copy of the payload, so its payload is a value;
  \<open>malloc\<close> is taken to succeed, as the code does not test it. Log messages are left out.
\<close>

section \<open>State\<close>

record metadata_rec =
  gps :: meta_gps_memory
  timeinfo :: meta_time_memory
  locoId :: meta_loco_id
  event_0 :: meta_event_recording

record intf_state =
  all_metadata :: metadata_rec
  metadata_queue :: "metadata_desc meta_desc_q"
  digital_events_config_map :: "digital_input_descriptor list"

record clock =
  now_tod :: timeval
  now_raw :: timespec

definition zero_gps :: meta_gps_memory where
  "zero_gps = \<lparr>latitude_dd_m = 0, longitude_dd_m = 0, speed_mph_m = 0\<rparr>"

definition zero_time :: meta_time_memory where
  "zero_time = \<lparr>linux_time_sec_m = 0, timeoffset_sec_m = 0, time_src = []\<rparr>"

definition zero_event :: meta_event_recording where
  "zero_event = \<lparr>digital_name = [], digital_value = 0\<rparr>"

definition zero_loco :: meta_loco_id where
  "zero_loco = \<lparr>loco_id = []\<rparr>"

definition zero_desc :: metadata_desc where
  "zero_desc = \<lparr>pData = None, data_type = eGPS, data_length = 0,
     tod = \<lparr>tv_sec = 0, tv_usec = 0\<rparr>, ts = \<lparr>ts_sec = 0, ts_nsec = 0\<rparr>\<rparr>"

definition zero_queue :: "metadata_desc meta_desc_q" where
  "zero_queue = \<lparr>initialized = False, buf = replicate METADATA_DESC_QUEUE_SIZE zero_desc,
     head = 0, tail = 0, full = False, empty = False, s_mut = False,
     s_not_full = 0, s_not_empty = 0\<rparr>"

text \<open>The initialiser of \<open>digital_events_config_map\<close>: three entries are given, the rest of the
array is zero.\<close>

definition digital_events_config_map_init :: "meta_layout \<Rightarrow> digital_input_descriptor list" where
  "digital_events_config_map_init L =
     [\<lparr>di_name = [], di_number = 0, di_recording = False\<rparr>,
      \<lparr>di_name = [], di_number = 1, di_recording = False\<rparr>,
      \<lparr>di_name = [], di_number = 2, di_recording = False\<rparr>] @
     replicate (NUM_DIGITAL_INPUTS L - 3) \<lparr>di_name = [], di_number = 0, di_recording = False\<rparr>"

section \<open>The queue\<close>

definition enq_metadata_descriptor ::
    "metadata_desc wait_outcome \<Rightarrow> metadata_desc \<Rightarrow> metadata_desc meta_desc_q
       \<Rightarrow> (int \<times> metadata_desc meta_desc_q) option" where
  "enq_metadata_descriptor wait pdesc q =
     (case meta_q_lock (Some q) of
        None \<Rightarrow> None
      | Some (lk, q1) \<Rightarrow>
          if lk = 0 then
            (let (w, q2) = meta_q_wait_for_room wait q1;
                 (rc, q3) = (if w = 0 then (1, meta_q_enq q2 pdesc) else (0, q2));
                 (_, q4) = meta_q_unlock q3
             in Some (rc, the q4))
          else Some (0, the q1))"

definition deq_metadata_descriptor ::
    "metadata_desc wait_outcome \<Rightarrow> metadata_desc meta_desc_q
       \<Rightarrow> (nat option \<times> metadata_desc meta_desc_q) option" where
  "deq_metadata_descriptor wait q =
     (case meta_q_lock (Some q) of
        None \<Rightarrow> None
      | Some (lk, q1) \<Rightarrow>
          if lk = 0 then
            (let (w, q2) = meta_q_wait_for_data wait q1;
                 (pr, q3) = (if w = 0 then meta_q_deq q2 else (None, q2));
                 (_, q4) = meta_q_unlock q3
             in Some (pr, the q4))
          else Some (None, the q1))"

definition init_metadata_recording_queue :: "intf_state \<Rightarrow> intf_state" where
  "init_metadata_recording_queue s =
     s\<lparr>metadata_queue := the (meta_q_init (Some zero_queue)),
       all_metadata := \<lparr>gps = zero_gps, timeinfo = zero_time, locoId = zero_loco,
                        event_0 = zero_event\<rparr>\<rparr>"

definition deinit_metadata_recording_queue :: "intf_state \<Rightarrow> intf_state" where
  "deinit_metadata_recording_queue s =
     s\<lparr>metadata_queue := the (meta_q_deinit (Some (metadata_queue s)))\<rparr>"

text \<open>
  \<open>get_metadata_descriptor\<close> copies the descriptor out of the slot after the mutex has been released
  again; \<open>between\<close> is what the other threads do to the queue between the two (\<open>id\<close> when they do
  nothing). It returns 1 and the copied descriptor, or 0 and the caller's buffer unchanged.
\<close>

definition get_metadata_descriptor ::
    "metadata_desc wait_outcome \<Rightarrow> (metadata_desc meta_desc_q \<Rightarrow> metadata_desc meta_desc_q)
       \<Rightarrow> metadata_desc \<Rightarrow> metadata_desc meta_desc_q
       \<Rightarrow> (int \<times> metadata_desc \<times> metadata_desc meta_desc_q) option" where
  "get_metadata_descriptor wait between pdesc q =
     (if \<not> meta_q_isempty (Some q) then
        (case deq_metadata_descriptor wait q of
           None \<Rightarrow> None
         | Some (tp, q1) \<Rightarrow>
             let q2 = between q1
             in (case tp of
                   Some i \<Rightarrow> Some (1, buf q2 ! i, q2)
                 | None \<Rightarrow> Some (0, pdesc, q2)))
      else Some (0, pdesc, q))"

text \<open>The common end of the four setters: fill in the descriptor and enqueue it.\<close>

definition mk_desc :: "meta_layout \<Rightarrow> clock \<Rightarrow> meta_payload \<Rightarrow> metadata_desc" where
  "mk_desc L now p =
     \<lparr>pData = Some p, data_type = payload_type p,
      data_length = sizeof_payload L (payload_type p), tod = now_tod now, ts = now_raw now\<rparr>"

definition record_desc ::
    "metadata_desc wait_outcome \<Rightarrow> metadata_desc \<Rightarrow> intf_state \<Rightarrow> (int \<times> intf_state) option" where
  "record_desc wait d s =
     (case enq_metadata_descriptor wait d (metadata_queue s) of
        None \<Rightarrow> None
      | Some (_, q) \<Rightarrow> Some (0, s\<lparr>metadata_queue := q\<rparr>))"

definition set_gps ::
    "meta_layout \<Rightarrow> metadata_desc wait_outcome \<Rightarrow> clock \<Rightarrow> int \<Rightarrow> int \<Rightarrow> int \<Rightarrow> intf_state
       \<Rightarrow> (int \<times> intf_state) option" where
  "set_gps L wait now latitude longitude speed s =
     (let p = \<lparr>latitude_dd_m = latitude, longitude_dd_m = longitude, speed_mph_m = speed\<rparr>;
          s1 = s\<lparr>all_metadata := (all_metadata s)\<lparr>gps := p\<rparr>\<rparr>
      in record_desc wait (mk_desc L now (GPS_data p)) s1)"

definition set_time_info ::
    "meta_layout \<Rightarrow> metadata_desc wait_outcome \<Rightarrow> clock \<Rightarrow> int \<Rightarrow> int \<Rightarrow> string \<Rightarrow> intf_state
       \<Rightarrow> (int \<times> intf_state) option" where
  "set_time_info L wait now system_time time_offset time_source s =
     (let n = (if length time_source < TIME_SOURCE_NAME_LEN L then length time_source
               else TIME_SOURCE_NAME_LEN L);
          p = \<lparr>linux_time_sec_m = system_time, timeoffset_sec_m = time_offset,
               time_src = take n time_source\<rparr>;
          s1 = s\<lparr>all_metadata := (all_metadata s)\<lparr>timeinfo := p\<rparr>\<rparr>
      in record_desc wait (mk_desc L now (Time_data p)) s1)"

definition set_locomotive_id ::
    "meta_layout \<Rightarrow> metadata_desc wait_outcome \<Rightarrow> clock \<Rightarrow> string option \<Rightarrow> intf_state
       \<Rightarrow> (int \<times> intf_state) option" where
  "set_locomotive_id L wait now loco s =
     (case loco of
        None \<Rightarrow> Some (0, s\<lparr>all_metadata := (all_metadata s)\<lparr>locoId := zero_loco\<rparr>\<rparr>)
      | Some l \<Rightarrow>
          let p = \<lparr>loco_id = take (MAX_LOCO_ID_SIZE L) l\<rparr>;
              s1 = s\<lparr>all_metadata := (all_metadata s)\<lparr>locoId := p\<rparr>\<rparr>
          in record_desc wait (mk_desc L now (Loco_data p)) s1)"

definition set_video_event ::
    "meta_layout \<Rightarrow> metadata_desc wait_outcome \<Rightarrow> clock \<Rightarrow> string \<Rightarrow> int \<Rightarrow> intf_state
       \<Rightarrow> (int \<times> intf_state) option" where
  "set_video_event L wait now name val s =
     (let p = \<lparr>digital_name = take (sizeof_digital_name L - 1) name, digital_value = val\<rparr>;
          s1 = s\<lparr>all_metadata := (all_metadata s)\<lparr>event_0 := p\<rparr>\<rparr>
      in record_desc wait (mk_desc L now (Event_data p)) s1)"

section \<open>The table of digital inputs\<close>

text \<open>\<open>strncpy\<close> on C strings whose buffer is zero after the terminator.\<close>

definition strncpy :: "string \<Rightarrow> string \<Rightarrow> nat \<Rightarrow> string" where
  "strncpy dst src n = (if length src < n then src else take n src @ drop n dst)"

fun set_digital_input_config ::
    "string \<Rightarrow> int \<Rightarrow> bool \<Rightarrow> digital_input_descriptor list
       \<Rightarrow> int \<times> digital_input_descriptor list" where
  "set_digital_input_config name number recording [] = (0, [])"
| "set_digital_input_config name number recording (e # es) =
     (if di_number e = 0 then
        (1, e\<lparr>di_name := strncpy (di_name e) name (length (di_name e)),
              di_number := number, di_recording := recording\<rparr> # es)
      else (let (rc, es') = set_digital_input_config name number recording es in (rc, e # es')))"

text \<open>\<open>get_digital_input_name\<close> returns 1 and the filled buffer when an entry has the number; a
\<open>NULL\<close> buffer is \<open>None\<close> and is never filled.\<close>

fun get_digital_input_name ::
    "digital_input_descriptor list \<Rightarrow> int \<Rightarrow> string option \<Rightarrow> int \<times> string option" where
  "get_digital_input_name [] number dst = (0, dst)"
| "get_digital_input_name (e # es) number dst =
     (if di_number e = number then
        (case dst of
           Some b \<Rightarrow> (1, Some (strncpy b (di_name e) (length b)))
         | None \<Rightarrow> get_digital_input_name es number dst)
      else get_digital_input_name es number dst)"

section \<open>What the queue calls do\<close>

text \<open>A wait that is not entered does not matter.\<close>

lemma enq_with_room:
  assumes "q_ready q" "\<not> full q"
  shows "enq_metadata_descriptor wait d q = Some (1, q_enq q d)"
  using assms
  by (simp add: enq_metadata_descriptor_def meta_q_lock_def meta_q_wait_for_room_def
      meta_q_enq_def meta_q_unlock_def q_readyD Let_def)

lemma enq_timeout:
  assumes "q_ready q" "full q" "wait (q\<lparr>s_mut := True\<rparr>) = (rc, q')" "rc \<noteq> 0" "initialized q'"
  shows "enq_metadata_descriptor wait d q = Some (0, q'\<lparr>s_mut := False\<rparr>)"
  using assms
  by (simp add: enq_metadata_descriptor_def meta_q_lock_def meta_q_wait_for_room_def
      meta_q_enq_def meta_q_unlock_def q_readyD Let_def)

lemma enq_woken:
  assumes "q_ready q" "full q" "wait (q\<lparr>s_mut := True\<rparr>) = (0, q')" "initialized q'"
  shows "enq_metadata_descriptor wait d q = Some (1, (q_enq q' d)\<lparr>s_mut := False\<rparr>)"
  using assms
  by (simp add: enq_metadata_descriptor_def meta_q_lock_def meta_q_wait_for_room_def
      meta_q_enq_def meta_q_unlock_def q_readyD Let_def)

lemma q_enq_ready: "q_ready q \<Longrightarrow> q_ready (q_enq q x)"
  by (simp add: q_ready_def q_enq_invar)

lemma q_deq_ready: "q_ready q \<Longrightarrow> q_ready (snd (q_deq q))"
  by (simp add: q_ready_def q_deq_invar)

lemma deq_nonempty:
  assumes "q_ready q" "\<not> empty q"
  shows "deq_metadata_descriptor wait q = Some (Some (head q), snd (q_deq q))"
proof -
  have m: "\<not> s_mut q" "initialized q" using assms(1) by (simp_all add: q_readyD)
  have "q_deq (q\<lparr>s_mut := True\<rparr>) = (Some (head q), (snd (q_deq q))\<lparr>s_mut := True\<rparr>)"
    using assms(2) by (metis deq_slot prod.collapse q_deq_mutex)
  then show ?thesis
    using m assms(2)
    by (simp add: deq_metadata_descriptor_def meta_q_lock_def meta_q_wait_for_data_def
        meta_q_deq_def meta_q_unlock_def Let_def)
qed

lemma record_desc_room:
  assumes "q_ready (metadata_queue s)" "\<not> full (metadata_queue s)"
  shows "record_desc wait d s = Some (0, s\<lparr>metadata_queue := q_enq (metadata_queue s) d\<rparr>)"
  using enq_with_room [OF assms] by (simp add: record_desc_def)

lemmas setter_defs = set_gps_def set_time_info_def set_locomotive_id_def set_video_event_def

section \<open>Properties\<close>

text \<open>
  C2: when the queue has room, each of the four setters returns 0 and appends exactly one
  descriptor to the queue: the payload built from its arguments (strings cut to the capacity of
  their field), the metadata type, the size of that type's struct and the two clock readings.
  Nothing that was queued before is lost or reordered.
\<close>

theorem setters_append_one:
  assumes ready: "q_ready (metadata_queue s)" and room: "\<not> full (metadata_queue s)"
  shows "\<forall> (r, p) \<in> {
      (set_gps L wait now lat lon spd s,
         GPS_data \<lparr>latitude_dd_m = lat, longitude_dd_m = lon, speed_mph_m = spd\<rparr>),
      (set_time_info L wait now st off src s,
         Time_data \<lparr>linux_time_sec_m = st, timeoffset_sec_m = off,
                    time_src = take (TIME_SOURCE_NAME_LEN L) src\<rparr>),
      (set_locomotive_id L wait now (Some l) s,
         Loco_data \<lparr>loco_id = take (MAX_LOCO_ID_SIZE L) l\<rparr>),
      (set_video_event L wait now name val s,
         Event_data \<lparr>digital_name = take (sizeof_digital_name L - 1) name,
                     digital_value = val\<rparr>)}.
    \<exists>s'. r = Some (0, s') \<and>
      q_items (metadata_queue s') = q_items (metadata_queue s) @
        [\<lparr>pData = Some p, data_type = payload_type p,
          data_length = sizeof_payload L (payload_type p),
          tod = now_tod now, ts = now_raw now\<rparr>] \<and>
      q_ready (metadata_queue s')"
proof -
  have step: "\<exists>s'. record_desc wait (mk_desc L now p) (s\<lparr>all_metadata := m\<rparr>) = Some (0, s') \<and>
      q_items (metadata_queue s') = q_items (metadata_queue s) @ [mk_desc L now p] \<and>
      q_ready (metadata_queue s')" for p m
    using assms by (simp add: record_desc_room q_items_enq q_readyD q_enq_ready)
  have cut: "take (if length xs < n then length xs else n) xs = take n xs" for xs :: string and n
    by simp
  show ?thesis
    using step [unfolded mk_desc_def] by (simp add: setter_defs cut mk_desc_def Let_def del: payload_type.simps)
qed

definition start_state :: intf_state where
  "start_state = init_metadata_recording_queue
     \<lparr>all_metadata = \<lparr>gps = zero_gps, timeinfo = zero_time, locoId = zero_loco,
                      event_0 = zero_event\<rparr>,
      metadata_queue = zero_queue, digital_events_config_map = []\<rparr>"

definition some_clock :: clock where
  "some_clock = \<lparr>now_tod = \<lparr>tv_sec = 5, tv_usec = 0\<rparr>, now_raw = \<lparr>ts_sec = 1, ts_nsec = 0\<rparr>\<rparr>"

lemma start_state_ready:
  "q_ready (metadata_queue start_state) \<and> \<not> full (metadata_queue start_state) \<and>
   q_items (metadata_queue start_state) = []"
proof -
  have i: "meta_q_init (Some zero_queue) = Some (metadata_queue start_state)"
    by (simp add: start_state_def init_metadata_recording_queue_def meta_q_init_def Let_def)
  have "\<not> full (metadata_queue start_state)"
    by (simp add: start_state_def init_metadata_recording_queue_def meta_q_init_def
        meta_q_signal_notfull_def Let_def)
  with meta_q_init_ready [OF _ i] show ?thesis by (simp add: zero_queue_def)
qed

lemma setters_append_one_witness:
  "\<exists>s'. set_gps demo_layout (\<lambda>q. (0, q)) some_clock 41 73 12 start_state = Some (0, s') \<and>
     map data_type (q_items (metadata_queue s')) = [eGPS]"
proof -
  note r = start_state_ready
  show ?thesis
    using setters_append_one [of start_state demo_layout "\<lambda>q. (0, q)" some_clock 41 73 12] r
    by force
qed

text \<open>
  C3: fetching a descriptor from a queue that is ready and not empty returns 1 and the oldest one,
  and leaves the others in order, as long as no other thread touches the queue between the release
  of the mutex and the copy.
\<close>

theorem get_returns_oldest:
  assumes "q_ready q" "q_items q = d # ds"
  shows "\<exists>q'. get_metadata_descriptor wait id pdesc q = Some (1, d, q') \<and>
    q_items q' = ds \<and> q_ready q'"
proof -
  have ne: "\<not> empty q" using assms q_items_empty [of q] by (auto simp: q_readyD)
  have "buf q ! head q = d"
    using head_item [OF q_readyD(1) [OF assms(1)] ne] assms(2) by simp
  then show ?thesis
    using assms ne
    by (simp add: get_metadata_descriptor_def meta_q_isempty_def deq_nonempty q_items_deq
        q_readyD q_deq_ready)
qed

text \<open>A queue filled by enqueueing, for the witnesses.\<close>

definition filled_queue :: "nat \<Rightarrow> metadata_desc meta_desc_q" where
  "filled_queue n = foldl (\<lambda>q i. q_enq q (zero_desc\<lparr>data_length := i\<rparr>))
     (the (meta_q_init (Some zero_queue))) [0..<n]"

lemma filled_queue_ready: "q_ready (filled_queue n)"
proof (induction n)
  case 0
  have "meta_q_init (Some zero_queue) = Some (the (meta_q_init (Some zero_queue)))"
    by (simp add: meta_q_init_def Let_def)
  then show ?case
    using meta_q_init_ready [of zero_queue] by (simp add: filled_queue_def zero_queue_def)
next
  case (Suc n)
  then show ?case by (simp add: filled_queue_def q_enq_ready)
qed

lemma filled_queue_items:
  "n \<le> METADATA_DESC_QUEUE_SIZE \<Longrightarrow>
     q_items (filled_queue n) = map (\<lambda>i. zero_desc\<lparr>data_length := i\<rparr>) [0..<n]"
proof (induction n)
  case 0
  have "meta_q_init (Some zero_queue) = Some (the (meta_q_init (Some zero_queue)))"
    by (simp add: meta_q_init_def Let_def)
  then show ?case
    using meta_q_init_ready [of zero_queue] by (simp add: filled_queue_def zero_queue_def)
next
  case (Suc n)
  then have "q_count (filled_queue n) < METADATA_DESC_QUEUE_SIZE"
    by (metis Suc_le_lessD diff_zero length_map length_q_items length_upt less_imp_le)
  then have "\<not> full (filled_queue n)"
    using filled_queue_ready [of n] by (simp add: q_count_full q_readyD)
  moreover have "filled_queue (Suc n) = q_enq (filled_queue n) (zero_desc\<lparr>data_length := n\<rparr>)"
    by (simp add: filled_queue_def)
  ultimately show ?case
    using Suc filled_queue_ready [of n] by (simp add: q_items_enq q_readyD)
qed

lemma get_returns_oldest_witness:
  "\<exists>q'. get_metadata_descriptor (\<lambda>q. (0, q)) id zero_desc (filled_queue 3)
     = Some (1, zero_desc\<lparr>data_length := 0\<rparr>, q') \<and>
     q_items q' = [zero_desc\<lparr>data_length := 1\<rparr>, zero_desc\<lparr>data_length := 2\<rparr>]"
  using get_returns_oldest [OF filled_queue_ready [of 3],
      of "zero_desc\<lparr>data_length := 0\<rparr>" "[zero_desc\<lparr>data_length := 1\<rparr>, zero_desc\<lparr>data_length := 2\<rparr>]"]
  by (auto simp: filled_queue_items METADATA_DESC_QUEUE_SIZE_def upt_rec)

text \<open>
  C4: the copy in \<open>get_metadata_descriptor\<close> is not covered by the mutex. When the queue is full and
  a producer enqueues between the release of the mutex and the copy, the recording thread gets the
  producer's new descriptor in place of the oldest one; the new descriptor also stays queued, so it
  is recorded twice and the oldest one is lost.
\<close>

theorem get_races_with_producer:
  assumes "q_ready q" "full q"
  shows "\<exists>q'. get_metadata_descriptor wait (\<lambda>q. q_enq q x) pdesc q = Some (1, x, q') \<and>
    q_items q' = tl (q_items q) @ [x]"
proof -
  note i = q_readyD(1) [OF assms(1)]
  have ne: "\<not> empty q" using assms i by (auto simp: q_invar_def)
  show ?thesis
    using assms ne slot_overwritten [OF i ne assms(2), of x] q_deq_not_full [OF ne]
    by (simp add: get_metadata_descriptor_def meta_q_isempty_def deq_nonempty Let_def
        q_items_enq q_deq_invar i q_items_deq)
qed

lemma filled_queue_full: "full (filled_queue 10)"
proof -
  have "q_count (filled_queue 10) = 10"
    by (metis (no_types, lifting) METADATA_DESC_QUEUE_SIZE_def diff_zero dual_order.refl
        filled_queue_items length_map length_q_items length_upt)
  then show ?thesis
    using q_count_full [of "filled_queue 10"] filled_queue_ready [of 10]
    by (simp add: q_readyD METADATA_DESC_QUEUE_SIZE_def)
qed

lemma get_races_with_producer_witness:
  "\<exists>q'. get_metadata_descriptor (\<lambda>q. (0, q)) (\<lambda>q. q_enq q (zero_desc\<lparr>data_length := 99\<rparr>))
     zero_desc (filled_queue 10) = Some (1, zero_desc\<lparr>data_length := 99\<rparr>, q')"
  using get_races_with_producer [OF filled_queue_ready filled_queue_full] by blast

text \<open>
  The end of each of the four setters on a full queue: whatever the wait for room comes back with, as long
  as the queue is still full or the wait failed, the descriptor is dropped and 0 is returned.
\<close>

lemma record_desc_full:
  assumes "q_ready (metadata_queue s)" "full (metadata_queue s)"
    and "wait ((metadata_queue s)\<lparr>s_mut := True\<rparr>) = (rc, q')"
    and "initialized q'" "q_invar q'" "rc \<noteq> 0 \<or> full q'"
  shows "\<exists>q. record_desc wait d s = Some (0, s\<lparr>metadata_queue := q\<rparr>) \<and> q_items q = q_items q'"
proof (cases "rc = 0")
  case True
  with assms show ?thesis
    by (intro exI [of _ "q'\<lparr>s_mut := False\<rparr>"]) (simp add: record_desc_def enq_woken q_enq_full)
next
  case False
  with assms show ?thesis
    by (intro exI [of _ "q'\<lparr>s_mut := False\<rparr>"]) (simp add: record_desc_def enq_timeout)
qed

text \<open>
  C5: a full queue never makes a setter fail. If the wait for room times out, or if it returns 0
  although the queue is still full (a spurious wake-up), each of the four setters returns 0 and its
  descriptor is dropped: the contents of the queue are what the other threads left.
\<close>

theorem full_queue_drops:
  assumes "q_ready (metadata_queue s)" "full (metadata_queue s)"
    and "wait ((metadata_queue s)\<lparr>s_mut := True\<rparr>) = (rc, q')"
    and "initialized q'" "q_invar q'" "rc \<noteq> 0 \<or> full q'"
  shows "\<forall>r \<in> {set_gps L wait now lat lon spd s, set_time_info L wait now t off src s,
      set_locomotive_id L wait now (Some loco) s, set_video_event L wait now name val s}.
    \<exists>s'. r = Some (0, s') \<and> q_items (metadata_queue s') = q_items q'"
proof -
  have "\<exists>s'. record_desc wait d (s\<lparr>all_metadata := m\<rparr>) = Some (0, s') \<and> q_items (metadata_queue s') = q_items q'" for d m
    using record_desc_full [of "s\<lparr>all_metadata := m\<rparr>" wait rc q' d] assms by fastforce
  then show ?thesis by (simp add: setter_defs Let_def)
qed

definition full_state :: intf_state where
  "full_state = \<lparr>all_metadata = \<lparr>gps = zero_gps, timeinfo = zero_time, locoId = zero_loco,
     event_0 = zero_event\<rparr>, metadata_queue = filled_queue 10, digital_events_config_map = []\<rparr>"

lemma full_queue_drops_witness:
  "(\<exists>s'. set_gps demo_layout (\<lambda>q. (0, q)) some_clock 1 2 3 full_state = Some (0, s') \<and>
      q_items (metadata_queue s') = q_items (filled_queue 10)) \<and>
   (\<exists>s'. set_time_info demo_layout (\<lambda>q. (0, q)) some_clock 100 (- 3600) ''GPS'' full_state = Some (0, s') \<and>
      q_items (metadata_queue s') = q_items (filled_queue 10)) \<and>
   (\<exists>s'. set_locomotive_id demo_layout (\<lambda>q. (0, q)) some_clock (Some ''BNSF 1'') full_state = Some (0, s') \<and>
      q_items (metadata_queue s') = q_items (filled_queue 10)) \<and>
   (\<exists>s'. set_video_event demo_layout (\<lambda>q. (0, q)) some_clock ''HORN'' 1 full_state = Some (0, s') \<and>
      q_items (metadata_queue s') = q_items (filled_queue 10))"
proof -
  let ?q = "(filled_queue 10)\<lparr>s_mut := True\<rparr>"
  have "q_ready (filled_queue 10)" "full (filled_queue 10)"
    by (simp_all add: filled_queue_ready filled_queue_full)
  then show ?thesis
    using full_queue_drops [of full_state "\<lambda>q. (0, q)" 0 ?q demo_layout some_clock 1 2 3 100 "- 3600" "''GPS''" "''BNSF 1''"
        "''HORN''" 1]
    by (simp add: full_state_def q_ready_def)
qed

text \<open>
  C6: no digital input name is ever recorded. The table's names start empty and the setter copies
  as many characters as the name already there has, so after any sequence of configurations the
  names are still empty; and the getter copies as many characters as the destination already
  holds, so the zeroed buffer of the chunk writer stays empty whatever the table holds.
\<close>

fun set_digital_inputs ::
    "(string \<times> int \<times> bool) list \<Rightarrow> digital_input_descriptor list \<Rightarrow> digital_input_descriptor list"
where
  "set_digital_inputs [] es = es"
| "set_digital_inputs ((n, k, r) # cs) es =
     set_digital_inputs cs (snd (set_digital_input_config n k r es))"

lemma set_digital_input_config_names:
  "\<forall>e \<in> set es. di_name e = [] \<Longrightarrow>
     \<forall>e \<in> set (snd (set_digital_input_config n k r es)). di_name e = []"
  by (induction n k r es rule: set_digital_input_config.induct)
     (auto simp: strncpy_def split: prod.splits)

lemma set_digital_inputs_names:
  "\<forall>e \<in> set es. di_name e = [] \<Longrightarrow> \<forall>e \<in> set (set_digital_inputs cs es). di_name e = []"
proof (induction cs es rule: set_digital_inputs.induct)
  case (2 n k r cs es)
  then show ?case using set_digital_input_config_names [of es n k r] by simp
qed simp

lemma get_digital_input_name_empty: "snd (get_digital_input_name es k (Some [])) = Some []"
  by (induction es) (auto simp: strncpy_def)

theorem digital_names_never_stored:
  "di_name ` set (set_digital_inputs cs (digital_events_config_map_init L)) \<subseteq> {[]} \<and>
   snd (get_digital_input_name es k (Some [])) = Some []"
  using set_digital_inputs_names [of "digital_events_config_map_init L" cs]
    get_digital_input_name_empty [of es k]
  by (auto simp: digital_events_config_map_init_def)

end
