(* ===== verification/Ptc_Meta.thy ===== *)
theory Ptc_Meta
  imports Meta_Intf
begin

unbundle bit_operations_syntax

text \<open>
  \<open>metarec/src/ptc_meta_intf.c\<close>: the handlers of the PTC messages the metadata recorder subscribes
  to, and the commanded recording mode. The message library and its headers are not part of the
  repository: message versions, recording mode bits, shutdown function types and the GPS parsers
  are components of \<open>ptc_env\<close>, and each message carries whether the payload check of the library's
  macro \<open>PTC_VERIFY_MSG_WITH_PAYLOAD\<close> let it pass (the macro returns from the handler when it does
  not). The recording mode is a 32-bit word, as its bits are what the code works on. A handler that
  blocks on the queue is \<open>None\<close>.
\<close>

section \<open>Environment, messages, state\<close>

datatype gps_coordinate_kind = eGPSLatitude | eGPSLongitude

record ptc_env =
  layout :: meta_layout
  DO_RECORD_CHM_META :: u32
  DO_RECORD_SSD_META :: u32
  TIME_INFO_MSG_VERSION :: int
  LOCOMOTIVE_ID_MSG_VERSION :: int
  VIDEO_EVENT_INFO_MSG_VERSION :: int
  GPS_DATA_MSG_VERSION :: int
  DIGITAL_INPUTS_MSG_VERSION :: int
  READY_STATUS_MSG_VERSION :: int
  SHUTDOWN_MSG_VERSION :: int
  SHUTDOWN_CHM :: int
  SHUTDOWN_REMOVABLE_SSD :: int
  SHUTDOWN_ALL :: int
  get_gps_direction :: "string \<Rightarrow> char"
  parse_gps_coordinate :: "string \<Rightarrow> gps_coordinate_kind \<Rightarrow> int"
  parse_gps_speed :: "string \<Rightarrow> int"
  queue_wait :: "metadata_desc wait_outcome"
  data_lock_rc :: int

record msg_header =
  msg_verified :: bool
  version :: int

datatype ptc_msg =
    TIME_INFO msg_header (ti_system_time: int) (ti_time_offset: int) (ti_time_source: string)
  | LOCOMOTIVE_ID msg_header (lid_locomotive_id: string)
  | VIDEO_EVENT_INFO msg_header (ve_name: string) (ve_value: int)
  | GPS_DATA msg_header (gd_latitude: string) (gd_longitude: string) (gd_speed: string)
  | DIGITAL_INPUTS msg_header (dis_di: "digital_input_descriptor list")
  | SHUTDOWN msg_header (sd_function_type: int)
  | READY_STATUS msg_header (rs_chm_ready: bool) (rs_removable_ssd_ready: bool)

record ptc_state =
  commanded_recording_mode :: u32
  previous_time_offset :: int
  forward_time_change_occurred :: bool
  intf :: intf_state

section \<open>Shared flags\<close>

text \<open>From \<open>metaio.c\<close>: the flag that tells the chunk writer about a forward time change.\<close>

definition update_forward_time_change_status :: "bool \<Rightarrow> ptc_state \<Rightarrow> ptc_state" where
  "update_forward_time_change_status status s = s\<lparr>forward_time_change_occurred := status\<rparr>"

definition has_forward_time_change_occurred :: "ptc_state \<Rightarrow> bool" where
  "has_forward_time_change_occurred s = forward_time_change_occurred s"

text \<open>\<open>ptci_data_lock\<close> returns what \<open>pthread_mutex_lock\<close> does, 0 on success.\<close>

definition ptci_data_lock :: "ptc_env \<Rightarrow> int" where
  "ptci_data_lock E = data_lock_rc E"

definition ptci_get_rm_meta :: "ptc_env \<Rightarrow> ptc_state \<Rightarrow> u32" where
  "ptci_get_rm_meta E s = (if ptci_data_lock E = 0 then commanded_recording_mode s else - 1)"

definition ptci_set_rm_meta :: "ptc_env \<Rightarrow> u32 \<Rightarrow> ptc_state \<Rightarrow> ptc_state" where
  "ptci_set_rm_meta E rm s =
     (if ptci_data_lock E = 0 then s\<lparr>commanded_recording_mode := rm\<rparr> else s)"

text \<open>Running a call of the metadata interface on the state; its return value is not used.\<close>

definition with_intf :: "(intf_state \<Rightarrow> (int \<times> intf_state) option) \<Rightarrow> ptc_state \<Rightarrow> ptc_state option"
where
  "with_intf f s = (case f (intf s) of None \<Rightarrow> None | Some (_, i) \<Rightarrow> Some (s\<lparr>intf := i\<rparr>))"

section \<open>Message handlers\<close>

definition msgcb_time_info_meta_rec ::
    "ptc_env \<Rightarrow> clock \<Rightarrow> msg_header \<Rightarrow> int \<Rightarrow> int \<Rightarrow> string \<Rightarrow> ptc_state \<Rightarrow> ptc_state option" where
  "msgcb_time_info_meta_rec E now h system_time time_offset time_source s =
     (if \<not> msg_verified h then Some s
      else if version h \<noteq> TIME_INFO_MSG_VERSION E then Some s
      else if time_source \<noteq> [] then
        (case with_intf (set_time_info (layout E) (queue_wait E) now system_time time_offset
                           time_source) s of
           None \<Rightarrow> None
         | Some s1 \<Rightarrow>
             let s2 = (if previous_time_offset s1 < 0 \<and> time_offset = 0
                       then update_forward_time_change_status True s1 else s1)
             in Some (s2\<lparr>previous_time_offset := time_offset\<rparr>))
      else Some s)"

definition msgcb_locomotive_id ::
    "ptc_env \<Rightarrow> clock \<Rightarrow> msg_header \<Rightarrow> string \<Rightarrow> ptc_state \<Rightarrow> ptc_state option" where
  "msgcb_locomotive_id E now h locomotive_id s =
     (if \<not> msg_verified h then Some s
      else if version h \<noteq> LOCOMOTIVE_ID_MSG_VERSION E then Some s
      else if locomotive_id \<noteq> [] then
        with_intf (set_locomotive_id (layout E) (queue_wait E) now (Some locomotive_id)) s
      else Some s)"

definition msgcb_video_event_info_meta_rec ::
    "ptc_env \<Rightarrow> clock \<Rightarrow> msg_header \<Rightarrow> string \<Rightarrow> int \<Rightarrow> ptc_state \<Rightarrow> ptc_state option" where
  "msgcb_video_event_info_meta_rec E now h name val s =
     (if \<not> msg_verified h then Some s
      else if version h \<noteq> VIDEO_EVENT_INFO_MSG_VERSION E then Some s
      else if name \<noteq> [] then
        with_intf (set_video_event (layout E) (queue_wait E) now name val) s
      else Some s)"

definition msgcb_gps_data_meta_rec ::
    "ptc_env \<Rightarrow> clock \<Rightarrow> msg_header \<Rightarrow> string \<Rightarrow> string \<Rightarrow> string \<Rightarrow> ptc_state \<Rightarrow> ptc_state option"
where
  "msgcb_gps_data_meta_rec E now h lat_s lon_s spd_s s =
     (if \<not> msg_verified h then Some s
      else if version h \<noteq> GPS_DATA_MSG_VERSION E then Some s
      else
        let lat_d = get_gps_direction E lat_s;
            lon_d = get_gps_direction E lon_s;
            latitude = parse_gps_coordinate E lat_s eGPSLatitude;
            longitude = parse_gps_coordinate E lon_s eGPSLongitude;
            speed = parse_gps_speed E spd_s
        in if \<not> (latitude = 0 \<and> longitude = 0 \<and> speed = 0) then
             let latitude' = (if (lat_d = CHR ''s'' \<or> lat_d = CHR ''S'') \<and> latitude > 0
                              then latitude * - 1 else latitude);
                 longitude' = (if (lon_d = CHR ''w'' \<or> lon_d = CHR ''W'') \<and> longitude > 0
                               then longitude * - 1 else longitude)
             in with_intf (set_gps (layout E) (queue_wait E) now latitude' longitude' speed) s
           else Some s)"

fun add_digital_inputs ::
    "digital_input_descriptor list \<Rightarrow> digital_input_descriptor list
       \<Rightarrow> digital_input_descriptor list" where
  "add_digital_inputs [] m = m"
| "add_digital_inputs (d # ds) m =
     add_digital_inputs ds
       (if di_number d \<noteq> 0
        then snd (set_digital_input_config (di_name d) (di_number d) (di_recording d) m)
        else m)"

definition msgcb_digital_config_meta_rec ::
    "ptc_env \<Rightarrow> msg_header \<Rightarrow> digital_input_descriptor list \<Rightarrow> ptc_state \<Rightarrow> ptc_state" where
  "msgcb_digital_config_meta_rec E h di s =
     (if \<not> msg_verified h then s
      else if version h \<noteq> DIGITAL_INPUTS_MSG_VERSION E then s
      else s\<lparr>intf := (intf s)\<lparr>digital_events_config_map :=
               add_digital_inputs (take (NUM_DIGITAL_INPUTS (layout E)) di)
                 (digital_events_config_map (intf s))\<rparr>\<rparr>)"

definition msgcb_ready_status_meta_rec ::
    "ptc_env \<Rightarrow> msg_header \<Rightarrow> bool \<Rightarrow> bool \<Rightarrow> ptc_state \<Rightarrow> ptc_state" where
  "msgcb_ready_status_meta_rec E h chm_ready removable_ssd_ready s =
     (if \<not> msg_verified h then s
      else if version h = READY_STATUS_MSG_VERSION E then
        let rm = (if ptci_data_lock E = 0 then commanded_recording_mode s else - 1);
            rm' = (if rm \<noteq> - 1 then
                     let r0 = 0;
                         r1 = (if chm_ready then r0 OR DO_RECORD_CHM_META E else r0);
                         r2 = (if removable_ssd_ready then r1 OR DO_RECORD_SSD_META E else r1)
                     in r2
                   else 0)
        in s\<lparr>commanded_recording_mode := rm'\<rparr>
      else s)"

definition msgcb_shutdown_meta_rec :: "ptc_env \<Rightarrow> msg_header \<Rightarrow> int \<Rightarrow> ptc_state \<Rightarrow> ptc_state" where
  "msgcb_shutdown_meta_rec E h function_type s =
     (if \<not> msg_verified h then s
      else if version h = SHUTDOWN_MSG_VERSION E then
        let rm = (if ptci_data_lock E = 0 then commanded_recording_mode s else - 1)
        in if rm \<noteq> - 1 then
             let rm' = (if function_type = SHUTDOWN_CHM E then rm AND NOT (DO_RECORD_CHM_META E)
                        else if function_type = SHUTDOWN_REMOVABLE_SSD E
                        then rm AND NOT (DO_RECORD_SSD_META E)
                        else if function_type = SHUTDOWN_ALL E
                        then rm AND NOT (DO_RECORD_CHM_META E OR DO_RECORD_SSD_META E)
                        else rm)
             in s\<lparr>commanded_recording_mode := rm'\<rparr>
           else s
      else s)"

text \<open>The callback table: which handler a message goes to.\<close>

fun meta_msg_cb_list :: "ptc_env \<Rightarrow> clock \<Rightarrow> ptc_msg \<Rightarrow> ptc_state \<Rightarrow> ptc_state option" where
  "meta_msg_cb_list E now (TIME_INFO h t off src) s = msgcb_time_info_meta_rec E now h t off src s"
| "meta_msg_cb_list E now (LOCOMOTIVE_ID h l) s = msgcb_locomotive_id E now h l s"
| "meta_msg_cb_list E now (VIDEO_EVENT_INFO h n v) s =
     msgcb_video_event_info_meta_rec E now h n v s"
| "meta_msg_cb_list E now (GPS_DATA h la lo sp) s = msgcb_gps_data_meta_rec E now h la lo sp s"
| "meta_msg_cb_list E now (DIGITAL_INPUTS h di) s = Some (msgcb_digital_config_meta_rec E h di s)"
| "meta_msg_cb_list E now (SHUTDOWN h f) s = Some (msgcb_shutdown_meta_rec E h f s)"
| "meta_msg_cb_list E now (READY_STATUS h c r) s = Some (msgcb_ready_status_meta_rec E h c r s)"

text \<open>\<open>ptc_poll\<close> handles the messages that have arrived, in order.\<close>

fun handle_msgs :: "ptc_env \<Rightarrow> (clock \<times> ptc_msg) list \<Rightarrow> ptc_state \<Rightarrow> ptc_state option" where
  "handle_msgs E [] s = Some s"
| "handle_msgs E ((now, m) # ms) s =
     (case meta_msg_cb_list E now m s of None \<Rightarrow> None | Some s' \<Rightarrow> handle_msgs E ms s')"

text \<open>
  \<open>ptci_up_meta\<close>: connect to the router and attach the callback table; the results of the two
  library calls are arguments. The second component says whether \<open>ptc_stop\<close> was called.
\<close>

definition ptci_up_meta :: "bool \<Rightarrow> bool \<Rightarrow> int \<times> bool" where
  "ptci_up_meta connect_ok attach_ok =
     (if connect_ok then (if attach_ok then (1, False) else (0, True)) else (0, False))"

section \<open>Lemmas\<close>

lemma with_intf_frame:
  "with_intf f s = Some s' \<Longrightarrow>
     commanded_recording_mode s' = commanded_recording_mode s \<and>
     previous_time_offset s' = previous_time_offset s \<and>
     forward_time_change_occurred s' = forward_time_change_occurred s"
  by (auto simp: with_intf_def split: option.splits)

lemmas handler_defs = msgcb_time_info_meta_rec_def msgcb_locomotive_id_def
  msgcb_video_event_info_meta_rec_def msgcb_gps_data_meta_rec_def
  msgcb_digital_config_meta_rec_def msgcb_ready_status_meta_rec_def msgcb_shutdown_meta_rec_def

text \<open>The commanded mode only ever uses the five low bits, so it is never the failure value -1.\<close>

definition rm_ok :: "u32 \<Rightarrow> bool" where
  "rm_ok m \<longleftrightarrow> (\<forall>n. bit m n \<longrightarrow> n < 5)"

lemma rm_ok_0 [simp]: "rm_ok 0"
  by (simp add: rm_ok_def)

lemma rm_ok_OR: "rm_ok a \<Longrightarrow> rm_ok b \<Longrightarrow> rm_ok (a OR b)"
  by (auto simp: rm_ok_def bit_or_iff)

lemma rm_ok_AND: "rm_ok a \<Longrightarrow> rm_ok (a AND b)"
  by (auto simp: rm_ok_def bit_and_iff)

lemma rm_ok_not_minus1: "rm_ok m \<Longrightarrow> m \<noteq> - 1"
proof
  assume "rm_ok m" "m = - 1"
  then have "bit m 5" by simp
  with \<open>rm_ok m\<close> show False by (auto simp: rm_ok_def)
qed

lemma msg_rm_ok:
  assumes "meta_msg_cb_list E now m s = Some s'" "rm_ok (commanded_recording_mode s)"
    and "rm_ok (DO_RECORD_CHM_META E)" "rm_ok (DO_RECORD_SSD_META E)"
  shows "rm_ok (commanded_recording_mode s')"
  using assms
proof (cases m)
  case (TIME_INFO h t off src)
  with assms show ?thesis
    by (auto simp: handler_defs update_forward_time_change_status_def Let_def
        split: if_splits option.splits dest!: with_intf_frame)
next
  case (LOCOMOTIVE_ID h l)
  with assms show ?thesis
    by (auto simp: handler_defs split: if_splits dest!: with_intf_frame)
next
  case (VIDEO_EVENT_INFO h n v)
  with assms show ?thesis
    by (auto simp: handler_defs split: if_splits dest!: with_intf_frame)
next
  case (GPS_DATA h la lo sp)
  with assms show ?thesis
    by (auto simp: handler_defs Let_def split: if_splits dest!: with_intf_frame)
next
  case (DIGITAL_INPUTS h di)
  with assms show ?thesis by (auto simp: handler_defs split: if_splits)
next
  case (SHUTDOWN h f)
  with assms show ?thesis
    by (auto simp: handler_defs Let_def rm_ok_AND split: if_splits)
next
  case (READY_STATUS h c r)
  with assms show ?thesis
    by (auto simp: handler_defs Let_def rm_ok_OR split: if_splits)
qed

lemma msgs_rm_ok:
  "handle_msgs E ms s = Some s' \<Longrightarrow> rm_ok (commanded_recording_mode s) \<Longrightarrow>
     rm_ok (DO_RECORD_CHM_META E) \<Longrightarrow> rm_ok (DO_RECORD_SSD_META E) \<Longrightarrow>
     rm_ok (commanded_recording_mode s')"
proof (induction E ms s rule: handle_msgs.induct)
  case (2 E now m ms s)
  then show ?case by (auto split: option.splits dest: msg_rm_ok)
qed simp

section \<open>Properties\<close>

text \<open>An environment and a state for the witnesses.\<close>

definition demo_env :: ptc_env where
  "demo_env = \<lparr>layout = demo_layout, DO_RECORD_CHM_META = 1, DO_RECORD_SSD_META = 2,
     TIME_INFO_MSG_VERSION = 1, LOCOMOTIVE_ID_MSG_VERSION = 1, VIDEO_EVENT_INFO_MSG_VERSION = 1,
     GPS_DATA_MSG_VERSION = 1, DIGITAL_INPUTS_MSG_VERSION = 1, READY_STATUS_MSG_VERSION = 1,
     SHUTDOWN_MSG_VERSION = 1, SHUTDOWN_CHM = 0, SHUTDOWN_REMOVABLE_SSD = 1, SHUTDOWN_ALL = 2,
     get_gps_direction = (\<lambda>s. last (CHR ''N'' # s)),
     parse_gps_coordinate = (\<lambda>s _. atoi s), parse_gps_speed = atoi,
     queue_wait = (\<lambda>q. (110, q)), data_lock_rc = 0\<rparr>"

definition demo_ptc_state :: ptc_state where
  "demo_ptc_state = \<lparr>commanded_recording_mode = 3, previous_time_offset = 0,
     forward_time_change_occurred = False, intf = start_state\<rparr>"

definition good_header :: msg_header where
  "good_header = \<lparr>msg_verified = True, version = 1\<rparr>"

text \<open>
  C7: whatever messages arrive, in whatever order and however malformed, the commanded recording
  mode stays within the five low bits, as long as the two recording bits are; in particular it is
  never -1, the value that \<open>ptci_get_rm_meta\<close> reserves for a failed lock.
\<close>

theorem recording_mode_in_range:
  assumes "handle_msgs E ms s = Some s'"
    and "rm_ok (commanded_recording_mode s)"
    and "rm_ok (DO_RECORD_CHM_META E)" "rm_ok (DO_RECORD_SSD_META E)"
  shows "rm_ok (commanded_recording_mode s') \<and> commanded_recording_mode s' \<noteq> - 1"
  using msgs_rm_ok [OF assms] rm_ok_not_minus1 by blast

lemma rm_ok_demo: "rm_ok 1" "rm_ok 2" "rm_ok 3"
proof -
  show "rm_ok 1" "rm_ok 2"
    by (auto simp: rm_ok_def bit_1_iff bit_2_iff)
  then have "rm_ok (1 OR 2)" by (rule rm_ok_OR)
  then show "rm_ok 3" by simp
qed

lemma recording_mode_in_range_witness:
  "\<exists>s'. handle_msgs demo_env
     [(some_clock, SHUTDOWN good_header 0), (some_clock, READY_STATUS good_header True False)]
     demo_ptc_state = Some s' \<and> commanded_recording_mode s' \<noteq> - 1"
proof -
  let ?ms = "[(some_clock, SHUTDOWN good_header 0), (some_clock, READY_STATUS good_header True False)]"
  have "\<exists>s'. handle_msgs demo_env ?ms demo_ptc_state = Some s'" by simp
  then obtain s' where s': "handle_msgs demo_env ?ms demo_ptc_state = Some s'" ..
  show ?thesis
    using recording_mode_in_range [OF s'] s' rm_ok_demo
    by (simp add: demo_env_def demo_ptc_state_def)
qed

text \<open>
  C8: a ready status that passes the checks replaces the recording mode by exactly the bits of the
  drives that are ready, whatever the mode was; a shutdown that passes them clears exactly the bits
  of the drives it names and keeps every other bit. A message of another version, or one that fails
  the payload check, changes nothing.
\<close>

theorem drive_messages_set_mode:
  assumes "data_lock_rc E = 0" "commanded_recording_mode s \<noteq> - 1"
    and "SHUTDOWN_CHM E \<noteq> SHUTDOWN_REMOVABLE_SSD E" "SHUTDOWN_CHM E \<noteq> SHUTDOWN_ALL E"
      "SHUTDOWN_REMOVABLE_SSD E \<noteq> SHUTDOWN_ALL E"
  shows "bit (commanded_recording_mode (msgcb_ready_status_meta_rec E h chm ssd s)) n =
      (if msg_verified h \<and> version h = READY_STATUS_MSG_VERSION E
       then (chm \<and> bit (DO_RECORD_CHM_META E) n) \<or> (ssd \<and> bit (DO_RECORD_SSD_META E) n)
       else bit (commanded_recording_mode s) n) \<and>
    bit (commanded_recording_mode (msgcb_shutdown_meta_rec E h f s)) n =
      (bit (commanded_recording_mode s) n \<and>
       \<not> (msg_verified h \<and> version h = SHUTDOWN_MSG_VERSION E \<and>
          (((f = SHUTDOWN_CHM E \<or> f = SHUTDOWN_ALL E) \<and> bit (DO_RECORD_CHM_META E) n) \<or>
           ((f = SHUTDOWN_REMOVABLE_SSD E \<or> f = SHUTDOWN_ALL E) \<and>
             bit (DO_RECORD_SSD_META E) n))))"
  using assms
  by (auto simp: handler_defs ptci_data_lock_def Let_def bit_or_iff bit_and_iff bit_not_iff
      dest: bit_imp_le_length)

lemma drive_messages_set_mode_witness:
  "\<not> bit (commanded_recording_mode (msgcb_shutdown_meta_rec demo_env good_header 0 demo_ptc_state)) 0
   \<and> bit (commanded_recording_mode (msgcb_shutdown_meta_rec demo_env good_header 0 demo_ptc_state)) 1
   \<and> bit (commanded_recording_mode (msgcb_ready_status_meta_rec demo_env good_header False True demo_ptc_state)) 1"
proof -
  have h: "data_lock_rc demo_env = 0" "commanded_recording_mode demo_ptc_state \<noteq> - 1"
    "SHUTDOWN_CHM demo_env \<noteq> SHUTDOWN_REMOVABLE_SSD demo_env"
    "SHUTDOWN_CHM demo_env \<noteq> SHUTDOWN_ALL demo_env"
    "SHUTDOWN_REMOVABLE_SSD demo_env \<noteq> SHUTDOWN_ALL demo_env"
    by (simp_all add: demo_env_def demo_ptc_state_def)
  have m: "commanded_recording_mode demo_ptc_state = 3" "DO_RECORD_CHM_META demo_env = 1"
    "DO_RECORD_SSD_META demo_env = 2" "SHUTDOWN_CHM demo_env = 0"
    "SHUTDOWN_REMOVABLE_SSD demo_env = 1" "SHUTDOWN_ALL demo_env = 2"
    "msg_verified good_header = True" "version good_header = 1"
    "SHUTDOWN_MSG_VERSION demo_env = 1" "READY_STATUS_MSG_VERSION demo_env = 1"
    by (simp_all add: demo_env_def demo_ptc_state_def good_header_def)
  have b: "bit (3::u32) 1" "bit (1::u32) 0" "\<not> bit (1::u32) 1" "bit (2::u32) 1"
    by (simp_all add: bit_1_iff)
  show ?thesis
    using drive_messages_set_mode [OF h, of good_header False True 0 0]
      drive_messages_set_mode [OF h, of good_header False True 1 0]
    unfolding m using b by (simp del: bit_0 One_nat_def)
qed

text \<open>
  C9: the forward time change flag. After any sequence of accepted time messages (each with its
  clock reading, system time, offset and source), the flag is up exactly when it was up before or
  some message with offset 0 directly followed one with a negative offset (counting the last offset
  remembered from before); and the offset remembered is the last one.
\<close>

definition time_msgs :: "ptc_env \<Rightarrow> (clock \<times> int \<times> int \<times> string) list \<Rightarrow> (clock \<times> ptc_msg) list" where
  "time_msgs E tms = map (\<lambda>(now, t, off, src).
     (now, TIME_INFO \<lparr>msg_verified = True, version = TIME_INFO_MSG_VERSION E\<rparr> t off src)) tms"

fun forward_jump :: "int \<Rightarrow> int list \<Rightarrow> bool" where
  "forward_jump prev [] = False"
| "forward_jump prev (x # xs) = ((prev < 0 \<and> x = 0) \<or> forward_jump x xs)"

lemma time_msg_step:
  assumes "meta_msg_cb_list E now (TIME_INFO \<lparr>msg_verified = True, version = TIME_INFO_MSG_VERSION E\<rparr>
             t off src) s = Some s1" "src \<noteq> []"
  shows "previous_time_offset s1 = off \<and>
    forward_time_change_occurred s1 =
      (forward_time_change_occurred s \<or> previous_time_offset s < 0 \<and> off = 0)"
  using assms
  by (auto simp: handler_defs update_forward_time_change_status_def Let_def
      split: option.splits if_splits dest!: with_intf_frame)

theorem forward_time_change_detected:
  assumes "handle_msgs E (time_msgs E tms) s = Some s'"
    and "\<forall>(now, t, off, src) \<in> set tms. src \<noteq> []"
  shows "has_forward_time_change_occurred s' =
      (has_forward_time_change_occurred s \<or>
       forward_jump (previous_time_offset s) (map (\<lambda>(now, t, off, src). off) tms)) \<and>
    previous_time_offset s' = last (previous_time_offset s # map (\<lambda>(now, t, off, src). off) tms)"
  using assms
proof (induction tms arbitrary: s)
  case Nil
  then show ?case by (simp add: time_msgs_def)
next
  case (Cons x tms)
  obtain now t off src where x: "x = (now, t, off, src)" by (metis prod_cases4)
  from Cons.prems(1) x obtain s1 where
    s1: "meta_msg_cb_list E now (TIME_INFO \<lparr>msg_verified = True, version = TIME_INFO_MSG_VERSION E\<rparr>
           t off src) s = Some s1"
    and rest: "handle_msgs E (time_msgs E tms) s1 = Some s'"
    by (auto simp: time_msgs_def split: option.splits)
  from Cons.prems(2) x have "src \<noteq> []" by auto
  from time_msg_step [OF s1 this] Cons.IH [OF rest] Cons.prems(2) show ?case
    by (auto simp: x has_forward_time_change_occurred_def)
qed

lemma forward_time_change_detected_witness:
  "\<exists>s'. handle_msgs demo_env (time_msgs demo_env
      [(some_clock, 10, -5, ''GPS''), (some_clock, 20, 0, ''GPS'')]) demo_ptc_state = Some s' \<and>
    has_forward_time_change_occurred s'"
proof -
  let ?tms = "[(some_clock, 10, -5, ''GPS''), (some_clock, 20, 0, ''GPS'')]"
  have step: "\<exists>s'. with_intf (set_time_info L w now t off src) s = Some s' \<and>
      q_ready (metadata_queue (intf s')) \<and>
      q_count (metadata_queue (intf s')) = Suc (q_count (metadata_queue (intf s)))"
    if "q_ready (metadata_queue (intf s))" "q_count (metadata_queue (intf s)) < 10"
    for L w now t off src s
  proof -
    from that have "\<not> full (metadata_queue (intf s))"
      using q_count_full [of "metadata_queue (intf s)"]
      by (simp add: q_readyD METADATA_DESC_QUEUE_SIZE_def)
    with that show ?thesis
      by (simp add: with_intf_def set_time_info_def Let_def record_desc_room q_enq_ready
          q_count_enq q_readyD)
  qed
  have r0: "q_ready (metadata_queue (intf demo_ptc_state))"
    "q_count (metadata_queue (intf demo_ptc_state)) = 0"
    using start_state_ready length_q_items [of "metadata_queue start_state"]
    by (simp_all add: demo_ptc_state_def)
  obtain s1 where s1: "with_intf (set_time_info (layout demo_env) (queue_wait demo_env) some_clock 10 (-5) ''GPS'')
      demo_ptc_state = Some s1" and r1: "q_ready (metadata_queue (intf s1))"
      "q_count (metadata_queue (intf s1)) = 1"
    using step [OF r0(1), of "layout demo_env" "queue_wait demo_env" some_clock 10 "-5" "''GPS''"] r0(2)
    by auto
  let ?s1 = "s1\<lparr>previous_time_offset := -5\<rparr>"
  obtain s2 where s2: "with_intf (set_time_info (layout demo_env) (queue_wait demo_env) some_clock 20 0 ''GPS'')
      ?s1 = Some s2"
    using step [of ?s1 "layout demo_env" "queue_wait demo_env" some_clock 20 0 "''GPS''"] r1 by auto
  have "\<exists>s'. handle_msgs demo_env (time_msgs demo_env ?tms) demo_ptc_state = Some s'"
    using s1 s2 with_intf_frame [OF s1]
    by (simp add: time_msgs_def handler_defs demo_ptc_state_def)
  then obtain s' where "handle_msgs demo_env (time_msgs demo_env ?tms) demo_ptc_state = Some s'" ..
  with forward_time_change_detected [OF this] show ?thesis
    by (simp add: has_forward_time_change_occurred_def)
qed

text \<open>
  C10: a GPS message that passes the checks records its coordinates with the sign of the
  hemisphere: a positive latitude is negated exactly when its direction is South, a positive
  longitude exactly when it is West, and nothing is recorded when both coordinates and the speed
  are zero.
\<close>

theorem gps_message_recorded:
  assumes "q_ready (metadata_queue (intf s))" "\<not> full (metadata_queue (intf s))"
    and "msg_verified h" "version h = GPS_DATA_MSG_VERSION E"
    and lat: "lat = parse_gps_coordinate E la eGPSLatitude" "0 \<le> lat"
    and lon: "lon = parse_gps_coordinate E lo eGPSLongitude" "0 \<le> lon"
    and south: "south = (get_gps_direction E la \<in> {CHR ''s'', CHR ''S''})"
    and west: "west = (get_gps_direction E lo \<in> {CHR ''w'', CHR ''W''})"
  shows "\<exists>s'. meta_msg_cb_list E now (GPS_DATA h la lo sp) s = Some s' \<and>
    map pData (q_items (metadata_queue (intf s'))) =
      map pData (q_items (metadata_queue (intf s))) @
      (if lat = 0 \<and> lon = 0 \<and> parse_gps_speed E sp = 0 then []
       else [Some (GPS_data \<lparr>latitude_dd_m = (if south then - lat else lat),
               longitude_dd_m = (if west then - lon else lon),
               speed_mph_m = parse_gps_speed E sp\<rparr>)])"
  using assms
  by (auto simp: handler_defs Let_def with_intf_def set_gps_def record_desc_room q_items_enq
      q_readyD mk_desc_def)

lemma gps_message_recorded_witness:
  "\<exists>s'. meta_msg_cb_list demo_env some_clock (GPS_DATA good_header ''41S'' ''0E'' ''9'') demo_ptc_state
      = Some s' \<and>
    map pData (q_items (metadata_queue (intf s'))) =
      [Some (GPS_data \<lparr>latitude_dd_m = -41, longitude_dd_m = 0, speed_mph_m = 9\<rparr>)]"
proof -
  have v: "atoi ''41S'' = 41" "atoi ''0E'' = 0" "atoi ''9'' = 9"
    by code_simp+
  have r: "q_ready (metadata_queue (intf demo_ptc_state))" "\<not> full (metadata_queue (intf demo_ptc_state))"
    "q_items (metadata_queue (intf demo_ptc_state)) = []"
    using start_state_ready by (simp_all add: demo_ptc_state_def)
  show ?thesis
    using gps_message_recorded [OF r(1,2), of good_header demo_env 41 "''41S''" 0 "''0E''" True False
        some_clock "''9''"] r(3) v
    by (simp add: demo_env_def good_header_def)
qed

end
