(* ===== verification/C_File.thy ===== *)
theory C_File
  imports Prelude "HOL-Library.Monad_Syntax"
begin

text \<open>
  The part of \<open>stdio.h\<close> the sources use. A stream (\<open>cfile\<close>) is the bytes of its file and a
  position; a write past the end fills the gap with zero bytes, as POSIX says. The store (\<open>stdio\<close>)
  maps paths to files and stream numbers to open streams, so that renaming a file, truncating it,
  or using a stream after \<open>fclose\<close> means what it means in C: an operation on a stream that is not
  open is undefined behaviour and yields \<open>None\<close>. Which calls the system lets succeed is decided by
  the record \<open>io_env\<close>.
\<close>

section \<open>Streams\<close>

record cfile =
  fbytes :: "u8 list"
  fpos :: nat

text \<open>Reading and writing one item of \<open>n\<close> bytes; the count the C functions return is 1 or 0.\<close>

definition fseek_set :: "int \<Rightarrow> cfile \<Rightarrow> int \<times> cfile" where
  "fseek_set off f = (if 0 \<le> off then (0, f\<lparr>fpos := nat off\<rparr>) else (- 1, f))"

definition fread1 :: "nat \<Rightarrow> cfile \<Rightarrow> u8 list option \<times> cfile" where
  "fread1 n f =
     (if n = 0 then (None, f)
      else if fpos f + n \<le> length (fbytes f)
      then (Some (take n (drop (fpos f) (fbytes f))), f\<lparr>fpos := fpos f + n\<rparr>)
      else (None, f\<lparr>fpos := max (fpos f) (length (fbytes f))\<rparr>))"

definition zero_fill :: "nat \<Rightarrow> u8 list \<Rightarrow> u8 list" where
  "zero_fill n bs = bs @ replicate (n - length bs) 0"

definition fwrite_bytes :: "u8 list \<Rightarrow> cfile \<Rightarrow> cfile" where
  "fwrite_bytes bs f =
     (if bs = [] then f
      else f\<lparr>fbytes := splice (zero_fill (fpos f) (fbytes f)) (fpos f) bs,
             fpos := fpos f + length bs\<rparr>)"

lemma zero_fill_id [simp]: "n \<le> length bs \<Longrightarrow> zero_fill n bs = bs"
  by (simp add: zero_fill_def)

lemma fwrite_append [file_simps]:
  "fpos f = length (fbytes f) \<Longrightarrow>
   fwrite_bytes bs f = \<lparr>fbytes = fbytes f @ bs, fpos = length (fbytes f) + length bs, \<dots> = more f\<rparr>"
  by (simp add: fwrite_bytes_def)

lemma fwrite_inside [file_simps]:
  "bs \<noteq> [] \<Longrightarrow> fpos f \<le> length (fbytes f) \<Longrightarrow>
   fwrite_bytes bs f = f\<lparr>fbytes := splice (fbytes f) (fpos f) bs, fpos := fpos f + length bs\<rparr>"
  by (simp add: fwrite_bytes_def)

lemma fread1_inside [file_simps]:
  "0 < n \<Longrightarrow> fpos f + n \<le> length (fbytes f) \<Longrightarrow>
   fread1 n f = (Some (take n (drop (fpos f) (fbytes f))), f\<lparr>fpos := fpos f + n\<rparr>)"
  by (simp add: fread1_def)

lemma fread1_bytes [simp]: "fbytes (snd (fread1 n f)) = fbytes f"
  by (simp add: fread1_def)

lemma fseek_set_bytes [simp]: "fbytes (snd (fseek_set off f)) = fbytes f"
  by (simp add: fseek_set_def)

section \<open>The store\<close>

type_synonym fp = nat

record stdio =
  names :: "string \<rightharpoonup> nat"
  inode_bytes :: "nat \<Rightarrow> u8 list"
  next_inode :: nat
  streams :: "fp \<rightharpoonup> (nat \<times> nat)"
  next_fp :: fp
  dirs :: "string set"

record io_env =
  can_open :: "string \<Rightarrow> bool"
  can_write :: "nat \<Rightarrow> bool"
  can_close :: "fp \<Rightarrow> bool"
  can_rename :: "string \<Rightarrow> string \<Rightarrow> bool"
  can_remove :: "string \<Rightarrow> bool"

definition empty_store :: stdio where
  "empty_store = \<lparr>names = Map.empty, inode_bytes = (\<lambda>_. []), next_inode = 0,
     streams = Map.empty, next_fp = 0, dirs = {}\<rparr>"

text \<open>\<open>fopen\<close> with mode \<open>"w"\<close> or \<open>"w+b"\<close>: the file is truncated, or created.\<close>

definition fopen_w :: "io_env \<Rightarrow> string \<Rightarrow> stdio \<Rightarrow> fp option \<times> stdio" where
  "fopen_w io p s =
     (if \<not> can_open io p then (None, s)
      else
        (let h = next_fp s;
             (i, s1) = (case names s p of
                          Some i \<Rightarrow> (i, s)
                        | None \<Rightarrow> (next_inode s,
                                  s\<lparr>names := (names s)(p \<mapsto> next_inode s),
                                    next_inode := next_inode s + 1\<rparr>))
         in (Some h, s1\<lparr>inode_bytes := (inode_bytes s1)(i := []),
                        streams := (streams s1)(h \<mapsto> (i, 0)), next_fp := h + 1\<rparr>)))"

definition get_stream :: "fp \<Rightarrow> stdio \<Rightarrow> cfile option" where
  "get_stream h s =
     (case streams s h of
        Some (i, p) \<Rightarrow> Some \<lparr>fbytes = inode_bytes s i, fpos = p\<rparr>
      | None \<Rightarrow> None)"

definition put_stream :: "fp \<Rightarrow> cfile \<Rightarrow> stdio \<Rightarrow> stdio" where
  "put_stream h f s =
     (case streams s h of
        Some (i, _) \<Rightarrow> s\<lparr>inode_bytes := (inode_bytes s)(i := fbytes f),
                        streams := (streams s)(h \<mapsto> (i, fpos f))\<rparr>
      | None \<Rightarrow> s)"

text \<open>
  \<open>fwrite(bytes, \<dots>, 1, fp)\<close>: 1 when the bytes were written, 0 when the item is empty or the device
  refused it.
\<close>

definition fwrite1 :: "io_env \<Rightarrow> u8 list \<Rightarrow> fp \<Rightarrow> stdio \<Rightarrow> (nat \<times> stdio) option" where
  "fwrite1 io bs h s =
     (case streams s h of
        None \<Rightarrow> None
      | Some (i, p) \<Rightarrow>
          if bs = [] \<or> \<not> can_write io i then Some (0, s)
          else Some (1, put_stream h (fwrite_bytes bs \<lparr>fbytes = inode_bytes s i, fpos = p\<rparr>) s))"

definition fseek_fp :: "int \<Rightarrow> fp \<Rightarrow> stdio \<Rightarrow> (int \<times> stdio) option" where
  "fseek_fp off h s =
     (case get_stream h s of
        None \<Rightarrow> None
      | Some f \<Rightarrow> (let (rc, f1) = fseek_set off f in Some (rc, put_stream h f1 s)))"

definition ftell_fp :: "fp \<Rightarrow> stdio \<Rightarrow> nat option" where
  "ftell_fp h s = map_option fpos (get_stream h s)"

definition fclose :: "io_env \<Rightarrow> fp \<Rightarrow> stdio \<Rightarrow> (int \<times> stdio) option" where
  "fclose io h s =
     (if streams s h = None then None
      else Some (if can_close io h then 0 else - 1, s\<lparr>streams := (streams s)(h := None)\<rparr>))"

definition rename_file :: "io_env \<Rightarrow> string \<Rightarrow> string \<Rightarrow> stdio \<Rightarrow> int \<times> stdio" where
  "rename_file io old new s =
     (case names s old of
        Some i \<Rightarrow> if can_rename io old new
                 then (0, s\<lparr>names := (names s)(old := None, new \<mapsto> i)\<rparr>) else (- 1, s)
      | None \<Rightarrow> (- 1, s))"

definition remove_file :: "io_env \<Rightarrow> string \<Rightarrow> stdio \<Rightarrow> int \<times> stdio" where
  "remove_file io p s =
     (if names s p \<noteq> None \<and> can_remove io p then (0, s\<lparr>names := (names s)(p := None)\<rparr>) else (- 1, s))"

definition file_at :: "stdio \<Rightarrow> string \<Rightarrow> u8 list option" where
  "file_at s p = map_option (inode_bytes s) (names s p)"

section \<open>Well-formed stores\<close>

text \<open>Numbers not yet given out are unused, distinct names and open streams have distinct files.\<close>

definition store_ok :: "stdio \<Rightarrow> bool" where
  "store_ok s \<longleftrightarrow>
     (\<forall>h ip. streams s h = Some ip \<longrightarrow> h < next_fp s \<and> fst ip < next_inode s) \<and>
     (\<forall>n i. names s n = Some i \<longrightarrow> i < next_inode s) \<and>
     inj_on (names s) (dom (names s))"

lemma store_okI:
  assumes "\<And>h ip. streams s h = Some ip \<Longrightarrow> h < next_fp s \<and> fst ip < next_inode s"
    and "\<And>n i. names s n = Some i \<Longrightarrow> i < next_inode s" and "inj_on (names s) (dom (names s))"
  shows "store_ok s"
  using assms unfolding store_ok_def by blast

lemma store_ok_stream: "store_ok s \<Longrightarrow> streams s h = Some ip \<Longrightarrow> h < next_fp s \<and> fst ip < next_inode s"
  unfolding store_ok_def by blast

lemma store_ok_name: "store_ok s \<Longrightarrow> names s n = Some i \<Longrightarrow> i < next_inode s"
  unfolding store_ok_def by blast

lemma store_ok_inj: "store_ok s \<Longrightarrow> inj_on (names s) (dom (names s))"
  unfolding store_ok_def by blast

lemma store_ok_empty [simp]: "store_ok empty_store"
  by (simp add: store_ok_def empty_store_def)

lemma inj_on_dom_upd:
  assumes "inj_on m (dom m)" "v \<notin> ran m"
  shows "inj_on (m(k \<mapsto> v)) (dom (m(k \<mapsto> v)))"
  using assms by (auto simp: inj_on_def ran_def dom_def)

lemma inj_on_dom_del: "inj_on m (dom m) \<Longrightarrow> inj_on (m(k := None)) (dom (m(k := None)))"
  by (auto simp: inj_on_def)

lemma store_ok_truncate:
  assumes "store_ok s" "i < next_inode s"
  shows "store_ok (s\<lparr>inode_bytes := b, streams := (streams s)(next_fp s \<mapsto> (i, 0)), next_fp := next_fp s + 1\<rparr>)"
  using assms store_ok_stream [OF assms(1)] store_ok_name [OF assms(1)] store_ok_inj [OF assms(1)]
  by (intro store_okI) (auto split: if_splits simp: less_SucI)

lemma store_ok_create:
  assumes "store_ok s" "names s p = None"
  shows "store_ok (s\<lparr>names := (names s)(p \<mapsto> next_inode s), next_inode := next_inode s + 1\<rparr>)"
proof (rule store_okI, goal_cases)
  case 1
  then show ?case using store_ok_stream [OF assms(1)] by (simp add: less_SucI)
next
  case 2
  then show ?case using store_ok_name [OF assms(1)] by (auto simp: less_SucI split: if_splits)
next
  case 3
  have "next_inode s \<notin> ran (names s)"
    using store_ok_name [OF assms(1)] by (auto simp: ran_def)
  from inj_on_dom_upd [OF store_ok_inj [OF assms(1)] this] show ?case by simp
qed

lemma store_ok_fopen: "store_ok s \<Longrightarrow> fopen_w io p s = (r, s') \<Longrightarrow> store_ok s'"
proof (cases "names s p")
  case None
  assume "store_ok s" "fopen_w io p s = (r, s')"
  with None store_ok_truncate [OF store_ok_create [OF \<open>store_ok s\<close> None], of "next_inode s"]
  show "store_ok s'" by (auto simp: fopen_w_def Let_def split: if_splits)
next
  case (Some i)
  assume "store_ok s" "fopen_w io p s = (r, s')"
  with Some store_ok_truncate [OF \<open>store_ok s\<close> store_ok_name [OF \<open>store_ok s\<close> Some]]
  show "store_ok s'" by (auto simp: fopen_w_def Let_def split: if_splits)
qed

lemma store_ok_put [simp]: "store_ok s \<Longrightarrow> store_ok (put_stream h f s)"
  using store_ok_stream [of s] store_ok_name [of s] store_ok_inj [of s]
  by (intro store_okI) (auto simp: put_stream_def split: option.splits if_splits)

lemma store_ok_fclose: "store_ok s \<Longrightarrow> fclose io h s = Some (r, s') \<Longrightarrow> store_ok s'"
  using store_ok_stream [of s] store_ok_name [of s] store_ok_inj [of s]
  by (intro store_okI) (auto simp: fclose_def split: if_splits)

lemma store_ok_remove: "store_ok s \<Longrightarrow> remove_file io p s = (r, s') \<Longrightarrow> store_ok s'"
proof (cases "names s p \<noteq> None \<and> can_remove io p")
  case True
  assume ok: "store_ok s" and r: "remove_file io p s = (r, s')"
  have "store_ok (s\<lparr>names := (names s)(p := None)\<rparr>)"
  proof (rule store_okI, goal_cases)
    case 3
    then show ?case using inj_on_dom_del [OF store_ok_inj [OF ok], of p] by simp
  qed (use store_ok_stream [OF ok] store_ok_name [OF ok] in \<open>auto split: if_splits\<close>)
  with True r show "store_ok s'" by (auto simp: remove_file_def)
qed (auto simp: remove_file_def split: if_splits)

lemma store_ok_rename: "store_ok s \<Longrightarrow> rename_file io a b s = (r, s') \<Longrightarrow> store_ok s'"
proof (cases "names s a \<noteq> None \<and> can_rename io a b")
  case True
  assume ok: "store_ok s" and r: "rename_file io a b s = (r, s')"
  from True obtain i where i: "names s a = Some i" by auto
  have nr: "i \<notin> ran ((names s)(a := None))"
    using inj_onD [OF store_ok_inj [OF ok]] i by (force simp: ran_def dom_def split: if_splits)
  have "store_ok (s\<lparr>names := (names s)(a := None, b \<mapsto> i)\<rparr>)"
  proof (rule store_okI, goal_cases)
    case 3
    then show ?case using inj_on_dom_upd [OF inj_on_dom_del [OF store_ok_inj [OF ok]] nr, of b] by simp
  qed (use store_ok_stream [OF ok] store_ok_name [OF ok] i in \<open>auto split: if_splits\<close>)
  with True i r show "store_ok s'" by (auto simp: rename_file_def)
qed (auto simp: rename_file_def split: option.splits if_splits)

section \<open>What the operations leave alone\<close>

lemma get_put_stream [simp]:
  "streams s h \<noteq> None \<Longrightarrow> get_stream h (put_stream h f s) = Some \<lparr>fbytes = fbytes f, fpos = fpos f\<rparr>"
  by (auto simp: get_stream_def put_stream_def split: option.splits)

lemma streams_put_dom [simp]: "dom (streams (put_stream h f s)) = dom (streams s)"
  by (auto simp: put_stream_def split: option.splits)

lemma put_stream_names [simp]: "names (put_stream h f s) = names s"
  by (auto simp: put_stream_def split: option.splits)

lemma put_stream_other [simp]:
  "h \<noteq> h' \<Longrightarrow> streams (put_stream h f s) h' = streams s h'"
  by (auto simp: put_stream_def split: option.splits)


section \<open>Streams on different files\<close>

text \<open>Two open streams on different files do not see each other's writes.\<close>

definition apart :: "stdio \<Rightarrow> fp \<Rightarrow> fp \<Rightarrow> bool" where
  "apart st h h' \<longleftrightarrow>
     (case (streams st h, streams st h') of
        (Some (i, _), Some (i', _)) \<Rightarrow> i \<noteq> i'
      | _ \<Rightarrow> True)"

lemma apart_sym: "apart st h h' \<longleftrightarrow> apart st h' h"
  unfolding apart_def by (auto split: option.splits)

definition inode_of :: "stdio \<Rightarrow> fp \<Rightarrow> nat option" where
  "inode_of st h = map_option fst (streams st h)"

lemma inode_of_put [simp]: "inode_of (put_stream h f st) h' = inode_of st h'"
  by (auto simp: inode_of_def put_stream_def split: option.splits)

lemma apart_inode: "apart st h h' \<longleftrightarrow> inode_of st h = None \<or> inode_of st h' = None \<or> inode_of st h \<noteq> inode_of st h'"
  unfolding apart_def inode_of_def by (auto split: option.splits)

lemma apart_put [simp]: "apart (put_stream h f st) a b = apart st a b"
  by (simp add: apart_inode)

lemma get_stream_put_apart [simp]:
  "h \<noteq> h' \<Longrightarrow> apart st h h' \<Longrightarrow> get_stream h' (put_stream h f st) = get_stream h' st"
  by (auto simp: get_stream_def put_stream_def apart_def split: option.splits prod.splits)

lemma get_stream_Some: "get_stream h st = Some f \<longleftrightarrow>
    (\<exists>i p. streams st h = Some (i, p) \<and> f = \<lparr>fbytes = inode_bytes st i, fpos = p\<rparr>)"
  by (auto simp: get_stream_def split: option.splits)

lemma get_stream_put_eq:
  "get_stream h st = Some g \<Longrightarrow> get_stream h (put_stream h f st) = Some \<lparr>fbytes = fbytes f, fpos = fpos f\<rparr>"
  by (auto simp: get_stream_Some put_stream_def)

lemma fwrite1_open:
  assumes "get_stream h st = Some f" "bs \<noteq> []" "\<forall>i. can_write io i"
  shows "fwrite1 io bs h st = Some (1, put_stream h (fwrite_bytes bs f) st)"
  using assms by (auto simp: fwrite1_def get_stream_Some)

lemma fseek_open:
  assumes "get_stream h st = Some f" "0 \<le> off"
  shows "fseek_fp off h st = Some (0, put_stream h (f\<lparr>fpos := nat off\<rparr>) st)"
  using assms by (simp add: fseek_fp_def fseek_set_def)

lemma put_stream_fields [simp]:
  "next_fp (put_stream h f st) = next_fp st" "dirs (put_stream h f st) = dirs st"
  "next_inode (put_stream h f st) = next_inode st"
  by (auto simp: put_stream_def split: option.splits)

lemma fclose_open: "inode_of st h = Some i \<Longrightarrow>
    fclose io h st = Some (if can_close io h then 0 else - 1, st\<lparr>streams := (streams st)(h := None)\<rparr>)"
  by (auto simp: fclose_def inode_of_def)

lemma get_stream_closed [simp]:
  "get_stream h' (st\<lparr>streams := (streams st)(h := None)\<rparr>) = (if h' = h then None else get_stream h' st)"
  by (simp add: get_stream_def split: option.splits)

lemma inode_of_closed [simp]:
  "inode_of (st\<lparr>streams := (streams st)(h := None)\<rparr>) h' = (if h' = h then None else inode_of st h')"
  by (simp add: inode_of_def)

lemma get_stream_inode: "get_stream h st = Some f \<Longrightarrow> \<exists>i. inode_of st h = Some i \<and> inode_bytes st i = fbytes f"
  by (auto simp: get_stream_Some inode_of_def)

lemma get_stream_names [simp]: "get_stream h (st\<lparr>names := n\<rparr>) = get_stream h st"
  by (simp add: get_stream_def split: option.splits)

lemma get_stream_dirs [simp]: "get_stream h (st\<lparr>dirs := n\<rparr>) = get_stream h st"
  by (simp add: get_stream_def split: option.splits)

lemma inode_of_fields [simp]: "inode_of (st\<lparr>names := n\<rparr>) h = inode_of st h"
  "inode_of (st\<lparr>dirs := d\<rparr>) h = inode_of st h"
  by (simp_all add: inode_of_def)

text \<open>What \<open>fopen\<close> gives: a fresh stream at the start of an empty file, the other files unchanged.\<close>

lemma fopen_w_ok:
  assumes "store_ok st" "can_open io p"
  obtains st' i where "fopen_w io p st = (Some (next_fp st), st')"
    "get_stream (next_fp st) st' = Some \<lparr>fbytes = [], fpos = 0\<rparr>"
    "names st' = (names st)(p \<mapsto> i)" "inode_of st' (next_fp st) = Some i"
    "\<forall>h. h \<noteq> next_fp st \<longrightarrow> streams st' h = streams st h"
    "\<forall>j. j \<noteq> i \<longrightarrow> inode_bytes st' j = inode_bytes st j"
    "next_fp st' = next_fp st + 1" "dirs st' = dirs st"
    "case names st p of Some j \<Rightarrow> i = j | None \<Rightarrow> i = next_inode st"
proof (cases "names st p")
  case None
  with assms that [of _ "next_inode st"] show ?thesis
    by (simp add: fopen_w_def Let_def get_stream_def inode_of_def)
next
  case (Some i)
  then have "names st = (names st)(p \<mapsto> i)" by (simp add: fun_upd_idem)
  with Some assms that [of _ i] show ?thesis
    by (simp add: fopen_w_def Let_def get_stream_def inode_of_def)
qed


section \<open>Files under a path\<close>

text \<open>A stream that is open on the file a path names, and a change that leaves all other paths alone.\<close>

definition holds :: "stdio \<Rightarrow> string \<Rightarrow> fp \<Rightarrow> cfile \<Rightarrow> bool" where
  "holds st p h f \<longleftrightarrow> inode_of st h \<noteq> None \<and> names st p = inode_of st h \<and> get_stream h st = Some f"

definition keeps :: "string set \<Rightarrow> stdio \<Rightarrow> stdio \<Rightarrow> bool" where
  "keeps X st st' \<longleftrightarrow> store_ok st' \<and>
     (\<forall>q. q \<notin> X \<longrightarrow> (\<forall>h f. holds st q h f \<longrightarrow> holds st' q h f) \<and>
                  (\<forall>bs. file_at st q = Some bs \<longrightarrow> file_at st' q = Some bs))"

lemma keepsI:
  assumes "store_ok st'" "\<And>q h f. q \<notin> X \<Longrightarrow> holds st q h f \<Longrightarrow> holds st' q h f"
    and "\<And>q bs. q \<notin> X \<Longrightarrow> file_at st q = Some bs \<Longrightarrow> file_at st' q = Some bs"
  shows "keeps X st st'"
  using assms unfolding keeps_def by blast

lemma keepsD:
  assumes "keeps X st st'"
  shows "store_ok st'" "q \<notin> X \<Longrightarrow> holds st q h f \<Longrightarrow> holds st' q h f"
    "q \<notin> X \<Longrightarrow> file_at st q = Some bs \<Longrightarrow> file_at st' q = Some bs"
  using assms unfolding keeps_def by blast+

lemma keeps_refl: "store_ok st \<Longrightarrow> keeps X st st"
  by (rule keepsI)

lemma keeps_trans: "keeps X a b \<Longrightarrow> keeps Y b c \<Longrightarrow> keeps (X \<union> Y) a c"
  unfolding keeps_def by blast

lemma keeps_mono: "keeps X a b \<Longrightarrow> X \<subseteq> Y \<Longrightarrow> keeps Y a b"
  unfolding keeps_def by blast

lemma same_inode:
  "store_ok st \<Longrightarrow> names st p = Some i \<Longrightarrow> names st q = Some i \<Longrightarrow> p = q"
  using inj_onD [OF store_ok_inj, of st p q] by auto

lemma holds_inode: "holds st p h f \<Longrightarrow> \<exists>i. names st p = Some i \<and> inode_of st h = Some i"
  by (auto simp: holds_def)

lemma holds_handles:
  assumes "store_ok st" "holds st p h f" "holds st q h' f'" "p \<noteq> q"
  shows "h \<noteq> h'" "apart st h h'"
  using assms same_inode [OF assms(1), of p _ q] by (auto simp: holds_def apart_inode)

lemma holds_file: "holds st p h f \<Longrightarrow> file_at st p = Some (fbytes f)"
  by (auto simp: holds_def file_at_def dest: get_stream_inode)

lemma holds_put: "holds st p h g \<Longrightarrow> holds (put_stream h f st) p h \<lparr>fbytes = fbytes f, fpos = fpos f\<rparr>"
  by (auto simp: holds_def intro: get_stream_put_eq)

lemma inode_bytes_put:
  "inode_of st h \<noteq> Some i \<Longrightarrow> inode_bytes (put_stream h f st) i = inode_bytes st i"
  by (auto simp: put_stream_def inode_of_def split: option.splits)

lemma keeps_put:
  assumes ok: "store_ok st" and p: "holds st p h g"
  shows "keeps {p} st (put_stream h f st)"
proof (rule keepsI)
  fix q h' f' assume q: "q \<notin> {p}" "holds st q h' f'"
  then have "h \<noteq> h'" "apart st h h'" using holds_handles [OF ok p, of q h'] by auto
  with q show "holds (put_stream h f st) q h' f'" by (simp add: holds_def)
next
  fix q bs assume q: "q \<notin> {p}" "file_at st q = Some bs"
  then obtain i where i: "names st q = Some i" "inode_bytes st i = bs" by (auto simp: file_at_def)
  have "inode_of st h \<noteq> Some i" using same_inode [OF ok _ i(1), of p] p q by (auto simp: holds_def)
  with i show "file_at (put_stream h f st) q = Some bs" by (simp add: file_at_def inode_bytes_put)
qed (use ok in simp)

lemma fopen_w_keeps:
  assumes ok: "store_ok st" and io: "can_open io p"
  obtains st' where "fopen_w io p st = (Some (next_fp st), st')" "keeps {p} st st'"
    "holds st' p (next_fp st) \<lparr>fbytes = [], fpos = 0\<rparr>" "dirs st' = dirs st"
proof -
  obtain st' i where f: "fopen_w io p st = (Some (next_fp st), st')"
    and g: "get_stream (next_fp st) st' = Some \<lparr>fbytes = [], fpos = 0\<rparr>"
    and n: "names st' = (names st)(p \<mapsto> i)" and io: "inode_of st' (next_fp st) = Some i"
    and str: "\<forall>h. h \<noteq> next_fp st \<longrightarrow> streams st' h = streams st h"
    and ib: "\<forall>j. j \<noteq> i \<longrightarrow> inode_bytes st' j = inode_bytes st j"
    and d: "dirs st' = dirs st"
    and c: "case names st p of Some j \<Rightarrow> i = j | None \<Rightarrow> i = next_inode st"
    by (rule fopen_w_ok [OF assms])
  have other: "j \<noteq> i" if "q \<noteq> p" "names st q = Some j" for q j
    using that c same_inode [OF ok, of q j p] store_ok_name [OF ok, of q j] by (cases "names st p") auto
  have "keeps {p} st st'"
  proof (rule keepsI)
    show "store_ok st'" by (rule store_ok_fopen [OF ok f])
  next
    fix q h g assume q: "q \<notin> {p}" "holds st q h g"
    then obtain j pp where j: "names st q = Some j" "streams st h = Some (j, pp)"
      by (auto simp: holds_def inode_of_def)
    have "h \<noteq> next_fp st" using store_ok_stream [OF ok j(2)] by simp
    with q j str ib other [of q j] n show "holds st' q h g"
      by (simp add: holds_def inode_of_def get_stream_def)
  next
    fix q bs assume q: "q \<notin> {p}" "file_at st q = Some bs"
    with ib other [of q] n show "file_at st' q = Some bs" by (auto simp: file_at_def)
  qed
  with f g n io d that show thesis by (simp add: holds_def)
qed

lemma fclose_keeps:
  assumes ok: "store_ok st" and p: "holds st p h g"
  obtains rc st' where "fclose io h st = Some (rc, st')" "keeps {p} st st'"
    "file_at st' p = Some (fbytes g)" "names st' = names st" "dirs st' = dirs st"
proof -
  obtain i where i: "inode_of st h = Some i" using p by (auto simp: holds_def)
  let ?st' = "st\<lparr>streams := (streams st)(h := None)\<rparr>"
  have f: "fclose io h st = Some (if can_close io h then 0 else - 1, ?st')" by (rule fclose_open [OF i])
  have fa: "file_at ?st' q = file_at st q" for q by (simp add: file_at_def cong: option.map_cong)
  have "keeps {p} st ?st'"
  proof (rule keepsI)
    show "store_ok ?st'" by (rule store_ok_fclose [OF ok f])
  next
    fix q h' f' assume q: "q \<notin> {p}" "holds st q h' f'"
    then have "h \<noteq> h'" using holds_handles [OF ok p, of q h'] by auto
    with q show "holds ?st' q h' f'" by (simp add: holds_def)
  qed (simp add: fa)
  with f fa holds_file [OF p] that show thesis by simp
qed

lemma rename_keeps:
  assumes ok: "store_ok st" and r: "rename_file io old new st = (rc, st')"
  shows "keeps {old, new} st st'" "dirs st' = dirs st"
proof -
  show "keeps {old, new} st st'"
  proof (rule keepsI)
    show "store_ok st'" by (rule store_ok_rename [OF ok r])
  qed (use r in \<open>auto simp: rename_file_def holds_def file_at_def split: option.splits if_splits\<close>)
  show "dirs st' = dirs st" using r by (auto simp: rename_file_def split: option.splits if_splits)
qed

lemma rename_moves:
  assumes "file_at st old = Some bs" "can_rename io old new"
  shows "\<exists>st'. rename_file io old new st = (0, st') \<and> file_at st' new = Some bs"
  using assms by (auto simp: rename_file_def file_at_def)

lemma remove_keeps:
  assumes ok: "store_ok st" and r: "remove_file io p st = (rc, st')"
  shows "keeps {p} st st'" "dirs st' = dirs st"
proof -
  show "keeps {p} st st'"
  proof (rule keepsI)
    show "store_ok st'" by (rule store_ok_remove [OF ok r])
  qed (use r in \<open>auto simp: remove_file_def holds_def file_at_def split: option.splits if_splits\<close>)
  show "dirs st' = dirs st" using r by (auto simp: remove_file_def split: option.splits if_splits)
qed

lemma keeps_dirs: "store_ok st \<Longrightarrow> keeps X st (st\<lparr>dirs := d\<rparr>)"
  by (rule keepsI) (auto simp: holds_def file_at_def store_ok_def)

end
