(* ===== verification/C_Time.thy ===== *)
theory C_Time
  imports C_String
begin

text \<open>
  The C library's calendar functions, in the time zone the programs run in (\<open>GMT+0\<close>, which they set
  with \<open>setenv\<close> before they convert): \<open>struct tm\<close>, \<open>mktime\<close> with its normalisation of out-of-range
  fields, \<open>gmtime_r\<close> (which \<open>localtime\<close> equals in this zone) and the format \<open>%Y%m%dT%H%M%S\<close> of
  \<open>strftime\<close> and \<open>strptime\<close>. Days are counted in the proleptic Gregorian calendar from 1970-01-01.
\<close>

section \<open>Broken-down time\<close>

record tm =
  tm_year :: int
  tm_mon :: int
  tm_mday :: int
  tm_hour :: int
  tm_min :: int
  tm_sec :: int

definition leap :: "int \<Rightarrow> bool" where
  "leap y \<longleftrightarrow> y mod 4 = 0 \<and> (y mod 100 \<noteq> 0 \<or> y mod 400 = 0)"

definition year_len :: "int \<Rightarrow> int" where
  "year_len y = (if leap y then 366 else 365)"

definition leaps_to :: "int \<Rightarrow> int" where
  "leaps_to y = y div 4 - y div 100 + y div 400"

text \<open>Days from 1970-01-01 to the first of January of a year.\<close>

definition days_to_year :: "int \<Rightarrow> int" where
  "days_to_year y = 365 * (y - 1970) + leaps_to (y - 1) - leaps_to 1969"

definition month_len :: "int \<Rightarrow> int \<Rightarrow> int" where
  "month_len y m =
     (if m = 1 then (if leap y then 29 else 28)
      else if m \<in> {3, 5, 8, 10} then 30 else 31)"

text \<open>Days from the first of January to the first of a month (0 is January).\<close>

definition days_to_month :: "int \<Rightarrow> int \<Rightarrow> int" where
  "days_to_month y m =
     (let l = (if leap y then 1 else 0)
      in if m \<le> 0 then 0 else if m = 1 then 31 else if m = 2 then 59 + l
      else if m = 3 then 90 + l else if m = 4 then 120 + l else if m = 5 then 151 + l
      else if m = 6 then 181 + l else if m = 7 then 212 + l else if m = 8 then 243 + l
      else if m = 9 then 273 + l else if m = 10 then 304 + l else 334 + l)"

definition mktime :: "tm \<Rightarrow> int" where
  "mktime t =
     (let y = tm_year t + 1900 + tm_mon t div 12;
          m = tm_mon t mod 12
      in (((days_to_year y + days_to_month y m + tm_mday t - 1) * 24 + tm_hour t) * 60
           + tm_min t) * 60 + tm_sec t)"

text \<open>How the day counts of two successive years differ.\<close>

lemma div_pred_split:
  fixes k q r :: int
  assumes "0 < k" "0 \<le> r" "r < k"
  shows "(k * q + r - 1) div k = (if r = 0 then q - 1 else q)"
proof (cases "r = 0")
  case True
  have "k * q + r - 1 = k * (q - 1) + (k - 1)"
    using True by (simp add: algebra_simps)
  then have "(k * q + r - 1) div k = q - 1"
    using assms(1) by (intro int_div_pos_eq [where r = "k - 1"]) simp_all
  with True show ?thesis by simp
next
  case False
  have "k * q + r - 1 = k * q + (r - 1)" by simp
  then have "(k * q + r - 1) div k = q"
    using assms False by (intro int_div_pos_eq [where r = "r - 1"]) simp_all
  with False show ?thesis by simp
qed

lemma div_pred:
  fixes y k :: int
  assumes "0 < k"
  shows "y div k = (y - 1) div k + (if y mod k = 0 then 1 else 0)"
  using div_pred_split [of k "y mod k" "y div k"] assms by simp

lemma leap_count:
  fixes a b c :: int
  assumes "a = a' + (if P4 then 1 else 0)" "b = b' + (if P100 then 1 else 0)"
    "c = c' + (if P400 then 1 else 0)" "P400 \<Longrightarrow> P100" "P100 \<Longrightarrow> P4"
  shows "a - b + c = a' - b' + c' + (if P4 \<and> (\<not> P100 \<or> P400) then 1 else 0)"
  using assms by auto

lemma leaps_to_step: "leaps_to y = leaps_to (y - 1) + (if leap y then 1 else 0)"
proof -
  have "(100::int) dvd 400" "(4::int) dvd 100" by simp_all
  then have c: "y mod 400 mod 100 = y mod 100" "y mod 100 mod 4 = y mod 4"
    by (simp_all only: mod_mod_cancel)
  have m: "y mod 400 = 0 \<Longrightarrow> y mod 100 = 0"
    using c(1) by (metis mod_0)
  have m': "y mod 100 = 0 \<Longrightarrow> y mod 4 = 0"
    using c(2) by (metis mod_0)
  show ?thesis
    unfolding leaps_to_def leap_def
    by (rule leap_count [OF div_pred div_pred div_pred]) (use m m' in simp_all)
qed

lemma days_to_year_step: "days_to_year (y + 1) = days_to_year y + year_len y"
  using leaps_to_step [of y] by (simp add: days_to_year_def year_len_def)

lemma year_len_bounds: "365 \<le> year_len y" "year_len y \<le> 366"
  by (simp_all add: year_len_def)

lemma days_to_year_after: "days_to_year (1970 + int k) \<le> 366 * int k"
proof (induction k)
  case 0
  then show ?case by (simp add: days_to_year_def)
next
  case (Suc k)
  have "days_to_year (1970 + int (Suc k)) = days_to_year (1970 + int k) + year_len (1970 + int k)"
    using days_to_year_step [of "1970 + int k"] by (simp add: algebra_simps)
  with Suc year_len_bounds(2) [of "1970 + int k"] show ?case by simp
qed

lemma days_to_year_before: "days_to_year (1970 - int k) \<le> - 365 * int k"
proof (induction k)
  case 0
  then show ?case by (simp add: days_to_year_def)
next
  case (Suc k)
  have "days_to_year (1970 - int k) = days_to_year (1970 - int (Suc k)) + year_len (1970 - int (Suc k))"
    using days_to_year_step [of "1970 - int (Suc k)"] by (simp add: algebra_simps)
  with Suc year_len_bounds(1) [of "1970 - int (Suc k)"] show ?case by simp
qed

section \<open>From a day to its year and month\<close>

function year_from :: "int \<Rightarrow> int \<Rightarrow> int" where
  "year_from d y = (if days_to_year (y + 1) \<le> d then year_from d (y + 1) else y)"
  by pat_completeness auto
termination
proof (relation "measure (\<lambda>(d, y). nat (d - days_to_year y))")
  fix d y
  assume "days_to_year (y + 1) \<le> d"
  then show "((d, y + 1), (d, y)) \<in> measure (\<lambda>(d, y). nat (d - days_to_year y))"
    using days_to_year_step [of y] year_len_bounds(1) [of y] by simp
qed simp

declare year_from.simps [simp del]

definition year_of :: "int \<Rightarrow> int" where
  "year_of d = year_from d (1970 + (if 0 \<le> d then d div 366 else d div 365))"

lemma year_from_spec:
  "days_to_year y \<le> d \<Longrightarrow>
     days_to_year (year_from d y) \<le> d \<and> d < days_to_year (year_from d y + 1)"
proof (induction d y rule: year_from.induct)
  case (1 d y)
  then show ?case
    by (cases "days_to_year (y + 1) \<le> d") (simp_all add: year_from.simps [of d y])
qed

lemma year_of_spec: "days_to_year (year_of d) \<le> d \<and> d < days_to_year (year_of d + 1)"
proof -
  have "days_to_year (1970 + (if 0 \<le> d then d div 366 else d div 365)) \<le> d"
  proof (cases "0 \<le> d")
    case True
    have "days_to_year (1970 + int (nat (d div 366))) \<le> 366 * int (nat (d div 366))"
      by (rule days_to_year_after)
    moreover have "366 * (d div 366) \<le> d" by simp
    moreover have "0 \<le> d div 366" using True by simp
    ultimately show ?thesis using True by simp
  next
    case False
    have "days_to_year (1970 - int (nat (- (d div 365)))) \<le> - 365 * int (nat (- (d div 365)))"
      by (rule days_to_year_before)
    moreover have "d div 365 < 0" using False by simp
    moreover have "365 * (d div 365) \<le> d" by simp
    ultimately show ?thesis using False by simp
  qed
  then show ?thesis unfolding year_of_def by (rule year_from_spec)
qed

lemma days_to_year_mono: "a \<le> b \<Longrightarrow> days_to_year a \<le> days_to_year b"
proof (induction b rule: int_ge_induct)
  case base
  then show ?case by simp
next
  case (step i)
  then show ?case using days_to_year_step [of i] year_len_bounds(1) [of i] by simp
qed

lemma year_of_unique:
  assumes "days_to_year y \<le> d" "d < days_to_year (y + 1)"
  shows "year_of d = y"
proof (rule ccontr)
  assume "year_of d \<noteq> y"
  then consider "year_of d + 1 \<le> y" | "y + 1 \<le> year_of d" by linarith
  then show False
  proof cases
    case 1
    from days_to_year_mono [OF this] assms year_of_spec [of d] show False by linarith
  next
    case 2
    from days_to_year_mono [OF this] assms year_of_spec [of d] show False by linarith
  qed
qed

definition month_of :: "int \<Rightarrow> int \<Rightarrow> int" where
  "month_of y doy =
     (if doy < days_to_month y 1 then 0 else if doy < days_to_month y 2 then 1
      else if doy < days_to_month y 3 then 2 else if doy < days_to_month y 4 then 3
      else if doy < days_to_month y 5 then 4 else if doy < days_to_month y 6 then 5
      else if doy < days_to_month y 7 then 6 else if doy < days_to_month y 8 then 7
      else if doy < days_to_month y 9 then 8 else if doy < days_to_month y 10 then 9
      else if doy < days_to_month y 11 then 10 else 11)"

lemma month_of_range: "0 \<le> month_of y doy \<and> month_of y doy \<le> 11"
  by (simp add: month_of_def)

lemma month_cases:
  assumes "0 \<le> m" "m \<le> (11::int)"
  shows "m \<in> {0, 1, 2, 3, 4, 5, 6, 7, 8, 9, 10, 11}"
  using assms unfolding insert_iff empty_iff by presburger

lemma month_of_day:
  assumes "0 \<le> m" "m \<le> 11" "0 \<le> k" "k < month_len y m"
  shows "month_of y (days_to_month y m + k) = m"
proof (cases "leap y")
  case True
  from month_cases [OF assms(1,2)] show ?thesis
    using assms(3,4) True
    by (elim insertE emptyE) (simp_all add: month_of_def days_to_month_def month_len_def Let_def)
next
  case False
  from month_cases [OF assms(1,2)] show ?thesis
    using assms(3,4) False
    by (elim insertE emptyE) (simp_all add: month_of_def days_to_month_def month_len_def Let_def)
qed

lemma month_end:
  assumes "0 \<le> m" "m \<le> 11"
  shows "days_to_month y m + month_len y m \<le> year_len y" "0 \<le> days_to_month y m"
  using month_cases [OF assms]
  by (elim insertE emptyE; simp add: days_to_month_def month_len_def year_len_def Let_def)+

lemma month_of_spec:
  assumes "0 \<le> doy" "doy < year_len y"
  shows "days_to_month y (month_of y doy) \<le> doy \<and>
    doy < days_to_month y (month_of y doy) + month_len y (month_of y doy)"
proof (cases "leap y")
  case True
  with assms show ?thesis
    by (simp add: month_of_def days_to_month_def month_len_def year_len_def Let_def)
next
  case False
  with assms show ?thesis
    by (simp add: month_of_def days_to_month_def month_len_def year_len_def Let_def)
qed

section \<open>Conversions\<close>

definition gmtime_r :: "int \<Rightarrow> tm" where
  "gmtime_r t =
     (let d = t div 86400; s = t mod 86400;
          y = year_of d; doy = d - days_to_year y; m = month_of y doy
      in \<lparr>tm_year = y - 1900, tm_mon = m, tm_mday = doy - days_to_month y m + 1,
          tm_hour = s div 3600, tm_min = s mod 3600 div 60, tm_sec = s mod 60\<rparr>)"

definition valid_tm :: "tm \<Rightarrow> bool" where
  "valid_tm t \<longleftrightarrow> 0 \<le> tm_mon t \<and> tm_mon t \<le> 11 \<and>
     1 \<le> tm_mday t \<and> tm_mday t \<le> month_len (tm_year t + 1900) (tm_mon t) \<and>
     0 \<le> tm_hour t \<and> tm_hour t \<le> 23 \<and> 0 \<le> tm_min t \<and> tm_min t \<le> 59 \<and>
     0 \<le> tm_sec t \<and> tm_sec t \<le> 59"

lemma gmtime_valid: "valid_tm (gmtime_r t)"
proof -
  let ?d = "t div 86400" and ?s = "t mod 86400"
  let ?y = "year_of ?d"
  let ?doy = "?d - days_to_year ?y"
  have doy: "0 \<le> ?doy" "?doy < year_len ?y"
    using year_of_spec [of ?d] days_to_year_step [of ?y] by simp_all
  have s: "0 \<le> ?s" "?s < 86400" by simp_all
  have "?s div 3600 \<le> 86399 div 3600" by (rule zdiv_mono1) (use s in simp_all)
  then have "?s div 3600 \<le> 23" by simp
  moreover have "0 \<le> ?s mod 3600" "?s mod 3600 < 3600" by simp_all
  moreover from this have "?s mod 3600 div 60 \<le> 59"
    using zdiv_mono1 [of "?s mod 3600" 3599 60] by simp
  moreover have "?s mod 60 < 60" by simp
  ultimately show ?thesis
    using month_of_spec [OF doy] month_of_range [of ?y ?doy] s
    by (simp add: valid_tm_def gmtime_r_def Let_def pos_imp_zdiv_nonneg_iff)
qed

lemma hms_alg: "a * 3600 + r = s \<Longrightarrow> b * 60 + c = r \<Longrightarrow> (a * 60 + b) * 60 + c = (s::int)"
  by simp

lemma day_alg:
  "(a * 60 + b) * 60 + c = s \<Longrightarrow> d * 86400 + s = t \<Longrightarrow> ((d * 24 + a) * 60 + b) * 60 + c = (t::int)"
  by (simp add: algebra_simps)

lemma hms_split:
  fixes s :: int
  shows "(s div 3600 * 60 + s mod 3600 div 60) * 60 + s mod 60 = s"
proof (rule hms_alg)
  show "s div 3600 * 3600 + s mod 3600 = s" by simp
  have "s mod 3600 div 60 * 60 + s mod 3600 mod 60 = s mod 3600" by simp
  moreover have "s mod 3600 mod 60 = s mod 60" by (rule mod_mod_cancel) simp
  ultimately show "s mod 3600 div 60 * 60 + s mod 60 = s mod 3600" by (simp only:)
qed

theorem mktime_gmtime: "mktime (gmtime_r t) = t"
proof -
  let ?d = "t div 86400" and ?s = "t mod 86400"
  let ?y = "year_of ?d"
  let ?doy = "?d - days_to_year ?y"
  have m: "month_of ?y ?doy div 12 = 0" "month_of ?y ?doy mod 12 = month_of ?y ?doy"
    using month_of_range [of ?y ?doy] by simp_all
  have "mktime (gmtime_r t) =
      ((?d * 24 + ?s div 3600) * 60 + ?s mod 3600 div 60) * 60 + ?s mod 60"
    by (simp add: mktime_def gmtime_r_def Let_def m)
  also have "\<dots> = t"
    by (rule day_alg [OF hms_split]) simp
  finally show ?thesis .
qed

lemma time_of_day_split:
  fixes h m s :: int
  assumes "0 \<le> h" "h \<le> 23" "0 \<le> m" "m \<le> 59" "0 \<le> s" "s \<le> 59"
  defines "x \<equiv> (h * 60 + m) * 60 + s"
  shows "(d * 86400 + x) div 86400 = d" "(d * 86400 + x) mod 86400 = x"
    "x div 3600 = h" "x mod 3600 div 60 = m" "x mod 60 = s"
proof -
  have x: "0 \<le> x" "x < 86400" using assms by (simp_all add: x_def)
  then show "(d * 86400 + x) div 86400 = d" "(d * 86400 + x) mod 86400 = x" by simp_all
  have "x = h * 3600 + (m * 60 + s)" "0 \<le> m * 60 + s" "m * 60 + s < 3600"
    using assms by (simp_all add: x_def)
  then show "x div 3600 = h" "x mod 3600 div 60 = m"
    using assms(5,6) by simp_all
  show "x mod 60 = s"
    unfolding x_def mod_mult_self3 using assms(5,6) by simp
qed

theorem gmtime_mktime:
  assumes "valid_tm t"
  shows "gmtime_r (mktime t) = t"
proof -
  let ?y = "tm_year t + 1900" and ?m = "tm_mon t"
  let ?x = "(tm_hour t * 60 + tm_min t) * 60 + tm_sec t"
  let ?doy = "days_to_month ?y ?m + (tm_mday t - 1)"
  let ?d = "days_to_year ?y + ?doy"
  have b: "0 \<le> ?m" "?m \<le> 11" "0 \<le> tm_mday t - 1" "tm_mday t - 1 < month_len ?y ?m"
    using assms by (simp_all add: valid_tm_def)
  have mk: "mktime t = ?d * 86400 + ?x"
    using b by (simp add: mktime_def Let_def algebra_simps)
  have "0 \<le> ?doy" "?doy < year_len ?y"
    using month_end [OF b(1,2), of ?y] b by linarith+
  then have yr: "year_of ?d = ?y"
    using days_to_year_step [of ?y] by (intro year_of_unique) simp_all
  have mo: "month_of ?y ?doy = ?m"
    by (rule month_of_day [OF b])
  note sp = time_of_day_split [where h = "tm_hour t" and m = "tm_min t" and s = "tm_sec t"]
  have h: "0 \<le> tm_hour t" "tm_hour t \<le> 23" "0 \<le> tm_min t" "tm_min t \<le> 59" "0 \<le> tm_sec t" "tm_sec t \<le> 59"
    using assms by (simp_all add: valid_tm_def)
  have "gmtime_r (mktime t) = \<lparr>tm_year = ?y - 1900, tm_mon = ?m, tm_mday = tm_mday t,
      tm_hour = tm_hour t, tm_min = tm_min t, tm_sec = tm_sec t\<rparr>"
    unfolding mk gmtime_r_def Let_def sp [OF h] yr
    by (simp add: mo)
  then show ?thesis by simp
qed

section \<open>Timestamps\<close>

text \<open>\<open>strftime\<close> with \<open>%Y%m%dT%H%M%S\<close>, for the years whose number has four digits or more.\<close>

definition strftime_icd :: "tm \<Rightarrow> string" where
  "strftime_icd t =
     int_str (tm_year t + 1900) @ pad0 2 (nat (tm_mon t + 1)) @ pad0 2 (nat (tm_mday t)) @ ''T'' @
     pad0 2 (nat (tm_hour t)) @ pad0 2 (nat (tm_min t)) @ pad0 2 (nat (tm_sec t))"

text \<open>
  \<open>strptime\<close> reads each number as the C library does: skip spaces, then take digits while the
  value stays in range and the field has width left; fail when the value is out of range.
\<close>

fun get_number_loop :: "int \<Rightarrow> nat \<Rightarrow> int \<Rightarrow> string \<Rightarrow> int \<times> string" where
  "get_number_loop hi n acc [] = (acc, [])"
| "get_number_loop hi n acc (c # cs) =
     (if 0 < n \<and> acc * 10 \<le> hi \<and> is_digit c
      then get_number_loop hi (n - 1) (acc * 10 + digit_val c) cs
      else (acc, c # cs))"

definition get_number :: "int \<Rightarrow> int \<Rightarrow> nat \<Rightarrow> string \<Rightarrow> (int \<times> string) option" where
  "get_number lo hi n s =
     (case dropWhile (\<lambda>c. c = CHR '' '') s of
        [] \<Rightarrow> None
      | c # cs \<Rightarrow>
          if is_digit c then
            (let (v, r) = get_number_loop hi (n - 1) (digit_val c) cs
             in if lo \<le> v \<and> v \<le> hi then Some (v, r) else None)
          else None)"

definition expect_char :: "char \<Rightarrow> string \<Rightarrow> string option" where
  "expect_char c s = (case s of x # xs \<Rightarrow> if x = c then Some xs else None | [] \<Rightarrow> None)"

text \<open>\<open>strptime\<close> with \<open>%Y%m%dT%H%M%S\<close>; the rest of the input is ignored by the callers.\<close>

definition strptime_icd :: "string \<Rightarrow> tm option" where
  "strptime_icd s =
     (case get_number 0 9999 4 s of None \<Rightarrow> None | Some (y, s1) \<Rightarrow>
      (case get_number 1 12 2 s1 of None \<Rightarrow> None | Some (mo, s2) \<Rightarrow>
      (case get_number 1 31 2 s2 of None \<Rightarrow> None | Some (d, s3) \<Rightarrow>
      (case expect_char CHR ''T'' s3 of None \<Rightarrow> None | Some s4 \<Rightarrow>
      (case get_number 0 23 2 s4 of None \<Rightarrow> None | Some (h, s5) \<Rightarrow>
      (case get_number 0 59 2 s5 of None \<Rightarrow> None | Some (mi, s6) \<Rightarrow>
      (case get_number 0 61 2 s6 of None \<Rightarrow> None | Some (sec, s7) \<Rightarrow>
         Some \<lparr>tm_year = y - 1900, tm_mon = mo - 1, tm_mday = d,
               tm_hour = h, tm_min = mi, tm_sec = sec\<rparr>)))))))"

section \<open>Timestamps round trip\<close>

lemma nat_str_1: "n < 10 \<Longrightarrow> nat_str n = [digit_char n]"
  by (simp add: nat_str.simps)

lemma nat_str_2: "10 \<le> n \<Longrightarrow> n < 100 \<Longrightarrow> nat_str n = [digit_char (n div 10), digit_char (n mod 10)]"
  by (subst nat_str.simps) (simp add: nat_str_1)

lemma nat_str_step: "10 \<le> n \<Longrightarrow> nat_str n = nat_str (n div 10) @ [digit_char (n mod 10)]"
  by (subst nat_str.simps) simp

lemma digit_char_0: "digit_char 0 = CHR ''0''"
  by (simp add: digit_char_def char_of_eq_iff)

lemma pad0_2: "n < 100 \<Longrightarrow> pad0 2 n = [digit_char (n div 10), digit_char (n mod 10)]"
  by (cases "n < 10") (simp_all add: pad0_def pad_left_def nat_str_1 nat_str_2 digit_char_0)

lemma digit_not_blank [simp]: "d < 10 \<Longrightarrow> digit_char d \<noteq> CHR '' ''"
proof
  assume "d < 10" "digit_char d = CHR '' ''"
  then have "(of_char (digit_char d) :: nat) = 32" by simp
  with \<open>d < 10\<close> show False by simp
qed

lemma get_number_2:
  assumes "n < 100" "lo \<le> int n" "int n \<le> hi"
  shows "get_number lo hi 2 (pad0 2 n @ r) = Some (int n, r)"
proof -
  have d: "int (n div 10) * 10 + int (n mod 10) = int n"
    by (metis div_mult_mod_eq of_nat_add of_nat_mult of_nat_numeral)
  have le: "int (n div 10) * 10 \<le> hi" using d assms(3) by linarith
  have "get_number_loop hi 1 (int (n div 10)) (digit_char (n mod 10) # r) = (int n, r)"
    using le d by (cases r) simp_all
  with assms show ?thesis
    by (simp add: pad0_2 get_number_def)
qed

lemma get_number_digits:
  assumes "a < 10" "b < 10" "c < 10" "d < 10"
    and "int a * 1000 + int b * 100 + int c * 10 + int d \<le> 9999"
  shows "get_number 0 9999 4 (digit_char a # digit_char b # digit_char c # digit_char d # r)
    = Some (int a * 1000 + int b * 100 + int c * 10 + int d, r)"
proof -
  have "get_number_loop 9999 3 (int a) (digit_char b # digit_char c # digit_char d # r)
    = (int a * 1000 + int b * 100 + int c * 10 + int d, r)"
    using assms by (cases r) (simp_all add: eval_nat_numeral)
  with assms show ?thesis by (simp add: get_number_def)
qed

lemma four_digits:
  assumes "1000 \<le> n" "n \<le> 9999"
  obtains a b c d where "a < 10" "b < 10" "c < 10" "d < 10"
    "nat_str n = [digit_char a, digit_char b, digit_char c, digit_char d]"
    "n = a * 1000 + b * 100 + c * 10 + d"
proof
  show "nat_str n = [digit_char (n div 10 div 10 div 10), digit_char (n div 10 div 10 mod 10),
      digit_char (n div 10 mod 10), digit_char (n mod 10)]"
    using assms
    by (simp add: nat_str_step [of n] nat_str_step [of "n div 10"] nat_str_step [of "n div 10 div 10"] nat_str_1)
  have "((q * 10 + b) * 10 + c) * 10 + d = q * 1000 + b * 100 + c * 10 + d" for q b c d :: nat
    by simp
  then show "n = n div 10 div 10 div 10 * 1000 + n div 10 div 10 mod 10 * 100 + n div 10 mod 10 * 10 + n mod 10"
    by (metis div_mult_mod_eq)
qed (use assms in simp_all)

lemma get_number_4:
  assumes "1000 \<le> n" "n \<le> 9999"
  shows "get_number 0 9999 4 (nat_str n @ r) = Some (int n, r)"
proof -
  obtain a b c d where d: "a < 10" "b < 10" "c < 10" "d < 10"
    and s: "nat_str n = [digit_char a, digit_char b, digit_char c, digit_char d]"
    and n: "n = a * 1000 + b * 100 + c * 10 + d"
    using four_digits [OF assms] .
  have i: "int n = int a * 1000 + int b * 100 + int c * 10 + int d" unfolding n by simp
  have "int a * 1000 + int b * 100 + int c * 10 + int d \<le> 9999" using assms(2) i by simp
  then show ?thesis unfolding s i using get_number_digits [OF d] by simp
qed

theorem strptime_strftime:
  assumes "valid_tm t" "1000 \<le> tm_year t + 1900" "tm_year t + 1900 \<le> 9999"
  shows "strptime_icd (strftime_icd t) = Some t"
proof -
  have ml: "month_len (tm_year t + 1900) (tm_mon t) \<le> 31" by (simp add: month_len_def)
  have y: "int_str (tm_year t + 1900) = nat_str (nat (tm_year t + 1900))"
    using assms(2) by (simp add: int_str_def)
  have ny: "1000 \<le> nat (tm_year t + 1900)" "nat (tm_year t + 1900) \<le> 9999" using assms by simp_all
  note b = assms(1) [unfolded valid_tm_def] ml
  have tt: "\<lparr>tm_year = tm_year t, tm_mon = tm_mon t, tm_mday = tm_mday t,
      tm_hour = tm_hour t, tm_min = tm_min t, tm_sec = tm_sec t\<rparr> = t" by simp
  have two: "get_number lo hi 2 (pad0 2 (nat v) @ r) = Some (v, r)"
    if "0 \<le> v" "lo \<le> v" "v \<le> hi" "hi < 100" for lo hi v r
    using get_number_2 [of "nat v" lo hi r] that by simp
  have g1: "get_number 1 12 2 (pad0 2 (nat (tm_mon t + 1)) @ r) = Some (tm_mon t + 1, r)" for r
    using b by (intro two) simp_all
  have g2: "get_number 1 31 2 (pad0 2 (nat (tm_mday t)) @ r) = Some (tm_mday t, r)" for r
    using b by (intro two) simp_all
  have g3: "get_number 0 23 2 (pad0 2 (nat (tm_hour t)) @ r) = Some (tm_hour t, r)" for r
    using b by (intro two) simp_all
  have g4: "get_number 0 59 2 (pad0 2 (nat (tm_min t)) @ r) = Some (tm_min t, r)" for r
    using b by (intro two) simp_all
  have g5: "get_number 0 61 2 (pad0 2 (nat (tm_sec t)) @ r) = Some (tm_sec t, r)" for r
    using b by (intro two) simp_all
  note g = g1 g2 g3 g4 g5
  have "get_number 0 61 2 (pad0 2 (nat (tm_sec t))) = Some (tm_sec t, [])"
    using g5 [of "[]"] by simp
  moreover have "int (nat (tm_year t + 1900)) - 1900 = tm_year t" using assms(2) by simp
  ultimately show ?thesis
    unfolding strptime_icd_def strftime_icd_def y get_number_4 [OF ny]
    by (simp add: g expect_char_def del: int_nat_eq)
qed

end
