(* ===== verification/Meta_Chunk.thy ===== *)
theory Meta_Chunk
  imports Ptc_Meta C_File C_Time
begin

text \<open>
  The metadata recording thread: \<open>metarec/src/metaio.c\<close> (record tracker, drive status, writing a
  record, the thread itself) and \<open>metarec/src/metachunk.c\<close> (the chunk files: when a new one is
  needed, its header, its staging name, its final name). The static variables of the two files, the
  thread's local variables and its channel are the record \<open>recorder\<close>, next to the store of files
  and the state the PTC callbacks write (\<open>ptc\<close>). The arrays over storage locations are lists, and
  the loops up to \<open>MAXDATALOC\<close> run over their indices. A function that uses a stream that is not
  open is \<open>None\<close>. The hash library, the path utilities and the recording mode macros are not part of
  the repository: they are components of \<open>chunk_env\<close>. \<open>stdout\<close> is never stored in the stream array,
  so the comparisons with it are left out, as are the log messages.
\<close>

section \<open>State\<close>

record data_location =
  is_used :: int
  basedir :: string
  datadir :: string
  stagingdir :: string

record metadata_chunk_desc =
  fp :: "fp option list"
  session_just_started :: bool
  prev_tm :: tm
  t0 :: u64
  deltat :: u64
  chunk_duration_usecs :: nat
  chunk_max_duration :: int
  chunk_fname :: string
  drive_status_updated :: bool

record metadata_io_chan =
  src_premise :: string
  is_active :: bool
  n_copies :: nat
  data_loc :: "data_location list"
  subpath :: string
  chunk_duration :: int
  recording_mode :: u32
  m_chunk :: metadata_chunk_desc

record recorder =
  pchan :: metadata_io_chan
  record_tracker :: subpfx_2
  idx_data :: "rcd_idx list option"
  pre_chm_rec :: int
  pre_ssd_rec :: int
  out :: "fp option list"
  pos :: nat
  ptc :: ptc_state
  store :: stdio

record chunk_env =
  penv :: ptc_env
  io :: io_env
  IS_CHM_METADATA_RECORDING_COMMANDED :: "u32 \<Rightarrow> int"
  IS_SSD_METADATA_RECORDING_COMMANDED :: "u32 \<Rightarrow> int"
  update_HMAC_SHA1_metadata :: "cfile \<Rightarrow> cfile"
  mkdir_p :: "string \<Rightarrow> string set \<Rightarrow> int \<times> string set"
  is_dir_exist :: "string \<Rightarrow> string set \<Rightarrow> bool"
  MAXPATH :: nat
  DEFAULT_CHUNK_RECORDS_SIZE :: int
  calloc_ok :: bool

abbreviation lay :: "chunk_env \<Rightarrow> meta_layout" where "lay E \<equiv> layout (penv E)"

definition ONE_SEC_IN_NANO_SECS :: u64 where "ONE_SEC_IN_NANO_SECS = 1000000000"
definition ONE_SEC_IN_MILI_SECS :: u64 where "ONE_SEC_IN_MILI_SECS = 1000"

text \<open>Updates of nested parts of the state.\<close>

abbreviation chunk :: "recorder \<Rightarrow> metadata_chunk_desc" where "chunk s \<equiv> m_chunk (pchan s)"

definition upd_chunk :: "(metadata_chunk_desc \<Rightarrow> metadata_chunk_desc) \<Rightarrow> recorder \<Rightarrow> recorder" where
  "upd_chunk f s = s\<lparr>pchan := (pchan s)\<lparr>m_chunk := f (m_chunk (pchan s))\<rparr>\<rparr>"

abbreviation loc_used :: "recorder \<Rightarrow> nat \<Rightarrow> bool" where
  "loc_used s idx \<equiv> is_used (data_loc (pchan s) ! idx) \<noteq> 0"

definition locs :: "recorder \<Rightarrow> nat list" where
  "locs s = [0..<length (data_loc (pchan s))]"

section \<open>The record tracker\<close>

definition metadata_reset_record_tracker :: "recorder \<Rightarrow> recorder" where
  "metadata_reset_record_tracker s = s\<lparr>record_tracker := (record_tracker s)\<lparr>num_records := 0\<rparr>\<rparr>"

definition is_meta_record_reach_max :: "recorder \<Rightarrow> bool" where
  "is_meta_record_reach_max s \<longleftrightarrow>
     num_records (record_tracker s) \<ge> max_records (record_tracker s) \<or>
     int (num_records (record_tracker s)) \<ge> chunk_max_duration (chunk s)"

text \<open>
  \<open>metadata_finalize_header\<close>: overwrite the record counts and the index in the prefix of the file.
\<close>

definition metadata_finalize_header :: "chunk_env \<Rightarrow> fp \<Rightarrow> recorder \<Rightarrow> recorder option" where
  "metadata_finalize_header E h s =
     (case idx_data s of
        None \<Rightarrow> Some s
      | Some ix \<Rightarrow>
          if num_records (record_tracker s) > 0 then
            do {
              (rc, st1) \<leftarrow> fseek_fp (int (sizeof_subpfx_1 (lay E))) h (store s);
              if rc \<noteq> 0 then Some (s\<lparr>store := st1\<rparr>)
              else do {
                (n, st2) \<leftarrow> fwrite1 (io E) (enc_subpfx_2 (lay E) (record_tracker s)) h st1;
                if n \<noteq> 1 then Some (s\<lparr>store := st2\<rparr>)
                else do {
                  (_, st3) \<leftarrow> fwrite1 (io E)
                     (concat (map (enc_rcd_idx (lay E)) (take (num_records (record_tracker s)) ix))) h st2;
                  Some (s\<lparr>store := st3\<rparr>)
                }
              }
            }
          else Some s)"

definition update_HMAC_fp :: "chunk_env \<Rightarrow> fp \<Rightarrow> stdio \<Rightarrow> stdio option" where
  "update_HMAC_fp E h st =
     map_option (\<lambda>f. put_stream h (update_HMAC_SHA1_metadata E f) st) (get_stream h st)"

section \<open>Chunk files\<close>

text \<open>\<open>generate_filesystem_event\<close>: create an empty file and remove it.\<close>

definition generate_filesystem_event :: "chunk_env \<Rightarrow> string option \<Rightarrow> stdio \<Rightarrow> (int \<times> stdio) option" where
  "generate_filesystem_event E path st =
     (case path of
        None \<Rightarrow> Some (- 1, st)
      | Some p \<Rightarrow>
          (case fopen_w (io E) p st of
             (None, st1) \<Rightarrow> Some (0, st1)
           | (Some h, st1) \<Rightarrow>
               do {
                 (rc, st2) \<leftarrow> fclose (io E) h st1;
                 if rc \<noteq> 0 then Some (- 1, st2)
                 else (let (rc2, st3) = remove_file (io E) p st2
                       in Some (if rc2 \<noteq> 0 then - 1 else 0, st3))
               }))"

text \<open>\<open>%04d/%02d/%02d/%02d/\<close> and \<open>%4d%02d%02d-%02d%02d%02d\<close>.\<close>

definition hour_path :: "tm \<Rightarrow> string" where
  "hour_path t =
     pad0 4 (nat (tm_year t + 1900)) @ ''/'' @ pad0 2 (nat (tm_mon t + 1)) @ ''/'' @
     pad0 2 (nat (tm_mday t)) @ ''/'' @ pad0 2 (nat (tm_hour t)) @ ''/''"

definition chunk_name :: "tm \<Rightarrow> string" where
  "chunk_name t =
     pad_left CHR '' '' 4 (int_str (tm_year t + 1900)) @ pad0 2 (nat (tm_mon t + 1)) @
     pad0 2 (nat (tm_mday t)) @ ''-'' @ pad0 2 (nat (tm_hour t)) @ pad0 2 (nat (tm_min t)) @
     pad0 2 (nat (tm_sec t))"

text \<open>\<open>%s.%09lu.data\<close>\<close>

definition data_suffix :: "nat \<Rightarrow> string" where
  "data_suffix usecs = ''.'' @ pad0 9 usecs @ ''.data''"

definition with_slash :: "string \<Rightarrow> string" where
  "with_slash d = (if d \<noteq> [] \<and> last d \<noteq> CHR ''/'' then d @ ''/'' else d)"

definition prepare_subpath :: "chunk_env \<Rightarrow> recorder \<Rightarrow> int \<times> recorder" where
  "prepare_subpath E s =
     fold (\<lambda>idx (n, s).
        if loc_used s idx then
          (let sub = hour_path (prev_tm (chunk s));
               s1 = s\<lparr>pchan := (pchan s)\<lparr>subpath := sub\<rparr>\<rparr>;
               (n1, ds) = mkdir_p E (with_slash (datadir (data_loc (pchan s) ! idx)) @ sub)
                            (dirs (store s1))
           in (n1, s1\<lparr>store := (store s1)\<lparr>dirs := ds\<rparr>\<rparr>))
        else (n, s)) (locs s) (0, s)"

definition is_new_path_required :: "metadata_chunk_desc \<Rightarrow> tm \<Rightarrow> bool" where
  "is_new_path_required pctx t \<longleftrightarrow>
     session_just_started pctx \<or>
     tm_hour (prev_tm pctx) \<noteq> tm_hour t \<or> tm_mday (prev_tm pctx) \<noteq> tm_mday t \<or>
     tm_mon (prev_tm pctx) \<noteq> tm_mon t \<or> tm_year (prev_tm pctx) \<noteq> tm_year t"

definition is_new_chunk_required :: "recorder \<Rightarrow> tm \<Rightarrow> bool \<times> recorder" where
  "is_new_chunk_required s t =
     (let time_change = has_forward_time_change_occurred (ptc s);
          s1 = (if time_change then s\<lparr>ptc := update_forward_time_change_status False (ptc s)\<rparr> else s)
      in (is_new_path_required (chunk s1) t \<or> is_meta_record_reach_max s1 \<or> time_change \<or>
          drive_status_updated (chunk s1), s1))"

text \<open>
  The digital mappings of the header: one call of \<open>get_digital_input_name\<close> per input, which passes
  the same buffer on; \<open>strncpy\<close> copies at most \<open>sizeof_dig_name - 1\<close> characters.
\<close>

fun header_mappings ::
    "meta_layout \<Rightarrow> digital_input_descriptor list \<Rightarrow> nat list \<Rightarrow> string \<Rightarrow> digital_config list" where
  "header_mappings L es [] b = []"
| "header_mappings L es (idx # ids) b =
     (let (rc, dst) = get_digital_input_name es (int idx + 1) (Some b);
          b1 = the dst;
          m = (if rc \<noteq> 0 then \<lparr>dig_num = int idx, dig_name = take (sizeof_dig_name L - 1) b1\<rparr>
               else \<lparr>dig_num = 0, dig_name = []\<rparr>)
      in m # header_mappings L es ids b1)"

definition METADATA_VERSION :: string where "METADATA_VERSION = ''1.0''"

definition index_capacity :: "meta_layout \<Rightarrow> nat" where
  "index_capacity L = (sizeof_file_pfx L - sizeof_subpfx_1 L - sizeof_subpfx_2 L) div sizeof_rcd_idx L"

definition file_pfx_bytes :: "meta_layout \<Rightarrow> digital_input_descriptor list \<Rightarrow> u8 list" where
  "file_pfx_bytes L es =
     enc_subpfx_1 L \<lparr>shebang = ''#!metadata version ['' @ METADATA_VERSION @ '']'' @ [CHR 0x0A],
                     digital_mappings = header_mappings L es [0..<NUM_DIGITAL_INPUTS L] []\<rparr> @
     enc_subpfx_2 L \<lparr>max_records = index_capacity L, num_records = 0\<rparr> @
     replicate (sizeof_file_pfx L - sizeof_subpfx_1 L - sizeof_subpfx_2 L) 0"

definition metadata_chunk_header ::
    "chunk_env \<Rightarrow> digital_input_descriptor list \<Rightarrow> fp \<Rightarrow> timeval \<Rightarrow> stdio \<Rightarrow> stdio option" where
  "metadata_chunk_header E es h start st =
     do {
       (n, st1) \<leftarrow> fwrite1 (io E) (file_pfx_bytes (lay E) es) h st;
       if n < 1 then Some st1
       else do {
         (_, st2) \<leftarrow> fwrite1 (io E) (enc_chunk_hdr (lay E) start) h st1;
         Some st2
       }
     }"


section \<open>Changing chunks\<close>

definition raw_ns :: "timespec \<Rightarrow> u64" where
  "raw_ns t = word_of_int (ts_sec t) * ONE_SEC_IN_NANO_SECS + word_of_int (ts_nsec t)"

text \<open>\<open>(unsigned int) ((t - t0) / 1000)\<close>\<close>

definition usecs_since :: "u64 \<Rightarrow> u64 \<Rightarrow> nat" where
  "usecs_since t t0' = unat (ucast ((t - t0') div ONE_SEC_IN_MILI_SECS) :: u32)"

text \<open>
  The loop body of \<open>get_metadata_chunk_file\<close> that closes the current file of a location, moves it
  from the staging directory to its final name and announces it.
\<close>

definition rotate_location :: "chunk_env \<Rightarrow> nat \<Rightarrow> recorder \<Rightarrow> recorder option" where
  "rotate_location E idx s =
     (if loc_used s idx then
        (case fp (chunk s) ! idx of
           None \<Rightarrow> Some s
         | Some h \<Rightarrow>
             do {
               s1 \<leftarrow> metadata_finalize_header E h s;
               st2 \<leftarrow> update_HMAC_fp E h (store s1);
               (_, st3) \<leftarrow> fclose (io E) h st2;
               let dl = data_loc (pchan s) ! idx;
               let fname = chunk_fname (chunk s);
               let full = fname @ data_suffix (chunk_duration_usecs (chunk s));
               let base = datadir dl @ subpath (pchan s);
               let (_, st4) = rename_file (io E) (stagingdir dl @ fname)
                                (base @ snprintf (MAXPATH E - length base - 1) full) st3;
               (_, st5) \<leftarrow> generate_filesystem_event E
                  (Some (stagingdir dl @ snprintf (MAXPATH E - length (stagingdir dl) - 1) full)) st4;
               Some (s1\<lparr>store := st5\<rparr>)
             })
      else Some s)"

text \<open>The loop body that opens the file of the new chunk.\<close>

definition open_location :: "chunk_env \<Rightarrow> metadata_desc \<Rightarrow> nat \<Rightarrow> recorder \<Rightarrow> recorder option" where
  "open_location E pdesc idx s =
     (if loc_used s idx then
        (let dl = data_loc (pchan s) ! idx;
             ds = (if is_dir_exist E (stagingdir dl) (dirs (store s)) then dirs (store s)
                   else snd (mkdir_p E (stagingdir dl) (dirs (store s))));
             (new_fp, st2) = fopen_w (io E) (stagingdir dl @ chunk_fname (chunk s))
                               ((store s)\<lparr>dirs := ds\<rparr>);
             s1 = upd_chunk (\<lambda>c. c\<lparr>fp := (fp c)[idx := new_fp], t0 := raw_ns (ts pdesc)\<rparr>)
                    (s\<lparr>store := st2, out := (out s)[idx := new_fp]\<rparr>)
         in (case new_fp of
               None \<Rightarrow> Some s1
             | Some h \<Rightarrow>
                 map_option (\<lambda>st3. s1\<lparr>store := st3\<rparr>)
                   (metadata_chunk_header E (digital_events_config_map (intf (ptc s))) h
                      \<lparr>tv_sec = ts_sec (ts pdesc), tv_usec = ts_nsec (ts pdesc) sdiv 1000\<rparr> st2)))
      else Some s)"

text \<open>What happens between the two loops.\<close>

definition start_chunk :: "chunk_env \<Rightarrow> tm \<Rightarrow> recorder \<Rightarrow> recorder" where
  "start_chunk E t s =
     (let s1 = upd_chunk (\<lambda>c. c\<lparr>chunk_duration_usecs := 0, chunk_fname := chunk_name t\<rparr>)
                 (metadata_reset_record_tracker s)
      in if is_new_path_required (chunk s1) t
         then snd (prepare_subpath E (upd_chunk (\<lambda>c. c\<lparr>prev_tm := t\<rparr>) s1))
         else s1)"

definition get_metadata_chunk_file ::
    "chunk_env \<Rightarrow> metadata_desc \<Rightarrow> recorder \<Rightarrow> (int \<times> recorder) option" where
  "get_metadata_chunk_file E pdesc s =
     (if deltat (chunk s) \<noteq> 0 then
        (let t_start = raw_ns (ts pdesc);
             t = gmtime_r (tv_sec (tod pdesc));
             s1 = upd_chunk (\<lambda>c. c\<lparr>chunk_duration_usecs := usecs_since t_start (t0 c)\<rparr>) s;
             (required, s2) = is_new_chunk_required s1 t
         in if required then
              do {
                let s3 = upd_chunk (\<lambda>c. c\<lparr>session_just_started := False,
                                          drive_status_updated := False\<rparr>) s2;
                s4 \<leftarrow> foldM (rotate_location E) (locs s3) s3;
                let s5 = start_chunk E t s4;
                s6 \<leftarrow> foldM (open_location E pdesc) (locs s5) s5;
                Some (if list_ex (loc_used s6) (locs s6) then 1 else 0, s6)
              }
            else Some (0, s2))
      else Some (0, s))"

text \<open>The loop body of \<open>metadata_chunk_finalize\<close>.\<close>

definition finalize_location :: "chunk_env \<Rightarrow> nat \<Rightarrow> recorder \<Rightarrow> recorder option" where
  "finalize_location E idx s =
     (if loc_used s idx \<and> chunk_duration_usecs (chunk s) > 0 then
        (case fp (chunk s) ! idx of
           None \<Rightarrow> Some s
         | Some h \<Rightarrow>
             do {
               s1 \<leftarrow> metadata_finalize_header E h s;
               st2 \<leftarrow> update_HMAC_fp E h (store s1);
               (_, st3) \<leftarrow> fclose (io E) h st2;
               let dl = data_loc (pchan s) ! idx;
               let fname = chunk_fname (chunk s);
               let full = fname @ data_suffix (chunk_duration_usecs (chunk s));
               let (_, st4) = rename_file (io E) (stagingdir dl @ fname)
                                (datadir dl @ subpath (pchan s) @ full) st3;
               (_, st5) \<leftarrow> generate_filesystem_event E
                  (Some (stagingdir dl @ snprintf (MAXPATH E - length (stagingdir dl) - 1) full)) st4;
               Some (upd_chunk (\<lambda>c. c\<lparr>fp := (fp c)[idx := None]\<rparr>) (s1\<lparr>store := st5\<rparr>))
             })
      else Some s)"

definition metadata_chunk_finalize :: "chunk_env \<Rightarrow> recorder \<Rightarrow> recorder option" where
  "metadata_chunk_finalize E s =
     map_option (\<lambda>s1. upd_chunk (\<lambda>c. c\<lparr>chunk_duration_usecs := 0\<rparr>) (metadata_reset_record_tracker s1))
       (foldM (finalize_location E) (locs s) s)"

text \<open>\<open>realtime\<close> and \<open>raw\<close> are what the two clocks read, \<open>None\<close> when \<open>clock_gettime\<close> fails.\<close>

definition zero_tm :: tm where
  "zero_tm = \<lparr>tm_year = 0, tm_mon = 0, tm_mday = 0, tm_hour = 0, tm_min = 0, tm_sec = 0\<rparr>"

definition metadata_chunk_init ::
    "chunk_env \<Rightarrow> timespec option \<Rightarrow> timespec option \<Rightarrow> metadata_chunk_desc \<Rightarrow> int
       \<Rightarrow> int \<times> metadata_chunk_desc" where
  "metadata_chunk_init E realtime raw pctx chunk_size =
     (let z = \<lparr>fp = replicate (length (fp pctx)) None, session_just_started = False,
               prev_tm = zero_tm, t0 = 0, deltat = 0, chunk_duration_usecs = 0,
               chunk_max_duration = 0, chunk_fname = [], drive_status_updated = False\<rparr>
      in (case realtime of
            None \<Rightarrow> (- 1, z)
          | Some tsr \<Rightarrow>
              (let c = z\<lparr>chunk_max_duration := (if chunk_size > 0 then chunk_size
                                                else DEFAULT_CHUNK_RECORDS_SIZE E),
                         session_just_started := True\<rparr>
               in (case raw of
                     None \<Rightarrow> (- 1, c)
                   | Some t \<Rightarrow> (0, c\<lparr>deltat := raw_ns tsr - raw_ns t\<rparr>)))))"

section \<open>Drive status\<close>

definition is_drive_status_updated :: "chunk_env \<Rightarrow> u32 \<Rightarrow> recorder \<Rightarrow> bool \<times> recorder" where
  "is_drive_status_updated E rm s =
     (let chm_rec = IS_CHM_METADATA_RECORDING_COMMANDED E rm;
          ssd_rec = IS_SSD_METADATA_RECORDING_COMMANDED E rm
      in ((pre_chm_rec s \<noteq> - 1 \<and> pre_chm_rec s \<noteq> chm_rec) \<or>
          (pre_ssd_rec s \<noteq> - 1 \<and> pre_ssd_rec s \<noteq> ssd_rec),
          s\<lparr>pre_chm_rec := chm_rec, pre_ssd_rec := ssd_rec\<rparr>))"

definition drive_status_update_handler :: "chunk_env \<Rightarrow> u32 \<Rightarrow> recorder \<Rightarrow> recorder option" where
  "drive_status_update_handler E rm s =
     map_option (\<lambda>s1. s1\<lparr>pchan := (pchan s1)\<lparr>data_loc :=
          (data_loc (pchan s1))
            [0 := (data_loc (pchan s1) ! 0)\<lparr>is_used := IS_CHM_METADATA_RECORDING_COMMANDED E rm\<rparr>,
             1 := (data_loc (pchan s1) ! 1)\<lparr>is_used := IS_SSD_METADATA_RECORDING_COMMANDED E rm\<rparr>]\<rparr>\<rparr>)
       (metadata_chunk_finalize E s)"

section \<open>Recording one descriptor\<close>

definition desc_bytes :: "meta_layout \<Rightarrow> metadata_desc \<Rightarrow> u8 list" where
  "desc_bytes L d = (case pData d of Some p \<Rightarrow> take (data_length d) (enc_payload L p) | None \<Rightarrow> [])"

text \<open>The loop body of \<open>write_metadata\<close>: one copy; an index past the array is \<open>None\<close>.\<close>

definition write_copy :: "chunk_env \<Rightarrow> metadata_desc \<Rightarrow> nat \<Rightarrow> recorder \<Rightarrow> recorder option" where
  "write_copy E pdesc i s =
     (if i < length (data_loc (pchan s)) then
        (case out s ! i of
           Some h \<Rightarrow>
             if loc_used s i
             then map_option (\<lambda>(_, st). s\<lparr>store := st\<rparr>)
                    (fwrite1 (io E) (desc_bytes (lay E) pdesc) h (store s))
             else Some s
         | None \<Rightarrow> Some s)
      else None)"

definition write_metadata :: "chunk_env \<Rightarrow> metadata_desc \<Rightarrow> recorder \<Rightarrow> recorder option" where
  "write_metadata E pdesc s = foldM (write_copy E pdesc) [0..<n_copies (pchan s)] s"

definition index_record :: "metadata_desc \<Rightarrow> recorder \<Rightarrow> recorder" where
  "index_record pdesc s =
     (case idx_data s of
        None \<Rightarrow> s
      | Some ix \<Rightarrow>
          if num_records (record_tracker s) < max_records (record_tracker s)
          then s\<lparr>idx_data := Some (ix[num_records (record_tracker s) :=
                    \<lparr>timestamp = tv_sec (tod pdesc), byteoffset = pos s,
                     recordtype = data_type pdesc, recordlength = data_length pdesc\<rparr>]),
                 record_tracker := (record_tracker s)\<lparr>num_records := num_records (record_tracker s) + 1\<rparr>\<rparr>
          else s)"

definition first_open :: "fp option list \<Rightarrow> fp option" where
  "first_open fps = (case filter (\<lambda>h. h \<noteq> None) fps of [] \<Rightarrow> None | h # _ \<Rightarrow> h)"

text \<open>Index the record, write it to every copy, and ask where the next one will start.\<close>

definition store_record :: "chunk_env \<Rightarrow> metadata_desc \<Rightarrow> recorder \<Rightarrow> recorder option" where
  "store_record E pdesc s =
     (let s1 = index_record pdesc s
      in (case first_open (out s1) of
            None \<Rightarrow> Some s1
          | Some _ \<Rightarrow>
              do {
                s2 \<leftarrow> write_metadata E pdesc s1;
                (case first_open (out s2) of
                   Some h \<Rightarrow> map_option (\<lambda>p. s2\<lparr>pos := p\<rparr>) (ftell_fp h (store s2))
                 | None \<Rightarrow> Some s2)
              }))"

definition record_descriptor :: "chunk_env \<Rightarrow> metadata_desc \<Rightarrow> recorder \<Rightarrow> recorder option" where
  "record_descriptor E pdesc s =
     (let rm = ptci_get_rm_meta (penv E) (ptc s);
          (upd, s1) = is_drive_status_updated E rm s;
          s2 = upd_chunk (\<lambda>c. c\<lparr>drive_status_updated := upd\<rparr>) s1
      in do {
        s3 \<leftarrow> (if upd then drive_status_update_handler E rm s2 else Some s2);
        (new, s4) \<leftarrow> get_metadata_chunk_file E pdesc s3;
        store_record E pdesc
          (if new \<noteq> 0 then s4\<lparr>pos := sizeof_file_pfx (lay E) + sizeof_chunk_hdr (lay E)\<rparr> else s4)
      })"

text \<open>The branch of the loop that finds the queue empty; \<open>now\<close> is what \<open>CLOCK_MONOTONIC_RAW\<close> reads.\<close>

definition recorder_idle :: "chunk_env \<Rightarrow> timespec \<Rightarrow> recorder \<Rightarrow> recorder option" where
  "recorder_idle E now s =
     (case first_open (out s) of
        None \<Rightarrow> Some s
      | Some _ \<Rightarrow>
          (let t1 = raw_ns now;
               s1 = upd_chunk (\<lambda>c. c\<lparr>chunk_duration_usecs := usecs_since t1 (t0 c)\<rparr>) s
           in if t1 \<ge> t0 (chunk s1) + word_of_int (chunk_max_duration (chunk s1)) * ONE_SEC_IN_NANO_SECS
              then map_option (\<lambda>s2. upd_chunk (\<lambda>c. c\<lparr>session_just_started := True\<rparr>)
                                      (s2\<lparr>out := (out s2)[0 := None, 1 := None]\<rparr>))
                     (metadata_chunk_finalize E s1)
              else Some s1))"

section \<open>The recording thread\<close>

text \<open>
  One turn of the loop: what the other threads did to the shared state since the last turn
  (\<open>callbacks\<close>), what they do to the queue while the descriptor is fetched, and the clock.
\<close>

record turn =
  callbacks :: "ptc_state \<Rightarrow> ptc_state"
  t_wait :: "metadata_desc wait_outcome"
  t_between :: "metadata_desc meta_desc_q \<Rightarrow> metadata_desc meta_desc_q"
  t_now :: timespec

definition thread_turn :: "chunk_env \<Rightarrow> turn \<Rightarrow> recorder \<Rightarrow> recorder option" where
  "thread_turn E t s =
     (let p = callbacks t (ptc s)
      in (case get_metadata_descriptor (t_wait t) (t_between t) zero_desc (metadata_queue (intf p)) of
            None \<Rightarrow> None
          | Some (got, pdesc, q) \<Rightarrow>
              (let s1 = s\<lparr>ptc := p\<lparr>intf := (intf p)\<lparr>metadata_queue := q\<rparr>\<rparr>\<rparr>
               in if got \<noteq> 0 then record_descriptor E pdesc s1 else recorder_idle E (t_now t) s1)))"

definition recorder_capacity :: "meta_layout \<Rightarrow> nat" where
  "recorder_capacity L = (2048 - sizeof_subpfx_1 L - sizeof_subpfx_2 L) div sizeof_rcd_idx L"

definition zero_idx :: rcd_idx where
  "zero_idx = \<lparr>timestamp = 0, byteoffset = 0, recordtype = eGPS, recordlength = 0\<rparr>"

definition thread_start ::
    "chunk_env \<Rightarrow> timespec option \<Rightarrow> timespec option \<Rightarrow> recorder \<Rightarrow> recorder" where
  "thread_start E realtime raw s =
     (let n = recorder_capacity (lay E);
          s1 = s\<lparr>out := replicate (length (data_loc (pchan s))) None, pos := 0,
                 idx_data := (if calloc_ok E then Some (replicate n zero_idx) else None)\<rparr>;
          s2 = (if calloc_ok E
                then s1\<lparr>record_tracker := \<lparr>max_records = n, num_records = 0\<rparr>\<rparr> else s1);
          s3 = upd_chunk (\<lambda>c. snd (metadata_chunk_init E realtime raw c (chunk_duration (pchan s2)))) s2
      in s3\<lparr>pchan := (pchan s3)\<lparr>is_active := True\<rparr>,
            ptc := (ptc s3)\<lparr>intf := init_metadata_recording_queue (intf (ptc s3))\<rparr>\<rparr>)"

definition metadata_recording_thread ::
    "chunk_env \<Rightarrow> timespec option \<Rightarrow> timespec option \<Rightarrow> turn list \<Rightarrow> recorder \<Rightarrow> recorder option" where
  "metadata_recording_thread E realtime raw turns s =
     do {
       s1 \<leftarrow> foldM (thread_turn E) turns (thread_start E realtime raw s);
       s2 \<leftarrow> metadata_chunk_finalize E s1;
       Some (if idx_data s2 = None then s2
             else s2\<lparr>idx_data := None, record_tracker := \<lparr>max_records = 0, num_records = 0\<rparr>\<rparr>)
     }"

end
