(* ===== verification/Meta_Reader.thy ===== *)
theory Meta_Reader
  imports Meta_Types C_File
begin

text \<open>
  \<open>metacollector/src/metareader.c\<close>: reading the record index of a chunk file, and the records of
  one type and time range it points at. A function that would write past the end of one of the
  static arrays, or of the record it reads into, is \<open>None\<close>. The caller's output buffer is the list
  of the records written to it; the count the caller gets is returned next to it.
\<close>

section \<open>The index\<close>

definition METADATA_CHUNK_MAX_INDEX_RECORDS :: nat where
  "METADATA_CHUNK_MAX_INDEX_RECORDS = 128"

record metadata_record =
  record_time :: int
  rdata :: meta_payload

definition index_matches :: "int \<Rightarrow> int \<Rightarrow> eMetaDataType \<Rightarrow> rcd_idx \<Rightarrow> bool" where
  "index_matches starttime endtime ty r \<longleftrightarrow>
     recordtype r = ty \<and>
     (starttime = 0 \<and> endtime = 0 \<or>
      (starttime \<noteq> 0 \<and> timestamp r \<ge> starttime) \<and> (endtime \<noteq> 0 \<and> timestamp r \<le> endtime))"

text \<open>The loop over the index slots, given as the list of the slot numbers still to read.\<close>

fun scan_index ::
    "meta_layout \<Rightarrow> int \<Rightarrow> int \<Rightarrow> eMetaDataType \<Rightarrow> nat list \<Rightarrow> cfile \<Rightarrow> rcd_idx list \<times> cfile" where
  "scan_index L starttime endtime ty [] f = ([], f)"
| "scan_index L starttime endtime ty (idx # ids) f =
     (let (rc, f1) = fseek_set (int (sizeof_subpfx_2 L + sizeof_subpfx_1 L + sizeof_rcd_idx L * idx)) f
      in if rc \<noteq> 0 then scan_index L starttime endtime ty ids f1
         else
           (let (bs, f2) = fread1 (sizeof_rcd_idx L) f1
            in (case bs of
                  None \<Rightarrow> scan_index L starttime endtime ty ids f2
                | Some b \<Rightarrow>
                    (let p_idx = dec_rcd_idx L b
                     in if timestamp p_idx \<noteq> 0 \<and> byteoffset p_idx \<noteq> 0
                        then (let (rs, f3) = scan_index L starttime endtime ty ids f2
                              in (if index_matches starttime endtime ty p_idx then p_idx # rs else rs, f3))
                        else ([], f2)))))"

definition index_slots :: "meta_layout \<Rightarrow> nat" where
  "index_slots L = (sizeof_file_pfx L - sizeof_subpfx_2 L - sizeof_subpfx_1 L) div sizeof_rcd_idx L"

definition get_all_filtered_index_records ::
    "meta_layout \<Rightarrow> int \<Rightarrow> int \<Rightarrow> eMetaDataType \<Rightarrow> cfile option
       \<Rightarrow> (exit_code \<times> rcd_idx list \<times> cfile option) option" where
  "get_all_filtered_index_records L starttime endtime ty fo =
     (case fo of
        None \<Rightarrow> Some (EXIT_FAILURE, [], None)
      | Some f \<Rightarrow>
          (let (rs, f1) = scan_index L starttime endtime ty [0..<index_slots L] f
           in if length rs \<le> METADATA_CHUNK_MAX_INDEX_RECORDS
              then Some (EXIT_SUCCESS, rs, Some f1) else None))"

section \<open>Digital input names\<close>

text \<open>\<open>strncpy\<close> of at most \<open>EVENT_NAME_LENGTH\<close> characters into a zeroed buffer.\<close>

definition get_digital_config_name :: "meta_layout \<Rightarrow> int \<Rightarrow> cfile option \<Rightarrow> string" where
  "get_digital_config_name L dig fo =
     (case fo of
        None \<Rightarrow> []
      | Some f \<Rightarrow>
          (let (rc, f1) = fseek_set 0 f
           in if rc \<noteq> 0 then []
              else (case fst (fread1 (sizeof_subpfx_1 L) f1) of
                      None \<Rightarrow> []
                    | Some b \<Rightarrow>
                        (case filter (\<lambda>m. dig_num m = dig)
                                (take (NUM_DIGITAL_INPUTS L) (digital_mappings (dec_subpfx_1 L b))) of
                           [] \<Rightarrow> []
                         | m # _ \<Rightarrow> take (EVENT_NAME_LENGTH L) (dig_name m)))))"

section \<open>The records\<close>

text \<open>The body of \<open>switch (type)\<close>: read the record at the current position.\<close>

definition read_record ::
    "meta_layout \<Rightarrow> eMetaDataType \<Rightarrow> rcd_idx \<Rightarrow> cfile \<Rightarrow> (metadata_record option \<times> cfile) option" where
  "read_record L ty r f =
     (if ty = eCorruption then Some (None, f)
      else if recordlength r > sizeof_payload L ty then None
      else
        (let (bs, f1) = fread1 (recordlength r) f
         in (case bs of
               None \<Rightarrow> Some (None, f1)
             | Some b \<Rightarrow>
                 Some (Some \<lparr>record_time = timestamp r,
                             rdata = dec_payload L ty (b @ replicate (sizeof_payload L ty - length b) 0)\<rparr>,
                       f1))))"

text \<open>The loop over the matching index entries; a failing \<open>fseek\<close> ends the call.\<close>

fun read_records ::
    "meta_layout \<Rightarrow> eMetaDataType \<Rightarrow> rcd_idx list \<Rightarrow> cfile
       \<Rightarrow> (exit_code \<times> metadata_record list \<times> cfile) option" where
  "read_records L ty [] f = Some (EXIT_SUCCESS, [], f)"
| "read_records L ty (r # rs) f =
     (let (rc, f1) = fseek_set (s32 (int (byteoffset r))) f
      in if rc < 0 then Some (EXIT_FAILURE, [], f1)
         else
           (case read_record L ty r f1 of
              None \<Rightarrow> None
            | Some (x, f2) \<Rightarrow>
                (case read_records L ty rs f2 of
                   None \<Rightarrow> None
                 | Some (ec, xs, f3) \<Rightarrow>
                     Some (ec, (case x of None \<Rightarrow> xs | Some y \<Rightarrow> y # xs), f3))))"

text \<open>
  The result: the exit code, the records written to the caller's buffer, the caller's count
  (\<open>old_cnt\<close> when the call does not set it) and the stream.
\<close>

definition get_metadata_records ::
    "meta_layout \<Rightarrow> cfile option \<Rightarrow> int \<Rightarrow> int \<Rightarrow> eMetaDataType \<Rightarrow> nat
       \<Rightarrow> (exit_code \<times> metadata_record list \<times> nat \<times> cfile option) option" where
  "get_metadata_records L fo starttime endtime ty old_cnt =
     (case get_all_filtered_index_records L starttime endtime ty fo of
        None \<Rightarrow> None
      | Some (EXIT_FAILURE, _, f1) \<Rightarrow> Some (EXIT_FAILURE, [], old_cnt, f1)
      | Some (EXIT_SUCCESS, idx, None) \<Rightarrow> Some (EXIT_SUCCESS, [], 0, None)
      | Some (EXIT_SUCCESS, idx, Some f1) \<Rightarrow>
          (case read_records L ty idx f1 of
             None \<Rightarrow> None
           | Some (EXIT_FAILURE, xs, f2) \<Rightarrow> Some (EXIT_FAILURE, xs, old_cnt, Some f2)
           | Some (EXIT_SUCCESS, xs, f2) \<Rightarrow> Some (EXIT_SUCCESS, xs, length idx, Some f2)))"

section \<open>What the index scan returns\<close>

definition slot :: "meta_layout \<Rightarrow> u8 list \<Rightarrow> nat \<Rightarrow> u8 list" where
  "slot L bs k = take (sizeof_rcd_idx L) (drop (sizeof_subpfx_2 L + sizeof_subpfx_1 L + sizeof_rcd_idx L * k) bs)"

definition used_entry :: "rcd_idx \<Rightarrow> bool" where
  "used_entry r \<longleftrightarrow> timestamp r \<noteq> 0 \<and> byteoffset r \<noteq> 0"

text \<open>The entries up to the first unused slot.\<close>

definition index_entries :: "meta_layout \<Rightarrow> nat list \<Rightarrow> u8 list \<Rightarrow> rcd_idx list" where
  "index_entries L ids bs = takeWhile used_entry (map (\<lambda>k. dec_rcd_idx L (slot L bs k)) ids)"

lemma scan_index_spec:
  assumes "0 < sizeof_rcd_idx L"
    and "\<forall>k \<in> set ids. sizeof_subpfx_2 L + sizeof_subpfx_1 L + sizeof_rcd_idx L * k + sizeof_rcd_idx L
           \<le> length (fbytes f)"
  shows "fst (scan_index L a b ty ids f) = filter (index_matches a b ty) (index_entries L ids (fbytes f)) \<and>
    fbytes (snd (scan_index L a b ty ids f)) = fbytes f"
  using assms
proof (induction ids arbitrary: f)
  case Nil
  then show ?case by (simp add: index_entries_def)
next
  case (Cons k ks)
  let ?o = "sizeof_subpfx_2 L + sizeof_subpfx_1 L + sizeof_rcd_idx L * k"
  let ?f = "f\<lparr>fpos := ?o + sizeof_rcd_idx L\<rparr>"
  have r: "fread1 (sizeof_rcd_idx L) (f\<lparr>fpos := ?o\<rparr>) = (Some (slot L (fbytes f) k), ?f)"
    using Cons.prems by (simp add: fread1_def slot_def)
  have s: "fseek_set (int ?o) f = (0, f\<lparr>fpos := ?o\<rparr>)"
    unfolding fseek_set_def by (simp only: of_nat_0_le_iff nat_int if_True)
  have ih: "fst (scan_index L a b ty ks ?f) = filter (index_matches a b ty) (index_entries L ks (fbytes f)) \<and>
    fbytes (snd (scan_index L a b ty ks ?f)) = fbytes f"
    using Cons.IH [of ?f] Cons.prems by simp
  show ?case
    using ih by (simp only: scan_index.simps s r Let_def split_beta fst_conv snd_conv option.case)
      (simp add: index_entries_def used_entry_def)
qed

lemma read_records_spec:
  assumes "\<forall>r \<in> set rs. 0 < recordlength r \<and> recordlength r \<le> sizeof_payload L ty \<and>
      byteoffset r + recordlength r \<le> length (fbytes f) \<and> byteoffset r < 2147483648"
    and "ty \<noteq> eCorruption"
  shows "\<exists>f'. read_records L ty rs f = Some (EXIT_SUCCESS,
     map (\<lambda>r. \<lparr>record_time = timestamp r,
               rdata = dec_payload L ty (take (recordlength r) (drop (byteoffset r) (fbytes f)) @
                         replicate (sizeof_payload L ty - recordlength r) 0)\<rparr>) rs, f') \<and>
     fbytes f' = fbytes f"
  using assms
proof (induction rs arbitrary: f)
  case (Cons r rs)
  let ?f = "f\<lparr>fpos := byteoffset r + recordlength r\<rparr>"
  have s: "fseek_set (s32 (int (byteoffset r))) f = (0, f\<lparr>fpos := byteoffset r\<rparr>)"
    using Cons.prems by (simp add: fseek_set_def)
  have m: "min (length (fbytes f) - byteoffset r) (recordlength r) = recordlength r"
    by (rule min_absorb2) (use Cons.prems in auto)
  have r: "read_record L ty r (f\<lparr>fpos := byteoffset r\<rparr>) = Some (Some
      \<lparr>record_time = timestamp r, rdata = dec_payload L ty
        (take (recordlength r) (drop (byteoffset r) (fbytes f)) @
         replicate (sizeof_payload L ty - recordlength r) 0)\<rparr>, ?f)"
    using Cons.prems by (simp add: read_record_def fread1_def m)
  from Cons.IH [of ?f] Cons.prems
  obtain f' where "read_records L ty rs ?f = Some (EXIT_SUCCESS,
     map (\<lambda>r. \<lparr>record_time = timestamp r,
               rdata = dec_payload L ty (take (recordlength r) (drop (byteoffset r) (fbytes f)) @
                         replicate (sizeof_payload L ty - recordlength r) 0)\<rparr>) rs, f') \<and>
     fbytes f' = fbytes f" by auto
  then show ?case by (simp add: s r)
qed simp

text \<open>The whole call on a file whose index is well formed.\<close>

lemma get_metadata_records_spec:
  assumes "0 < sizeof_rcd_idx L" "sizeof_subpfx_2 L + sizeof_subpfx_1 L \<le> sizeof_file_pfx L"
    and "sizeof_file_pfx L \<le> length (fbytes f)" "ty \<noteq> eCorruption"
    and rs: "rs = filter (index_matches a b ty) (index_entries L [0..<index_slots L] (fbytes f))"
    and "length rs \<le> METADATA_CHUNK_MAX_INDEX_RECORDS"
    and "\<forall>r \<in> set rs. 0 < recordlength r \<and> recordlength r \<le> sizeof_payload L ty \<and>
      byteoffset r + recordlength r \<le> length (fbytes f) \<and> byteoffset r < 2147483648"
  shows "\<exists>f'. get_metadata_records L (Some f) a b ty c = Some (EXIT_SUCCESS,
     map (\<lambda>r. \<lparr>record_time = timestamp r,
               rdata = dec_payload L ty (take (recordlength r) (drop (byteoffset r) (fbytes f)) @
                         replicate (sizeof_payload L ty - recordlength r) 0)\<rparr>) rs, length rs, f')"
proof -
  have fit: "\<forall>k \<in> set [0..<index_slots L]. sizeof_subpfx_2 L + sizeof_subpfx_1 L + sizeof_rcd_idx L * k +
      sizeof_rcd_idx L \<le> length (fbytes f)"
  proof
    fix k assume "k \<in> set [0..<index_slots L]"
    then have "Suc k \<le> (sizeof_file_pfx L - sizeof_subpfx_2 L - sizeof_subpfx_1 L) div sizeof_rcd_idx L"
      by (simp add: index_slots_def)
    then have "sizeof_rcd_idx L * Suc k \<le> sizeof_file_pfx L - sizeof_subpfx_2 L - sizeof_subpfx_1 L"
      using assms(1) by (simp add: less_eq_div_iff_mult_less_eq mult.commute)
    with assms(2,3) show "sizeof_subpfx_2 L + sizeof_subpfx_1 L + sizeof_rcd_idx L * k +
      sizeof_rcd_idx L \<le> length (fbytes f)" by simp
  qed
  obtain f1 where f1: "scan_index L a b ty [0..<index_slots L] f = (rs, f1)" "fbytes f1 = fbytes f"
    using scan_index_spec [OF assms(1) fit, of a b ty] rs by (metis prod.collapse)
  show ?thesis
    using read_records_spec [of rs L ty f1] assms(4,6,7) f1
    by (auto simp: get_metadata_records_def get_all_filtered_index_records_def)
qed

end
