(* ===== verification/Chunk_Format.thy ===== *)
theory Chunk_Format
  imports Meta_Chunk Meta_Reader
begin

text \<open>
  The format of a finished chunk file, which the recorder writes and the collector reads: the prefix
  with the record index, the chunk header, the records. \<open>finished_bytes\<close> is what the recorder
  leaves on disk for a list of descriptors; \<open>read_finished\<close> says that the collector's reader gets
  back the records of a type and a time range, in order.
\<close>

section \<open>Assumptions on the data the layout describes\<close>

definition layout_ok :: "meta_layout \<Rightarrow> bool" where
  "layout_ok L \<longleftrightarrow>
     (\<forall>x. length (enc_subpfx_1 L x) = sizeof_subpfx_1 L) \<and>
     (\<forall>x. length (enc_subpfx_2 L x) = sizeof_subpfx_2 L) \<and>
     (\<forall>x. length (enc_chunk_hdr L x) = sizeof_chunk_hdr L) \<and>
     0 < sizeof_subpfx_1 L \<and> 0 < sizeof_subpfx_2 L \<and> 0 < sizeof_chunk_hdr L \<and> 0 < sizeof_rcd_idx L \<and>
     sizeof_subpfx_1 L + sizeof_subpfx_2 L \<le> 2048 \<and> sizeof_file_pfx L = 2048 \<and>
     \<not> used_entry (dec_rcd_idx L (replicate (sizeof_rcd_idx L) 0))"

lemma layout_okD:
  assumes "layout_ok L"
  shows "length (enc_subpfx_1 L x1) = sizeof_subpfx_1 L" "length (enc_subpfx_2 L x2) = sizeof_subpfx_2 L"
    "length (enc_chunk_hdr L x3) = sizeof_chunk_hdr L"
    "0 < sizeof_subpfx_1 L" "0 < sizeof_subpfx_2 L" "0 < sizeof_chunk_hdr L" "0 < sizeof_rcd_idx L"
    "sizeof_subpfx_1 L + sizeof_subpfx_2 L \<le> 2048" "sizeof_file_pfx L = 2048"
    "\<not> used_entry (dec_rcd_idx L (replicate (sizeof_rcd_idx L) 0))"
  using assms unfolding layout_ok_def by blast+

text \<open>A descriptor whose payload fills its struct and survives its codec.\<close>

definition desc_ok :: "meta_layout \<Rightarrow> metadata_desc \<Rightarrow> bool" where
  "desc_ok L d \<longleftrightarrow>
     (case pData d of
        None \<Rightarrow> False
      | Some p \<Rightarrow> data_type d = payload_type p \<and> data_length d = sizeof_payload L (payload_type p) \<and>
                 length (enc_payload L p) = data_length d \<and> 0 < data_length d \<and>
                 dec_payload L (payload_type p) (enc_payload L p) = p) \<and>
     tv_sec (tod d) \<noteq> 0"

definition idx_codes :: "meta_layout \<Rightarrow> rcd_idx \<Rightarrow> bool" where
  "idx_codes L r \<longleftrightarrow> length (enc_rcd_idx L r) = sizeof_rcd_idx L \<and> dec_rcd_idx L (enc_rcd_idx L r) = r"

section \<open>The index and the records of a list of descriptors\<close>

definition index_entry :: "nat \<Rightarrow> metadata_desc \<Rightarrow> rcd_idx" where
  "index_entry off d = \<lparr>timestamp = tv_sec (tod d), byteoffset = off,
     recordtype = data_type d, recordlength = data_length d\<rparr>"

fun index_from :: "nat \<Rightarrow> metadata_desc list \<Rightarrow> rcd_idx list" where
  "index_from off [] = []"
| "index_from off (d # ds) = index_entry off d # index_from (off + data_length d) ds"

definition data_bytes :: "meta_layout \<Rightarrow> metadata_desc list \<Rightarrow> u8 list" where
  "data_bytes L ds = concat (map (desc_bytes L) ds)"

definition index_bytes :: "meta_layout \<Rightarrow> rcd_idx list \<Rightarrow> u8 list" where
  "index_bytes L rs = concat (map (enc_rcd_idx L) rs)"

text \<open>What the collector should return: the matching descriptors, as records.\<close>

definition desc_matches :: "int \<Rightarrow> int \<Rightarrow> eMetaDataType \<Rightarrow> metadata_desc \<Rightarrow> bool" where
  "desc_matches a b ty d \<longleftrightarrow> index_matches a b ty (index_entry 0 d)"

definition desc_record :: "metadata_desc \<Rightarrow> metadata_record" where
  "desc_record d = \<lparr>record_time = tv_sec (tod d), rdata = the (pData d)\<rparr>"

lemma length_index_from [simp]: "length (index_from off ds) = length ds"
  by (induction ds arbitrary: off) simp_all

lemma index_from_append:
  "index_from off (ds @ es) = index_from off ds @ index_from (off + sum_list (map data_length ds)) es"
  by (induction ds arbitrary: off) (simp_all add: add.assoc)

lemma desc_bytes_length: "desc_ok L d \<Longrightarrow> length (desc_bytes L d) = data_length d"
  by (auto simp: desc_ok_def desc_bytes_def split: option.splits)

lemma desc_bytes_nonempty: "desc_ok L d \<Longrightarrow> desc_bytes L d \<noteq> []"
  using desc_bytes_length [of L d] by (auto simp: desc_ok_def split: option.splits)

lemma length_data_bytes:
  "list_all (desc_ok L) ds \<Longrightarrow> length (data_bytes L ds) = sum_list (map data_length ds)"
  by (induction ds) (simp_all add: data_bytes_def desc_bytes_length)

lemma index_matches_entry: "index_matches a b ty (index_entry off d) = desc_matches a b ty d"
  by (simp add: desc_matches_def index_matches_def index_entry_def)

lemma length_filter_index:
  "length (filter (index_matches a b ty) (index_from off ds)) = length (filter (desc_matches a b ty) ds)"
  by (induction ds arbitrary: off) (simp_all add: index_matches_entry)

lemma desc_okD:
  "desc_ok L d \<Longrightarrow> data_length d = sizeof_payload L (data_type d) \<and> 0 < data_length d \<and> tv_sec (tod d) \<noteq> 0"
  by (auto simp: desc_ok_def split: option.splits)

lemma index_from_in_range:
  "list_all (desc_ok L) ds \<Longrightarrow> r \<in> set (index_from off ds) \<Longrightarrow>
   byteoffset r + recordlength r \<le> off + sum_list (map data_length ds) \<and> off \<le> byteoffset r \<and>
   recordlength r = sizeof_payload L (recordtype r) \<and> 0 < recordlength r \<and> timestamp r \<noteq> 0"
proof (induction ds arbitrary: off)
  case (Cons d ds)
  show ?case
  proof (cases "r = index_entry off d")
    case True
    with Cons.prems desc_okD [of L d] show ?thesis by (simp add: index_entry_def)
  next
    case False
    with Cons.prems Cons.IH [of "off + data_length d"] show ?thesis by simp
  qed
qed simp

text \<open>Reading at the offsets of the index gives the payloads back.\<close>

lemma records_at_index:
  assumes "list_all (desc_ok L) ds"
  shows "map (\<lambda>r. \<lparr>record_time = timestamp r,
            rdata = dec_payload L ty (take (recordlength r) (drop (byteoffset r) (pre @ data_bytes L ds @ y)) @
                      replicate (sizeof_payload L ty - recordlength r) 0)\<rparr>)
          (filter (index_matches a b ty) (index_from (length pre) ds))
       = map desc_record (filter (desc_matches a b ty) ds)"
  using assms
proof (induction ds arbitrary: pre)
  case (Cons d ds)
  have len: "length (desc_bytes L d) = data_length d" using Cons.prems by (simp add: desc_bytes_length)
  have ih: "map (\<lambda>r. \<lparr>record_time = timestamp r,
            rdata = dec_payload L ty (take (recordlength r)
                      (drop (byteoffset r) (pre @ data_bytes L (d # ds) @ y)) @
                      replicate (sizeof_payload L ty - recordlength r) 0)\<rparr>)
          (filter (index_matches a b ty) (index_from (length pre + data_length d) ds))
       = map desc_record (filter (desc_matches a b ty) ds)"
    using Cons.IH [of "pre @ desc_bytes L d"] Cons.prems len by (simp add: data_bytes_def)
  have d: "dec_payload L ty (take (data_length d) (drop (length pre) (pre @ data_bytes L (d # ds) @ y)) @
      replicate (sizeof_payload L ty - data_length d) 0) = the (pData d)" if "desc_matches a b ty d"
    using Cons.prems that len
    by (auto simp: desc_ok_def desc_matches_def index_matches_def index_entry_def data_bytes_def
        desc_bytes_def split: option.splits)
  show ?case
    using ih d by (simp add: index_matches_entry desc_record_def) (simp add: index_entry_def)
qed simp

section \<open>A finished file\<close>

text \<open>
  \<open>x\<close> stands for the first part of the prefix, \<open>h\<close> for the chunk header and \<open>y\<close> for what the hash
  library may append.
\<close>

definition finished_bytes ::
    "meta_layout \<Rightarrow> subpfx_2 \<Rightarrow> u8 list \<Rightarrow> u8 list \<Rightarrow> metadata_desc list \<Rightarrow> u8 list \<Rightarrow> u8 list" where
  "finished_bytes L p2 x h ds y =
     (let ixb = index_bytes L (index_from (sizeof_file_pfx L + sizeof_chunk_hdr L) ds)
      in x @ enc_subpfx_2 L p2 @ ixb @
         replicate (sizeof_file_pfx L - sizeof_subpfx_1 L - sizeof_subpfx_2 L - length ixb) 0 @
         h @ data_bytes L ds @ y)"

lemma length_index_bytes:
  "list_all (idx_codes L) rs \<Longrightarrow> length (index_bytes L rs) = sizeof_rcd_idx L * length rs"
  by (induction rs) (simp_all add: index_bytes_def idx_codes_def)

lemma index_bytes_nth:
  "list_all (idx_codes L) rs \<Longrightarrow> k < length rs \<Longrightarrow>
   take (sizeof_rcd_idx L) (drop (sizeof_rcd_idx L * k) (index_bytes L rs @ z)) = enc_rcd_idx L (rs ! k)"
proof (induction rs arbitrary: k)
  case (Cons r rs)
  then show ?case
    by (cases k) (simp_all add: index_bytes_def idx_codes_def)
qed simp

lemma index_bytes_after:
  assumes "list_all (idx_codes L) rs" "sizeof_rcd_idx L * Suc (length rs) \<le> length (index_bytes L rs) + m"
  shows "take (sizeof_rcd_idx L) (drop (sizeof_rcd_idx L * length rs) (index_bytes L rs @ replicate m 0 @ z))
    = replicate (sizeof_rcd_idx L) 0"
  using assms by (simp add: length_index_bytes)

lemma takeWhile_nth:
  assumes "k \<le> length xs" "\<forall>i<k. P (xs ! i)" "k < length xs \<Longrightarrow> \<not> P (xs ! k)"
  shows "takeWhile P xs = take k xs"
  using assms by (metis nth_take takeWhile_eq_take_P_nth le_neq_implies_less nat_less_le)

theorem index_entries_finished:
  assumes L: "layout_ok L" and x: "length x = sizeof_subpfx_1 L"
    and ix: "rs = index_from (sizeof_file_pfx L + sizeof_chunk_hdr L) ds"
    and codes: "list_all (idx_codes L) rs" and ok: "list_all (desc_ok L) ds"
    and n: "length ds \<le> index_slots L"
  shows "index_entries L [0..<index_slots L] (finished_bytes L p2 x h ds y) = rs"
proof -
  let ?si = "sizeof_rcd_idx L" and ?S = "sizeof_file_pfx L - sizeof_subpfx_1 L - sizeof_subpfx_2 L"
  let ?z = "h @ data_bytes L ds @ y" and ?m = "?S - length (index_bytes L rs)"
  have lrs: "length rs = length ds" by (simp add: ix)
  have slots: "?si * index_slots L \<le> ?S"
    by (simp add: index_slots_def add.commute [of "sizeof_subpfx_2 L"])
  have slot: "slot L (finished_bytes L p2 x h ds y) k
      = take ?si (drop (?si * k) (index_bytes L rs @ replicate ?m 0 @ ?z))" for k
  proof -
    have a: "drop (length u + m) (u @ v) = drop m v" for u v :: "u8 list" and m by simp
    have "sizeof_subpfx_2 L + sizeof_subpfx_1 L = length (x @ enc_subpfx_2 L p2)"
      using layout_okD [OF L] x by simp
    then show ?thesis
      using a [of "x @ enc_subpfx_2 L p2" "?si * k"]
      by (simp only: slot_def finished_bytes_def Let_def ix append_assoc)
  qed
  have used: "dec_rcd_idx L (slot L (finished_bytes L p2 x h ds y) k) = rs ! k" if "k < length ds" for k
  proof -
    have k: "k < length rs" using that lrs by simp
    show ?thesis unfolding slot index_bytes_nth [OF codes k]
      using codes k by (simp add: list_all_length idx_codes_def)
  qed
  have unused: "\<not> used_entry (dec_rcd_idx L (slot L (finished_bytes L p2 x h ds y) (length ds)))"
    if "length ds < index_slots L"
  proof -
    have "?si * Suc (length ds) \<le> ?si * index_slots L" using that by (intro mult_le_mono2) simp
    with slots have room: "?si * Suc (length rs) \<le> length (index_bytes L rs) + ?m" by (simp add: lrs)
    show ?thesis
      unfolding slot lrs [symmetric] index_bytes_after [OF codes room, of ?z] using layout_okD [OF L] by blast
  qed
  have ue: "used_entry (rs ! k)" if "k < length ds" for k
    using index_from_in_range [OF ok, of "rs ! k"] that lrs nth_mem [of k rs] L
    unfolding ix by (fastforce simp: used_entry_def layout_ok_def)
  have "index_entries L [0..<index_slots L] (finished_bytes L p2 x h ds y)
      = take (length ds) (map (\<lambda>k. dec_rcd_idx L (slot L (finished_bytes L p2 x h ds y) k)) [0..<index_slots L])"
    unfolding index_entries_def
    by (rule takeWhile_nth) (use n used unused ue in \<open>simp_all add: ix\<close>)
  also have "\<dots> = rs"
    by (rule nth_equalityI) (use n used lrs in simp_all)
  finally show ?thesis .
qed

text \<open>The reader on a finished file.\<close>

theorem read_finished:
  assumes L: "layout_ok L" and x: "length x = sizeof_subpfx_1 L" and h: "length h = sizeof_chunk_hdr L"
    and codes: "list_all (idx_codes L) (index_from (sizeof_file_pfx L + sizeof_chunk_hdr L) ds)"
    and ok: "list_all (desc_ok L) ds" and n: "length ds \<le> index_slots L"
    and n2: "length ds \<le> METADATA_CHUNK_MAX_INDEX_RECORDS"
    and small: "sizeof_file_pfx L + sizeof_chunk_hdr L + sum_list (map data_length ds) < 2147483648"
    and ty: "ty \<noteq> eCorruption"
  shows "\<exists>f'. get_metadata_records L (Some \<lparr>fbytes = finished_bytes L p2 x h ds y, fpos = 0\<rparr>) a b ty c
    = Some (EXIT_SUCCESS, map desc_record (filter (desc_matches a b ty) ds),
            length (filter (desc_matches a b ty) ds), f')"
proof -
  let ?rs = "index_from (sizeof_file_pfx L + sizeof_chunk_hdr L) ds"
  let ?f = "\<lparr>fbytes = finished_bytes L p2 x h ds y, fpos = 0\<rparr>"
  let ?m = "filter (index_matches a b ty) ?rs"
  have ixl: "length (index_bytes L ?rs) \<le> sizeof_file_pfx L - sizeof_subpfx_1 L - sizeof_subpfx_2 L"
  proof -
    have "sizeof_rcd_idx L * length ds \<le> sizeof_rcd_idx L * index_slots L"
      using n by (rule mult_le_mono2)
    also have "\<dots> \<le> sizeof_file_pfx L - sizeof_subpfx_2 L - sizeof_subpfx_1 L"
      by (simp add: index_slots_def)
    finally show ?thesis using length_index_bytes [OF codes] by simp
  qed
  have fb: "finished_bytes L p2 x h ds y = (x @ enc_subpfx_2 L p2 @ index_bytes L ?rs @
      replicate (sizeof_file_pfx L - sizeof_subpfx_1 L - sizeof_subpfx_2 L - length (index_bytes L ?rs)) 0 @ h)
      @ data_bytes L ds @ y" (is "_ = ?pre @ _")
    by (simp add: finished_bytes_def Let_def)
  have pre: "length ?pre = sizeof_file_pfx L + sizeof_chunk_hdr L"
    using layout_okD [OF L] x h ixl by simp
  have len: "sizeof_file_pfx L + sizeof_chunk_hdr L + sum_list (map data_length ds) \<le> length (fbytes ?f)"
    unfolding fb using pre length_data_bytes [OF ok] by simp
  have "\<exists>f'. get_metadata_records L (Some ?f) a b ty c = Some (EXIT_SUCCESS,
     map (\<lambda>r. \<lparr>record_time = timestamp r,
               rdata = dec_payload L ty (take (recordlength r) (drop (byteoffset r) (fbytes ?f)) @
                         replicate (sizeof_payload L ty - recordlength r) 0)\<rparr>) ?m, length ?m, f')"
  proof (rule get_metadata_records_spec)
    show "?m = filter (index_matches a b ty) (index_entries L [0..<index_slots L] (fbytes ?f))"
      using index_entries_finished [OF L x refl codes ok n] by simp
    show "length ?m \<le> METADATA_CHUNK_MAX_INDEX_RECORDS"
      using n2 by (simp add: length_filter_index le_trans [OF length_filter_le])
    show "\<forall>r \<in> set ?m. 0 < recordlength r \<and> recordlength r \<le> sizeof_payload L ty \<and>
      byteoffset r + recordlength r \<le> length (fbytes ?f) \<and> byteoffset r < 2147483648"
      using index_from_in_range [OF ok] len small by (fastforce simp: index_matches_def)
  qed (use layout_okD [OF L] ty len in simp_all)
  then show ?thesis
    by (simp add: length_filter_index records_at_index [OF ok, of ty ?pre y a b, folded fb, unfolded pre])
qed

end
