(* ===== verification/Chunk_Session.thy ===== *)
theory Chunk_Session
  imports Chunk_Format
begin

text \<open>
  One recording session of the metadata recorder: from a channel with no open file, a run of
  descriptors of the same hour is recorded into one chunk per storage location, and the chunk is
  finalized. The lemmas follow the code: opening the files, writing a record to every copy, the
  record tracker, finalizing. The last theorem composes them with the collector's reader.
\<close>

section \<open>Projections of the state\<close>

lemma upd_chunk_simps [simp]:
  "m_chunk (pchan (upd_chunk f s)) = f (m_chunk (pchan s))"
  "data_loc (pchan (upd_chunk f s)) = data_loc (pchan s)"
  "n_copies (pchan (upd_chunk f s)) = n_copies (pchan s)"
  "subpath (pchan (upd_chunk f s)) = subpath (pchan s)"
  "store (upd_chunk f s) = store s" "out (upd_chunk f s) = out s" "pos (upd_chunk f s) = pos s"
  "ptc (upd_chunk f s) = ptc s" "idx_data (upd_chunk f s) = idx_data s"
  "record_tracker (upd_chunk f s) = record_tracker s"
  "pre_chm_rec (upd_chunk f s) = pre_chm_rec s" "pre_ssd_rec (upd_chunk f s) = pre_ssd_rec s"
  by (simp_all add: upd_chunk_def)

lemma upd_chunk_upd_chunk [simp]: "upd_chunk f (upd_chunk g s) = upd_chunk (f \<circ> g) s"
  by (simp add: upd_chunk_def)

definition staging_path :: "recorder \<Rightarrow> nat \<Rightarrow> string" where
  "staging_path s j = stagingdir (data_loc (pchan s) ! j) @ chunk_fname (chunk s)"

definition n_locs :: "recorder \<Rightarrow> nat" where "n_locs s = length (data_loc (pchan s))"

section \<open>The open files of a session\<close>

text \<open>
  Every used location has an open stream at the end of its staging file, and all of them hold the
  same bytes.
\<close>

definition files_inv :: "recorder \<Rightarrow> u8 list \<Rightarrow> bool" where
  "files_inv s bs \<longleftrightarrow>
     store_ok (store s) \<and> distinct (map stagingdir (data_loc (pchan s))) \<and>
     length (out s) = n_locs s \<and> fp (chunk s) = out s \<and> n_copies (pchan s) = n_locs s \<and>
     (\<forall>j < n_locs s. (out s ! j \<noteq> None) = loc_used s j) \<and>
     (\<forall>j < n_locs s. \<forall>h. out s ! j = Some h \<longrightarrow>
        holds (store s) (staging_path s j) h \<lparr>fbytes = bs, fpos = length bs\<rparr>)"

lemma files_invD:
  assumes "files_inv s bs"
  shows "store_ok (store s)" "distinct (map stagingdir (data_loc (pchan s)))"
    "length (out s) = n_locs s" "fp (chunk s) = out s" "n_copies (pchan s) = n_locs s"
    "j < n_locs s \<Longrightarrow> (out s ! j \<noteq> None) = loc_used s j"
    "j < n_locs s \<Longrightarrow> out s ! j = Some h \<Longrightarrow>
       holds (store s) (staging_path s j) h \<lparr>fbytes = bs, fpos = length bs\<rparr>"
  using assms unfolding files_inv_def by blast+

lemma staging_path_inj:
  assumes "distinct (map stagingdir (data_loc (pchan s)))" "j < n_locs s" "k < n_locs s" "j \<noteq> k"
  shows "staging_path s j \<noteq> staging_path s k"
  using assms nth_eq_iff_index_eq [of "map stagingdir (data_loc (pchan s))" j k]
  by (simp add: staging_path_def n_locs_def)

text \<open>Replacing the store only.\<close>

lemma store_upd_simps [simp]:
  "staging_path (s\<lparr>store := st\<rparr>) j = staging_path s j" "n_locs (s\<lparr>store := st\<rparr>) = n_locs s"
  by (simp_all add: staging_path_def n_locs_def)

lemma foldM_upt_Suc: "foldM f [0..<Suc k] s = Option.bind (foldM f [0..<k] s) (f k)"
  by (auto simp: foldM_append split: Option.bind_split option.splits)

section \<open>Writing a record to every copy\<close>

lemma write_copies:
  assumes inv: "files_inv s bs" and w: "\<forall>i. can_write (io E) i" and ne: "desc_bytes (lay E) d \<noteq> []"
  shows "k \<le> n_locs s \<Longrightarrow> \<exists>st. foldM (write_copy E d) [0..<k] s = Some (s\<lparr>store := st\<rparr>) \<and> store_ok st \<and>
    (\<forall>j < n_locs s. \<forall>h. out s ! j = Some h \<longrightarrow> holds st (staging_path s j) h
       (if j < k then \<lparr>fbytes = bs @ desc_bytes (lay E) d, fpos = length bs + length (desc_bytes (lay E) d)\<rparr>
        else \<lparr>fbytes = bs, fpos = length bs\<rparr>))"
proof (induction k)
  case 0
  show ?case using files_invD [OF inv] by (intro exI [of _ "store s"]) simp
next
  case (Suc k)
  let ?new = "\<lparr>fbytes = bs @ desc_bytes (lay E) d, fpos = length bs + length (desc_bytes (lay E) d)\<rparr>"
  let ?old = "\<lparr>fbytes = bs, fpos = length bs\<rparr>"
  from Suc obtain st where st: "foldM (write_copy E d) [0..<k] s = Some (s\<lparr>store := st\<rparr>)" "store_ok st"
    and cont: "\<forall>j < n_locs s. \<forall>h. out s ! j = Some h \<longrightarrow> holds st (staging_path s j) h (if j < k then ?new else ?old)"
    by auto
  have k: "k < n_locs s" using Suc.prems by simp
  show ?case
  proof (cases "out s ! k")
    case None
    have wr: "write_copy E d k (s\<lparr>store := st\<rparr>) = Some (s\<lparr>store := st\<rparr>)"
      using None k by (simp add: write_copy_def n_locs_def)
    have "holds st (staging_path s j) h (if j < Suc k then ?new else ?old)"
      if "j < n_locs s" "out s ! j = Some h" for j h
      using cont that None by (auto simp: less_Suc_eq)
    with st wr show ?thesis
      by (intro exI [of _ st]) (simp add: foldM_upt_Suc del: upt_Suc)
  next
    case (Some h)
    let ?st = "put_stream h ?new st"
    have hk: "holds st (staging_path s k) h ?old" using cont [rule_format, OF k Some] by simp
    have used: "loc_used s k" using files_invD(6) [OF inv k] Some by simp
    have g: "get_stream h st = Some ?old" using hk by (simp add: holds_def)
    have wr: "write_copy E d k (s\<lparr>store := st\<rparr>) = Some (s\<lparr>store := ?st\<rparr>)"
      using k Some used fwrite1_open [OF g ne w]
      by (simp add: write_copy_def n_locs_def fwrite_append)
    have kp: "keeps {staging_path s k} st ?st" by (rule keeps_put [OF st(2) hk])
    have new: "holds ?st (staging_path s j) h' (if j < Suc k then ?new else ?old)"
      if "j < n_locs s" "out s ! j = Some h'" for j h'
    proof (cases "j = k")
      case True
      with that Some holds_put [OF hk, of ?new] show ?thesis by simp
    next
      case False
      then have "staging_path s j \<notin> {staging_path s k}"
        using staging_path_inj [OF files_invD(2) [OF inv] that(1) k] by simp
      from keepsD(2) [OF kp this] cont that False show ?thesis by (auto simp: less_Suc_eq)
    qed
    show ?thesis
      using st wr keepsD(1) [OF kp] new by (intro exI [of _ ?st]) (simp add: foldM_upt_Suc del: upt_Suc)
  qed
qed

lemma write_metadata_ok:
  assumes inv: "files_inv s bs" and w: "\<forall>i. can_write (io E) i" and ne: "desc_bytes (lay E) d \<noteq> []"
  obtains st where "write_metadata E d s = Some (s\<lparr>store := st\<rparr>)"
    "files_inv (s\<lparr>store := st\<rparr>) (bs @ desc_bytes (lay E) d)"
proof -
  obtain st where st: "foldM (write_copy E d) [0..<n_locs s] s = Some (s\<lparr>store := st\<rparr>)" "store_ok st"
    "\<forall>j < n_locs s. \<forall>h. out s ! j = Some h \<longrightarrow> holds st (staging_path s j) h
       \<lparr>fbytes = bs @ desc_bytes (lay E) d, fpos = length bs + length (desc_bytes (lay E) d)\<rparr>"
    using write_copies [OF inv w ne order_refl] by auto
  show thesis
  proof (rule that)
    show "write_metadata E d s = Some (s\<lparr>store := st\<rparr>)"
      using st(1) files_invD(5) [OF inv] by (simp add: write_metadata_def)
    show "files_inv (s\<lparr>store := st\<rparr>) (bs @ desc_bytes (lay E) d)"
      using inv st(2,3) unfolding files_inv_def by simp
  qed
qed

text \<open>Where the next record will start.\<close>

lemma first_open_mem: "first_open fps = Some h \<Longrightarrow> Some h \<in> set fps"
  by (auto simp: first_open_def filter_eq_Cons_iff split: list.splits)

lemma first_open_Some: "first_open fps = Some h \<Longrightarrow> \<exists>j < length fps. fps ! j = Some h"
  using first_open_mem [of fps h] by (simp add: in_set_conv_nth)

lemma first_open_None_set: "first_open fps = None \<longleftrightarrow> (\<forall>x \<in> set fps. x = None)"
  by (auto simp: first_open_def filter_eq_Cons_iff filter_empty_conv split: list.splits)

lemma first_open_None: "first_open fps = None \<longleftrightarrow> (\<forall>j < length fps. fps ! j = None)"
  by (simp add: first_open_None_set all_set_conv_all_nth)

lemma ftell_session:
  assumes "files_inv s bs" "first_open (out s) = Some h"
  shows "ftell_fp h (store s) = Some (length bs)"
proof -
  obtain j where "j < n_locs s" "out s ! j = Some h"
    using first_open_Some [OF assms(2)] files_invD(3) [OF assms(1)] by auto
  from files_invD(7) [OF assms(1) this] show ?thesis by (simp add: ftell_fp_def holds_def)
qed


section \<open>Opening the files of a chunk\<close>

definition start_timeval :: "metadata_desc \<Rightarrow> timeval" where
  "start_timeval d = \<lparr>tv_sec = ts_sec (ts d), tv_usec = ts_nsec (ts d) sdiv 1000\<rparr>"

definition header_bytes :: "meta_layout \<Rightarrow> digital_input_descriptor list \<Rightarrow> metadata_desc \<Rightarrow> u8 list" where
  "header_bytes L es d = file_pfx_bytes L es @ enc_chunk_hdr L (start_timeval d)"

lemma length_file_pfx: "layout_ok L \<Longrightarrow> length (file_pfx_bytes L es) = sizeof_file_pfx L"
  using layout_okD [of L] by (simp add: file_pfx_bytes_def)

lemma length_header:
  "layout_ok L \<Longrightarrow> length (header_bytes L es d) = sizeof_file_pfx L + sizeof_chunk_hdr L"
  by (simp add: header_bytes_def length_file_pfx layout_okD)

lemma chunk_header_ok:
  assumes ok: "store_ok st" and h: "holds st p h \<lparr>fbytes = [], fpos = 0\<rparr>"
    and L: "layout_ok (lay E)" and w: "\<forall>i. can_write (io E) i"
  obtains st' where "metadata_chunk_header E es h (start_timeval d) st = Some st'" "keeps {p} st st'"
    "holds st' p h \<lparr>fbytes = header_bytes (lay E) es d, fpos = length (header_bytes (lay E) es d)\<rparr>"
proof -
  let ?P = "file_pfx_bytes (lay E) es" and ?H = "enc_chunk_hdr (lay E) (start_timeval d)"
  let ?st1 = "put_stream h \<lparr>fbytes = ?P, fpos = length ?P\<rparr> st"
  let ?st2 = "put_stream h \<lparr>fbytes = ?P @ ?H, fpos = length ?P + length ?H\<rparr> ?st1"
  have ne: "?P \<noteq> []" "?H \<noteq> []"
    using length_file_pfx [OF L, of es] layout_okD(4-9) [OF L]
      layout_okD(3) [OF L, of "start_timeval d"] by auto
  have h1: "holds ?st1 p h \<lparr>fbytes = ?P, fpos = length ?P\<rparr>" using holds_put [OF h, of "\<lparr>fbytes = ?P, fpos = length ?P\<rparr>"] by simp
  have k1: "keeps {p} st ?st1" by (rule keeps_put [OF ok h])
  have k2: "keeps {p} ?st1 ?st2" by (rule keeps_put [OF keepsD(1) [OF k1] h1])
  have g: "get_stream h st = Some \<lparr>fbytes = [], fpos = 0\<rparr>" "get_stream h ?st1 = Some \<lparr>fbytes = ?P, fpos = length ?P\<rparr>"
    using h h1 by (simp_all add: holds_def)
  have "metadata_chunk_header E es h (start_timeval d) st = Some ?st2"
    using fwrite1_open [OF g(1) ne(1) w] fwrite1_open [OF g(2) ne(2) w]
    by (simp add: metadata_chunk_header_def fwrite_append)
  moreover have "keeps {p} st ?st2" using keeps_trans [OF k1 k2] by simp
  ultimately show thesis 
    using that holds_put [OF h1, of "\<lparr>fbytes = ?P @ ?H, fpos = length ?P + length ?H\<rparr>"]
    by (simp add: header_bytes_def)
qed

text \<open>A channel with no open file.\<close>

definition closed_inv :: "recorder \<Rightarrow> bool" where
  "closed_inv s \<longleftrightarrow>
     store_ok (store s) \<and> distinct (map stagingdir (data_loc (pchan s))) \<and>
     n_copies (pchan s) = n_locs s \<and> out s = replicate (n_locs s) None \<and> fp (chunk s) = out s"

definition opened :: "recorder \<Rightarrow> fp option list \<Rightarrow> u64 \<Rightarrow> stdio \<Rightarrow> recorder" where
  "opened s fps t st = upd_chunk (\<lambda>c. c\<lparr>fp := fps, t0 := t\<rparr>) (s\<lparr>store := st, out := fps\<rparr>)"

lemma opened_simps [simp]:
  "store (opened s fps t st) = st" "out (opened s fps t st) = fps"
  "fp (chunk (opened s fps t st)) = fps" "t0 (chunk (opened s fps t st)) = t"
  "data_loc (pchan (opened s fps t st)) = data_loc (pchan s)"
  "n_copies (pchan (opened s fps t st)) = n_copies (pchan s)"
  "subpath (pchan (opened s fps t st)) = subpath (pchan s)"
  "staging_path (opened s fps t st) j = staging_path s j" "n_locs (opened s fps t st) = n_locs s"
  "ptc (opened s fps t st) = ptc s" "idx_data (opened s fps t st) = idx_data s"
  "record_tracker (opened s fps t st) = record_tracker s" "pos (opened s fps t st) = pos s"
  "chunk_fname (chunk (opened s fps t st)) = chunk_fname (chunk s)"
  "prev_tm (chunk (opened s fps t st)) = prev_tm (chunk s)"
  "deltat (chunk (opened s fps t st)) = deltat (chunk s)"
  "chunk_max_duration (chunk (opened s fps t st)) = chunk_max_duration (chunk s)"
  "session_just_started (chunk (opened s fps t st)) = session_just_started (chunk s)"
  "drive_status_updated (chunk (opened s fps t st)) = drive_status_updated (chunk s)"
  "pre_chm_rec (opened s fps t st) = pre_chm_rec s" "pre_ssd_rec (opened s fps t st) = pre_ssd_rec s"
  by (simp_all add: opened_def staging_path_def n_locs_def)

lemma opened_opened: "opened (opened s fps t st) fps' t' st' = opened s fps' t' st'"
  by (simp add: opened_def upd_chunk_def)

lemma open_location_used:
  assumes used: "loc_used s k" and ok: "store_ok (store s)" and len: "fp (chunk s) = out s"
    and L: "layout_ok (lay E)" and w: "\<forall>i. can_write (io E) i" and o: "\<forall>p. can_open (io E) p"
  obtains h st where
    "open_location E d k s = Some (opened s ((out s)[k := Some h]) (raw_ns (ts d)) st)"
    "keeps {staging_path s k} (store s) st"
    "holds st (staging_path s k) h
       \<lparr>fbytes = header_bytes (lay E) (digital_events_config_map (intf (ptc s))) d,
        fpos = length (header_bytes (lay E) (digital_events_config_map (intf (ptc s))) d)\<rparr>"
proof -
  let ?p = "staging_path s k" and ?dl = "data_loc (pchan s) ! k"
  let ?ds = "if is_dir_exist E (stagingdir ?dl) (dirs (store s)) then dirs (store s)
             else snd (mkdir_p E (stagingdir ?dl) (dirs (store s)))"
  let ?st0 = "(store s)\<lparr>dirs := ?ds\<rparr>"
  have k0: "keeps {} (store s) ?st0" by (rule keeps_dirs [OF ok])
  obtain st1 where st1: "fopen_w (io E) ?p ?st0 = (Some (next_fp ?st0), st1)" "keeps {?p} ?st0 st1"
    "holds st1 ?p (next_fp ?st0) \<lparr>fbytes = [], fpos = 0\<rparr>"
    using fopen_w_keeps [OF keepsD(1) [OF k0], of "io E" ?p] o by metis
  obtain st2 where st2: "metadata_chunk_header E (digital_events_config_map (intf (ptc s))) (next_fp ?st0)
       (start_timeval d) st1 = Some st2" "keeps {?p} st1 st2"
    "holds st2 ?p (next_fp ?st0)
       \<lparr>fbytes = header_bytes (lay E) (digital_events_config_map (intf (ptc s))) d,
        fpos = length (header_bytes (lay E) (digital_events_config_map (intf (ptc s))) d)\<rparr>"
    by (rule chunk_header_ok [OF keepsD(1) [OF st1(2)] st1(3) L w])
  have "open_location E d k s = Some (opened s ((out s)[k := Some (next_fp ?st0)]) (raw_ns (ts d)) st2)"
    using used st1(1) st2(1) len
    by (simp add: open_location_def Let_def staging_path_def start_timeval_def opened_def upd_chunk_def)
  moreover have "keeps {?p} (store s) st2"
    using keeps_trans [OF keeps_trans [OF k0 st1(2)] st2(2)] by simp
  ultimately show thesis using st2(3) that by blast
qed


text \<open>The bytes every file of a fresh chunk holds.\<close>

abbreviation fresh_header :: "chunk_env \<Rightarrow> recorder \<Rightarrow> metadata_desc \<Rightarrow> u8 list" where
  "fresh_header E s d \<equiv> header_bytes (lay E) (digital_events_config_map (intf (ptc s))) d"

definition open_state :: "chunk_env \<Rightarrow> metadata_desc \<Rightarrow> recorder \<Rightarrow> nat \<Rightarrow> fp option list \<Rightarrow> stdio \<Rightarrow> bool" where
  "open_state E d s k fps st \<longleftrightarrow>
     store_ok st \<and> length fps = n_locs s \<and>
     (\<forall>j < n_locs s. (fps ! j \<noteq> None) = (j < k \<and> loc_used s j)) \<and>
     (\<forall>j < n_locs s. \<forall>h. fps ! j = Some h \<longrightarrow> holds st (staging_path s j) h
        \<lparr>fbytes = fresh_header E s d, fpos = length (fresh_header E s d)\<rparr>)"

lemma open_state_step:
  assumes st: "open_state E d s k fps st" and k: "k < n_locs s"
    and dist: "distinct (map stagingdir (data_loc (pchan s)))"
    and kp: "keeps {staging_path s k} st st'"
    and h: "holds st' (staging_path s k) h
        \<lparr>fbytes = fresh_header E s d, fpos = length (fresh_header E s d)\<rparr>" and used: "loc_used s k"
  shows "open_state E d s (Suc k) (fps[k := Some h]) st'"
proof -
  have "holds st' (staging_path s j) h' \<lparr>fbytes = fresh_header E s d, fpos = length (fresh_header E s d)\<rparr>"
    if "j < n_locs s" "fps[k := Some h] ! j = Some h'" for j h'
  proof (cases "j = k")
    case True
    with that h k st show ?thesis by (simp add: open_state_def)
  next
    case False
    then have "staging_path s j \<notin> {staging_path s k}"
      using staging_path_inj [OF dist that(1) k] by simp
    from keepsD(2) [OF kp this] that False st show ?thesis by (simp add: open_state_def)
  qed
  moreover have "(fps[k := Some h] ! j \<noteq> None) = (j < Suc k \<and> loc_used s j)" if "j < n_locs s" for j
    using that st used k by (cases "j = k") (auto simp: open_state_def less_Suc_eq)
  ultimately show ?thesis using st keepsD(1) [OF kp] by (simp add: open_state_def)
qed

lemma open_loop:
  assumes inv: "closed_inv s"
    and L: "layout_ok (lay E)" and w: "\<forall>i. can_write (io E) i" and o: "\<forall>p. can_open (io E) p"
  shows "k \<le> n_locs s \<Longrightarrow> \<exists>fps t st. foldM (open_location E d) [0..<k] s = Some (opened s fps t st) \<and>
     open_state E d s k fps st \<and> ((\<exists>j<k. loc_used s j) \<longrightarrow> t = raw_ns (ts d))"
proof (induction k)
  case 0
  have "s = opened s (out s) (t0 (chunk s)) (store s)"
    using inv by (simp add: opened_def upd_chunk_def closed_inv_def)
  with inv show ?case
    by (intro exI [of _ "out s"] exI [of _ "t0 (chunk s)"] exI [of _ "store s"])
       (auto simp: open_state_def closed_inv_def)
next
  case (Suc k)
  then obtain fps t st where ih: "foldM (open_location E d) [0..<k] s = Some (opened s fps t st)"
    "open_state E d s k fps st" "(\<exists>j<k. loc_used s j) \<longrightarrow> t = raw_ns (ts d)" by auto
  have k: "k < n_locs s" using Suc.prems by simp
  show ?case
  proof (cases "loc_used s k")
    case False
    then have "open_location E d k (opened s fps t st) = Some (opened s fps t st)"
      by (simp add: open_location_def)
    moreover have "open_state E d s (Suc k) fps st"
      using ih(2) False by (auto simp: open_state_def less_Suc_eq)
    ultimately show ?thesis using ih(1,3) False
      by (intro exI [of _ fps] exI [of _ t] exI [of _ st])
         (auto simp: foldM_upt_Suc less_Suc_eq simp del: upt_Suc)
  next
    case True
    let ?s = "opened s fps t st"
    have used: "loc_used ?s k" using True by simp
    have ok: "store_ok (store ?s)" using ih(2) by (simp add: open_state_def)
    have len: "fp (chunk ?s) = out ?s" by simp
    obtain h st' where st': "open_location E d k ?s = Some (opened ?s ((out ?s)[k := Some h]) (raw_ns (ts d)) st')"
      "keeps {staging_path ?s k} (store ?s) st'"
      "holds st' (staging_path ?s k) h \<lparr>fbytes = fresh_header E ?s d, fpos = length (fresh_header E ?s d)\<rparr>"
      by (rule open_location_used [OF used ok len L w o])
    have "open_state E d s (Suc k) (fps[k := Some h]) st'"
      by (rule open_state_step [OF ih(2) k]) (use inv st' True in \<open>simp_all add: closed_inv_def\<close>)
    with st'(1) ih(1) show ?thesis
      by (intro exI [of _ "fps[k := Some h]"] exI [of _ "raw_ns (ts d)"] exI [of _ st'])
         (simp add: foldM_upt_Suc opened_opened del: upt_Suc)
  qed
qed

lemma open_all:
  assumes inv: "closed_inv s" and used: "\<exists>j < n_locs s. loc_used s j"
    and L: "layout_ok (lay E)" and w: "\<forall>i. can_write (io E) i" and o: "\<forall>p. can_open (io E) p"
  obtains fps st where
    "foldM (open_location E d) (locs s) s = Some (opened s fps (raw_ns (ts d)) st)"
    "files_inv (opened s fps (raw_ns (ts d)) st) (fresh_header E s d)"
proof -
  obtain fps t st where o: "foldM (open_location E d) (locs s) s = Some (opened s fps t st)"
    "open_state E d s (n_locs s) fps st" "t = raw_ns (ts d)"
    using open_loop [OF inv L w o order_refl, of d] used by (auto simp: locs_def n_locs_def)
  have "files_inv (opened s fps t st) (fresh_header E s d)"
    using o(2) inv unfolding files_inv_def open_state_def by (simp add: closed_inv_def)
  with o that show thesis by simp
qed

section \<open>The first descriptor of a session\<close>

lemma prepare_subpath_spec:
  "\<exists>n sub ds. fold (\<lambda>idx (n, s).
        if loc_used s idx then
          (let sub = hour_path (prev_tm (chunk s));
               s1 = s\<lparr>pchan := (pchan s)\<lparr>subpath := sub\<rparr>\<rparr>;
               (n1, ds) = mkdir_p E (with_slash (datadir (data_loc (pchan s) ! idx)) @ sub) (dirs (store s1))
           in (n1, s1\<lparr>store := (store s1)\<lparr>dirs := ds\<rparr>\<rparr>))
        else (n, s)) is (m, s)
     = (n, s\<lparr>pchan := (pchan s)\<lparr>subpath := sub\<rparr>, store := (store s)\<lparr>dirs := ds\<rparr>\<rparr>) \<and>
     sub = (if \<exists>j \<in> set is. loc_used s j then hour_path (prev_tm (chunk s)) else subpath (pchan s))"
proof (induction "is" arbitrary: m s)
  case Nil
  show ?case by (intro exI [of _ m] exI [of _ "subpath (pchan s)"] exI [of _ "dirs (store s)"]) simp
next
  case (Cons i "is")
  show ?case
  proof (cases "loc_used s i")
    case False
    with Cons.IH [of m s] show ?thesis by simp
  next
    case True
    obtain n1 ds1 where mk: "mkdir_p E (with_slash (datadir (data_loc (pchan s) ! i)) @
       hour_path (prev_tm (chunk s))) (dirs (store s)) = (n1, ds1)" by fastforce
    let ?s = "s\<lparr>pchan := (pchan s)\<lparr>subpath := hour_path (prev_tm (chunk s))\<rparr>, store := (store s)\<lparr>dirs := ds1\<rparr>\<rparr>"
    from Cons.IH [of n1 ?s] True mk show ?thesis by auto
  qed
qed

definition same_hour :: "tm \<Rightarrow> tm \<Rightarrow> bool" where
  "same_hour t u \<longleftrightarrow> tm_hour t = tm_hour u \<and> tm_mday t = tm_mday u \<and> tm_mon t = tm_mon u \<and> tm_year t = tm_year u"

lemma same_hour_path: "same_hour t u \<Longrightarrow> hour_path t = hour_path u"
  by (simp add: same_hour_def hour_path_def)

lemma new_path_iff: "is_new_path_required c t \<longleftrightarrow> session_just_started c \<or> \<not> same_hour (prev_tm c) t"
  by (auto simp: is_new_path_required_def same_hour_def)


lemma foldM_id: "(\<And>x. x \<in> set xs \<Longrightarrow> f x s = Some s) \<Longrightarrow> foldM f xs s = Some s"
  by (induction xs) auto

lemma rotate_none:
  assumes "\<forall>j < n_locs s. fp (chunk s) ! j = None"
  shows "foldM (rotate_location E) (locs s) s = Some s"
  by (rule foldM_id) (use assms in \<open>simp add: rotate_location_def locs_def n_locs_def\<close>)

text \<open>What stays fixed while a session runs, and what its state is after some descriptors.\<close>

definition session_fixed :: "chunk_env \<Rightarrow> recorder \<Rightarrow> metadata_desc \<Rightarrow> recorder \<Rightarrow> bool" where
  "session_fixed E s0 d0 s \<longleftrightarrow>
     data_loc (pchan s) = data_loc (pchan s0) \<and>
     chunk_fname (chunk s) = chunk_name (gmtime_r (tv_sec (tod d0))) \<and>
     subpath (pchan s) = hour_path (gmtime_r (tv_sec (tod d0))) \<and>
     same_hour (prev_tm (chunk s)) (gmtime_r (tv_sec (tod d0))) \<and>
     t0 (chunk s) = raw_ns (ts d0) \<and> \<not> session_just_started (chunk s) \<and> deltat (chunk s) \<noteq> 0 \<and>
     chunk_max_duration (chunk s) = chunk_max_duration (chunk s0) \<and>
     \<not> forward_time_change_occurred (ptc s) \<and>
     commanded_recording_mode (ptc s) = commanded_recording_mode (ptc s0) \<and>
     max_records (record_tracker s) = max_records (record_tracker s0)"

definition tracker_inv :: "recorder \<Rightarrow> nat \<Rightarrow> metadata_desc list \<Rightarrow> bool" where
  "tracker_inv s base ds \<longleftrightarrow>
     num_records (record_tracker s) = length ds \<and> length ds \<le> max_records (record_tracker s) \<and>
     (\<exists>ix. idx_data s = Some ix \<and> length ix = max_records (record_tracker s) \<and>
           take (length ds) ix = index_from base ds)"

definition steady :: "chunk_env \<Rightarrow> recorder \<Rightarrow> bool" where
  "steady E s \<longleftrightarrow>
     (let rm = ptci_get_rm_meta (penv E) (ptc s)
      in pre_chm_rec s \<in> {- 1, IS_CHM_METADATA_RECORDING_COMMANDED E rm} \<and>
         pre_ssd_rec s \<in> {- 1, IS_SSD_METADATA_RECORDING_COMMANDED E rm})"

definition session_inv ::
    "chunk_env \<Rightarrow> recorder \<Rightarrow> metadata_desc \<Rightarrow> metadata_desc list \<Rightarrow> recorder \<Rightarrow> bool" where
  "session_inv E s0 d0 ds s \<longleftrightarrow>
     session_fixed E s0 d0 s \<and> steady E s \<and>
     files_inv s (fresh_header E s0 d0 @ data_bytes (lay E) ds) \<and>
     tracker_inv s (length (fresh_header E s0 d0)) ds \<and>
     pos s = length (fresh_header E s0 d0 @ data_bytes (lay E) ds) \<and>
     (\<exists>j < n_locs s. loc_used s j)"

text \<open>The state a session starts from.\<close>

definition session_start :: "chunk_env \<Rightarrow> recorder \<Rightarrow> bool" where
  "session_start E s \<longleftrightarrow>
     closed_inv s \<and> (\<exists>j < n_locs s. loc_used s j) \<and> steady E s \<and>
     session_just_started (chunk s) \<and> deltat (chunk s) \<noteq> 0 \<and>
     (subpath (pchan s) = hour_path (prev_tm (chunk s)) \<or> prev_tm (chunk s) = zero_tm) \<and>
     (\<exists>ix. idx_data s = Some ix \<and> length ix = max_records (record_tracker s))"

lemma not_same_hour_zero: "\<not> same_hour zero_tm (gmtime_r t)"
  using gmtime_valid [of t] by (auto simp: same_hour_def zero_tm_def valid_tm_def)

text \<open>Index entry and record bytes: the end of \<open>record_descriptor\<close>.\<close>

lemma tracker_step:
  assumes "tracker_inv s base ds" "length ds < max_records (record_tracker s)"
    and "pos s = base + sum_list (map data_length ds)"
  shows "tracker_inv (index_record d s) base (ds @ [d]) \<and>
    (\<exists>ix n. index_record d s = s\<lparr>idx_data := ix, record_tracker := (record_tracker s)\<lparr>num_records := n\<rparr>\<rparr>)"
proof -
  from assms obtain ix where ix: "idx_data s = Some ix" "length ix = max_records (record_tracker s)"
    "take (length ds) ix = index_from base ds" and n: "num_records (record_tracker s) = length ds"
    by (auto simp: tracker_inv_def)
  let ?e = "index_entry (pos s) d"
  have lt: "length ds < length ix" using assms(2) ix by simp
  have "take (Suc (length ds)) (ix[length ds := ?e]) = index_from base ds @ [?e]"
    using lt ix(3) by (simp add: take_Suc_conv_app_nth)
  with ix n assms(2,3) show ?thesis
    by (auto simp: index_record_def tracker_inv_def index_from_append index_entry_def)
qed


lemma files_inv_cong:
  assumes "files_inv s bs" "store s' = store s" "out s' = out s" "fp (chunk s') = fp (chunk s)"
    "data_loc (pchan s') = data_loc (pchan s)" "n_copies (pchan s') = n_copies (pchan s)"
    "chunk_fname (chunk s') = chunk_fname (chunk s)"
  shows "files_inv s' bs"
  using assms by (simp add: files_inv_def n_locs_def staging_path_def)

lemma data_bytes_snoc: "data_bytes L (ds @ [d]) = data_bytes L ds @ desc_bytes L d"
  by (simp add: data_bytes_def)

lemma store_record_ok:
  assumes L: "layout_ok (lay E)" and w: "\<forall>i. can_write (io E) i"
    and inv: "session_inv E s0 d0 ds s" and ok: "list_all (desc_ok (lay E)) ds" "desc_ok (lay E) d"
    and room: "length ds < max_records (record_tracker s)"
  obtains s' where "store_record E d s = Some s'" "session_inv E s0 d0 (ds @ [d]) s'"
    "chunk s' = chunk s" "pchan s' = pchan s"
proof -
  let ?H = "fresh_header E s0 d0" and ?b = "desc_bytes (lay E) d"
  have base: "pos s = length ?H + sum_list (map data_length ds)"
    using inv by (simp add: session_inv_def length_data_bytes [OF ok(1)])
  have t0: "tracker_inv s (length ?H) ds" using inv by (simp add: session_inv_def)
  obtain ix n where s1: "index_record d s = s\<lparr>idx_data := ix,
      record_tracker := (record_tracker s)\<lparr>num_records := n\<rparr>\<rparr>" (is "_ = ?s1")
    and tr: "tracker_inv (index_record d s) (length ?H) (ds @ [d])"
    using tracker_step [OF t0 room base, of d] by blast
  have f1: "files_inv ?s1 (?H @ data_bytes (lay E) ds)"
    by (rule files_inv_cong [where s = s]) (use inv in \<open>simp_all add: session_inv_def\<close>)
  obtain st where st: "write_metadata E d ?s1 = Some (?s1\<lparr>store := st\<rparr>)"
    "files_inv (?s1\<lparr>store := st\<rparr>) ((?H @ data_bytes (lay E) ds) @ ?b)"
    by (rule write_metadata_ok [OF f1 w desc_bytes_nonempty [OF ok(2)]])
  have f2: "files_inv (?s1\<lparr>store := st\<rparr>) (?H @ data_bytes (lay E) (ds @ [d]))"
    using st(2) by (simp add: data_bytes_snoc)
  obtain j where j: "j < n_locs s" "loc_used s j" using inv by (auto simp: session_inv_def)
  have "first_open (out s) \<noteq> None"
    using files_invD(3,6) [OF f1] j by (auto simp: first_open_None n_locs_def)
  then obtain h where h: "first_open (out s) = Some h" by auto
  let ?s2 = "?s1\<lparr>store := st, pos := length (?H @ data_bytes (lay E) (ds @ [d]))\<rparr>"
  have "store_record E d s = Some ?s2"
    using h st(1) ftell_session [OF f2] by (simp add: store_record_def s1)
  moreover have "session_inv E s0 d0 (ds @ [d]) ?s2"
    unfolding session_inv_def
  proof (intro conjI)
    show "session_fixed E s0 d0 ?s2" "steady E ?s2"
      using inv by (simp_all add: session_inv_def session_fixed_def steady_def)
    show "files_inv ?s2 (?H @ data_bytes (lay E) (ds @ [d]))"
      by (rule files_inv_cong [OF f2]) simp_all
    show "tracker_inv ?s2 (length ?H) (ds @ [d])"
      using tr unfolding s1 by (simp add: tracker_inv_def)
    show "\<exists>j < n_locs ?s2. loc_used ?s2 j" using j by (auto simp: n_locs_def)
  qed simp
  ultimately show thesis by (rule that) simp_all
qed

text \<open>A descriptor that does not need a new chunk.\<close>

lemma drive_steady:
  assumes "steady E s"
  shows "is_drive_status_updated E (ptci_get_rm_meta (penv E) (ptc s)) s =
    (False, s\<lparr>pre_chm_rec := IS_CHM_METADATA_RECORDING_COMMANDED E (ptci_get_rm_meta (penv E) (ptc s)),
              pre_ssd_rec := IS_SSD_METADATA_RECORDING_COMMANDED E (ptci_get_rm_meta (penv E) (ptc s))\<rparr>)"
  using assms by (auto simp: is_drive_status_updated_def steady_def Let_def)

lemma session_inv_cong:
  assumes "session_inv E s0 d0 ds s" "store s' = store s" "out s' = out s" "fp (chunk s') = fp (chunk s)"
    "data_loc (pchan s') = data_loc (pchan s)" "n_copies (pchan s') = n_copies (pchan s)"
    "chunk_fname (chunk s') = chunk_fname (chunk s)" "subpath (pchan s') = subpath (pchan s)"
    "prev_tm (chunk s') = prev_tm (chunk s)" "t0 (chunk s') = t0 (chunk s)"
    "session_just_started (chunk s') = session_just_started (chunk s)"
    "deltat (chunk s') = deltat (chunk s)" "chunk_max_duration (chunk s') = chunk_max_duration (chunk s)"
    "ptc s' = ptc s" "record_tracker s' = record_tracker s" "idx_data s' = idx_data s" "pos s' = pos s"
    "steady E s'"
  shows "session_inv E s0 d0 ds s'"
proof -
  have "tracker_inv s' b ds" if "tracker_inv s b ds" for b
    using that assms(15,16) by (simp add: tracker_inv_def)
  moreover have "files_inv s' bs" if "files_inv s bs" for bs
    by (rule files_inv_cong [OF that]) (use assms in simp_all)
  moreover have "n_locs s' = n_locs s" using assms(5) by (simp add: n_locs_def)
  moreover have "session_fixed E s0 d0 s'"
    using assms by (simp add: session_inv_def session_fixed_def)
  ultimately show ?thesis using assms unfolding session_inv_def by simp
qed

lemma record_next:
  assumes L: "layout_ok (lay E)" and w: "\<forall>i. can_write (io E) i"
    and inv: "session_inv E s0 d0 ds s" and ok: "list_all (desc_ok (lay E)) ds" "desc_ok (lay E) d"
    and room: "length ds < max_records (record_tracker s)" "int (length ds) < chunk_max_duration (chunk s)"
    and hour: "same_hour (gmtime_r (tv_sec (tod d0))) (gmtime_r (tv_sec (tod d)))"
  obtains s' where "record_descriptor E d s = Some s'" "session_inv E s0 d0 (ds @ [d]) s'"
    "chunk_duration_usecs (chunk s') = usecs_since (raw_ns (ts d)) (raw_ns (ts d0))"
proof -
  let ?rm = "ptci_get_rm_meta (penv E) (ptc s)"
  let ?s2 = "upd_chunk (\<lambda>c. c\<lparr>drive_status_updated := False\<rparr>)
     (s\<lparr>pre_chm_rec := IS_CHM_METADATA_RECORDING_COMMANDED E ?rm,
        pre_ssd_rec := IS_SSD_METADATA_RECORDING_COMMANDED E ?rm\<rparr>)"
  let ?s3 = "upd_chunk (\<lambda>c. c\<lparr>chunk_duration_usecs := usecs_since (raw_ns (ts d)) (t0 c)\<rparr>) ?s2"
  have fx: "session_fixed E s0 d0 s" and st: "steady E s" and tr: "num_records (record_tracker s) = length ds"
    using inv by (simp_all add: session_inv_def tracker_inv_def)
  have inv3: "session_inv E s0 d0 ds ?s3"
    by (rule session_inv_cong [OF inv]) (simp_all add: steady_def)
  have nn: "is_new_chunk_required ?s3 (gmtime_r (tv_sec (tod d))) = (False, ?s3)"
    using fx tr room hour
    by (simp add: is_new_chunk_required_def has_forward_time_change_occurred_def session_fixed_def
        is_meta_record_reach_max_def new_path_iff same_hour_def)
  have g: "get_metadata_chunk_file E d ?s2 = Some (0, ?s3)"
    using fx nn by (simp add: get_metadata_chunk_file_def session_fixed_def)
  have room3: "length ds < max_records (record_tracker ?s3)" using room by simp
  obtain s' where s': "store_record E d ?s3 = Some s'" "session_inv E s0 d0 (ds @ [d]) s'"
    "chunk s' = chunk ?s3"
    by (rule store_record_ok [OF L w inv3 ok room3])
  have "record_descriptor E d s = Some s'"
    using g s'(1) by (simp add: record_descriptor_def drive_steady [OF st])
  with s' fx show thesis using that by (simp add: session_fixed_def)
qed


lemma prepare_subpath_ok:
  assumes "\<exists>j < n_locs s. loc_used s j"
  obtains ds where "snd (prepare_subpath E s) =
    s\<lparr>pchan := (pchan s)\<lparr>subpath := hour_path (prev_tm (chunk s))\<rparr>, store := (store s)\<lparr>dirs := ds\<rparr>\<rparr>"
proof -
  from assms have u: "\<exists>j \<in> set (locs s). loc_used s j" by (auto simp: locs_def n_locs_def)
  show thesis
    using prepare_subpath_spec [of E "locs s" 0 s] u that
    unfolding prepare_subpath_def by auto
qed

lemma store_ok_dirs: "store_ok st \<Longrightarrow> store_ok (st\<lparr>dirs := ds\<rparr>)"
  by (rule keepsD(1) [OF keeps_dirs])

lemma start_chunk_ok:
  assumes "closed_inv s" "\<exists>j < n_locs s. loc_used s j" "\<not> session_just_started (chunk s)"
    and "subpath (pchan s) = hour_path (prev_tm (chunk s)) \<or> prev_tm (chunk s) = zero_tm"
    and t: "t = gmtime_r x"
  obtains p ds where "start_chunk E t s =
     upd_chunk (\<lambda>c. c\<lparr>chunk_duration_usecs := 0, chunk_fname := chunk_name t, prev_tm := p\<rparr>)
       (s\<lparr>record_tracker := (record_tracker s)\<lparr>num_records := 0\<rparr>,
          pchan := (pchan s)\<lparr>subpath := hour_path t\<rparr>, store := (store s)\<lparr>dirs := ds\<rparr>\<rparr>)"
    "same_hour p t"
proof -
  let ?s1 = "upd_chunk (\<lambda>c. c\<lparr>chunk_duration_usecs := 0, chunk_fname := chunk_name t\<rparr>)
               (metadata_reset_record_tracker s)"
  show thesis
  proof (cases "is_new_path_required (chunk ?s1) t")
    case True
    let ?s2 = "upd_chunk (\<lambda>c. c\<lparr>prev_tm := t\<rparr>) ?s1"
    have "\<exists>j < n_locs ?s2. loc_used ?s2 j"
      using assms(2) by (simp add: n_locs_def metadata_reset_record_tracker_def)
    then obtain ds where "snd (prepare_subpath E ?s2) =
      ?s2\<lparr>pchan := (pchan ?s2)\<lparr>subpath := hour_path (prev_tm (chunk ?s2))\<rparr>, store := (store ?s2)\<lparr>dirs := ds\<rparr>\<rparr>"
      by (rule prepare_subpath_ok)
    with True that [of t ds] show thesis
      by (simp add: start_chunk_def metadata_reset_record_tracker_def upd_chunk_def same_hour_def)
  next
    case False
    then have sh: "same_hour (prev_tm (chunk s)) t"
      using assms(3) by (simp add: new_path_iff metadata_reset_record_tracker_def)
    then have "subpath (pchan s) = hour_path t"
      using assms(4) not_same_hour_zero [of x] same_hour_path [OF sh] t by auto
    with False sh that [of "prev_tm (chunk s)" "dirs (store s)"] show thesis
      by (simp add: start_chunk_def metadata_reset_record_tracker_def upd_chunk_def)
  qed
qed

lemma get_chunk_rotates:
  assumes "deltat (chunk s) \<noteq> 0"
    and "is_new_chunk_required (upd_chunk (\<lambda>c. c\<lparr>chunk_duration_usecs := usecs_since (raw_ns (ts d)) (t0 c)\<rparr>) s)
           (gmtime_r (tv_sec (tod d))) = (True, s2)"
    and "upd_chunk (\<lambda>c. c\<lparr>session_just_started := False, drive_status_updated := False\<rparr>) s2 = s3"
    and "foldM (rotate_location E) (locs s3) s3 = Some s4"
    and "start_chunk E (gmtime_r (tv_sec (tod d))) s4 = s5"
    and "foldM (open_location E d) (locs s5) s5 = Some s6"
  shows "get_metadata_chunk_file E d s = Some (if list_ex (loc_used s6) (locs s6) then 1 else 0, s6)"
  using assms by (simp add: get_metadata_chunk_file_def)

lemma record_first:
  assumes L: "layout_ok (lay E)" and w: "\<forall>i. can_write (io E) i" and o: "\<forall>p. can_open (io E) p"
    and start: "session_start E s" and ok: "desc_ok (lay E) d" and room: "0 < max_records (record_tracker s)"
  obtains s' where "record_descriptor E d s = Some s'" "session_inv E s d [d] s'"
    "chunk_duration_usecs (chunk s') = 0"
proof -
  let ?rm = "ptci_get_rm_meta (penv E) (ptc s)" and ?t = "gmtime_r (tv_sec (tod d))"
  let ?s2 = "upd_chunk (\<lambda>c. c\<lparr>drive_status_updated := False\<rparr>)
     (s\<lparr>pre_chm_rec := IS_CHM_METADATA_RECORDING_COMMANDED E ?rm,
        pre_ssd_rec := IS_SSD_METADATA_RECORDING_COMMANDED E ?rm\<rparr>)"
  let ?p = "(ptc s)\<lparr>forward_time_change_occurred := False\<rparr>"
  let ?s3 = "upd_chunk (\<lambda>c. c\<lparr>chunk_duration_usecs := usecs_since (raw_ns (ts d)) (t0 c),
       session_just_started := False, drive_status_updated := False\<rparr>) (?s2\<lparr>ptc := ?p\<rparr>)"
  have st: "steady E s" and ci: "closed_inv s" and used: "\<exists>j < n_locs s. loc_used s j"
    and js: "session_just_started (chunk s)" and dt: "deltat (chunk s) \<noteq> 0"
    and sp: "subpath (pchan s) = hour_path (prev_tm (chunk s)) \<or> prev_tm (chunk s) = zero_tm"
    and ix: "\<exists>ix. idx_data s = Some ix \<and> length ix = max_records (record_tracker s)"
    using start by (auto simp: session_start_def)
  have ci3: "closed_inv ?s3" and used3: "\<exists>j < n_locs ?s3. loc_used ?s3 j"
    using ci used by (simp_all add: closed_inv_def n_locs_def)
  have "\<forall>j < n_locs ?s3. fp (chunk ?s3) ! j = None"
    using ci3 unfolding closed_inv_def by simp
  then have rot: "foldM (rotate_location E) (locs ?s3) ?s3 = Some ?s3" by (rule rotate_none)
  obtain q ds where s5: "start_chunk E ?t ?s3 =
     upd_chunk (\<lambda>c. c\<lparr>chunk_duration_usecs := 0, chunk_fname := chunk_name ?t, prev_tm := q\<rparr>)
       (?s3\<lparr>record_tracker := (record_tracker ?s3)\<lparr>num_records := 0\<rparr>,
          pchan := (pchan ?s3)\<lparr>subpath := hour_path ?t\<rparr>, store := (store ?s3)\<lparr>dirs := ds\<rparr>\<rparr>)" (is "_ = ?s5")
    and q: "same_hour q ?t"
    by (rule start_chunk_ok [OF ci3 used3 _ _ refl]) (use sp in simp_all)
  have ci5: "closed_inv ?s5" and used5: "\<exists>j < n_locs ?s5. loc_used ?s5 j"
    using ci used store_ok_dirs [of "store s" ds] by (simp_all add: closed_inv_def n_locs_def)
  obtain fps st' where s6: "foldM (open_location E d) (locs ?s5) ?s5 = Some (opened ?s5 fps (raw_ns (ts d)) st')"
    "files_inv (opened ?s5 fps (raw_ns (ts d)) st') (fresh_header E ?s5 d)"
    by (rule open_all [OF ci5 used5 L w o])
  let ?s6 = "opened ?s5 fps (raw_ns (ts d)) st'"
  let ?s7 = "?s6\<lparr>pos := sizeof_file_pfx (lay E) + sizeof_chunk_hdr (lay E)\<rparr>"
  have used6: "list_ex (loc_used ?s6) (locs ?s6)"
    using used by (auto simp: list_ex_iff locs_def n_locs_def)
  have "is_new_chunk_required (upd_chunk (\<lambda>c. c\<lparr>chunk_duration_usecs := usecs_since (raw_ns (ts d)) (t0 c)\<rparr>) ?s2) ?t
    = (True, upd_chunk (\<lambda>c. c\<lparr>chunk_duration_usecs := usecs_since (raw_ns (ts d)) (t0 c)\<rparr>) (?s2\<lparr>ptc := ?p\<rparr>))"
    using js by (cases "forward_time_change_occurred (ptc s)")
      (simp_all add: is_new_chunk_required_def Let_def new_path_iff has_forward_time_change_occurred_def
        update_forward_time_change_status_def upd_chunk_def)
  then have "get_metadata_chunk_file E d ?s2 = Some (if list_ex (loc_used ?s6) (locs ?s6) then 1 else 0, ?s6)"
    by (rule get_chunk_rotates [OF _ _ _ rot s5 s6(1), rotated]) (use dt in \<open>simp_all add: upd_chunk_def\<close>)
  with used6 have g: "get_metadata_chunk_file E d ?s2 = Some (1, ?s6)" by simp
  have fh: "fresh_header E ?s5 d = fresh_header E s d" by simp
  have f6: "files_inv ?s6 (fresh_header E s d @ data_bytes (lay E) [])"
    using s6(2) unfolding fh by (simp only: data_bytes_def list.map concat.simps append_Nil2)
  have inv7: "session_inv E s d [] ?s7"
    unfolding session_inv_def
  proof (intro conjI)
    show "session_fixed E s d ?s7" using q dt by (simp add: session_fixed_def)
    show "steady E ?s7" by (simp add: steady_def ptci_get_rm_meta_def)
    show "files_inv ?s7 (fresh_header E s d @ data_bytes (lay E) [])"
      by (rule files_inv_cong [OF f6]) simp_all
    show "tracker_inv ?s7 (length (fresh_header E s d)) []" using ix by (simp add: tracker_inv_def)
    show "pos ?s7 = length (fresh_header E s d @ data_bytes (lay E) [])"
      by (simp add: length_header [OF L] data_bytes_def)
    show "\<exists>j < n_locs ?s7. loc_used ?s7 j" using used by (simp add: n_locs_def)
  qed
  obtain s' where s': "store_record E d ?s7 = Some s'" "session_inv E s d ([] @ [d]) s'" "chunk s' = chunk ?s7"
    by (rule store_record_ok [OF L w inv7 _ ok]) (use room in simp_all)
  have "record_descriptor E d s = Some s'"
    using g s'(1) by (simp add: record_descriptor_def drive_steady [OF st])
  moreover have "chunk_duration_usecs (chunk s') = 0" using s'(3) by (simp add: opened_def)
  ultimately show thesis using that s'(2) by simp
qed


section \<open>A run of descriptors\<close>

lemma record_run:
  assumes L: "layout_ok (lay E)" and w: "\<forall>i. can_write (io E) i"
  shows "\<lbrakk>session_inv E s0 d0 acc s; acc \<noteq> [];
     chunk_duration_usecs (chunk s) = usecs_since (raw_ns (ts (last acc))) (raw_ns (ts d0));
     list_all (desc_ok (lay E)) (acc @ ds);
     length (acc @ ds) \<le> max_records (record_tracker s);
     int (length (acc @ ds)) \<le> chunk_max_duration (chunk s);
     list_all (\<lambda>d. same_hour (gmtime_r (tv_sec (tod d0))) (gmtime_r (tv_sec (tod d)))) ds\<rbrakk>
   \<Longrightarrow> \<exists>s'. foldM (record_descriptor E) ds s = Some s' \<and> session_inv E s0 d0 (acc @ ds) s' \<and>
     chunk_duration_usecs (chunk s') = usecs_since (raw_ns (ts (last (acc @ ds)))) (raw_ns (ts d0))"
proof (induction ds arbitrary: acc s)
  case (Cons d ds)
  have ok: "list_all (desc_ok (lay E)) acc" "desc_ok (lay E) d" using Cons.prems(4) by simp_all
  have room: "length acc < max_records (record_tracker s)" "int (length acc) < chunk_max_duration (chunk s)"
    using Cons.prems(5,6) by simp_all
  have hour: "same_hour (gmtime_r (tv_sec (tod d0))) (gmtime_r (tv_sec (tod d)))" using Cons.prems(7) by simp
  obtain s1 where s1: "record_descriptor E d s = Some s1" "session_inv E s0 d0 (acc @ [d]) s1"
    "chunk_duration_usecs (chunk s1) = usecs_since (raw_ns (ts d)) (raw_ns (ts d0))"
    by (rule record_next [OF L w Cons.prems(1) ok room hour])
  have "max_records (record_tracker s1) = max_records (record_tracker s)"
    "chunk_max_duration (chunk s1) = chunk_max_duration (chunk s)"
    using Cons.prems(1) s1(2) by (simp_all add: session_inv_def session_fixed_def)
  with Cons.IH [OF s1(2)] Cons.prems s1 show ?case by simp
qed simp

section \<open>Finalizing a location\<close>

definition final_path :: "recorder \<Rightarrow> nat \<Rightarrow> string" where
  "final_path s j = datadir (data_loc (pchan s) ! j) @ subpath (pchan s) @ chunk_fname (chunk s) @
     data_suffix (chunk_duration_usecs (chunk s))"

definition event_path :: "chunk_env \<Rightarrow> recorder \<Rightarrow> nat \<Rightarrow> string" where
  "event_path E s j =
     (let d = stagingdir (data_loc (pchan s) ! j)
      in d @ snprintf (MAXPATH E - length d - 1)
               (chunk_fname (chunk s) @ data_suffix (chunk_duration_usecs (chunk s))))"

lemma event_keeps:
  assumes ok: "store_ok st"
  shows "\<exists>rc st'. generate_filesystem_event E (Some p) st = Some (rc, st') \<and> keeps {p} st st'"
proof (cases "can_open (io E) p")
  case False
  with keeps_refl [OF ok] keeps_mono [OF keeps_refl [OF ok]] show ?thesis
    by (auto simp: generate_filesystem_event_def fopen_w_def)
next
  case True
  obtain st1 where st1: "fopen_w (io E) p st = (Some (next_fp st), st1)" "keeps {p} st st1"
    "holds st1 p (next_fp st) \<lparr>fbytes = [], fpos = 0\<rparr>"
    by (rule fopen_w_keeps [OF ok True])
  obtain rc st2 where st2: "fclose (io E) (next_fp st) st1 = Some (rc, st2)" "keeps {p} st1 st2"
    by (rule fclose_keeps [OF keepsD(1) [OF st1(2)] st1(3)])
  obtain rc2 st3 where st3: "remove_file (io E) p st2 = (rc2, st3)" by fastforce
  have k2: "keeps {p} st st2" using keeps_trans [OF st1(2) st2(2)] by simp
  have "keeps {p} st st3"
    using keeps_trans [OF k2 remove_keeps(1) [OF keepsD(1) [OF st2(2)] st3]] by simp
  with k2 st1(1) st2(1) st3 show ?thesis by (auto simp: generate_filesystem_event_def)
qed

lemma splice_mid: "length b = length b' \<Longrightarrow> splice (a @ b @ c) (length a) b' = a @ b' @ c"
  by (simp add: splice_def)

text \<open>The hash library may rewrite the first part of the prefix and append to the file.\<close>

definition hmac_ok :: "chunk_env \<Rightarrow> bool" where
  "hmac_ok E \<longleftrightarrow>
     (\<forall>f. sizeof_subpfx_1 (lay E) \<le> length (fbytes f) \<longrightarrow>
        (\<exists>x y. length x = sizeof_subpfx_1 (lay E) \<and>
               fbytes (update_HMAC_SHA1_metadata E f) = x @ drop (sizeof_subpfx_1 (lay E)) (fbytes f) @ y))"

lemma finalize_header_ok:
  assumes L: "layout_ok (lay E)" and w: "\<forall>i. can_write (io E) i" and ok: "store_ok (store s)"
    and h: "holds (store s) p h \<lparr>fbytes = header_bytes (lay E) es d0 @ data_bytes (lay E) ds, fpos = q\<rparr>"
    and tr: "tracker_inv s (sizeof_file_pfx (lay E) + sizeof_chunk_hdr (lay E)) ds" and ne: "ds \<noteq> []"
    and codes: "list_all (idx_codes (lay E)) (index_from (sizeof_file_pfx (lay E) + sizeof_chunk_hdr (lay E)) ds)"
    and fit: "length ds \<le> index_capacity (lay E)"
  obtains st x f where "metadata_finalize_header E h s = Some (s\<lparr>store := st\<rparr>)" "keeps {p} (store s) st"
    "holds st p h f" "length x = sizeof_subpfx_1 (lay E)"
    "fbytes f = finished_bytes (lay E) (record_tracker s) x (enc_chunk_hdr (lay E) (start_timeval d0)) ds []"
proof -
  let ?L = "lay E" and ?s1 = "sizeof_subpfx_1 (lay E)" and ?s2 = "sizeof_subpfx_2 (lay E)"
  let ?rs = "index_from (sizeof_file_pfx ?L + sizeof_chunk_hdr ?L) ds"
  let ?S = "sizeof_file_pfx ?L - ?s1 - ?s2"
  define X where "X = enc_subpfx_1 ?L \<lparr>shebang = ''#!metadata version ['' @ METADATA_VERSION @ '']'' @ [CHR 0x0A],
                     digital_mappings = header_mappings ?L es [0..<NUM_DIGITAL_INPUTS ?L] []\<rparr>"
  define P where "P = enc_subpfx_2 ?L \<lparr>max_records = index_capacity ?L, num_records = 0\<rparr>"
  define P' where "P' = enc_subpfx_2 ?L (record_tracker s)"
  define I where "I = index_bytes ?L ?rs"
  define R where "R = enc_chunk_hdr ?L (start_timeval d0) @ data_bytes ?L ds"
  have lens: "length X = ?s1" "length P = ?s2" "length P' = ?s2" "P' \<noteq> []"
    using layout_okD(1,2) [OF L] layout_okD(5) [OF L] unfolding X_def P_def P'_def by (auto simp flip: length_greater_0_conv)
  have lI: "length I = sizeof_rcd_idx ?L * length ds" unfolding I_def using length_index_bytes [OF codes] by simp
  have "length I \<le> sizeof_rcd_idx ?L * index_capacity ?L"
    unfolding lI using fit by (rule mult_le_mono2)
  then have Ifit: "length I \<le> ?S" by (auto simp: index_capacity_def intro: le_trans)
  have Ine: "I \<noteq> []" using lI layout_okD(7) [OF L] ne by auto
  have bs: "header_bytes ?L es d0 @ data_bytes ?L ds = X @ P @ replicate ?S 0 @ R"
    by (simp add: header_bytes_def file_pfx_bytes_def X_def P_def R_def)
  let ?b1 = "X @ P' @ replicate ?S 0 @ R" and ?b2 = "X @ P' @ I @ replicate (?S - length I) 0 @ R"
  have sp1: "splice (X @ P @ replicate ?S 0 @ R) (length X) P' = ?b1"
    by (rule splice_mid) (simp add: lens)
  have z: "replicate ?S (0::u8) = replicate (length I) 0 @ replicate (?S - length I) 0"
    using Ifit by (simp flip: replicate_add)
  have sp2: "splice ?b1 (length (X @ P')) I = ?b2"
    using splice_mid [of "replicate (length I) 0" I "X @ P'" "replicate (?S - length I) 0 @ R"]
    by (simp only: z length_replicate append_assoc)
  obtain ix where ix: "idx_data s = Some ix" "take (length ds) ix = ?rs"
    and num: "num_records (record_tracker s) = length ds"
    using tr by (auto simp: tracker_inv_def)
  let ?f0 = "\<lparr>fbytes = X @ P @ replicate ?S 0 @ R, fpos = length X\<rparr>"
  let ?f1 = "\<lparr>fbytes = ?b1, fpos = length (X @ P')\<rparr>" and ?f2 = "\<lparr>fbytes = ?b2, fpos = length (X @ P') + length I\<rparr>"
  let ?st0 = "put_stream h ?f0 (store s)" and ?st1 = "put_stream h ?f1 (put_stream h ?f0 (store s))"
  let ?st2 = "put_stream h ?f2 ?st1"
  have h0: "holds ?st0 p h ?f0" using holds_put [OF h, of ?f0] by simp
  have h1: "holds ?st1 p h ?f1" using holds_put [OF h0, of ?f1] by simp
  have h2: "holds ?st2 p h ?f2" using holds_put [OF h1, of ?f2] by simp
  have k0: "keeps {p} (store s) ?st0" by (rule keeps_put [OF ok h])
  have k1: "keeps {p} ?st0 ?st1" by (rule keeps_put [OF keepsD(1) [OF k0] h0])
  have k2: "keeps {p} ?st1 ?st2" by (rule keeps_put [OF keepsD(1) [OF k1] h1])
  have k: "keeps {p} (store s) ?st2" using keeps_trans [OF keeps_trans [OF k0 k1] k2] by simp
  have g: "get_stream h (store s) = Some \<lparr>fbytes = X @ P @ replicate ?S 0 @ R, fpos = q\<rparr>"
    "get_stream h ?st0 = Some ?f0" "get_stream h ?st1 = Some ?f1"
    using h h0 h1 unfolding bs by (simp_all add: holds_def)
  have sk: "fseek_fp (int ?s1) h (store s) = Some (0, ?st0)"
    using fseek_open [OF g(1), of "int ?s1"] by (simp add: lens)
  have fw: "fwrite_bytes b \<lparr>fbytes = c, fpos = n\<rparr> = \<lparr>fbytes = c', fpos = m\<rparr>"
    if "b \<noteq> []" "n \<le> length c" "splice c n b = c'" "m = n + length b" for b c c' n m
    using that by (simp add: fwrite_inside)
  have "fwrite_bytes P' ?f0 = ?f1" by (rule fw [OF lens(4) _ sp1]) simp_all
  with fwrite1_open [OF g(2) lens(4) w] have wr1: "fwrite1 (io E) P' h ?st0 = Some (1, ?st1)" by (simp only:)
  have "fwrite_bytes I ?f1 = ?f2" by (rule fw [OF Ine _ sp2]) simp_all
  with fwrite1_open [OF g(3) Ine w] have wr2: "fwrite1 (io E) I h ?st1 = Some (1, ?st2)" by (simp only:)
  have "metadata_finalize_header E h s = Some (s\<lparr>store := ?st2\<rparr>)"
    using ix num ne sk wr1 wr2
    by (simp add: metadata_finalize_header_def P'_def I_def index_bytes_def)
  moreover have "fbytes ?f2 = finished_bytes ?L (record_tracker s) X (enc_chunk_hdr ?L (start_timeval d0)) ds []"
    by (simp add: finished_bytes_def Let_def P'_def I_def R_def)
  ultimately show thesis using that k h2 lens(1) by blast
qed


text \<open>What a finished file holds: the finished bytes, for some start \<open>x\<close> and some appended \<open>y\<close>.\<close>

definition finished_file ::
    "chunk_env \<Rightarrow> recorder \<Rightarrow> metadata_desc \<Rightarrow> metadata_desc list \<Rightarrow> stdio \<Rightarrow> string \<Rightarrow> bool" where
  "finished_file E s d0 ds st p \<longleftrightarrow>
     (\<exists>x y. length x = sizeof_subpfx_1 (lay E) \<and>
        file_at st p = Some (finished_bytes (lay E) (record_tracker s) x
          (enc_chunk_hdr (lay E) (start_timeval d0)) ds y))"

lemma finished_bytes_drop:
  "length x = sizeof_subpfx_1 L \<Longrightarrow> length x' = sizeof_subpfx_1 L \<Longrightarrow>
   x' @ drop (sizeof_subpfx_1 L) (finished_bytes L p2 x h ds []) @ y = finished_bytes L p2 x' h ds y"
  by (simp add: finished_bytes_def Let_def)

lemma hash_location:
  assumes hm: "hmac_ok E" and ok: "store_ok st" and h: "holds st p h f" and x: "length x = sizeof_subpfx_1 (lay E)"
    and f: "fbytes f = finished_bytes (lay E) p2 x ch ds []"
  obtains st' f' x' y where "update_HMAC_fp E h st = Some st'" "keeps {p} st st'" "holds st' p h f'"
    "length x' = sizeof_subpfx_1 (lay E)" "fbytes f' = finished_bytes (lay E) p2 x' ch ds y"
proof -
  let ?g = "update_HMAC_SHA1_metadata E f"
  have "sizeof_subpfx_1 (lay E) \<le> length (fbytes f)" by (simp add: f x finished_bytes_def Let_def)
  then obtain x' y where xy: "length x' = sizeof_subpfx_1 (lay E)"
    "fbytes ?g = x' @ drop (sizeof_subpfx_1 (lay E)) (fbytes f) @ y"
    using hm unfolding hmac_ok_def by blast
  have "fbytes ?g = finished_bytes (lay E) p2 x' ch ds y"
    using xy(2) finished_bytes_drop [OF x xy(1)] by (simp add: f)
  moreover have "update_HMAC_fp E h st = Some (put_stream h ?g st)"
    using h by (simp add: update_HMAC_fp_def holds_def)
  ultimately show thesis
    using that keeps_put [OF ok h, of ?g] holds_put [OF h, of ?g] xy(1) by fastforce
qed

text \<open>The three paths finalizing a location touches.\<close>

definition touched :: "chunk_env \<Rightarrow> recorder \<Rightarrow> nat \<Rightarrow> string set" where
  "touched E s j = {staging_path s j, final_path s j, event_path E s j}"

definition paths_apart :: "chunk_env \<Rightarrow> recorder \<Rightarrow> bool" where
  "paths_apart E s \<longleftrightarrow>
     (\<forall>i < n_locs s. event_path E s i \<noteq> final_path s i \<and>
        (\<forall>j < n_locs s. i \<noteq> j \<longrightarrow> staging_path s i \<notin> touched E s j \<and> final_path s i \<notin> touched E s j))"

lemma finalize_location_ok:
  assumes L: "layout_ok (lay E)" and w: "\<forall>i. can_write (io E) i" and r: "\<forall>a b. can_rename (io E) a b"
    and hm: "hmac_ok E" and ok: "store_ok (store s)"
    and used: "loc_used s j" and dur: "0 < chunk_duration_usecs (chunk s)" and hj: "fp (chunk s) ! j = Some h"
    and h: "holds (store s) (staging_path s j) h
              \<lparr>fbytes = header_bytes (lay E) es d0 @ data_bytes (lay E) ds, fpos = q\<rparr>"
    and tr: "tracker_inv s (sizeof_file_pfx (lay E) + sizeof_chunk_hdr (lay E)) ds" and ne: "ds \<noteq> []"
    and codes: "list_all (idx_codes (lay E)) (index_from (sizeof_file_pfx (lay E) + sizeof_chunk_hdr (lay E)) ds)"
    and fit: "length ds \<le> index_capacity (lay E)"
    and ev: "event_path E s j \<noteq> final_path s j"
  obtains st where "finalize_location E j s = Some (upd_chunk (\<lambda>c. c\<lparr>fp := (fp c)[j := None]\<rparr>) (s\<lparr>store := st\<rparr>))"
    "keeps (touched E s j) (store s) st" "finished_file E s d0 ds st (final_path s j)"
proof -
  let ?S = "staging_path s j" and ?F = "final_path s j" and ?V = "event_path E s j"
  obtain st1 x f where 1: "metadata_finalize_header E h s = Some (s\<lparr>store := st1\<rparr>)" "keeps {?S} (store s) st1"
    "holds st1 ?S h f" "length x = sizeof_subpfx_1 (lay E)"
    "fbytes f = finished_bytes (lay E) (record_tracker s) x (enc_chunk_hdr (lay E) (start_timeval d0)) ds []"
    by (rule finalize_header_ok [OF L w ok h tr ne codes fit])
  obtain st2 f' x' y where 2: "update_HMAC_fp E h st1 = Some st2" "keeps {?S} st1 st2" "holds st2 ?S h f'"
    "length x' = sizeof_subpfx_1 (lay E)"
    "fbytes f' = finished_bytes (lay E) (record_tracker s) x' (enc_chunk_hdr (lay E) (start_timeval d0)) ds y"
    by (rule hash_location [OF hm keepsD(1) [OF 1(2)] 1(3-5)])
  obtain rc st3 where 3: "fclose (io E) h st2 = Some (rc, st3)" "keeps {?S} st2 st3"
    "file_at st3 ?S = Some (fbytes f')"
    by (rule fclose_keeps [OF keepsD(1) [OF 2(2)] 2(3)])
  obtain st4 where 4: "rename_file (io E) ?S ?F st3 = (0, st4)" "file_at st4 ?F = Some (fbytes f')"
    using rename_moves [OF 3(3), of "io E" ?F] r by auto
  have k4: "keeps {?S, ?F} st3 st4" by (rule rename_keeps(1) [OF keepsD(1) [OF 3(2)] 4(1)])
  obtain rc5 st5 where 5: "generate_filesystem_event E (Some ?V) st4 = Some (rc5, st5)" "keeps {?V} st4 st5"
    using event_keeps [OF keepsD(1) [OF k4]] by blast
  have "finalize_location E j s = Some (upd_chunk (\<lambda>c. c\<lparr>fp := (fp c)[j := None]\<rparr>) (s\<lparr>store := st5\<rparr>))"
    using used dur hj 1(1) 2(1) 3(1) 4(1) 5(1)
    by (simp add: finalize_location_def staging_path_def final_path_def event_path_def Let_def)
  moreover have "keeps (touched E s j) (store s) st5"
    using keeps_mono [OF keeps_trans [OF keeps_trans [OF keeps_trans [OF keeps_trans [OF 1(2) 2(2)] 3(2)] k4] 5(2)],
        of "touched E s j"] by (simp add: touched_def)
  moreover have "file_at st5 ?F = Some (fbytes f')" using keepsD(3) [OF 5(2) _ 4(2)] ev by simp
  then have "finished_file E s d0 ds st5 ?F" unfolding finished_file_def using 2(4,5) by auto
  ultimately show thesis by (rule that)
qed

definition finalizing :: "recorder \<Rightarrow> nat \<Rightarrow> stdio \<Rightarrow> recorder" where
  "finalizing s k st = upd_chunk (\<lambda>c. c\<lparr>fp := map (\<lambda>j. if j < k \<and> loc_used s j then None else fp (chunk s) ! j)
       [0..<n_locs s]\<rparr>) (s\<lparr>store := st\<rparr>)"

lemma finalizing_simps [simp]:
  "store (finalizing s k st) = st" "data_loc (pchan (finalizing s k st)) = data_loc (pchan s)"
  "record_tracker (finalizing s k st) = record_tracker s" "idx_data (finalizing s k st) = idx_data s"
  "chunk_duration_usecs (chunk (finalizing s k st)) = chunk_duration_usecs (chunk s)"
  "staging_path (finalizing s k st) j = staging_path s j" "final_path (finalizing s k st) j = final_path s j"
  "event_path E (finalizing s k st) j = event_path E s j" "n_locs (finalizing s k st) = n_locs s"
  "touched E (finalizing s k st) j = touched E s j"
  by (simp_all add: finalizing_def staging_path_def final_path_def event_path_def n_locs_def touched_def)

lemma finalizing_fp [simp]:
  "j < n_locs s \<Longrightarrow> fp (chunk (finalizing s k st)) ! j = (if j < k \<and> loc_used s j then None else fp (chunk s) ! j)"
  by (simp add: finalizing_def)

lemma finalizing_step:
  assumes "k < n_locs s" "loc_used s k"
  shows "upd_chunk (\<lambda>c. c\<lparr>fp := (fp c)[k := None]\<rparr>) ((finalizing s k st)\<lparr>store := st'\<rparr>) = finalizing s (Suc k) st'"
proof -
  have "(map (\<lambda>j. if j < k \<and> loc_used s j then None else fp (chunk s) ! j) [0..<n_locs s])[k := None]
      = map (\<lambda>j. if j < Suc k \<and> loc_used s j then None else fp (chunk s) ! j) [0..<n_locs s]"
    by (rule nth_equalityI) (use assms in \<open>auto simp: nth_list_update less_Suc_eq\<close>)
  then show ?thesis by (simp add: finalizing_def upd_chunk_def)
qed


lemma finalize_loop:
  assumes L: "layout_ok (lay E)" and w: "\<forall>i. can_write (io E) i" and r: "\<forall>a b. can_rename (io E) a b"
    and hm: "hmac_ok E" and inv: "files_inv s (header_bytes (lay E) es d0 @ data_bytes (lay E) ds)"
    and dur: "0 < chunk_duration_usecs (chunk s)"
    and tr: "tracker_inv s (sizeof_file_pfx (lay E) + sizeof_chunk_hdr (lay E)) ds" and ne: "ds \<noteq> []"
    and codes: "list_all (idx_codes (lay E)) (index_from (sizeof_file_pfx (lay E) + sizeof_chunk_hdr (lay E)) ds)"
    and fit: "length ds \<le> index_capacity (lay E)" and ap: "paths_apart E s"
  shows "k \<le> n_locs s \<Longrightarrow> \<exists>st. foldM (finalize_location E) [0..<k] s = Some (finalizing s k st) \<and> store_ok st \<and>
    (\<forall>j < n_locs s. loc_used s j \<longrightarrow>
       (if j < k then finished_file E s d0 ds st (final_path s j)
        else \<forall>h. fp (chunk s) ! j = Some h \<longrightarrow> holds st (staging_path s j) h
               \<lparr>fbytes = header_bytes (lay E) es d0 @ data_bytes (lay E) ds,
                fpos = length (header_bytes (lay E) es d0 @ data_bytes (lay E) ds)\<rparr>))"
proof (induction k)
  case 0
  have "length (fp (chunk s)) = n_locs s" using files_invD(3,4) [OF inv] by simp
  then have "map (\<lambda>j. fp (chunk s) ! j) [0..<n_locs s] = fp (chunk s)" by (metis map_nth)
  then have "finalizing s 0 (store s) = s" by (simp add: finalizing_def upd_chunk_def)
  with files_invD(1,4,7) [OF inv] show ?case by (intro exI [of _ "store s"]) simp
next
  case (Suc k)
  let ?f = "\<lparr>fbytes = header_bytes (lay E) es d0 @ data_bytes (lay E) ds,
             fpos = length (header_bytes (lay E) es d0 @ data_bytes (lay E) ds)\<rparr>"
  from Suc obtain st where ih: "foldM (finalize_location E) [0..<k] s = Some (finalizing s k st)" "store_ok st"
    and each: "\<forall>j < n_locs s. loc_used s j \<longrightarrow> (if j < k then finished_file E s d0 ds st (final_path s j)
        else \<forall>h. fp (chunk s) ! j = Some h \<longrightarrow> holds st (staging_path s j) h ?f)" by auto
  have k: "k < n_locs s" using Suc.prems by simp
  show ?case
  proof (cases "loc_used s k")
    case False
    then have "(\<lambda>j. if j < Suc k \<and> loc_used s j then None else fp (chunk s) ! j) =
        (\<lambda>j. if j < k \<and> loc_used s j then None else fp (chunk s) ! j)" by (auto simp: less_Suc_eq)
    then have "finalizing s (Suc k) st = finalizing s k st" unfolding finalizing_def by simp
    moreover have "finalize_location E k (finalizing s k st) = Some (finalizing s k st)"
      using False by (simp add: finalize_location_def)
    moreover have "\<forall>j < n_locs s. loc_used s j \<longrightarrow> (if j < Suc k then finished_file E s d0 ds st (final_path s j)
        else \<forall>h. fp (chunk s) ! j = Some h \<longrightarrow> holds st (staging_path s j) h ?f)"
      using each False by (auto simp: less_Suc_eq)
    ultimately show ?thesis using ih
      by (intro exI [of _ st] conjI) (simp_all only: foldM_upt_Suc bind.bind_lunit)
  next
    case True
    let ?s = "finalizing s k st"
    obtain h where h: "fp (chunk s) ! k = Some h"
      using files_invD(4,6) [OF inv] k True by auto
    have 1: "store_ok (store ?s)" "loc_used ?s k" "0 < chunk_duration_usecs (chunk ?s)"
      "fp (chunk ?s) ! k = Some h" using ih(2) True dur h k by simp_all
    have 2: "holds (store ?s) (staging_path ?s k) h ?f" using each k True h by auto
    have 3: "tracker_inv ?s (sizeof_file_pfx (lay E) + sizeof_chunk_hdr (lay E)) ds"
      using tr by (simp add: tracker_inv_def)
    have 4: "event_path E ?s k \<noteq> final_path ?s k" using ap k by (simp add: paths_apart_def)
    obtain st' where st': "finalize_location E k ?s = Some (upd_chunk (\<lambda>c. c\<lparr>fp := (fp c)[k := None]\<rparr>) (?s\<lparr>store := st'\<rparr>))"
      "keeps (touched E ?s k) (store ?s) st'" "finished_file E ?s d0 ds st' (final_path ?s k)"
      by (rule finalize_location_ok [OF L w r hm 1 2 3 ne codes fit 4])
    have kp: "keeps (touched E s k) st st'" using st'(2) by simp
    have "if j < Suc k then finished_file E s d0 ds st' (final_path s j)
        else \<forall>h. fp (chunk s) ! j = Some h \<longrightarrow> holds st' (staging_path s j) h ?f"
      if j: "j < n_locs s" "loc_used s j" for j
    proof (cases "j = k")
      case True
      with st'(3) show ?thesis by (simp add: finished_file_def)
    next
      case False
      then have "staging_path s j \<notin> touched E s k" "final_path s j \<notin> touched E s k"
        using ap j(1) k by (auto simp: paths_apart_def)
      with each j False keepsD(2,3) [OF kp] show ?thesis
        by (fastforce simp: finished_file_def less_Suc_eq)
    qed
    then have all: "\<forall>j < n_locs s. loc_used s j \<longrightarrow> (if j < Suc k then finished_file E s d0 ds st' (final_path s j)
        else \<forall>h. fp (chunk s) ! j = Some h \<longrightarrow> holds st' (staging_path s j) h ?f)" by blast
    have "finalize_location E k ?s = Some (finalizing s (Suc k) st')"
      using st'(1) by (simp add: finalizing_step [OF k True])
    with ih(1) keepsD(1) [OF kp] all show ?thesis
      by (intro exI [of _ st'] conjI) (simp_all only: foldM_upt_Suc bind.bind_lunit)
  qed
qed

section \<open>The recorder and the collector agree\<close>

text \<open>The names a session's chunk gets.\<close>

definition session_named :: "recorder \<Rightarrow> metadata_desc \<Rightarrow> metadata_desc list \<Rightarrow> recorder" where
  "session_named s d0 ds =
     upd_chunk (\<lambda>c. c\<lparr>chunk_fname := chunk_name (gmtime_r (tv_sec (tod d0))),
                      chunk_duration_usecs := usecs_since (raw_ns (ts (last (d0 # ds)))) (raw_ns (ts d0))\<rparr>)
       (s\<lparr>pchan := (pchan s)\<lparr>subpath := hour_path (gmtime_r (tv_sec (tod d0)))\<rparr>\<rparr>)"

definition env_works :: "chunk_env \<Rightarrow> bool" where
  "env_works E \<longleftrightarrow> layout_ok (lay E) \<and> (\<forall>i. can_write (io E) i) \<and> (\<forall>p. can_open (io E) p) \<and>
     (\<forall>a b. can_rename (io E) a b) \<and> hmac_ok E"

text \<open>A list of descriptors that fits one chunk.\<close>

definition one_chunk :: "chunk_env \<Rightarrow> recorder \<Rightarrow> metadata_desc \<Rightarrow> metadata_desc list \<Rightarrow> bool" where
  "one_chunk E s d0 ds \<longleftrightarrow>
     list_all (desc_ok (lay E)) (d0 # ds) \<and>
     list_all (\<lambda>d. same_hour (gmtime_r (tv_sec (tod d0))) (gmtime_r (tv_sec (tod d)))) ds \<and>
     max_records (record_tracker s) = recorder_capacity (lay E) \<and>
     length (d0 # ds) \<le> recorder_capacity (lay E) \<and>
     length (d0 # ds) \<le> METADATA_CHUNK_MAX_INDEX_RECORDS \<and>
     int (length (d0 # ds)) \<le> chunk_max_duration (chunk s) \<and>
     list_all (idx_codes (lay E)) (index_from (sizeof_file_pfx (lay E) + sizeof_chunk_hdr (lay E)) (d0 # ds)) \<and>
     sizeof_file_pfx (lay E) + sizeof_chunk_hdr (lay E) + sum_list (map data_length (d0 # ds)) < 2147483648 \<and>
     0 < usecs_since (raw_ns (ts (last (d0 # ds)))) (raw_ns (ts d0)) \<and>
     paths_apart E (session_named s d0 ds)"

lemma session_run:
  assumes env: "env_works E" and start: "session_start E s" and one: "one_chunk E s d0 ds"
  obtains s1 where "foldM (record_descriptor E) (d0 # ds) s = Some s1" "session_inv E s d0 (d0 # ds) s1"
    "chunk_duration_usecs (chunk s1) = usecs_since (raw_ns (ts (last (d0 # ds)))) (raw_ns (ts d0))"
proof -
  have L: "layout_ok (lay E)" and w: "\<forall>i. can_write (io E) i" and o: "\<forall>p. can_open (io E) p"
    using env by (simp_all add: env_works_def)
  have d0: "desc_ok (lay E) d0" "0 < max_records (record_tracker s)"
    using one by (auto simp: one_chunk_def)
  obtain s' where s': "record_descriptor E d0 s = Some s'" "session_inv E s d0 [d0] s'"
    "chunk_duration_usecs (chunk s') = 0"
    by (rule record_first [OF L w o start d0])
  have fx: "max_records (record_tracker s') = recorder_capacity (lay E)"
    "chunk_max_duration (chunk s') = chunk_max_duration (chunk s)"
    using s'(2) one by (simp_all add: session_inv_def session_fixed_def one_chunk_def)
  have "\<exists>s1. foldM (record_descriptor E) ds s' = Some s1 \<and> session_inv E s d0 ([d0] @ ds) s1 \<and>
     chunk_duration_usecs (chunk s1) = usecs_since (raw_ns (ts (last ([d0] @ ds)))) (raw_ns (ts d0))"
    by (rule record_run [OF L w s'(2)])
       (use s'(3) one fx in \<open>simp_all add: one_chunk_def usecs_since_def\<close>)
  with s'(1) that show thesis by auto
qed

text \<open>The session and the reader together.\<close>

lemma session_readback:
  assumes env: "env_works E" and start: "session_start E s" and one: "one_chunk E s d0 ds"
    and ty: "ty \<noteq> eCorruption"
  shows "\<exists>s1 s2. foldM (record_descriptor E) (d0 # ds) s = Some s1 \<and> metadata_chunk_finalize E s1 = Some s2 \<and>
    (\<forall>j < n_locs s. loc_used s j \<longrightarrow> (\<exists>bs f.
       file_at (store s2) (final_path (session_named s d0 ds) j) = Some bs \<and>
       get_metadata_records (lay E) (Some \<lparr>fbytes = bs, fpos = 0\<rparr>) a b ty c =
         Some (EXIT_SUCCESS, map desc_record (filter (desc_matches a b ty) (d0 # ds)),
               length (filter (desc_matches a b ty) (d0 # ds)), f)))"
proof -
  let ?L = "lay E" and ?ds = "d0 # ds"
  obtain s1 where s1: "foldM (record_descriptor E) ?ds s = Some s1" "session_inv E s d0 ?ds s1"
    "chunk_duration_usecs (chunk s1) = usecs_since (raw_ns (ts (last ?ds))) (raw_ns (ts d0))"
    by (rule session_run [OF env start one])
  have L: "layout_ok ?L" and w: "\<forall>i. can_write (io E) i" and r: "\<forall>a b. can_rename (io E) a b" and hm: "hmac_ok E"
    using env by (simp_all add: env_works_def)
  have inv: "files_inv s1 (fresh_header E s d0 @ data_bytes ?L ?ds)"
    and tr: "tracker_inv s1 (sizeof_file_pfx ?L + sizeof_chunk_hdr ?L) ?ds"
    and fx: "session_fixed E s d0 s1"
    using s1(2) by (simp_all add: session_inv_def length_header [OF L])
  have codes: "list_all (idx_codes ?L) (index_from (sizeof_file_pfx ?L + sizeof_chunk_hdr ?L) ?ds)"
    and ok: "list_all (desc_ok ?L) ?ds" and dur: "0 < chunk_duration_usecs (chunk s1)"
    and small: "sizeof_file_pfx ?L + sizeof_chunk_hdr ?L + sum_list (map data_length ?ds) < 2147483648"
    and n2: "length ?ds \<le> METADATA_CHUNK_MAX_INDEX_RECORDS" and cap: "length ?ds \<le> recorder_capacity ?L"
    using one s1(3) unfolding one_chunk_def by simp_all
  have fit: "length ?ds \<le> index_capacity ?L" "length ?ds \<le> index_slots ?L"
    using cap layout_okD(9) [OF L]
    by (simp_all add: index_capacity_def index_slots_def recorder_capacity_def add.commute)
  let ?n = "session_named s d0 ds"
  have nm: "final_path ?n j = final_path s1 j" "staging_path ?n j = staging_path s1 j"
    "event_path E ?n j = event_path E s1 j" "touched E ?n j = touched E s1 j" "n_locs ?n = n_locs s1"
    "n_locs s = n_locs s1" "loc_used s j = loc_used s1 j" for j
    using fx s1(3) by (simp_all add: final_path_def staging_path_def event_path_def touched_def n_locs_def
        session_named_def session_fixed_def upd_chunk_def)
  have ap: "paths_apart E s1" using one by (simp add: one_chunk_def paths_apart_def nm)
  obtain st where st: "foldM (finalize_location E) (locs s1) s1 = Some (finalizing s1 (n_locs s1) st)"
    "\<forall>j < n_locs s1. loc_used s1 j \<longrightarrow> finished_file E s1 d0 ?ds st (final_path s1 j)"
    using finalize_loop [OF L w r hm inv dur tr _ codes fit(1) ap order_refl]
    by (auto simp: locs_def n_locs_def)
  have "\<exists>bs f. file_at st (final_path ?n j) = Some bs \<and>
       get_metadata_records ?L (Some \<lparr>fbytes = bs, fpos = 0\<rparr>) a b ty c =
         Some (EXIT_SUCCESS, map desc_record (filter (desc_matches a b ty) ?ds),
               length (filter (desc_matches a b ty) ?ds), f)" if j: "j < n_locs s" "loc_used s j" for j
  proof -
    obtain x y where x: "length x = sizeof_subpfx_1 ?L" and fa: "file_at st (final_path ?n j) =
        Some (finished_bytes ?L (record_tracker s1) x (enc_chunk_hdr ?L (start_timeval d0)) ?ds y)"
      using st(2) j unfolding nm finished_file_def by blast
    from fa read_finished [OF L x layout_okD(3) [OF L] codes ok fit(2) n2 small ty] show ?thesis by blast
  qed
  with s1(1) st(1) show ?thesis
    by (auto simp: metadata_chunk_finalize_def metadata_reset_record_tracker_def)
qed


end
