(* ===== verification/Recorder_Props.thy ===== *)
theory Recorder_Props
  imports Chunk_Session
begin

text \<open>
  Properties of the metadata recorder and the collector's reader, each with a concrete session for
  its witness.
\<close>

section \<open>The recorder and the collector agree\<close>

text \<open>
  C11: what the recorder records is what the collector reads. From a channel with no open file, a
  run of descriptors that fits one chunk is recorded without a call on a closed stream, and after
  the chunk has been finalized every used storage location has, under its final name, a file in
  which the reader finds exactly the descriptors of the asked type and time range, in order, with
  their payloads, whatever the hash library wrote into the prefix or appended.
\<close>

theorem chunk_roundtrip:
  assumes env: "env_works E" and start: "session_start E s" and one: "one_chunk E s d0 ds"
    and ty: "ty \<noteq> eCorruption"
  shows "\<exists>s1 s2. foldM (record_descriptor E) (d0 # ds) s = Some s1 \<and> metadata_chunk_finalize E s1 = Some s2 \<and>
    (\<forall>j < n_locs s. loc_used s j \<longrightarrow> (\<exists>bs f.
       file_at (store s2) (final_path (session_named s d0 ds) j) = Some bs \<and>
       get_metadata_records (lay E) (Some \<lparr>fbytes = bs, fpos = 0\<rparr>) a b ty c =
         Some (EXIT_SUCCESS, map desc_record (filter (desc_matches a b ty) (d0 # ds)),
               length (filter (desc_matches a b ty) (d0 # ds)), f)))"
  by (rule session_readback [OF assms])

section \<open>A concrete session\<close>

definition demo_loc :: "string \<Rightarrow> string \<Rightarrow> data_location" where
  "demo_loc d t = \<lparr>is_used = 1, basedir = [], datadir = d, stagingdir = t\<rparr>"

definition demo_chunk_env :: chunk_env where
  "demo_chunk_env = \<lparr>penv = demo_env,
     io = \<lparr>can_open = (\<lambda>_. True), can_write = (\<lambda>_. True), can_close = (\<lambda>_. True),
           can_rename = (\<lambda>_ _. True), can_remove = (\<lambda>_. True)\<rparr>,
     IS_CHM_METADATA_RECORDING_COMMANDED = (\<lambda>_. 1), IS_SSD_METADATA_RECORDING_COMMANDED = (\<lambda>_. 1),
     update_HMAC_SHA1_metadata = (\<lambda>f. f), mkdir_p = (\<lambda>p ds. (0, insert p ds)),
     is_dir_exist = (\<lambda>p ds. p \<in> ds), MAXPATH = 256, DEFAULT_CHUNK_RECORDS_SIZE = 120, calloc_ok = True\<rparr>"

definition demo_recorder :: recorder where
  "demo_recorder = \<lparr>
     pchan = \<lparr>src_premise = ''L'', is_active = True, n_copies = 2,
              data_loc = [demo_loc ''A/'' ''C/'', demo_loc ''B/'' ''D/''], subpath = [],
              chunk_duration = 120, recording_mode = 3,
              m_chunk = \<lparr>fp = [None, None], session_just_started = True, prev_tm = zero_tm, t0 = 0,
                         deltat = 1, chunk_duration_usecs = 0, chunk_max_duration = 120,
                         chunk_fname = [], drive_status_updated = False\<rparr>\<rparr>,
     record_tracker = \<lparr>max_records = recorder_capacity demo_layout, num_records = 0\<rparr>,
     idx_data = Some (replicate (recorder_capacity demo_layout) zero_idx),
     pre_chm_rec = - 1, pre_ssd_rec = - 1, out = [None, None], pos = 0,
     ptc = demo_ptc_state, store = empty_store\<rparr>"

definition demo_desc :: "int \<Rightarrow> metadata_desc" where
  "demo_desc t = \<lparr>pData = Some (GPS_data \<lparr>latitude_dd_m = 7, longitude_dd_m = 9, speed_mph_m = 3\<rparr>),
     data_type = eGPS, data_length = 8, tod = \<lparr>tv_sec = t, tv_usec = 0\<rparr>, ts = \<lparr>ts_sec = t, ts_nsec = 0\<rparr>\<rparr>"

lemma demo_layout_ok: "layout_ok demo_layout"
  by (simp add: layout_ok_def demo_layout_def demo_dec_idx_def used_entry_def)

lemma demo_env_works: "env_works demo_chunk_env"
proof -
  have "\<exists>x y. length x = sizeof_subpfx_1 demo_layout \<and> fbytes f = x @ drop (sizeof_subpfx_1 demo_layout) (fbytes f) @ y"
    if "sizeof_subpfx_1 demo_layout \<le> length (fbytes f)" for f :: cfile
    using that by (intro exI [of _ "take (sizeof_subpfx_1 demo_layout) (fbytes f)"] exI [of _ "[]"]) simp
  with demo_layout_ok show ?thesis
    by (simp add: env_works_def demo_chunk_env_def demo_env_def hmac_ok_def)
qed

lemma demo_session_start: "session_start demo_chunk_env demo_recorder"
  by (auto simp: session_start_def demo_recorder_def closed_inv_def n_locs_def demo_loc_def steady_def
      Let_def demo_chunk_env_def)

lemma demo_one_chunk: "one_chunk demo_chunk_env demo_recorder (demo_desc 100) [demo_desc 101]"
proof -
  have g: "gmtime_r 100 = \<lparr>tm_year = 70, tm_mon = 0, tm_mday = 1, tm_hour = 0, tm_min = 1, tm_sec = 40\<rparr>"
    "gmtime_r 101 = \<lparr>tm_year = 70, tm_mon = 0, tm_mday = 1, tm_hour = 0, tm_min = 1, tm_sec = 41\<rparr>"
    using gmtime_mktime [of "\<lparr>tm_year = 70, tm_mon = 0, tm_mday = 1, tm_hour = 0, tm_min = 1, tm_sec = 40\<rparr>"]
      gmtime_mktime [of "\<lparr>tm_year = 70, tm_mon = 0, tm_mday = 1, tm_hour = 0, tm_min = 1, tm_sec = 41\<rparr>"]
    by (simp_all add: mktime_def days_to_year_def days_to_month_def leaps_to_def valid_tm_def month_len_def)
  have l: "lay demo_chunk_env = demo_layout" by (simp add: demo_chunk_env_def demo_env_def)
  have u: "usecs_since (raw_ns (ts (demo_desc 101))) (raw_ns (ts (demo_desc 100))) = 1000000"
    by (simp add: usecs_since_def raw_ns_def demo_desc_def ONE_SEC_IN_NANO_SECS_def ONE_SEC_IN_MILI_SECS_def)
  show ?thesis
    unfolding one_chunk_def
  proof (intro conjI)
    show "paths_apart demo_chunk_env (session_named demo_recorder (demo_desc 100) [demo_desc 101])"
    proof -
      have two: "(\<forall>i < 2. P i) \<longleftrightarrow> P 0 \<and> P (1::nat)" for P
        by (auto simp: less_2_cases_iff)
      have n: "n_locs (session_named demo_recorder d ds) = 2" for d ds
        by (simp add: n_locs_def session_named_def demo_recorder_def)
      show ?thesis
        unfolding paths_apart_def n two touched_def
        by (simp add: final_path_def staging_path_def event_path_def session_named_def demo_recorder_def
            demo_loc_def Let_def)
    qed
    show "0 < usecs_since (raw_ns (ts (last [demo_desc 100, demo_desc 101]))) (raw_ns (ts (demo_desc 100)))"
      by (simp add: u)
    show "list_all (\<lambda>d. same_hour (gmtime_r (tv_sec (tod (demo_desc 100)))) (gmtime_r (tv_sec (tod d)))) [demo_desc 101]"
      by (simp add: demo_desc_def g same_hour_def)
    show "list_all (idx_codes (lay demo_chunk_env)) (index_from
       (sizeof_file_pfx (lay demo_chunk_env) + sizeof_chunk_hdr (lay demo_chunk_env)) [demo_desc 100, demo_desc 101])"
      by (simp add: demo_desc_def l demo_layout_def idx_codes_def index_entry_def demo_enc_idx_def
          demo_dec_idx_def type_code_def code_type_def)
    show "list_all (desc_ok (lay demo_chunk_env)) [demo_desc 100, demo_desc 101]"
      by (simp add: demo_desc_def l demo_layout_def desc_ok_def demo_dec_def)
  qed (simp_all add: l demo_layout_def demo_recorder_def recorder_capacity_def demo_desc_def
      METADATA_CHUNK_MAX_INDEX_RECORDS_def)
qed


theorem chunk_roundtrip_witness:
  "\<exists>s1 s2. foldM (record_descriptor demo_chunk_env) [demo_desc 100, demo_desc 101] demo_recorder = Some s1 \<and>
     metadata_chunk_finalize demo_chunk_env s1 = Some s2 \<and>
     (\<exists>bs f. file_at (store s2)
          (final_path (session_named demo_recorder (demo_desc 100) [demo_desc 101]) 0) = Some bs \<and>
        get_metadata_records (lay demo_chunk_env) (Some \<lparr>fbytes = bs, fpos = 0\<rparr>) 101 200 eGPS 0 =
          Some (EXIT_SUCCESS, [desc_record (demo_desc 101)], 1, f))"
proof -
  have "0 < n_locs demo_recorder" "loc_used demo_recorder 0"
    by (simp_all add: n_locs_def demo_recorder_def demo_loc_def)
  moreover have "filter (desc_matches 101 200 eGPS) [demo_desc 100, demo_desc 101] = [demo_desc 101]"
    by (simp add: desc_matches_def index_matches_def index_entry_def demo_desc_def)
  ultimately show ?thesis
    using chunk_roundtrip [OF demo_env_works demo_session_start demo_one_chunk, of eGPS 101 200 0] by force
qed

end
