(* ===== verification/Xml_Writer.thy ===== *)
theory Xml_Writer
  imports Meta_Reader Ptc_Meta
begin

text \<open>
  \<open>metacollector/src/xml_writer.c\<close>: the XML (or pipe separated) rendering of the collected records.
  Every write goes through the macro \<open>PRINTF_T\<close>, to the document when one is open and to the
  console otherwise; both are components of \<open>xml_out\<close>. The number to string functions of
  \<open>metadata_util.h\<close> are not part of the repository: they are components of \<open>xml_env\<close>, next to the
  flag \<open>use_pipe\<close>.
\<close>

section \<open>Output\<close>

record xml_env =
  use_pipe :: bool
  time_seconds_tostr :: "int \<Rightarrow> string"
  gps_coordinate_tostr :: "int \<Rightarrow> gps_coordinate_kind \<Rightarrow> bool \<Rightarrow> string"
  gps_speed_tostr :: "int \<Rightarrow> string"

record xml_out =
  document :: string
  console :: string

text \<open>The argument \<open>file\<close> tells whether the file pointer is not \<open>NULL\<close>.\<close>

definition PRINTF_T :: "string \<Rightarrow> bool \<Rightarrow> xml_out \<Rightarrow> xml_out" where
  "PRINTF_T str file w = (if file then w\<lparr>document := document w @ str\<rparr> else w\<lparr>console := console w @ str\<rparr>)"

text \<open>A sequence of writes.\<close>

definition printf_all :: "string list \<Rightarrow> bool \<Rightarrow> xml_out \<Rightarrow> xml_out" where
  "printf_all strs file w = fold (\<lambda>s. PRINTF_T s file) strs w"

definition get_str_element_tag :: "string \<Rightarrow> string \<Rightarrow> string" where
  "get_str_element_tag tagname tagvalue =
     snprintf 254 (''<'' @ tagname @ ''>'' @ tagvalue @ ''</'' @ tagname @ ''>'' @ [CHR 0x0A])"

text \<open>The value is passed as a C \<open>int\<close>: a longer one is cut to 32 bits.\<close>

definition get_int_element_tag :: "string \<Rightarrow> int \<Rightarrow> string" where
  "get_int_element_tag tagname tagvalue =
     snprintf 254 (''<'' @ tagname @ ''>'' @ int_str (s32 tagvalue) @ ''</'' @ tagname @ ''>'' @ [CHR 0x0A])"

section \<open>Records\<close>

definition line :: "string \<Rightarrow> string" where "line s = s @ [CHR 0x0A]"

definition write_gps :: "xml_env \<Rightarrow> bool \<Rightarrow> int \<Rightarrow> meta_gps_memory \<Rightarrow> xml_out \<Rightarrow> xml_out" where
  "write_gps X file rt g =
     (if use_pipe X then
        printf_all
          [''<data>'', time_seconds_tostr X rt, ''|'',
           gps_coordinate_tostr X (latitude_dd_m g) eGPSLatitude False, ''|'',
           gps_coordinate_tostr X (longitude_dd_m g) eGPSLongitude False, ''|'',
           gps_speed_tostr X (speed_mph_m g), line ''</data>''] file
      else
        printf_all
          [line ''<gps>'',
           get_str_element_tag ''time'' (time_seconds_tostr X rt),
           get_str_element_tag ''latitude'' (gps_coordinate_tostr X (latitude_dd_m g) eGPSLatitude False),
           get_str_element_tag ''longitude'' (gps_coordinate_tostr X (longitude_dd_m g) eGPSLongitude False),
           get_str_element_tag ''speed'' (gps_speed_tostr X (speed_mph_m g)),
           line ''</gps>''] file)"

definition write_timeoffset :: "xml_env \<Rightarrow> bool \<Rightarrow> int \<Rightarrow> meta_time_memory \<Rightarrow> xml_out \<Rightarrow> xml_out" where
  "write_timeoffset X file rt t =
     printf_all
       [line ''<time_change>'',
        get_str_element_tag ''time'' (time_seconds_tostr X rt),
        get_int_element_tag ''current_offset'' (timeoffset_sec_m t),
        get_str_element_tag ''time_source'' (time_src t),
        line ''</time_change>''] file"

definition write_video_event :: "xml_env \<Rightarrow> bool \<Rightarrow> int \<Rightarrow> meta_event_recording \<Rightarrow> xml_out \<Rightarrow> xml_out" where
  "write_video_event X file rt e =
     printf_all
       [line ''<event>'',
        get_str_element_tag ''time'' (time_seconds_tostr X rt),
        get_str_element_tag ''event_name'' (digital_name e),
        get_int_element_tag ''event_value'' (digital_value e),
        line ''</event>''] file"

definition write_locoid_event :: "xml_env \<Rightarrow> bool \<Rightarrow> int \<Rightarrow> meta_loco_id \<Rightarrow> xml_out \<Rightarrow> xml_out" where
  "write_locoid_event X file rt l =
     printf_all
       [line ''<event>'',
        get_str_element_tag ''time'' (time_seconds_tostr X rt),
        get_str_element_tag ''locomotive_id'' (loco_id l),
        line ''</event>''] file"

definition init_xml_document_declaration :: "bool \<Rightarrow> xml_out \<Rightarrow> exit_code \<times> xml_out" where
  "init_xml_document_declaration file w =
     (EXIT_SUCCESS,
      PRINTF_T (snprintf 127 (line (''<?xml version='' @ [CHR 0x22] @ ''1.0'' @ [CHR 0x22] @ '' encoding='' @
         [CHR 0x22] @ ''UTF-8'' @ [CHR 0x22] @ ''?>''))) file w)"

text \<open>The four list writers: one record after the other. A record of another type is not written.\<close>

definition write_gps_list :: "xml_env \<Rightarrow> bool \<Rightarrow> metadata_record list \<Rightarrow> xml_out \<Rightarrow> xml_out" where
  "write_gps_list X file rs =
     fold (\<lambda>r. case rdata r of GPS_data g \<Rightarrow> write_gps X file (record_time r) g | _ \<Rightarrow> id) rs"

definition write_event_list :: "xml_env \<Rightarrow> bool \<Rightarrow> metadata_record list \<Rightarrow> xml_out \<Rightarrow> xml_out" where
  "write_event_list X file rs =
     fold (\<lambda>r. case rdata r of Event_data e \<Rightarrow> write_video_event X file (record_time r) e | _ \<Rightarrow> id) rs"

definition write_timeoffset_list :: "xml_env \<Rightarrow> bool \<Rightarrow> metadata_record list \<Rightarrow> xml_out \<Rightarrow> xml_out" where
  "write_timeoffset_list X file rs =
     fold (\<lambda>r. case rdata r of Time_data t \<Rightarrow> write_timeoffset X file (record_time r) t | _ \<Rightarrow> id) rs"

definition write_locoID_list :: "xml_env \<Rightarrow> bool \<Rightarrow> metadata_record list \<Rightarrow> xml_out \<Rightarrow> xml_out" where
  "write_locoID_list X file rs =
     fold (\<lambda>r. case rdata r of Loco_data l \<Rightarrow> write_locoid_event X file (record_time r) l | _ \<Rightarrow> id) rs"

definition write_corrupt_segment :: "xml_env \<Rightarrow> bool \<Rightarrow> int \<Rightarrow> int \<Rightarrow> xml_out \<Rightarrow> xml_out" where
  "write_corrupt_segment X file epochseconds duration_seconds =
     printf_all
       [''<time_range>'',
        get_str_element_tag ''start_time'' (time_seconds_tostr X epochseconds),
        get_str_element_tag ''end_time'' (time_seconds_tostr X (epochseconds + duration_seconds)),
        ''</time_range>''] file"

definition list_tag :: "xml_env \<Rightarrow> eMetaDataType \<Rightarrow> string" where
  "list_tag X ty =
     (case ty of
        eGPS \<Rightarrow> if use_pipe X then ''gpsdata'' else ''gps_list''
      | eTimeInfo \<Rightarrow> ''time_change_list''
      | eVideoEvent \<Rightarrow> ''video_events''
      | eLocomotiveId \<Rightarrow> ''locomotiveId_events''
      | eCorruption \<Rightarrow> ''corrupt_metadata_segments'')"

definition write_list_start :: "xml_env \<Rightarrow> bool \<Rightarrow> eMetaDataType \<Rightarrow> xml_out \<Rightarrow> xml_out" where
  "write_list_start X file ty = PRINTF_T (line (''<'' @ list_tag X ty @ ''>'')) file"

definition write_list_close :: "xml_env \<Rightarrow> bool \<Rightarrow> eMetaDataType \<Rightarrow> xml_out \<Rightarrow> xml_out" where
  "write_list_close X file ty = PRINTF_T (line (''</'' @ list_tag X ty @ ''>'')) file"

section \<open>What is written\<close>

text \<open>The text a record, a list or a section adds to the output.\<close>

definition emit :: "string \<Rightarrow> bool \<Rightarrow> xml_out \<Rightarrow> xml_out" where
  "emit s file w = PRINTF_T s file w"

lemma PRINTF_T_PRINTF_T: "PRINTF_T t file (PRINTF_T s file w) = PRINTF_T (s @ t) file w"
  by (simp add: PRINTF_T_def)

lemma PRINTF_T_Nil [simp]: "PRINTF_T [] file w = w"
  by (simp add: PRINTF_T_def)

lemma printf_all_concat: "printf_all strs file w = PRINTF_T (concat strs) file w"
  by (induction strs arbitrary: w) (simp_all add: printf_all_def PRINTF_T_PRINTF_T)

definition record_text :: "xml_env \<Rightarrow> metadata_record \<Rightarrow> string" where
  "record_text X r =
     (let el = get_str_element_tag; rt = get_str_element_tag ''time'' (time_seconds_tostr X (record_time r))
      in (case rdata r of
            GPS_data g \<Rightarrow>
              if use_pipe X then
                ''<data>'' @ time_seconds_tostr X (record_time r) @ ''|'' @
                gps_coordinate_tostr X (latitude_dd_m g) eGPSLatitude False @ ''|'' @
                gps_coordinate_tostr X (longitude_dd_m g) eGPSLongitude False @ ''|'' @
                gps_speed_tostr X (speed_mph_m g) @ line ''</data>''
              else
                line ''<gps>'' @ rt @
                el ''latitude'' (gps_coordinate_tostr X (latitude_dd_m g) eGPSLatitude False) @
                el ''longitude'' (gps_coordinate_tostr X (longitude_dd_m g) eGPSLongitude False) @
                el ''speed'' (gps_speed_tostr X (speed_mph_m g)) @ line ''</gps>''
          | Time_data t \<Rightarrow>
              line ''<time_change>'' @ rt @ get_int_element_tag ''current_offset'' (timeoffset_sec_m t) @
              el ''time_source'' (time_src t) @ line ''</time_change>''
          | Event_data e \<Rightarrow>
              line ''<event>'' @ rt @ el ''event_name'' (digital_name e) @
              get_int_element_tag ''event_value'' (digital_value e) @ line ''</event>''
          | Loco_data l \<Rightarrow>
              line ''<event>'' @ rt @ el ''locomotive_id'' (loco_id l) @ line ''</event>''))"

definition of_type :: "eMetaDataType \<Rightarrow> metadata_record \<Rightarrow> bool" where
  "of_type ty r \<longleftrightarrow> payload_type (rdata r) = ty"

lemma fold_emit:
  assumes "\<And>r w. r \<in> set rs \<Longrightarrow> f r w = PRINTF_T (g r) file w"
  shows "fold f rs w = PRINTF_T (concat (map g rs)) file w"
  using assms by (induction rs arbitrary: w) (simp_all add: PRINTF_T_PRINTF_T)

lemma write_lists_text:
  "list_all (of_type eGPS) rs \<Longrightarrow> write_gps_list X file rs w = PRINTF_T (concat (map (record_text X) rs)) file w"
  "list_all (of_type eVideoEvent) rs \<Longrightarrow> write_event_list X file rs w = PRINTF_T (concat (map (record_text X) rs)) file w"
  "list_all (of_type eTimeInfo) rs \<Longrightarrow> write_timeoffset_list X file rs w = PRINTF_T (concat (map (record_text X) rs)) file w"
  "list_all (of_type eLocomotiveId) rs \<Longrightarrow> write_locoID_list X file rs w = PRINTF_T (concat (map (record_text X) rs)) file w"
  unfolding write_gps_list_def write_event_list_def write_timeoffset_list_def write_locoID_list_def
  by (rule fold_emit; force simp: list_all_iff of_type_def record_text_def Let_def write_gps_def
      write_video_event_def write_timeoffset_def write_locoid_event_def printf_all_concat
      split: meta_payload.splits)+

section \<open>Well-formed output\<close>

text \<open>
  A checker of tag nesting: it keeps the stack of open tags, skips text and declarations, and fails
  when a closing tag does not match or a tag does not end.
\<close>

function xml_scan :: "string \<Rightarrow> string list \<Rightarrow> string list option" where
  "xml_scan [] st = Some st"
| "xml_scan (c # cs) st =
     (if c \<noteq> CHR ''<'' then xml_scan cs st
      else
        (let nm = takeWhile (\<lambda>c. c \<noteq> CHR ''>'') cs; rest = dropWhile (\<lambda>c. c \<noteq> CHR ''>'') cs
         in if rest = [] then None
            else if nm \<noteq> [] \<and> hd nm = CHR ''?'' then xml_scan (tl rest) st
            else if nm \<noteq> [] \<and> hd nm = CHR ''/''
            then (case st of
                    t # st' \<Rightarrow> if t = tl nm then xml_scan (tl rest) st' else None
                  | [] \<Rightarrow> None)
            else xml_scan (tl rest) (nm # st)))"
  by pat_completeness auto
termination
proof (relation "measure (length \<circ> fst)")
  have "length (tl (dropWhile P cs)) < Suc (length cs)" for P and cs :: string
    by (metis diff_le_self le_imp_less_Suc length_dropWhile_le length_tl order_trans)
  then show "\<And>c cs st nm rest.
       \<lbrakk>\<not> c \<noteq> CHR ''<''; nm = takeWhile (\<lambda>c. c \<noteq> CHR ''>'') cs;
        rest = dropWhile (\<lambda>c. c \<noteq> CHR ''>'') cs; rest \<noteq> []; nm \<noteq> [] \<and> hd nm = CHR ''?''\<rbrakk>
       \<Longrightarrow> ((tl rest, st), c # cs, st) \<in> measure (length \<circ> fst)"
    "\<And>c cs st nm rest t st'.
       \<lbrakk>\<not> c \<noteq> CHR ''<''; nm = takeWhile (\<lambda>c. c \<noteq> CHR ''>'') cs;
        rest = dropWhile (\<lambda>c. c \<noteq> CHR ''>'') cs; rest \<noteq> []; \<not> (nm \<noteq> [] \<and> hd nm = CHR ''?'');
        nm \<noteq> [] \<and> hd nm = CHR ''/''; st = t # st'; t = tl nm\<rbrakk>
       \<Longrightarrow> ((tl rest, st'), c # cs, st) \<in> measure (length \<circ> fst)"
    "\<And>c cs st nm rest.
       \<lbrakk>\<not> c \<noteq> CHR ''<''; nm = takeWhile (\<lambda>c. c \<noteq> CHR ''>'') cs;
        rest = dropWhile (\<lambda>c. c \<noteq> CHR ''>'') cs; rest \<noteq> []; \<not> (nm \<noteq> [] \<and> hd nm = CHR ''?'');
        \<not> (nm \<noteq> [] \<and> hd nm = CHR ''/'')\<rbrakk>
       \<Longrightarrow> ((tl rest, nm # st), c # cs, st) \<in> measure (length \<circ> fst)"
    by simp_all
qed auto

lemma xml_scan_text: "CHR ''<'' \<notin> set t \<Longrightarrow> xml_scan (t @ r) st = xml_scan r st"
  by (induction t) auto

definition tag_name :: "string \<Rightarrow> bool" where
  "tag_name nm \<longleftrightarrow> nm \<noteq> [] \<and> CHR ''>'' \<notin> set nm \<and> hd nm \<notin> {CHR ''?'', CHR ''/''}"

lemma takeWhile_tag: "CHR ''>'' \<notin> set nm \<Longrightarrow>
    takeWhile (\<lambda>c. c \<noteq> CHR ''>'') (nm @ CHR ''>'' # r) = nm \<and>
    dropWhile (\<lambda>c. c \<noteq> CHR ''>'') (nm @ CHR ''>'' # r) = CHR ''>'' # r"
  by (induction nm) auto

lemma xml_scan_open: "tag_name nm \<Longrightarrow> xml_scan (CHR ''<'' # nm @ CHR ''>'' # r) st = xml_scan r (nm # st)"
  using takeWhile_tag [of nm r] by (simp add: tag_name_def Let_def)

lemma xml_scan_close:
  assumes "tag_name nm"
  shows "xml_scan (CHR ''<'' # CHR ''/'' # nm @ CHR ''>'' # r) (nm # st) = xml_scan r st"
  using assms takeWhile_tag [of nm r] by (simp add: tag_name_def Let_def)

text \<open>A piece of output that leaves the stack of open tags as it was.\<close>

definition neutral :: "string \<Rightarrow> bool" where
  "neutral s \<longleftrightarrow> (\<forall>r st. xml_scan (s @ r) st = xml_scan r st)"

lemma neutral_Nil [simp]: "neutral []"
  by (simp add: neutral_def)

lemma neutral_append: "neutral s \<Longrightarrow> neutral t \<Longrightarrow> neutral (s @ t)"
  by (simp add: neutral_def)

lemma neutral_concat: "list_all neutral ss \<Longrightarrow> neutral (concat ss)"
  by (induction ss) (simp_all add: neutral_append)

lemma neutral_text: "CHR ''<'' \<notin> set t \<Longrightarrow> neutral t"
  by (simp add: neutral_def xml_scan_text)

lemma neutral_tagged:
  assumes "tag_name nm" "neutral s"
  shows "neutral (''<'' @ nm @ ''>'' @ s @ ''</'' @ nm @ ''>'')"
  using assms by (simp add: neutral_def xml_scan_open xml_scan_close del: xml_scan.simps(2))

lemma neutral_scan: "neutral s \<Longrightarrow> xml_scan s [] = Some []"
  using neutral_def [of s] by (metis append_Nil2 xml_scan.simps(1))


text \<open>A value an element can hold: no opening bracket, and short enough for the buffer.\<close>

definition fits_tag :: "string \<Rightarrow> string \<Rightarrow> bool" where
  "fits_tag nm v \<longleftrightarrow> CHR ''<'' \<notin> set v \<and> 2 * length nm + length v + 6 \<le> 253"

lemma snprintf_id: "length s < n \<Longrightarrow> snprintf n s = s"
  by (simp add: snprintf_def)

lemma get_str_element_tag_eq:
  "fits_tag nm v \<Longrightarrow> get_str_element_tag nm v = ''<'' @ nm @ ''>'' @ v @ ''</'' @ nm @ ''>'' @ [CHR 0x0A]"
  unfolding get_str_element_tag_def fits_tag_def by (rule snprintf_id) auto

lemma get_int_element_tag_eq:
  "fits_tag nm (int_str (s32 v)) \<Longrightarrow>
   get_int_element_tag nm v = ''<'' @ nm @ ''>'' @ int_str (s32 v) @ ''</'' @ nm @ ''>'' @ [CHR 0x0A]"
  unfolding get_int_element_tag_def fits_tag_def by (rule snprintf_id) auto

lemma neutral_element:
  assumes "tag_name nm" "neutral s"
  shows "neutral (''<'' @ nm @ ''>'' @ s @ ''</'' @ nm @ ''>'' @ [CHR 0x0A])"
  using neutral_append [OF neutral_tagged [OF assms] neutral_text [of "[CHR 0x0A]"]] by simp

lemma neutral_str_element: "tag_name nm \<Longrightarrow> fits_tag nm v \<Longrightarrow> neutral (get_str_element_tag nm v)"
  using neutral_element [of nm v] neutral_text [of v]
  by (simp only: get_str_element_tag_eq fits_tag_def simp_thms)

lemma digit_not_lt: "d < 10 \<Longrightarrow> digit_char d \<noteq> CHR ''<''"
proof
  assume "d < 10" "digit_char d = CHR ''<''"
  then have "(of_char (digit_char d) :: nat) = 60" by simp
  with \<open>d < 10\<close> show False by simp
qed

lemma nat_str_no_lt: "CHR ''<'' \<notin> set (nat_str n)"
  by (induction n rule: nat_str.induct) (subst nat_str.simps, auto simp: digit_not_lt dest: sym)

lemma int_str_no_lt: "CHR ''<'' \<notin> set (int_str i)"
  using nat_str_no_lt by (simp add: int_str_def)

lemma length_int_str_s32: "length (int_str (s32 v)) \<le> 11"
proof -
  have "sint (word_of_int v :: 32 word) < 2147483648" "- 2147483648 \<le> sint (word_of_int v :: 32 word)"
    using sint_range_size [of "word_of_int v :: 32 word"] by (simp_all add: word_size)
  then have "nat \<bar>s32 v\<bar> < 10 ^ 10" by (simp add: s32_def)
  then have "length (nat_str (nat \<bar>s32 v\<bar>)) \<le> 10" by (intro length_nat_str) simp_all
  then show ?thesis by (auto simp: int_str_def)
qed

lemma neutral_int_element:
  assumes "tag_name nm" "length nm \<le> 100"
  shows "neutral (get_int_element_tag nm v)"
proof -
  have f: "fits_tag nm (int_str (s32 v))"
    using assms(2) int_str_no_lt length_int_str_s32 [of v] by (simp add: fits_tag_def)
  show ?thesis unfolding get_int_element_tag_eq [OF f]
    using neutral_element [OF assms(1) neutral_text [OF int_str_no_lt]] .
qed

text \<open>The values of a record fit their elements.\<close>

definition record_fits :: "xml_env \<Rightarrow> metadata_record \<Rightarrow> bool" where
  "record_fits X r \<longleftrightarrow>
     fits_tag ''time'' (time_seconds_tostr X (record_time r)) \<and>
     (case rdata r of
        GPS_data g \<Rightarrow>
          fits_tag ''latitude'' (gps_coordinate_tostr X (latitude_dd_m g) eGPSLatitude False) \<and>
          fits_tag ''longitude'' (gps_coordinate_tostr X (longitude_dd_m g) eGPSLongitude False) \<and>
          fits_tag ''speed'' (gps_speed_tostr X (speed_mph_m g))
      | Time_data t \<Rightarrow> fits_tag ''time_source'' (time_src t)
      | Event_data e \<Rightarrow> fits_tag ''event_name'' (digital_name e)
      | Loco_data l \<Rightarrow> fits_tag ''locomotive_id'' (loco_id l))"

lemma tag_names [simp]:
  "tag_name ''time''" "tag_name ''latitude''" "tag_name ''longitude''" "tag_name ''speed''"
  "tag_name ''current_offset''" "tag_name ''time_source''" "tag_name ''event_name''"
  "tag_name ''event_value''" "tag_name ''locomotive_id''" "tag_name ''gps''" "tag_name ''data''"
  "tag_name ''time_change''" "tag_name ''event''" "tag_name ''start_time''" "tag_name ''end_time''"
  "tag_name ''time_range''" "tag_name (list_tag X ty)"
  by (simp_all add: tag_name_def list_tag_def split: eMetaDataType.split)

lemma neutral_line:
  assumes "tag_name nm" "neutral s"
  shows "neutral (line (''<'' @ nm @ ''>'') @ s @ line (''</'' @ nm @ ''>''))"
proof -
  have "neutral ([CHR 0x0A] @ s)" by (rule neutral_append [OF neutral_text assms(2)]) simp
  from neutral_element [OF assms(1) this] show ?thesis by (simp add: line_def)
qed

lemma neutral_record:
  assumes "record_fits X r"
  shows "neutral (record_text X r)"
proof -
  have t: "neutral (get_str_element_tag ''time'' (time_seconds_tostr X (record_time r)))"
    using assms by (simp add: record_fits_def neutral_str_element)
  have nl: "CHR ''<'' \<notin> set v" if "fits_tag nm v" for nm v using that by (simp add: fits_tag_def)
  show ?thesis
  proof (cases "rdata r")
    case (GPS_data g)
    let ?la = "gps_coordinate_tostr X (latitude_dd_m g) eGPSLatitude False"
    let ?lo = "gps_coordinate_tostr X (longitude_dd_m g) eGPSLongitude False"
    let ?sp = "gps_speed_tostr X (speed_mph_m g)"
    have f: "fits_tag ''latitude'' ?la" "fits_tag ''longitude'' ?lo" "fits_tag ''speed'' ?sp"
      "fits_tag ''time'' (time_seconds_tostr X (record_time r))"
      using assms GPS_data by (simp_all add: record_fits_def)
    have "neutral (time_seconds_tostr X (record_time r) @ ''|'' @ ?la @ ''|'' @ ?lo @ ''|'' @ ?sp)"
      by (rule neutral_text) (use f [THEN nl] in simp)
    from neutral_element [OF tag_names(11) this]
    have pipe: "neutral (''<data>'' @ time_seconds_tostr X (record_time r) @ ''|'' @ ?la @ ''|'' @ ?lo @ ''|'' @ ?sp
        @ line ''</data>'')" by (simp add: line_def)
    have "neutral (get_str_element_tag ''time'' (time_seconds_tostr X (record_time r)) @
        get_str_element_tag ''latitude'' ?la @ get_str_element_tag ''longitude'' ?lo @
        get_str_element_tag ''speed'' ?sp)"
      by (intro neutral_append t neutral_str_element f tag_names)
    from neutral_line [OF tag_names(10) this] pipe GPS_data show ?thesis
      by (simp add: record_text_def Let_def)
  next
    case (Time_data x)
    have "neutral (get_str_element_tag ''time'' (time_seconds_tostr X (record_time r)) @
        get_int_element_tag ''current_offset'' (timeoffset_sec_m x) @
        get_str_element_tag ''time_source'' (time_src x))"
      by (intro neutral_append t neutral_str_element neutral_int_element tag_names)
         (use assms Time_data in \<open>simp_all add: record_fits_def\<close>)
    from neutral_line [OF tag_names(12) this] Time_data show ?thesis
      by (simp add: record_text_def Let_def)
  next
    case (Event_data e)
    have "neutral (get_str_element_tag ''time'' (time_seconds_tostr X (record_time r)) @
        get_str_element_tag ''event_name'' (digital_name e) @
        get_int_element_tag ''event_value'' (digital_value e))"
      by (intro neutral_append t neutral_str_element neutral_int_element tag_names)
         (use assms Event_data in \<open>simp_all add: record_fits_def\<close>)
    from neutral_line [OF tag_names(13) this] Event_data show ?thesis
      by (simp add: record_text_def Let_def)
  next
    case (Loco_data l)
    have "neutral (get_str_element_tag ''time'' (time_seconds_tostr X (record_time r)) @
        get_str_element_tag ''locomotive_id'' (loco_id l))"
      by (intro neutral_append t neutral_str_element tag_names)
         (use assms Loco_data in \<open>simp_all add: record_fits_def\<close>)
    from neutral_line [OF tag_names(13) this] Loco_data show ?thesis
      by (simp add: record_text_def Let_def)
  qed
qed

end
