(* ===== verification/Meta_Writer.thy ===== *)
theory Meta_Writer
  imports Xml_Writer C_Time
begin

text \<open>
  The metadata collector: \<open>metacollector/src/metawriter.c\<close>, which finds the chunk files of the
  requested time range, reads the records of the enabled types and writes the document, and
  \<open>metacollector/src/main.c\<close>, its command line. The directory walker (\<open>get_all_files\<close>) and the hash
  library (\<open>validate_metadata_chunk\<close>) are not part of the repository: they are components of
  \<open>collector_env\<close>, as are the files that can be opened, the time zone (\<open>localtime\<close>) and the
  process identity. Where the reader would write past its arrays the result is \<open>None\<close>.
\<close>

section \<open>State\<close>

record chunk_file =
  epochseconds :: int
  duration_seconds :: int
  filename :: string

record collector_input_chan =
  storage_location :: string
  chan_loco_id :: string
  chan_subpath :: string
  start_time :: int
  end_time :: int
  gps_enabled :: bool
  event_enabled :: bool
  timeoffset_enable :: bool
  locoId_enable :: bool
  validate_hash :: bool
  chan_file :: string

record collector_env =
  xml :: xml_env
  c_layout :: meta_layout
  localtime :: "int \<Rightarrow> tm"
  get_all_files :: "string \<Rightarrow> int \<Rightarrow> int \<Rightarrow> exit_code \<times> chunk_file list"
  open_file :: "string \<Rightarrow> u8 list option"
  validate_metadata_chunk :: "string \<Rightarrow> int"
  old_document :: "string option"
  xml_can_open :: bool

section \<open>Paths of the chunk files\<close>

text \<open>\<open>%s/%04d/%02d/%02d/%02d/%s\<close>, cut to the buffer.\<close>

definition chunk_file_path :: "collector_env \<Rightarrow> nat \<Rightarrow> string \<Rightarrow> chunk_file \<Rightarrow> string" where
  "chunk_file_path E bufsize base f =
     (let t = localtime E (epochseconds f)
      in snprintf (bufsize - 1)
           (base @ ''/'' @ pad0 4 (nat (tm_year t + 1900)) @ ''/'' @ pad0 2 (nat (tm_mon t + 1)) @ ''/'' @
            pad0 2 (nat (tm_mday t)) @ ''/'' @ pad0 2 (nat (tm_hour t)) @ ''/'' @ filename f))"

definition SMALL_SIZE_BUFF :: nat where "SMALL_SIZE_BUFF = 256"
definition MID_SIZE_BUFF :: nat where "MID_SIZE_BUFF = 512"
definition LARGE_SIZE_BUFF :: nat where "LARGE_SIZE_BUFF = 1024"

section \<open>Searching and writing\<close>

definition validate_and_write_metadata ::
    "collector_env \<Rightarrow> bool \<Rightarrow> string \<Rightarrow> chunk_file list \<Rightarrow> xml_out \<Rightarrow> xml_out" where
  "validate_and_write_metadata E mfile base files w =
     (if \<not> mfile then w
      else
        write_list_close (xml E) mfile eCorruption
          (fold (\<lambda>f w. if validate_metadata_chunk E (chunk_file_path E LARGE_SIZE_BUFF base f) \<noteq> 1
                       then write_corrupt_segment (xml E) mfile (epochseconds f) (duration_seconds f) w
                       else w) files
            (write_list_start (xml E) mfile eCorruption w)))"

text \<open>The records the static arrays hold before a file is read.\<close>

definition zero_record :: "eMetaDataType \<Rightarrow> metadata_record" where
  "zero_record ty = \<lparr>record_time = 0,
     rdata = (case ty of
        eGPS \<Rightarrow> GPS_data zero_gps
      | eTimeInfo \<Rightarrow> Time_data zero_time
      | eVideoEvent \<Rightarrow> Event_data zero_event
      | _ \<Rightarrow> Loco_data zero_loco)\<rparr>"

definition write_records ::
    "xml_env \<Rightarrow> bool \<Rightarrow> eMetaDataType \<Rightarrow> metadata_record list \<Rightarrow> xml_out \<Rightarrow> xml_out" where
  "write_records X file ty rs w =
     (case ty of
        eGPS \<Rightarrow> write_gps_list X file rs w
      | eVideoEvent \<Rightarrow> write_event_list X file rs w
      | eTimeInfo \<Rightarrow> write_timeoffset_list X file rs w
      | eLocomotiveId \<Rightarrow> write_locoID_list X file rs w
      | eCorruption \<Rightarrow> w)"

text \<open>
  The loop over the files; \<open>records_found\<close> keeps its value from one file to the next. The writer
  prints the first \<open>records_found\<close> entries of the zeroed array the reader filled.
\<close>

definition array_entries :: "eMetaDataType \<Rightarrow> metadata_record list \<Rightarrow> nat \<Rightarrow> metadata_record list" where
  "array_entries ty rs n = take n (rs @ replicate METADATA_CHUNK_MAX_INDEX_RECORDS (zero_record ty))"

fun search_and_write_metadata ::
    "collector_env \<Rightarrow> bool \<Rightarrow> string \<Rightarrow> int \<Rightarrow> int \<Rightarrow> eMetaDataType \<Rightarrow> chunk_file list \<Rightarrow> nat
       \<Rightarrow> xml_out \<Rightarrow> xml_out option" where
  "search_and_write_metadata E mfile base st en ty [] records_found w = Some w"
| "search_and_write_metadata E mfile base st en ty (f # fs) records_found w =
     (if strstr (filename f) ''.data'' = None
      then search_and_write_metadata E mfile base st en ty fs records_found w
      else
        (case open_file E (chunk_file_path E MID_SIZE_BUFF base f) of
           None \<Rightarrow> search_and_write_metadata E mfile base st en ty fs records_found w
         | Some bs \<Rightarrow>
             if ty = eCorruption then search_and_write_metadata E mfile base st en ty fs records_found w
             else
               (case get_metadata_records (c_layout E) (Some \<lparr>fbytes = bs, fpos = 0\<rparr>) st en ty records_found of
                  None \<Rightarrow> None
                | Some (EXIT_FAILURE, _, n, _) \<Rightarrow> search_and_write_metadata E mfile base st en ty fs n w
                | Some (EXIT_SUCCESS, rs, n, _) \<Rightarrow>
                    search_and_write_metadata E mfile base st en ty fs n
                      (if n > 0 then write_records (xml E) mfile ty (array_entries ty rs n) w else w))))"

definition list_section ::
    "collector_env \<Rightarrow> bool \<Rightarrow> string \<Rightarrow> collector_input_chan \<Rightarrow> chunk_file list \<Rightarrow> bool \<Rightarrow> eMetaDataType
       \<Rightarrow> xml_out \<Rightarrow> xml_out option" where
  "list_section E mfile base c files enabled ty w =
     (if enabled then
        map_option (write_list_close (xml E) mfile ty)
          (search_and_write_metadata E mfile base (start_time c) (end_time c) ty files 0
             (write_list_start (xml E) mfile ty w))
      else Some w)"

definition write_metadata_xml_document ::
    "collector_env \<Rightarrow> collector_input_chan option \<Rightarrow> (exit_code \<times> xml_out) option" where
  "write_metadata_xml_document E pchan =
     (case pchan of
        None \<Rightarrow> Some (EXIT_FAILURE, \<lparr>document = [], console = []\<rparr>)
      | Some c \<Rightarrow>
          (let fl = chan_file c \<noteq> [] \<and> xml_can_open E;
               w0 = \<lparr>document = (if fl then (case old_document E of Some d \<Rightarrow> d | None \<Rightarrow> []) else []),
                     console = []\<rparr>;
               w1 = (if chan_file c \<noteq> [] \<and> old_document E \<noteq> None then w0
                     else snd (init_xml_document_declaration fl w0));
               base = snprintf (SMALL_SIZE_BUFF - 1) (storage_location c @ ''/'' @ ''METADATA'');
               (rc, files) = get_all_files E base (start_time c) (end_time c)
           in if rc = EXIT_SUCCESS then
                do {
                  let w2 = (if validate_hash c then validate_and_write_metadata E fl base files w1 else w1);
                  w3 \<leftarrow> list_section E fl base c files (gps_enabled c) eGPS w2;
                  w4 \<leftarrow> list_section E fl base c files (event_enabled c) eVideoEvent w3;
                  w5 \<leftarrow> list_section E fl base c files (timeoffset_enable c) eTimeInfo w4;
                  w6 \<leftarrow> list_section E fl base c files (locoId_enable c) eLocomotiveId w5;
                  Some (EXIT_SUCCESS, w6)
                }
              else Some (EXIT_SUCCESS, w1)))"

section \<open>The command line\<close>

definition LOCOMOTIVE_ID_LENGTH :: nat where "LOCOMOTIVE_ID_LENGTH = 10"
definition ten_underscores :: string where "ten_underscores = ''__________''"

text \<open>The time zone is \<open>GMT+0\<close>; the result is converted to \<open>unsigned long\<close>.\<close>

definition parse_input_timestamp :: "string \<Rightarrow> int" where
  "parse_input_timestamp strtime =
     (if strtime = [] then 0
      else (case strptime_icd strtime of None \<Rightarrow> 0 | Some t \<Rightarrow> mktime t mod 2 ^ 64))"

definition initial_chan :: collector_input_chan where
  "initial_chan = \<lparr>storage_location = [], chan_loco_id = [], chan_subpath = ''METADATA'',
     start_time = 0, end_time = 0, gps_enabled = False, event_enabled = False,
     timeoffset_enable = False, locoId_enable = False, validate_hash = False, chan_file = []\<rparr>"

text \<open>
  The loop over the options \<open>getopt\<close> returns, each with its argument; the state is the channel and
  \<open>use_pipe\<close>. \<open>Inl\<close> is the exit status of an early return.
\<close>

fun collector_options ::
    "(char \<times> string) list \<Rightarrow> collector_input_chan \<times> bool \<Rightarrow> int + collector_input_chan \<times> bool" where
  "collector_options [] s = Inr s"
| "collector_options ((opt, optarg) # os) (c, p) =
     (if opt = CHR ''d'' then
        collector_options os (c\<lparr>storage_location :=
          (if optarg = ''SSD'' then ''/mnt/removableSSD/video/VideoFootages/''
           else ''/mnt/chmSSD/video/VideoFootages/'')\<rparr>, p)
      else if opt = CHR ''l'' then
        collector_options os (c\<lparr>chan_loco_id :=
          (if length optarg \<ge> LOCOMOTIVE_ID_LENGTH then take LOCOMOTIVE_ID_LENGTH optarg
           else optarg @ drop (length optarg) ten_underscores)\<rparr>, p)
      else if opt = CHR ''k'' then collector_options os (c\<lparr>chan_subpath := take 127 optarg\<rparr>, p)
      else if opt = CHR ''s'' then collector_options os (c\<lparr>start_time := parse_input_timestamp optarg\<rparr>, p)
      else if opt = CHR ''e'' then collector_options os (c\<lparr>end_time := parse_input_timestamp optarg\<rparr>, p)
      else if opt = CHR ''g'' then
        collector_options os (if optarg = ''true'' then c\<lparr>gps_enabled := True\<rparr> else c, p)
      else if opt = CHR ''v'' then
        collector_options os (if optarg = ''true'' then c\<lparr>event_enabled := True\<rparr> else c, p)
      else if opt = CHR ''t'' then
        collector_options os (if optarg = ''true'' then c\<lparr>timeoffset_enable := True\<rparr> else c, p)
      else if opt = CHR ''i'' then
        collector_options os (if optarg = ''true'' then c\<lparr>locoId_enable := True\<rparr> else c, p)
      else if opt = CHR ''h'' then collector_options os (c\<lparr>validate_hash := True\<rparr>, p)
      else if opt = CHR ''p'' then collector_options os (c, True)
      else if opt = CHR '':'' then Inl 1
      else if opt = CHR ''?'' then Inl 1
      else collector_options os (c, p))"

record process_ids =
  euid :: int
  egid :: int
  setegid_rc :: int
  seteuid_rc :: int

definition reduce_privileges :: "process_ids \<Rightarrow> bool" where
  "reduce_privileges u \<longleftrightarrow>
     \<not> (euid u = 0 \<and> egid u = 0) \<or> (setegid_rc u = 0 \<and> seteuid_rc u = 0)"

text \<open>
  The program: exit status and output. \<open>rest\<close> are the arguments after the options. An exit status of
  1 is that of \<open>EXIT_FAILURE\<close>.
\<close>

definition collector_main ::
    "process_ids \<Rightarrow> collector_env \<Rightarrow> (char \<times> string) list \<Rightarrow> string list \<Rightarrow> (int \<times> xml_out) option" where
  "collector_main u E opts rest =
     (if \<not> reduce_privileges u then Some (1, \<lparr>document = [], console = []\<rparr>)
      else
        (case collector_options opts (initial_chan, False) of
           Inl n \<Rightarrow> Some (n, \<lparr>document = [], console = []\<rparr>)
         | Inr (c, p) \<Rightarrow>
             (let c1 = (case rest of [] \<Rightarrow> c | f # _ \<Rightarrow> c\<lparr>chan_file := take 255 f\<rparr>)
              in if chan_loco_id c1 = [] then Some (1, \<lparr>document = [], console = []\<rparr>)
                 else map_option (\<lambda>(rc, w). (if rc = EXIT_SUCCESS then 0 else 1, w))
                        (write_metadata_xml_document (E\<lparr>xml := (xml E)\<lparr>use_pipe := p\<rparr>\<rparr>) (Some c1)))))"


section \<open>What the document contains\<close>

text \<open>The records one file contributes, and those of all files.\<close>

definition file_records ::
    "collector_env \<Rightarrow> string \<Rightarrow> int \<Rightarrow> int \<Rightarrow> eMetaDataType \<Rightarrow> chunk_file \<Rightarrow> metadata_record list option" where
  "file_records E base st en ty f =
     (if strstr (filename f) ''.data'' = None \<or> ty = eCorruption then Some []
      else
        (case open_file E (chunk_file_path E MID_SIZE_BUFF base f) of
           None \<Rightarrow> Some []
         | Some bs \<Rightarrow>
             (case get_metadata_records (c_layout E) (Some \<lparr>fbytes = bs, fpos = 0\<rparr>) st en ty 0 of
                None \<Rightarrow> None
              | Some (EXIT_FAILURE, _, _, _) \<Rightarrow> Some []
              | Some (EXIT_SUCCESS, rs, n, _) \<Rightarrow> Some (array_entries ty rs n))))"

fun all_records ::
    "collector_env \<Rightarrow> string \<Rightarrow> int \<Rightarrow> int \<Rightarrow> eMetaDataType \<Rightarrow> chunk_file list \<Rightarrow> metadata_record list option" where
  "all_records E base st en ty [] = Some []"
| "all_records E base st en ty (f # fs) =
     (case file_records E base st en ty f of
        None \<Rightarrow> None
      | Some rs \<Rightarrow> map_option ((@) rs) (all_records E base st en ty fs))"

text \<open>The count the caller passes only comes back when the call fails.\<close>

lemma get_metadata_records_cnt:
  "(case get_metadata_records L fo st en ty c of
      None \<Rightarrow> get_metadata_records L fo st en ty 0 = None
    | Some (EXIT_FAILURE, rs, n, f) \<Rightarrow> \<exists>m. get_metadata_records L fo st en ty 0 = Some (EXIT_FAILURE, rs, m, f)
    | Some (EXIT_SUCCESS, rs, n, f) \<Rightarrow> get_metadata_records L fo st en ty 0 = Some (EXIT_SUCCESS, rs, n, f))"
  unfolding get_metadata_records_def by (auto split: option.split exit_code.split prod.split)

text \<open>The reader returns records of the type asked for, when the decoder does.\<close>

definition typed_decoder :: "meta_layout \<Rightarrow> bool" where
  "typed_decoder L \<longleftrightarrow> (\<forall>ty bs. ty \<noteq> eCorruption \<longrightarrow> payload_type (dec_payload L ty bs) = ty)"

lemma read_record_type:
  "typed_decoder L \<Longrightarrow> read_record L ty r f = Some (Some x, f') \<Longrightarrow> of_type ty x"
  by (auto simp: read_record_def of_type_def typed_decoder_def split: if_splits option.splits prod.splits)

lemma read_records_type:
  "typed_decoder L \<Longrightarrow> read_records L ty rs f = Some (ec, xs, f') \<Longrightarrow> list_all (of_type ty) xs"
proof (induction rs arbitrary: f ec xs f')
  case (Cons r rs)
  from Cons.prems(2) show ?case
    by (auto split: if_splits option.splits prod.splits
        dest: Cons.IH [OF Cons.prems(1)] read_record_type [OF Cons.prems(1)])
qed simp

lemma get_metadata_records_type:
  assumes "typed_decoder L" "get_metadata_records L fo st en ty c = Some (EXIT_SUCCESS, rs, n, f)"
  shows "list_all (of_type ty) rs"
  using assms read_records_type [OF assms(1)]
  by (auto simp: get_metadata_records_def split: option.splits exit_code.splits prod.splits)

lemma array_entries_type:
  assumes "list_all (of_type ty) rs" "ty \<noteq> eCorruption"
  shows "list_all (of_type ty) (array_entries ty rs n)"
proof -
  have "of_type ty (zero_record ty)" using assms(2) by (cases ty) (simp_all add: of_type_def zero_record_def)
  with assms(1) show ?thesis
    by (auto simp: array_entries_def list_all_iff dest!: in_set_takeD)
qed

lemma write_records_text:
  "list_all (of_type ty) rs \<Longrightarrow> ty \<noteq> eCorruption \<Longrightarrow>
   write_records X file ty rs w = PRINTF_T (concat (map (record_text X) rs)) file w"
  by (cases ty) (simp_all add: write_records_def write_lists_text)

lemma map_option_append_Nil [simp]: "map_option ((@) []) x = x"
  by (cases x) simp_all

lemma search_text:
  assumes "typed_decoder (c_layout E)"
  shows "search_and_write_metadata E mfile base st en ty files cnt w =
    map_option (\<lambda>rs. PRINTF_T (concat (map (record_text (xml E)) rs)) mfile w)
      (all_records E base st en ty files)"
proof (induction files arbitrary: cnt w)
  case (Cons f fs)
  let ?p = "chunk_file_path E MID_SIZE_BUFF base f"
  show ?case
  proof (cases "strstr (filename f) ''.data'' = None \<or> ty = eCorruption \<or> open_file E ?p = None")
    case True
    then have "file_records E base st en ty f = Some []" by (auto simp: file_records_def)
    with True Cons.IH show ?thesis by (auto split: option.splits)
  next
    case False
    then obtain bs where bs: "open_file E ?p = Some bs" by auto
    let ?g = "\<lambda>c. get_metadata_records (c_layout E) (Some \<lparr>fbytes = bs, fpos = 0\<rparr>) st en ty c"
    show ?thesis
    proof (cases "?g cnt")
      case None
      with get_metadata_records_cnt [of "c_layout E" "Some \<lparr>fbytes = bs, fpos = 0\<rparr>" st en ty cnt] bs False
      show ?thesis by (auto simp: file_records_def)
    next
      case (Some r)
      then obtain ec rs n f' where r: "?g cnt = Some (ec, rs, n, f')" by (cases r) auto
      show ?thesis
      proof (cases ec)
        case EXIT_FAILURE
        with r get_metadata_records_cnt [of "c_layout E" "Some \<lparr>fbytes = bs, fpos = 0\<rparr>" st en ty cnt] bs False
          Cons.IH
        show ?thesis by (auto simp: file_records_def)
      next
        case EXIT_SUCCESS
        with r get_metadata_records_cnt [of "c_layout E" "Some \<lparr>fbytes = bs, fpos = 0\<rparr>" st en ty cnt] bs False
        have fr: "file_records E base st en ty f = Some (array_entries ty rs n)" by (auto simp: file_records_def)
        have ty: "list_all (of_type ty) (array_entries ty rs n)"
          using array_entries_type get_metadata_records_type [OF assms] r EXIT_SUCCESS False by blast
        have "(if n > 0 then write_records (xml E) mfile ty (array_entries ty rs n) w else w) =
          PRINTF_T (concat (map (record_text (xml E)) (array_entries ty rs n))) mfile w"
          using False write_records_text [OF ty] by (auto simp: array_entries_def)
        with bs r EXIT_SUCCESS False Cons.IH fr show ?thesis
          by (auto simp: option.map_comp o_def PRINTF_T_PRINTF_T)
      qed
    qed
  qed
qed simp

text \<open>One section of the document.\<close>

definition section_text :: "xml_env \<Rightarrow> eMetaDataType \<Rightarrow> metadata_record list \<Rightarrow> string" where
  "section_text X ty rs =
     line (''<'' @ list_tag X ty @ ''>'') @ concat (map (record_text X) rs) @ line (''</'' @ list_tag X ty @ ''>'')"

lemma list_section_text:
  assumes "typed_decoder (c_layout E)"
  shows "list_section E mfile base c files enabled ty w =
    (if enabled then map_option (\<lambda>rs. PRINTF_T (section_text (xml E) ty rs) mfile w)
        (all_records E base (start_time c) (end_time c) ty files) else Some w)"
  by (simp add: list_section_def search_text [OF assms] write_list_start_def write_list_close_def
      option.map_comp o_def PRINTF_T_PRINTF_T section_text_def)

definition corrupt_text :: "collector_env \<Rightarrow> string \<Rightarrow> chunk_file list \<Rightarrow> string" where
  "corrupt_text E base files =
     line (''<'' @ list_tag (xml E) eCorruption @ ''>'') @
     concat (map (\<lambda>f. ''<time_range>'' @
         get_str_element_tag ''start_time'' (time_seconds_tostr (xml E) (epochseconds f)) @
         get_str_element_tag ''end_time'' (time_seconds_tostr (xml E) (epochseconds f + duration_seconds f)) @
         ''</time_range>'')
       (filter (\<lambda>f. validate_metadata_chunk E (chunk_file_path E LARGE_SIZE_BUFF base f) \<noteq> 1) files)) @
     line (''</'' @ list_tag (xml E) eCorruption @ ''>'')"

lemma fold_emit_filter:
  assumes "\<And>x w. x \<in> set xs \<Longrightarrow> f x w = (if P x then PRINTF_T (g x) file w else w)"
  shows "fold f xs w = PRINTF_T (concat (map g (filter P xs))) file w"
  using assms by (induction xs arbitrary: w) (simp_all add: PRINTF_T_PRINTF_T)

lemma validate_text:
  "validate_and_write_metadata E mfile base files w =
     (if mfile then PRINTF_T (corrupt_text E base files) mfile w else w)"
proof -
  let ?P = "\<lambda>f. validate_metadata_chunk E (chunk_file_path E LARGE_SIZE_BUFF base f) \<noteq> 1"
  let ?g = "\<lambda>f. ''<time_range>'' @
         get_str_element_tag ''start_time'' (time_seconds_tostr (xml E) (epochseconds f)) @
         get_str_element_tag ''end_time'' (time_seconds_tostr (xml E) (epochseconds f + duration_seconds f)) @
         ''</time_range>''"
  have f: "fold (\<lambda>f w. if ?P f then write_corrupt_segment (xml E) mfile (epochseconds f) (duration_seconds f) w
        else w) files v = PRINTF_T (concat (map ?g (filter ?P files))) mfile v" for v
    by (rule fold_emit_filter) (simp add: write_corrupt_segment_def printf_all_concat)
  show ?thesis
    by (simp add: validate_and_write_metadata_def f write_list_start_def write_list_close_def
        PRINTF_T_PRINTF_T corrupt_text_def)
qed


section \<open>Properties\<close>

text \<open>The document of a request, section by section.\<close>

definition requested :: "collector_input_chan \<Rightarrow> eMetaDataType list" where
  "requested c =
     (if gps_enabled c then [eGPS] else []) @ (if event_enabled c then [eVideoEvent] else []) @
     (if timeoffset_enable c then [eTimeInfo] else []) @ (if locoId_enable c then [eLocomotiveId] else [])"

fun sections ::
    "collector_env \<Rightarrow> string \<Rightarrow> collector_input_chan \<Rightarrow> chunk_file list \<Rightarrow> eMetaDataType list \<Rightarrow> string option" where
  "sections E base c files [] = Some []"
| "sections E base c files (ty # tys) =
     (case all_records E base (start_time c) (end_time c) ty files of
        None \<Rightarrow> None
      | Some rs \<Rightarrow> map_option ((@) (section_text (xml E) ty rs)) (sections E base c files tys))"

definition xml_declaration :: string where
  "xml_declaration = snprintf 127 (line (''<?xml version='' @ [CHR 0x22] @ ''1.0'' @ [CHR 0x22] @ '' encoding='' @
         [CHR 0x22] @ ''UTF-8'' @ [CHR 0x22] @ ''?>''))"

definition document_start :: "collector_env \<Rightarrow> string" where
  "document_start E = (case old_document E of Some d \<Rightarrow> d | None \<Rightarrow> xml_declaration)"

definition search_base :: "collector_input_chan \<Rightarrow> string" where
  "search_base c = snprintf (SMALL_SIZE_BUFF - 1) (storage_location c @ ''/'' @ ''METADATA'')"

lemma sections_one:
  "sections E base c files [ty] = map_option (section_text (xml E) ty) (all_records E base (start_time c) (end_time c) ty files)"
  by (simp split: option.split)

lemma sections_append:
  "sections E base c files (xs @ ys) =
     (case sections E base c files xs of None \<Rightarrow> None
      | Some t \<Rightarrow> map_option ((@) t) (sections E base c files ys))"
proof (induction xs)
  case (Cons ty xs)
  have a: "(@) (s @ t) = (\<lambda>x. s @ t @ x)" for s t :: string by auto
  from Cons show ?case by (auto split: option.splits simp: option.map_comp o_def a)
qed (cases "sections E base c files ys"; simp)

lemma list_section_sections:
  assumes "typed_decoder (c_layout E)"
  shows "list_section E mfile base c files b ty w =
    map_option (\<lambda>t. PRINTF_T t mfile w) (sections E base c files (if b then [ty] else []))"
  by (simp add: list_section_text [OF assms] option.map_comp o_def split: option.split)

lemma bind_sections:
  "Option.bind (map_option (\<lambda>t. PRINTF_T t m w) (sections E base c files xs))
     (\<lambda>v. map_option (\<lambda>t. PRINTF_T t m v) (sections E base c files ys))
   = map_option (\<lambda>t. PRINTF_T t m w) (sections E base c files (xs @ ys))"
  by (auto simp: sections_append PRINTF_T_PRINTF_T option.map_comp o_def split: option.splits)

lemma document_lemma:
  assumes typed: "typed_decoder (c_layout E)" and fl: "chan_file c \<noteq> []" "xml_can_open E"
    and found: "get_all_files E (search_base c) (start_time c) (end_time c) = (EXIT_SUCCESS, files)"
  shows "write_metadata_xml_document E (Some c) =
    map_option (\<lambda>t. (EXIT_SUCCESS,
        \<lparr>document = document_start E @
           (if validate_hash c then corrupt_text E (search_base c) files else []) @ t, console = []\<rparr>))
      (sections E (search_base c) c files (requested c))"
proof -
  let ?b = "search_base c"
  let ?w1 = "\<lparr>document = document_start E, console = []\<rparr>"
  let ?w2 = "PRINTF_T (if validate_hash c then corrupt_text E ?b files else []) True ?w1"
  note ls = list_section_sections [OF typed]
  have "write_metadata_xml_document E (Some c) =
    do { w3 \<leftarrow> list_section E True ?b c files (gps_enabled c) eGPS ?w2;
         w4 \<leftarrow> list_section E True ?b c files (event_enabled c) eVideoEvent w3;
         w5 \<leftarrow> list_section E True ?b c files (timeoffset_enable c) eTimeInfo w4;
         w6 \<leftarrow> list_section E True ?b c files (locoId_enable c) eLocomotiveId w5;
         Some (EXIT_SUCCESS, w6) }"
    using fl found
    by (cases "old_document E")
       (simp_all add: write_metadata_xml_document_def search_base_def Let_def validate_text
         document_start_def init_xml_document_declaration_def xml_declaration_def PRINTF_T_def)
  also have "\<dots> = Option.bind (Option.bind (Option.bind (Option.bind
        (list_section E True ?b c files (gps_enabled c) eGPS ?w2)
        (list_section E True ?b c files (event_enabled c) eVideoEvent))
        (list_section E True ?b c files (timeoffset_enable c) eTimeInfo))
        (list_section E True ?b c files (locoId_enable c) eLocomotiveId)) (\<lambda>w6. Some (EXIT_SUCCESS, w6))"
    by simp
  also have "\<dots> = map_option (\<lambda>t. (EXIT_SUCCESS, PRINTF_T t True ?w2)) (sections E ?b c files (requested c))"
    unfolding ls bind_sections requested_def
    by (simp only: append_assoc)
       (cases "sections E ?b c files ((if gps_enabled c then [eGPS] else []) @
          (if event_enabled c then [eVideoEvent] else []) @ (if timeoffset_enable c then [eTimeInfo] else []) @
          (if locoId_enable c then [eLocomotiveId] else []))"; simp only: option.map bind.simps)
  finally show ?thesis by (simp add: PRINTF_T_def)
qed

end
