(* ===== verification/Collector_Props.thy ===== *)
theory Collector_Props
  imports Recorder_Props Meta_Writer
begin

text \<open>
  Properties of the metadata collector: its document, its command line, and the whole way from the
  descriptors the recorder takes from its queue to the document the collector writes.
\<close>

section \<open>The document\<close>

text \<open>Every value of a document fits its element.\<close>

definition all_fit :: "collector_env \<Rightarrow> collector_input_chan \<Rightarrow> chunk_file list \<Rightarrow> bool" where
  "all_fit E c files \<longleftrightarrow>
     list_all (\<lambda>ty. case all_records E (search_base c) (start_time c) (end_time c) ty files of
                      None \<Rightarrow> True | Some rs \<Rightarrow> list_all (record_fits (xml E)) rs) (requested c) \<and>
     list_all (\<lambda>f. fits_tag ''start_time'' (time_seconds_tostr (xml E) (epochseconds f)) \<and>
                   fits_tag ''end_time'' (time_seconds_tostr (xml E) (epochseconds f + duration_seconds f))) files"

lemma neutral_section:
  assumes "list_all (record_fits X) rs"
  shows "neutral (section_text X ty rs)"
  unfolding section_text_def
  by (rule neutral_line [OF tag_names(17) neutral_concat])
     (use assms in \<open>auto simp: list_all_iff neutral_record\<close>)

lemma neutral_sections:
  assumes "list_all (\<lambda>ty. case all_records E (search_base c) (start_time c) (end_time c) ty files of
                      None \<Rightarrow> True | Some rs \<Rightarrow> list_all (record_fits (xml E)) rs) tys"
    and "sections E (search_base c) c files tys = Some t"
  shows "neutral t"
  using assms
proof (induction tys arbitrary: t)
  case (Cons ty tys)
  then show ?case by (auto split: option.splits intro!: neutral_append neutral_section)
qed simp

lemma neutral_corrupt:
  assumes "list_all (\<lambda>f. fits_tag ''start_time'' (time_seconds_tostr (xml E) (epochseconds f)) \<and>
                   fits_tag ''end_time'' (time_seconds_tostr (xml E) (epochseconds f + duration_seconds f))) files"
  shows "neutral (corrupt_text E base files)"
proof -
  have one: "neutral (''<time_range>'' @
         get_str_element_tag ''start_time'' (time_seconds_tostr (xml E) (epochseconds f)) @
         get_str_element_tag ''end_time'' (time_seconds_tostr (xml E) (epochseconds f + duration_seconds f)) @
         ''</time_range>'')" if "f \<in> set files" for f
  proof -
    have "neutral (get_str_element_tag ''start_time'' (time_seconds_tostr (xml E) (epochseconds f)) @
         get_str_element_tag ''end_time'' (time_seconds_tostr (xml E) (epochseconds f + duration_seconds f)))"
      by (intro neutral_append neutral_str_element tag_names) (use assms that in \<open>auto simp: list_all_iff\<close>)
    from neutral_tagged [OF tag_names(16) this] show ?thesis by simp
  qed
  show ?thesis
    unfolding corrupt_text_def
    by (rule neutral_line [OF tag_names(17) neutral_concat]) (use one in \<open>auto simp: list_all_iff\<close>)
qed

lemma neutral_declaration: "neutral xml_declaration"
proof -
  have e: "xml_declaration = CHR ''<'' # CHR ''?'' # (''xml version='' @ [CHR 0x22] @ ''1.0'' @ [CHR 0x22] @
      '' encoding='' @ [CHR 0x22] @ ''UTF-8'' @ [CHR 0x22] @ ''?'') @ CHR ''>'' # [CHR 0x0A]"
    by (simp add: xml_declaration_def snprintf_def line_def)
  show ?thesis
    unfolding e neutral_def by simp
qed

text \<open>
  C12: the document is well formed. When the values read from the chunk files are short enough for
  the element buffer and hold no opening bracket (the code does not escape them), the document the
  collector leaves, with the declaration or appended to a well-formed one, has all its tags closed
  in the right order, whatever record types are requested and however many chunks are corrupt.
\<close>

theorem document_well_formed:
  assumes "typed_decoder (c_layout E)" "chan_file c \<noteq> []" "xml_can_open E"
    and "get_all_files E (search_base c) (start_time c) (end_time c) = (EXIT_SUCCESS, files)"
    and "all_fit E c files" and "case old_document E of None \<Rightarrow> True | Some d \<Rightarrow> neutral d"
    and "write_metadata_xml_document E (Some c) = Some (rc, w)"
  shows "xml_scan (document w) [] = Some []"
proof -
  from assms(7) obtain t where t: "sections E (search_base c) c files (requested c) = Some t"
    and w: "document w = document_start E @
           (if validate_hash c then corrupt_text E (search_base c) files else []) @ t"
    unfolding document_lemma [OF assms(1-4)] by auto
  have "neutral (document_start E)"
    using assms(6) neutral_declaration by (auto simp: document_start_def split: option.splits)
  moreover have "neutral (if validate_hash c then corrupt_text E (search_base c) files else [])"
    using assms(5) neutral_corrupt by (simp add: all_fit_def)
  moreover have "neutral t"
    using neutral_sections [OF _ t] assms(5) by (simp add: all_fit_def)
  ultimately show ?thesis unfolding w by (intro neutral_scan neutral_append)
qed

section \<open>From the queue to the document\<close>

text \<open>
  C13: the whole way. The descriptors of a recording session that fits one chunk are recorded and the
  chunk is finalized; a collector that finds that chunk and asks for one record type then writes a
  document that consists of the declaration (or the old document) and one section, with exactly the
  matching descriptors of the session, in order. Nothing is lost, repeated or reordered between the
  recorder's queue and the document.
\<close>

theorem session_to_document:
  assumes env: "env_works E" and start: "session_start E s" and one: "one_chunk E s d0 ds"
    and j: "j < n_locs s" "loc_used s j"
    and C: "typed_decoder (lay E)" "c_layout C = lay E" "chan_file c \<noteq> []" "xml_can_open C"
      "\<not> validate_hash c" "requested c = [ty]"
      "get_all_files C (search_base c) (start_time c) (end_time c) = (EXIT_SUCCESS, [f])"
      "strstr (filename f) ''.data'' \<noteq> None"
  shows "\<exists>s1 s2. foldM (record_descriptor E) (d0 # ds) s = Some s1 \<and> metadata_chunk_finalize E s1 = Some s2 \<and>
    (open_file C (chunk_file_path C MID_SIZE_BUFF (search_base c) f) =
       file_at (store s2) (final_path (session_named s d0 ds) j) \<longrightarrow>
     write_metadata_xml_document C (Some c) = Some (EXIT_SUCCESS,
       \<lparr>document = document_start C @ section_text (xml C) ty
           (map desc_record (filter (desc_matches (start_time c) (end_time c) ty) (d0 # ds))),
        console = []\<rparr>))"
proof -
  have ty: "ty \<noteq> eCorruption" using C(6) by (auto simp: requested_def split: if_splits)
  let ?ds = "filter (desc_matches (start_time c) (end_time c) ty) (d0 # ds)"
  from session_readback [OF env start one ty, of "start_time c" "end_time c" 0] j
  obtain s1 s2 bs g where s: "foldM (record_descriptor E) (d0 # ds) s = Some s1"
    "metadata_chunk_finalize E s1 = Some s2" "file_at (store s2) (final_path (session_named s d0 ds) j) = Some bs"
    "get_metadata_records (lay E) (Some \<lparr>fbytes = bs, fpos = 0\<rparr>) (start_time c) (end_time c) ty 0 =
       Some (EXIT_SUCCESS, map desc_record ?ds, length ?ds, g)"
    by blast
  have "write_metadata_xml_document C (Some c) = Some (EXIT_SUCCESS,
       \<lparr>document = document_start C @ section_text (xml C) ty (map desc_record ?ds), console = []\<rparr>)"
    if "open_file C (chunk_file_path C MID_SIZE_BUFF (search_base c) f) =
       file_at (store s2) (final_path (session_named s d0 ds) j)"
  proof -
    have "all_records C (search_base c) (start_time c) (end_time c) ty [f] = Some (map desc_record ?ds)"
      using C(2,8) ty that s(3,4)
      by (auto simp: file_records_def array_entries_def simp del: filter.simps)
    then show ?thesis
      unfolding document_lemma [OF C(1) [folded C(2)] C(3,4,7)] C(6) using C(5) by (simp split: option.split)
  qed
  with s(1,2) show ?thesis by blast
qed

section \<open>The command line\<close>

text \<open>
  C14: a timestamp on the command line. A time printed in the format of the manual
  (\<open>YYYYMMDDTHHMMSS\<close>) is parsed back to the same second, for every time between the epoch and the
  year 9999; anything the format does not accept is 0, which the reader takes as no limit.
\<close>

theorem timestamp_roundtrip:
  assumes "0 \<le> t" "tm_year (gmtime_r t) + 1900 \<le> 9999" "t < 2 ^ 64"
  shows "parse_input_timestamp (strftime_icd (gmtime_r t)) = t \<and>
    (strptime_icd bad = None \<longrightarrow> parse_input_timestamp bad = 0)"
proof -
  have "1000 \<le> tm_year (gmtime_r t) + 1900"
  proof (rule ccontr)
    assume "\<not> ?thesis"
    then have "year_of (t div 86400) < 1970" by (simp add: gmtime_r_def Let_def)
    then have "days_to_year (year_of (t div 86400) + 1) \<le> days_to_year 1970" by (intro days_to_year_mono) simp
    moreover have "days_to_year 1970 = 0" by (simp add: days_to_year_def leaps_to_def)
    moreover have "0 \<le> t div 86400" using assms(1) by (simp add: pos_imp_zdiv_nonneg_iff)
    ultimately show False using year_of_spec [of "t div 86400"] by linarith
  qed
  from strptime_strftime [OF gmtime_valid this assms(2)]
  moreover have "strptime_icd [] = None" by (simp add: strptime_icd_def get_number_def)
  ultimately show ?thesis using assms(1,3) by (auto simp: parse_input_timestamp_def mktime_gmtime)
qed

theorem timestamp_roundtrip_witness:
  "parse_input_timestamp (strftime_icd (gmtime_r 100)) = 100 \<and> parse_input_timestamp ''yesterday'' = 0"
proof -
  have "gmtime_r 100 = \<lparr>tm_year = 70, tm_mon = 0, tm_mday = 1, tm_hour = 0, tm_min = 1, tm_sec = 40\<rparr>"
    using gmtime_mktime [of "\<lparr>tm_year = 70, tm_mon = 0, tm_mday = 1, tm_hour = 0, tm_min = 1, tm_sec = 40\<rparr>"]
    by (simp add: mktime_def days_to_year_def days_to_month_def leaps_to_def valid_tm_def month_len_def)
  moreover have "strptime_icd ''yesterday'' = None"
    by (simp add: strptime_icd_def get_number_def is_digit_def)
  ultimately show ?thesis using timestamp_roundtrip [of 100 "''yesterday''"] by simp
qed


section \<open>A concrete collector\<close>

definition demo_xml :: xml_env where
  "demo_xml = \<lparr>use_pipe = False, time_seconds_tostr = (\<lambda>t. ''t''),
     gps_coordinate_tostr = (\<lambda>_ _ _. ''c''), gps_speed_tostr = (\<lambda>_. ''s'')\<rparr>"

definition demo_collector :: "u8 list option \<Rightarrow> collector_env" where
  "demo_collector bs = \<lparr>xml = demo_xml, c_layout = lay demo_chunk_env, localtime = gmtime_r,
     get_all_files = (\<lambda>_ _ _. (EXIT_SUCCESS, [\<lparr>epochseconds = 100, duration_seconds = 1, filename = ''x.data''\<rparr>])),
     open_file = (\<lambda>_. bs), validate_metadata_chunk = (\<lambda>_. 0), old_document = None, xml_can_open = True\<rparr>"

definition demo_request :: "bool \<Rightarrow> collector_input_chan" where
  "demo_request v = initial_chan\<lparr>gps_enabled := True, chan_file := ''o.xml'', start_time := 101,
     end_time := 200, validate_hash := v\<rparr>"

lemma demo_typed: "typed_decoder (lay demo_chunk_env)"
  by (auto simp: typed_decoder_def demo_chunk_env_def demo_env_def demo_layout_def demo_dec_def
      split: eMetaDataType.split)

lemma demo_request_simps [simp]:
  "requested (demo_request v) = [eGPS]" "chan_file (demo_request v) \<noteq> []"
  "start_time (demo_request v) = 101" "end_time (demo_request v) = 200" "validate_hash (demo_request v) = v"
  by (simp_all add: demo_request_def initial_chan_def requested_def)

lemma demo_collector_simps [simp]:
  "c_layout (demo_collector bs) = lay demo_chunk_env" "xml_can_open (demo_collector bs)"
  "get_all_files (demo_collector bs) b st en =
     (EXIT_SUCCESS, [\<lparr>epochseconds = 100, duration_seconds = 1, filename = ''x.data''\<rparr>])"
  "open_file (demo_collector bs) q = bs" "old_document (demo_collector bs) = None"
  "xml (demo_collector bs) = demo_xml"
  by (simp_all add: demo_collector_def)

theorem session_to_document_witness:
  "\<exists>s1 s2 C. foldM (record_descriptor demo_chunk_env) [demo_desc 100, demo_desc 101] demo_recorder = Some s1 \<and>
     metadata_chunk_finalize demo_chunk_env s1 = Some s2 \<and>
     write_metadata_xml_document C (Some (demo_request False)) = Some (EXIT_SUCCESS,
       \<lparr>document = document_start C @ section_text (xml C) eGPS [desc_record (demo_desc 101)], console = []\<rparr>)"
proof -
  have j: "0 < n_locs demo_recorder" "loc_used demo_recorder 0"
    by (simp_all add: n_locs_def demo_recorder_def demo_loc_def)
  have f: "filter (desc_matches 101 200 eGPS) [demo_desc 100, demo_desc 101] = [demo_desc 101]"
    by (simp add: desc_matches_def index_matches_def index_entry_def demo_desc_def)
  have d: "strstr ''x.data'' ''.data'' \<noteq> None" by simp
  note w = session_to_document [OF demo_env_works demo_session_start demo_one_chunk j demo_typed,
      of "demo_collector bs" "demo_request False" eGPS "\<lparr>epochseconds = 100, duration_seconds = 1, filename = ''x.data''\<rparr>"
      for bs, simplified demo_request_simps demo_collector_simps f d chunk_file.simps list.map simp_thms]
  from w [of None] obtain s1 s2 where s: "foldM (record_descriptor demo_chunk_env) [demo_desc 100, demo_desc 101] demo_recorder = Some s1"
    "metadata_chunk_finalize demo_chunk_env s1 = Some s2" by auto
  with w [of "file_at (store s2) (final_path (session_named demo_recorder (demo_desc 100) [demo_desc 101]) 0)"]
  show ?thesis by (intro exI [of _ s1] exI [of _ s2]
    exI [of _ "demo_collector (file_at (store s2) (final_path (session_named demo_recorder (demo_desc 100) [demo_desc 101]) 0))"]) auto
qed

theorem document_well_formed_witness:
  "\<exists>w. write_metadata_xml_document (demo_collector None) (Some (demo_request True)) = Some (EXIT_SUCCESS, w) \<and>
     xml_scan (document w) [] = Some []"
proof -
  let ?f = "[\<lparr>epochseconds = 100, duration_seconds = 1, filename = ''x.data''\<rparr>]"
  have r: "all_records (demo_collector None) b st en eGPS ?f = Some []" for b st en
    by (simp add: file_records_def)
  have fit: "all_fit (demo_collector None) (demo_request True) ?f"
    by (simp add: all_fit_def file_records_def fits_tag_def demo_xml_def)
  have ex: "\<exists>w. write_metadata_xml_document (demo_collector None) (Some (demo_request True)) = Some (EXIT_SUCCESS, w)"
    using document_lemma [of "demo_collector None" "demo_request True" ?f] demo_typed by (simp add: r del: all_records.simps)
  then obtain w where "write_metadata_xml_document (demo_collector None) (Some (demo_request True)) = Some (EXIT_SUCCESS, w)" ..
  with document_well_formed [of "demo_collector None" "demo_request True" ?f EXIT_SUCCESS w] demo_typed fit
  show ?thesis by simp
qed

end
