(* ===== verification/Metarec_Main.thy ===== *)
theory Metarec_Main
  imports Recorder_Props
begin

text \<open>
  \<open>metarec/src/main.c\<close>: the command line of the recorder, the directories of its storage locations,
  and the start sequence up to the polling loop; from \<open>metaio.c\<close> the two functions that start and
  stop the recording thread. The environment variable \<open>TIME_INFO\<close>, the outcome of the calls that
  connect to the router and create the thread, and the sizes of buffers are in \<open>main_env\<close>. Signals,
  the polling loop's sleeps and the router's shutdown are left out.
\<close>

unbundle bit_operations_syntax

section \<open>Command line\<close>

text \<open>\<open>sscanf\<close> with \<open>%x\<close>: the value, or \<open>None\<close> when no digit is found.\<close>

definition hex_digit :: "char \<Rightarrow> int option" where
  "hex_digit c =
     (let n = (of_char c :: nat)
      in if 48 \<le> n \<and> n \<le> 57 then Some (int n - 48)
         else if 97 \<le> n \<and> n \<le> 102 then Some (int n - 87)
         else if 65 \<le> n \<and> n \<le> 70 then Some (int n - 55) else None)"

fun hex_val :: "int \<Rightarrow> string \<Rightarrow> int" where
  "hex_val acc [] = acc"
| "hex_val acc (c # cs) = (case hex_digit c of Some d \<Rightarrow> hex_val (16 * acc + d) cs | None \<Rightarrow> acc)"

definition sscanf_hex :: "string \<Rightarrow> int option" where
  "sscanf_hex s =
     (let s1 = dropWhile is_space s;
          neg = (s1 \<noteq> [] \<and> hd s1 = CHR ''-'');
          s2 = (if s1 \<noteq> [] \<and> hd s1 \<in> {CHR ''-'', CHR ''+''} then tl s1 else s1);
          s3 = (if is_prefix ''0x'' s2 \<or> is_prefix ''0X'' s2 then drop 2 s2 else s2)
      in if s3 \<noteq> [] \<and> hex_digit (hd s3) \<noteq> None
         then Some (if neg then - hex_val 0 s3 else hex_val 0 s3)
         else if s2 \<noteq> [] \<and> hd s2 = CHR ''0'' then Some 0 else None)"

record main_env =
  cenv :: chunk_env
  sizeof_basedir :: nat
  ptc_connect_ok :: bool
  attach_ok :: bool
  thread_create_ok :: bool
  TIME_INFO_var :: "string option"

definition loc_init :: "string \<Rightarrow> data_location" where
  "loc_init b = \<lparr>is_used = 0, basedir = b, datadir = [], stagingdir = []\<rparr>"

definition empty_chunk :: metadata_chunk_desc where
  "empty_chunk = \<lparr>fp = [None, None], session_just_started = False, prev_tm = zero_tm, t0 = 0, deltat = 0,
     chunk_duration_usecs = 0, chunk_max_duration = 0, chunk_fname = [], drive_status_updated = False\<rparr>"

definition metarec_chan :: metadata_io_chan where
  "metarec_chan = \<lparr>src_premise = [], is_active = False, n_copies = 0,
     data_loc = [loc_init ''/mnt/chmSSD/video/VideoFootages/'',
                 loc_init ''/mnt/removableSSD/video/VideoFootages/''],
     subpath = [], chunk_duration = 120, recording_mode = 3, m_chunk = empty_chunk\<rparr>"

definition METAREC_LOCO_ID_LENGTH :: nat where "METAREC_LOCO_ID_LENGTH = 10"

definition set_basedir :: "main_env \<Rightarrow> nat \<Rightarrow> string \<Rightarrow> metadata_io_chan \<Rightarrow> metadata_io_chan" where
  "set_basedir M i arg c =
     c\<lparr>data_loc := (data_loc c)[i := (data_loc c ! i)\<lparr>basedir := take (sizeof_basedir M - 1) arg\<rparr>],
       n_copies := n_copies c + 1\<rparr>"

text \<open>The option loop; the state is the channel and the flag \<open>verbose\<close>.\<close>

fun metarec_options ::
    "main_env \<Rightarrow> (char \<times> string) list \<Rightarrow> metadata_io_chan \<times> bool \<Rightarrow> int + metadata_io_chan \<times> bool" where
  "metarec_options M [] s = Inr s"
| "metarec_options M ((opt, optarg) # os) (c, v) =
     (if opt = CHR ''r'' then
        metarec_options M os
          (case sscanf_hex optarg of Some n \<Rightarrow> c\<lparr>recording_mode := word_of_int n AND 31\<rparr> | None \<Rightarrow> c, v)
      else if opt = CHR ''d'' then
        metarec_options M os (if atoi optarg > 0 then c\<lparr>chunk_duration := atoi optarg\<rparr> else c, v)
      else if opt = CHR ''l'' then
        metarec_options M os (c\<lparr>src_premise := take METAREC_LOCO_ID_LENGTH optarg\<rparr>, v)
      else if opt = CHR ''1'' then metarec_options M os (set_basedir M 0 optarg c, v)
      else if opt = CHR ''2'' then metarec_options M os (set_basedir M 1 optarg c, v)
      else if opt = CHR ''v'' then metarec_options M os (c, True)
      else if opt = CHR '':'' then Inl 1
      else if opt = CHR ''?'' then Inl 1
      else metarec_options M os (c, v))"

section \<open>Directories\<close>

definition loc_dirs :: "data_location \<Rightarrow> data_location" where
  "loc_dirs l =
     (let tmp = basedir l;
          tmp1 = (if tmp \<noteq> [] \<and> last tmp = CHR ''/'' then butlast tmp else tmp);
          d = tmp1 @ ''/'' @ ''METADATA'' @ ''/''
      in l\<lparr>datadir := d, stagingdir := d @ ''staging/''\<rparr>)"

definition metadata_io_chan_init :: "metadata_io_chan \<Rightarrow> metadata_io_chan" where
  "metadata_io_chan_init c = c\<lparr>data_loc := map loc_dirs (data_loc c)\<rparr>"

section \<open>Start-up metadata\<close>

text \<open>
  What the environment variable contributes: \<open>Some None\<close> when a part is missing, \<open>None\<close> when the
  source name does not fit its buffer or has no closing quote, where the code writes or reads out of
  bounds.
\<close>

definition parse_TIME_INFO :: "meta_layout \<Rightarrow> string \<Rightarrow> (int \<times> int \<times> string) option option" where
  "parse_TIME_INFO L env =
     (case strstr env ''timestamp='' of
        None \<Rightarrow> Some None
      | Some t \<Rightarrow>
          (let systime = atoi (drop (length ''timestamp='') t) mod 2 ^ 32
           in (case strstr env ''time_offset='' of
                 None \<Rightarrow> Some None
               | Some q \<Rightarrow>
                   (let offset = atol (drop (length ''time_offset='') q)
                    in (case strstr env (''src='' @ [CHR 0x27]) of
                          None \<Rightarrow> Some None
                        | Some r \<Rightarrow>
                            (let src = drop 5 r
                             in if length src > TIME_SOURCE_NAME_LEN L then None
                                else if CHR 0x27 \<notin> set src then None
                                else Some (Some (systime, offset, takeWhile (\<lambda>c. c \<noteq> CHR 0x27) src))))))))"

text \<open>\<open>metadata_recording_init\<close> and \<open>metadata_recording_stop\<close>.\<close>

definition metadata_recording_init :: "main_env \<Rightarrow> metadata_io_chan \<Rightarrow> exit_code \<times> metadata_io_chan" where
  "metadata_recording_init M c =
     (if thread_create_ok M then (EXIT_SUCCESS, c\<lparr>is_active := True\<rparr>) else (EXIT_FAILURE, c))"

definition metadata_recording_stop :: "metadata_io_chan \<Rightarrow> metadata_io_chan" where
  "metadata_recording_stop c = (if is_active c then c\<lparr>is_active := False\<rparr> else c)"

text \<open>
  The program up to its polling loop: \<open>Inl\<close> is an exit status, \<open>Inr\<close> the channel and the shared
  state the loop starts with.
\<close>

definition metarec_start ::
    "main_env \<Rightarrow> clock \<Rightarrow> (char \<times> string) list \<Rightarrow> ptc_state
       \<Rightarrow> (int + metadata_io_chan \<times> ptc_state) option" where
  "metarec_start M now opts p =
     (case metarec_options M opts (metarec_chan, False) of
        Inl n \<Rightarrow> Some (Inl n)
      | Inr (c, v) \<Rightarrow>
          if src_premise c = [] then Some (Inl 1)
          else
            (let E = cenv M; P = penv E; L = lay E; rm = recording_mode c;
                 c1 = c\<lparr>data_loc :=
                    [(data_loc c ! 0)\<lparr>is_used := IS_CHM_METADATA_RECORDING_COMMANDED E rm\<rparr>,
                     (data_loc c ! 1)\<lparr>is_used := IS_SSD_METADATA_RECORDING_COMMANDED E rm\<rparr>]\<rparr>;
                 (connected, _) = ptci_up_meta (ptc_connect_ok M) (attach_ok M);
                 p1 = (if connected \<noteq> 0 then ptci_set_rm_meta P rm p else p);
                 c2 = metadata_io_chan_init c1;
                 (rc, c3) = metadata_recording_init M c2
             in if rc \<noteq> EXIT_SUCCESS then Some (Inl 1)
                else do {
                  p2 \<leftarrow> (case TIME_INFO_var M of
                          None \<Rightarrow> Some p1
                        | Some env \<Rightarrow>
                            (case parse_TIME_INFO L env of
                               None \<Rightarrow> None
                             | Some None \<Rightarrow> Some p1
                             | Some (Some (st, off, src)) \<Rightarrow>
                                 with_intf (set_time_info L (queue_wait P) now st off src) p1));
                  p3 \<leftarrow> with_intf (set_locomotive_id L (queue_wait P) now (Some (src_premise c3))) p2;
                  Some (Inr (c3, p3))
                }))"

section \<open>Searching literal keys\<close>

lemma is_prefix_append [simp]: "is_prefix p (p @ r)"
  by (auto simp: is_prefix_iff)

lemma strstr_skip:
  assumes "sub \<noteq> []" "hd sub \<notin> set a"
  shows "strstr (a @ r) sub = strstr r sub"
  using assms(2)
proof (induction a)
  case (Cons c a)
  from assms(1) obtain h t where "sub = h # t" by (cases sub) auto
  with Cons show ?case by simp
qed simp

lemma strstr_here: "sub \<noteq> [] \<Longrightarrow> strstr (sub @ r) sub = Some (sub @ r)"
  by (cases sub) simp_all

lemma digit_not_letter: "is_digit c \<Longrightarrow> c \<noteq> CHR ''t'' \<and> c \<noteq> CHR ''s'' \<and> c \<noteq> CHR '' '' \<and> c \<noteq> CHR 0x27"
  by (auto simp: is_digit_def)


lemma atoi_nat_str:
  assumes "b = [] \<or> \<not> is_digit (hd b)" "int n < 2147483648"
  shows "atoi (nat_str n @ b) = int n"
proof -
  have "pad0 0 n = nat_str n" by (simp add: pad0_def pad_left_def)
  with atoi_pad0 [OF assms, of 0] show ?thesis by simp
qed

lemma atol_nat_str:
  assumes "b = [] \<or> \<not> is_digit (hd b)" "int n \<le> LONG_MAX"
  shows "atol (nat_str n @ b) = int n"
proof -
  have "pad0 0 n = nat_str n" by (simp add: pad0_def pad_left_def)
  with atol_pad0 [OF assms, of 0] show ?thesis by simp
qed

lemma atol_int_str:
  assumes "b = [] \<or> \<not> is_digit (hd b)" "LONG_MIN \<le> v" "v \<le> LONG_MAX"
  shows "atol (int_str v @ b) = v"
proof (cases "v < 0")
  case True
  have p: "pad0 0 n = nat_str n" for n by (simp add: pad0_def pad_left_def)
  have "digits_val 0 (pad0 0 (nat (- v)) @ b) = int (nat (- v))" by (rule digits_val_pad0 [OF assms(1)])
  then have "digits_val 0 (nat_str (nat (- v)) @ b) = int (nat (- v))" unfolding p .
  then show ?thesis
    using True assms by (simp add: int_str_def atol_def strtol10_def is_space_def clamp_long_def)
next
  case False
  then show ?thesis using assms atol_nat_str [of b "nat v"] by (simp add: int_str_def)
qed

section \<open>Properties\<close>

text \<open>The text of the environment variable for given values.\<close>

definition time_info_text :: "nat \<Rightarrow> int \<Rightarrow> string \<Rightarrow> string" where
  "time_info_text st off src =
     ''timestamp='' @ nat_str st @ '', time_offset='' @ int_str off @ '', src='' @ [CHR 0x27] @ src @ [CHR 0x27]"

lemma time_info_keys:
  "strstr (time_info_text st off src) ''timestamp='' = Some (time_info_text st off src)"
  "strstr (time_info_text st off src) ''time_offset='' =
     Some (''time_offset='' @ int_str off @ '', src='' @ [CHR 0x27] @ src @ [CHR 0x27])"
  "strstr (time_info_text st off src) (''src='' @ [CHR 0x27]) = Some (''src='' @ [CHR 0x27] @ src @ [CHR 0x27])"
proof -
  let ?q = "[CHR 0x27]"
  let ?R = "'', src='' @ ?q @ src @ ?q"
  let ?O = "''time_offset='' @ int_str off @ ?R"
  have dig: "CHR ''t'' \<notin> set (nat_str n)" "CHR ''s'' \<notin> set (nat_str n)" for n
    using nat_str_digits [of _ n] digit_not_letter by blast+
  then have sgn: "CHR ''s'' \<notin> set (int_str off)" by (simp add: int_str_def)
  show "strstr (time_info_text st off src) ''timestamp='' = Some (time_info_text st off src)"
    using strstr_here [of "''timestamp=''"] by (simp add: time_info_text_def)
  have "strstr (time_info_text st off src) ''time_offset='' = strstr (nat_str st @ '', '' @ ?O) ''time_offset=''"
    by (simp add: time_info_text_def)
  also have "\<dots> = strstr ('', '' @ ?O) ''time_offset=''"
    by (rule strstr_skip) (use dig in simp_all)
  finally show "strstr (time_info_text st off src) ''time_offset='' = Some ?O"
    using strstr_here [of "''time_offset=''"] by simp
  have "strstr (time_info_text st off src) (''src='' @ ?q) = strstr (nat_str st @ '', '' @ ?O) (''src='' @ ?q)"
    by (simp add: time_info_text_def)
  also have "\<dots> = strstr ('', '' @ ?O) (''src='' @ ?q)"
    by (rule strstr_skip) (use dig in simp_all)
  also have "\<dots> = strstr (int_str off @ ?R) (''src='' @ ?q)" by simp
  also have "\<dots> = strstr ?R (''src='' @ ?q)"
    by (rule strstr_skip) (use sgn in simp_all)
  finally show "strstr (time_info_text st off src) (''src='' @ ?q) = Some (''src='' @ ?q @ src @ ?q)"
    using strstr_here [of "''src='' @ ?q" "src @ ?q"] by simp
qed

text \<open>
  C15: the start-up time record. The time, the offset and the source name that the environment
  variable carries are the ones recorded, for all values in range, as long as the name and its closing
  quote fit the name buffer; when they do not, the code writes out of bounds (\<open>None\<close>).
\<close>

theorem time_info_roundtrip:
  assumes "int st < 2147483648" "LONG_MIN \<le> off" "off \<le> LONG_MAX" "CHR 0x27 \<notin> set src"
  shows "parse_TIME_INFO L (time_info_text st off src) =
     (if length src < TIME_SOURCE_NAME_LEN L then Some (Some (int st, off, src)) else None)"
proof -
  let ?q = "[CHR 0x27]"
  let ?R = "'', src='' @ ?q @ src @ ?q"
  let ?O = "''time_offset='' @ int_str off @ ?R"
  have "atoi (nat_str st @ '', '' @ ?O) = int st"
    by (rule atoi_nat_str) (use assms(1) in \<open>simp_all add: is_digit_def\<close>)
  then have st: "atoi (drop (length ''timestamp='') (time_info_text st off src)) = int st"
    by (simp add: time_info_text_def)
  have off: "atol (drop (length ''time_offset='') ?O) = off"
    using atol_int_str [of ?R off] assms(2,3) by (simp add: is_digit_def)
  have tw: "takeWhile (\<lambda>c. c \<noteq> CHR 0x27) (src @ ?q) = src"
    using assms(4) by (induction src) auto
  show ?thesis
    unfolding parse_TIME_INFO_def time_info_keys option.case st off
    using assms(1) tw by (simp add: Let_def)
qed

theorem time_info_roundtrip_witness:
  "parse_TIME_INFO demo_layout (time_info_text 17 (- 3) ''GPS'') = Some (Some (17, - 3, ''GPS'')) \<and>
   parse_TIME_INFO demo_layout (time_info_text 17 3 ''satellite'') = None"
  using time_info_roundtrip [of 17 "- 3" "''GPS''" demo_layout] time_info_roundtrip [of 17 3 "''satellite''" demo_layout]
  by (simp add: LONG_MAX_def LONG_MIN_def demo_layout_def)

text \<open>
  C16: the directories. Each storage location records below \<open>METADATA\<close> in its base directory and stages
  below \<open>staging\<close> in that; one trailing slash of the base directory makes no difference.
\<close>

theorem base_dir_slash:
  assumes "b \<noteq> []" "last b \<noteq> CHR ''/''"
  shows "datadir (loc_dirs (l\<lparr>basedir := b\<rparr>)) = b @ ''/METADATA/'' \<and>
    stagingdir (loc_dirs (l\<lparr>basedir := b\<rparr>)) = b @ ''/METADATA/staging/'' \<and>
    datadir (loc_dirs (l\<lparr>basedir := b @ ''/''\<rparr>)) = datadir (loc_dirs (l\<lparr>basedir := b\<rparr>)) \<and>
    stagingdir (loc_dirs (l\<lparr>basedir := b @ ''/''\<rparr>)) = stagingdir (loc_dirs (l\<lparr>basedir := b\<rparr>))"
  using assms by (simp add: loc_dirs_def Let_def butlast_append)

theorem base_dir_slash_witness:
  "datadir (loc_dirs (loc_init ''/mnt/a/'')) = ''/mnt/a/METADATA/''"
  using base_dir_slash [of "''/mnt/a''" "loc_init []"] by (simp add: loc_init_def)

lemma options_copies:
  assumes "metarec_options M opts (c, v) = Inr (c', v')"
    and "list_all (\<lambda>(opt, _). opt \<noteq> CHR ''1'' \<and> opt \<noteq> CHR ''2'') opts"
  shows "n_copies c' = n_copies c"
  using assms
proof (induction opts arbitrary: c v)
  case (Cons oa os)
  obtain opt optarg where oa: "oa = (opt, optarg)" by fastforce
  from Cons.prems show ?case
    unfolding oa by (auto split: if_splits option.splits dest!: Cons.IH)
qed simp

text \<open>
  C17: the number of copies counts the directory options, not the drives in use. A recorder started
  without \<open>-1\<close> and \<open>-2\<close> runs with its default directories and both drives commanded, but with no copy
  to write: every descriptor it records leaves all files as they were.
\<close>

theorem no_directories_no_copies:
  assumes "metarec_options M opts (metarec_chan, False) = Inr (c, v)"
    and "list_all (\<lambda>(opt, _). opt \<noteq> CHR ''1'' \<and> opt \<noteq> CHR ''2'') opts"
    and "n_copies (pchan s) = n_copies c"
  shows "write_metadata E d s = Some s \<and>
    (store_record E d s = Some s' \<longrightarrow> store s' = store s)"
proof -
  have "n_copies (pchan s) = 0"
    using options_copies [OF assms(1,2)] assms(3) by (simp add: metarec_chan_def)
  moreover have ir: "store (index_record d s) = store s" "pchan (index_record d s) = pchan s"
    by (simp_all add: index_record_def split: option.split)
  ultimately show ?thesis
    by (auto simp: write_metadata_def store_record_def Let_def split: option.splits)
qed

theorem no_directories_no_copies_witness:
  "\<exists>M c v. metarec_options M [(CHR ''l'', ''L1'')] (metarec_chan, False) = Inr (c, v) \<and> src_premise c = ''L1'' \<and>
     write_metadata demo_chunk_env (demo_desc 100) (demo_recorder\<lparr>pchan := c\<rparr>) = Some (demo_recorder\<lparr>pchan := c\<rparr>)"
proof -
  let ?c = "metarec_chan\<lparr>src_premise := ''L1''\<rparr>"
  have "metarec_options M [(CHR ''l'', ''L1'')] (metarec_chan, False) = Inr (?c, False)" for M
    by (simp add: METAREC_LOCO_ID_LENGTH_def metarec_chan_def)
  moreover from no_directories_no_copies [OF this, of "demo_recorder\<lparr>pchan := ?c\<rparr>" demo_chunk_env "demo_desc 100"]
  have "write_metadata demo_chunk_env (demo_desc 100) (demo_recorder\<lparr>pchan := ?c\<rparr>) = Some (demo_recorder\<lparr>pchan := ?c\<rparr>)"
    by simp
  ultimately show ?thesis by (intro exI [of _ undefined] exI [of _ ?c] exI [of _ False]) (simp add: metarec_chan_def)
qed

end
