(* ===== verification/Chunk_Name.thy ===== *)
theory Chunk_Name
  imports Meta_Chunk
begin

text \<open>
  The names of recorded files, as the maintenance programs read them: \<open>YYYYMMDD-HHMMSS.<usecs>.<ext>\<close>.
  Each of the programs reads the two decimal numbers with \<open>atoi\<close> and splits them by division; what they
  read from a name the recorder gave is the time and the duration the recorder put in.
\<close>

section \<open>Reading a name\<close>

text \<open>
  The fields of \<open>struct tm\<close> read from a name; C division truncates. Bytes behind the end of a short name
  are the terminator and the zero bytes of the path buffer, so \<open>drop\<close> reads them as the empty string.
\<close>

definition name_tm :: "string \<Rightarrow> tm" where
  "name_tm name =
     (let v_date = atoi name; v_time = atoi (drop 9 name)
      in \<lparr>tm_year = v_date sdiv 10000 - 1900, tm_mon = (v_date smod 10000) sdiv 100 - 1,
          tm_mday = v_date smod 100, tm_hour = v_time sdiv 10000,
          tm_min = (v_time smod 10000) sdiv 100, tm_sec = v_time smod 100\<rparr>)"

definition name_duration :: "string \<Rightarrow> int" where
  "name_duration name = atol (drop 16 name)"

section \<open>Names the recorder gives\<close>

lemma digits_val_acc: "\<forall>c \<in> set s. is_digit c \<Longrightarrow> digits_val acc s = acc * 10 ^ length s + digits_val 0 s"
proof (induction s rule: rev_induct)
  case (snoc c s)
  then show ?case by (simp add: digits_val_append_digits algebra_simps)
qed simp

lemma digits_val_pad0_acc:
  assumes "n < 10 ^ w" "0 < w"
  shows "digits_val acc (pad0 w n @ s) = digits_val (acc * 10 ^ w + int n) s"
proof -
  have d: "\<forall>c \<in> set (pad0 w n). is_digit c" by (simp add: pad0_digits)
  have "digits_val 0 (pad0 w n) = int n" using digits_val_pad0 [of "[]" w n] by simp
  with digits_val_acc [OF d, of acc] assms show ?thesis by (simp add: digits_val_append_digits [OF d])
qed

lemma digits_val_bound: "\<forall>c \<in> set s. is_digit c \<Longrightarrow> digits_val 0 s < 10 ^ length s"
proof (induction s rule: rev_induct)
  case (snoc c s)
  then have "(of_char c :: nat) \<le> 57" by (simp add: is_digit_def)
  moreover have "(of_char c :: int) = int (of_char c)" by (simp add: of_char_def)
  ultimately have "digit_val c \<le> 9" by (simp only: digit_val_def)
  with snoc show ?case by (simp add: digits_val_append_digits)
qed simp

lemma nat_str_bound: "n < 10 ^ length (nat_str n)"
proof -
  have "int n < 10 ^ length (nat_str n)"
    using digits_val_bound [of "nat_str n"] by (simp add: nat_str_digits digits_val_nat_str)
  then have "int n < int (10 ^ length (nat_str n))" by simp
  then show ?thesis by (simp only: of_nat_less_iff)
qed

text \<open>A year of four digits is printed by \<open>%4d\<close> as by \<open>%04d\<close>.\<close>

lemma pad_year: "1000 \<le> n \<Longrightarrow> n < 10000 \<Longrightarrow> pad_left c 4 (int_str (int n)) = pad0 4 n"
proof -
  assume n: "1000 \<le> n" "n < 10000"
  have "\<not> length (nat_str n) \<le> 3"
  proof
    assume l: "length (nat_str n) \<le> 3"
    have "n < 10 ^ length (nat_str n)" by (rule nat_str_bound)
    also have "\<dots> \<le> 10 ^ 3" using l by (intro power_increasing) auto
    finally show False using n by simp
  qed
  with length_nat_str [of n 4] n have "length (nat_str n) = 4" by simp
  then show ?thesis by (simp add: pad_left_def pad0_def int_str_def)
qed

lemma valid_tm_fields:
  assumes "valid_tm t"
  shows "nat (tm_mon t + 1) < 100" "nat (tm_mday t) < 100" "nat (tm_hour t) < 100" "nat (tm_min t) < 100"
    "nat (tm_sec t) < 100" "0 \<le> tm_mon t" "tm_mon t \<le> 11" "1 \<le> tm_mday t" "tm_mday t \<le> 31" "0 \<le> tm_hour t"
    "tm_hour t \<le> 23" "0 \<le> tm_min t" "tm_min t \<le> 59" "0 \<le> tm_sec t" "tm_sec t \<le> 59"
proof -
  have "month_len y m \<le> 31" for y m by (simp add: month_len_def)
  from order_trans [OF _ this] assms have "tm_mday t \<le> 31" unfolding valid_tm_def by blast
  with assms show "nat (tm_mon t + 1) < 100" "nat (tm_mday t) < 100" "nat (tm_hour t) < 100"
    "nat (tm_min t) < 100" "nat (tm_sec t) < 100" "0 \<le> tm_mon t" "tm_mon t \<le> 11" "1 \<le> tm_mday t"
    "tm_mday t \<le> 31" "0 \<le> tm_hour t" "tm_hour t \<le> 23" "0 \<le> tm_min t" "tm_min t \<le> 59" "0 \<le> tm_sec t"
    "tm_sec t \<le> 59" by (auto simp: valid_tm_def)
qed

lemma chunk_name_shape:
  assumes "valid_tm t" "1000 \<le> tm_year t + 1900" "tm_year t + 1900 \<le> 9999"
  defines "y \<equiv> nat (tm_year t + 1900)"
  shows "chunk_name t = pad0 4 y @ pad0 2 (nat (tm_mon t + 1)) @ pad0 2 (nat (tm_mday t)) @ ''-'' @
           pad0 2 (nat (tm_hour t)) @ pad0 2 (nat (tm_min t)) @ pad0 2 (nat (tm_sec t))"
    and "1000 \<le> y" "y < 10000"
proof -
  show y: "1000 \<le> y" "y < 10000" using assms(2,3) by (simp_all add: y_def)
  have "tm_year t + 1900 = int y" using assms(2) by (simp add: y_def)
  with pad_year [OF y] show "chunk_name t = pad0 4 y @ pad0 2 (nat (tm_mon t + 1)) @ pad0 2 (nat (tm_mday t)) @ ''-'' @
      pad0 2 (nat (tm_hour t)) @ pad0 2 (nat (tm_min t)) @ pad0 2 (nat (tm_sec t))"
    by (simp add: chunk_name_def)
qed

lemma length_chunk_name:
  assumes "valid_tm t" "1000 \<le> tm_year t + 1900" "tm_year t + 1900 \<le> 9999"
  shows "length (chunk_name t) = 15"
  using chunk_name_shape [OF assms] valid_tm_fields [OF assms(1)] by simp

lemma pad0_is_digit: "is_digit (hd (pad0 w n))"
  using pad0_digits [of "hd (pad0 w n)" w n] by simp

lemma split3:
  assumes "0 \<le> b" "b < 100" "0 \<le> c" "c < (100::int)"
  shows "((a * 100 + b) * 100 + c) div 10000 = a \<and> ((a * 100 + b) * 100 + c) mod 10000 div 100 = b \<and>
    ((a * 100 + b) * 100 + c) mod 100 = c"
proof -
  have e: "(a * 100 + b) * 100 + c = (b * 100 + c) + a * 10000" by simp
  have lt: "0 \<le> b * 100 + c" "b * 100 + c < 10000" using assms by linarith+
  have "(b * 100 + c) div 100 = b" "(b * 100 + c) mod 100 = c" using assms(3,4) by simp_all
  moreover have "((b * 100 + c) + a * 10000) mod 100 = (b * 100 + c) mod 100"
    using mod_mult_self1 [of "b * 100 + c" "a * 100" 100] by (simp add: mult.commute)
  ultimately show ?thesis unfolding e using lt by (simp add: div_pos_pos_trivial mod_pos_pos_trivial)
qed

lemma name_tm_chunk:
  assumes "valid_tm t" "1000 \<le> tm_year t + 1900" "tm_year t + 1900 \<le> 9999"
    and "s = [] \<or> \<not> is_digit (hd s)"
  shows "name_tm (chunk_name t @ s) = t"
proof -
  define y where "y = nat (tm_year t + 1900)"
  note f = valid_tm_fields [OF assms(1)]
  note sh = chunk_name_shape [OF assms(1-3), folded y_def]
  let ?M = "tm_mon t + 1" and ?D = "tm_mday t" and ?h = "tm_hour t" and ?m = "tm_min t" and ?s = "tm_sec t"
  have stop: "digits_val v s = v" for v using assms(4) by (rule digits_val_stop)
  have nd: "\<not> is_digit CHR ''-''" by (simp add: is_digit_def)
  have dash: "digits_val v (CHR ''-'' # r) = v" for v r by (simp add: is_digit_def)
  have d: "strtol10 (chunk_name t @ s) = (int y * 100 + ?M) * 100 + ?D"
    using sh f by (simp add: strtol10_digits pad0_is_digit digits_val_pad0_acc nd)
  have "drop 9 (chunk_name t @ s) = pad0 2 (nat ?h) @ pad0 2 (nat ?m) @ pad0 2 (nat ?s) @ s"
    using sh f by simp
  then have h: "strtol10 (drop 9 (chunk_name t @ s)) = (?h * 100 + ?m) * 100 + ?s"
    using f by (simp add: strtol10_digits pad0_is_digit digits_val_pad0_acc stop)
  have rd: "atoi (chunk_name t @ s) = (int y * 100 + ?M) * 100 + ?D"
    "atoi (drop 9 (chunk_name t @ s)) = (?h * 100 + ?m) * 100 + ?s"
    using d h f sh(2,3) by (simp_all add: atoi_def atol_def clamp_long_def LONG_MAX_def LONG_MIN_def)
  have nn: "0 \<le> (int y * 100 + ?M) * 100 + ?D" "0 \<le> (?h * 100 + ?m) * 100 + ?s" using f by simp_all
  have yy: "int y = tm_year t + 1900" using assms(2) by (simp add: y_def)
  have s1: "((int y * 100 + ?M) * 100 + ?D) div 10000 = int y \<and>
      ((int y * 100 + ?M) * 100 + ?D) mod 10000 div 100 = ?M \<and> ((int y * 100 + ?M) * 100 + ?D) mod 100 = ?D"
    by (rule split3) (use f in auto)
  have s2: "((?h * 100 + ?m) * 100 + ?s) div 10000 = ?h \<and>
      ((?h * 100 + ?m) * 100 + ?s) mod 10000 div 100 = ?m \<and> ((?h * 100 + ?m) * 100 + ?s) mod 100 = ?s"
    by (rule split3) (use f in auto)
  show ?thesis
    unfolding name_tm_def rd Let_def using nn s1 s2 yy by (simp del: distrib_right_numeral)
qed

lemma name_duration_chunk:
  assumes "valid_tm t" "1000 \<le> tm_year t + 1900" "tm_year t + 1900 \<le> 9999" "int d \<le> LONG_MAX"
  shows "name_duration (chunk_name t @ data_suffix d) = int d"
  using length_chunk_name [OF assms(1-3)] assms(4)
  by (simp add: name_duration_def data_suffix_def atol_pad0 is_digit_def)

end
