(* ===== verification/Dir_Tree.thy ===== *)
theory Dir_Tree
  imports C_Time
begin

text \<open>
  The directory trees the maintenance programs walk: nodes, path resolution, \<open>opendir\<close>/\<open>readdir\<close>,
  \<open>stat\<close>, \<open>remove\<close>, \<open>rmdir\<close>, \<open>dirname\<close> and \<open>basename\<close>; and the recursive scan that three of the programs
  share, with the lemma that it visits exactly the files of the tree below its directory.
\<close>

section \<open>Trees and paths\<close>

record file_stat =
  st_size :: nat
  st_mtime :: int

text \<open>A directory lists its entries in the order \<open>readdir\<close> returns them, without the two dot entries.\<close>

datatype fs_node = Reg file_stat | Dir "(string \<times> fs_node) list"

fun split_path :: "string \<Rightarrow> string \<Rightarrow> string list" where
  "split_path acc [] = (if acc = [] then [] else [acc])"
| "split_path acc (c # cs) =
     (if c = CHR ''/'' then (if acc = [] then [] else [acc]) @ split_path [] cs
      else split_path (acc @ [c]) cs)"

definition comps :: "string \<Rightarrow> string list" where
  "comps p = split_path [] p"

text \<open>
  One step of path resolution, on the stack of the directories passed (for \<open>..\<close>). The root is its own
  parent.
\<close>

fun enter :: "string \<Rightarrow> fs_node list \<Rightarrow> fs_node list option" where
  "enter c (Dir es # st) =
     (if c = ''.'' then Some (Dir es # st)
      else if c = ''..'' then Some (if st = [] then [Dir es] else st)
      else map_option (\<lambda>n. n # Dir es # st) (map_of es c))"
| "enter c _ = None"

definition resolve :: "fs_node \<Rightarrow> string \<Rightarrow> fs_node option" where
  "resolve fs p =
     (if p = [] then None
      else (case foldM enter (comps p) [fs] of
              Some (Reg s # _) \<Rightarrow> if last p = CHR ''/'' then None else Some (Reg s)
            | Some (n # _) \<Rightarrow> Some n
            | _ \<Rightarrow> None))"

text \<open>\<open>opendir\<close> and the names \<open>readdir\<close> returns; the dot entries come first.\<close>

definition readdir_all :: "fs_node \<Rightarrow> string \<Rightarrow> string list option" where
  "readdir_all fs p =
     (case resolve fs p of Some (Dir es) \<Rightarrow> Some (''.'' # ''..'' # map fst es) | _ \<Rightarrow> None)"

text \<open>Deletion, below the path without its dot components.\<close>

fun canon :: "string list \<Rightarrow> string list \<Rightarrow> string list" where
  "canon acc [] = rev acc"
| "canon acc (c # cs) =
     (if c = ''.'' then canon acc cs else if c = ''..'' then canon (tl acc) cs else canon (c # acc) cs)"

fun del :: "string list \<Rightarrow> fs_node \<Rightarrow> fs_node" where
  "del [] n = n"
| "del (c # cs) (Reg s) = Reg s"
| "del (c # cs) (Dir es) =
     (if cs = [] then Dir (filter (\<lambda>(k, _). k \<noteq> c) es)
      else Dir (map (\<lambda>(k, n). (k, if k = c then del cs n else n)) es))"

text \<open>
  \<open>remove\<close> unlinks a regular file and removes an empty directory, \<open>rmdir\<close> the latter only; \<open>may\<close> says
  which paths the file system lets the process delete. The root stays.
\<close>

definition c_remove :: "(string \<Rightarrow> bool) \<Rightarrow> string \<Rightarrow> fs_node \<Rightarrow> int \<times> fs_node" where
  "c_remove may p fs =
     (case resolve fs p of
        None \<Rightarrow> (- 1, fs)
      | Some n \<Rightarrow>
          if may p \<and> canon [] (comps p) \<noteq> [] \<and> (case n of Reg _ \<Rightarrow> True | Dir es \<Rightarrow> es = [])
          then (0, del (canon [] (comps p)) fs) else (- 1, fs))"

definition c_rmdir :: "(string \<Rightarrow> bool) \<Rightarrow> string \<Rightarrow> fs_node \<Rightarrow> int \<times> fs_node" where
  "c_rmdir may p fs =
     (case resolve fs p of
        Some (Dir []) \<Rightarrow>
          if may p \<and> canon [] (comps p) \<noteq> [] then (0, del (canon [] (comps p)) fs) else (- 1, fs)
      | _ \<Rightarrow> (- 1, fs))"

text \<open>\<open>dirname\<close> and \<open>basename\<close> of \<open>libgen.h\<close>.\<close>

definition strip_slashes :: "string \<Rightarrow> string" where
  "strip_slashes p = rev (dropWhile (\<lambda>c. c = CHR ''/'') (rev p))"

definition dirname :: "string \<Rightarrow> string" where
  "dirname p =
     (let q = strip_slashes p
      in if q = [] then (if p = [] then ''.'' else ''/'')
         else if CHR ''/'' \<notin> set q then ''.''
         else (let r = strip_slashes (rev (dropWhile (\<lambda>c. c \<noteq> CHR ''/'') (rev q)))
               in if r = [] then ''/'' else r))"

definition basename :: "string \<Rightarrow> string" where
  "basename p =
     (let q = strip_slashes p
      in if q = [] then (if p = [] then ''.'' else ''/'')
         else rev (takeWhile (\<lambda>c. c \<noteq> CHR ''/'') (rev q)))"

section \<open>Paths and their components\<close>

lemma split_path_slash:
  "split_path acc (p @ CHR ''/'' # q) = split_path acc p @ split_path [] q"
  by (induction acc p rule: split_path.induct) auto

lemma comps_slash [fs_simps]: "comps (p @ CHR ''/'' # q) = comps p @ comps q"
  by (simp add: comps_def split_path_slash)

lemma split_path_plain: "CHR ''/'' \<notin> set q \<Longrightarrow> acc @ q \<noteq> [] \<Longrightarrow> split_path acc q = [acc @ q]"
  by (induction acc q rule: split_path.induct) auto

lemma comps_plain [fs_simps]: "CHR ''/'' \<notin> set q \<Longrightarrow> q \<noteq> [] \<Longrightarrow> comps q = [q]"
  by (simp add: comps_def split_path_plain)

lemma comps_Nil [simp]: "comps [] = []"
  by (simp add: comps_def)

text \<open>A name a directory entry can have.\<close>

definition plain_name :: "string \<Rightarrow> bool" where
  "plain_name n \<longleftrightarrow> n \<noteq> [] \<and> CHR ''/'' \<notin> set n \<and> n \<noteq> ''.'' \<and> n \<noteq> ''..''"

lemma comps_join: "plain_name n \<Longrightarrow> comps (p @ CHR ''/'' # n) = comps p @ [n]"
  by (simp add: plain_name_def fs_simps)

lemma canon_plain: "list_all plain_name cs \<Longrightarrow> canon acc cs = rev acc @ cs"
  by (induction cs arbitrary: acc) (auto simp: plain_name_def)

text \<open>Resolution of a path that goes through no dot entry.\<close>

fun lookup :: "string list \<Rightarrow> fs_node \<Rightarrow> fs_node option" where
  "lookup [] n = Some n"
| "lookup (c # cs) (Reg s) = None"
| "lookup (c # cs) (Dir es) = (case map_of es c of None \<Rightarrow> None | Some n \<Rightarrow> lookup cs n)"

lemma foldM_enter_lookup:
  "list_all plain_name cs \<Longrightarrow>
     (case foldM enter cs (n # st) of Some (m # _) \<Rightarrow> Some m | _ \<Rightarrow> None) = lookup cs n"
proof (induction cs n arbitrary: st rule: lookup.induct)
  case (3 c cs es)
  then show ?case by (cases "map_of es c") (auto simp: plain_name_def)
qed auto

lemma foldM_enter_nonempty: "foldM enter cs (n # st) \<noteq> Some []"
proof (induction cs arbitrary: n st)
  case (Cons c cs)
  show ?case
  proof (cases "enter c (n # st)")
    case (Some s)
    then obtain m r where "s = m # r"
      by (cases n) (auto split: if_splits simp: neq_Nil_conv)
    with Some Cons show ?thesis by simp
  qed simp
qed simp

lemma resolve_lookup:
  assumes "list_all plain_name (comps p)" "last p \<noteq> CHR ''/''" "p \<noteq> []"
  shows "resolve fs p = lookup (comps p) fs"
  using foldM_enter_lookup [OF assms(1), of fs "[]"] foldM_enter_nonempty [of "comps p" fs "[]"] assms(2,3)
  by (auto simp: resolve_def split: option.splits list.splits fs_node.splits)

lemma resolve_lookup_dir:
  assumes "list_all plain_name (comps p)" "p \<noteq> []"
  shows "resolve fs p = Some (Dir es) \<longleftrightarrow> lookup (comps p) fs = Some (Dir es)"
  using foldM_enter_lookup [OF assms(1), of fs "[]"] foldM_enter_nonempty [of "comps p" fs "[]"] assms(2)
  by (auto simp: resolve_def split: option.splits list.splits fs_node.splits)

text \<open>The entries of a directory that resolves.\<close>

lemma resolve_entry:
  assumes "resolve fs d = Some (Dir es)" "plain_name n"
  shows "resolve fs (d @ CHR ''/'' # n) = map_of es n"
proof -
  from assms(1) obtain st where "foldM enter (comps d) [fs] = Some (Dir es # st)"
    by (auto simp: resolve_def split: if_splits option.splits list.splits fs_node.splits)
  with assms(2) show ?thesis
    by (auto simp: resolve_def comps_join foldM_append plain_name_def dest: last_in_set
        split: option.splits list.splits fs_node.splits)
qed

lemma resolve_dots:
  assumes "resolve fs d = Some (Dir es)"
  shows "resolve fs (d @ ''/.'') \<noteq> None" "resolve fs (d @ ''/..'') \<noteq> None"
proof -
  from assms obtain st where st: "foldM enter (comps d) [fs] = Some (Dir es # st)"
    by (auto simp: resolve_def split: if_splits option.splits list.splits fs_node.splits)
  have c: "comps (d @ ''/.'') = comps d @ [''.'']" "comps (d @ ''/..'') = comps d @ [''..'']"
    by (simp_all add: fs_simps)
  show "resolve fs (d @ ''/.'') \<noteq> None"
    using st by (auto simp: resolve_def c foldM_append)
  show "resolve fs (d @ ''/..'') \<noteq> None"
    using st by (auto simp: resolve_def c foldM_append split: list.split fs_node.split)
qed

lemma snprintf_fits [simp]: "length s < n \<Longrightarrow> snprintf n s = s"
  by (simp add: snprintf_def)

section \<open>The recursive scan\<close>

text \<open>
  What \<open>find_oldest_file\<close>, \<open>process_duration\<close> and \<open>search_directory\<close> have in common: open the
  directory; for each entry build its path in a buffer of \<open>lim\<close> bytes, stop when it is too long or
  \<open>stat\<close> fails, pass over the names to skip, recurse into a directory and then do \<open>after\<close>, and do
  \<open>on_file\<close> for a regular file. The paths get longer at every level, so the scan ends.
\<close>

function scan_dir :: "nat \<Rightarrow> (string \<Rightarrow> bool) \<Rightarrow> (string \<Rightarrow> 's \<Rightarrow> 's) \<Rightarrow> (string \<Rightarrow> string \<Rightarrow> 's \<Rightarrow> 's) \<Rightarrow>
    fs_node \<Rightarrow> string \<Rightarrow> 's \<Rightarrow> 's"
  and scan_entries :: "nat \<Rightarrow> (string \<Rightarrow> bool) \<Rightarrow> (string \<Rightarrow> 's \<Rightarrow> 's) \<Rightarrow> (string \<Rightarrow> string \<Rightarrow> 's \<Rightarrow> 's) \<Rightarrow>
    fs_node \<Rightarrow> string \<Rightarrow> string list \<Rightarrow> 's \<Rightarrow> 's" where
  "scan_dir lim skip on_file after fs dir s =
     (case readdir_all fs dir of
        None \<Rightarrow> s
      | Some ns \<Rightarrow> scan_entries lim skip on_file after fs dir ns s)"
| "scan_entries lim skip on_file after fs dir [] s = s"
| "scan_entries lim skip on_file after fs dir (n # ns) s =
     (if n = [] \<or> length dir + 1 + length n > lim then s
      else (case resolve fs (snprintf lim (dir @ CHR ''/'' # n)) of
              None \<Rightarrow> s
            | Some x \<Rightarrow>
                if skip n then scan_entries lim skip on_file after fs dir ns s
                else scan_entries lim skip on_file after fs dir ns
                  (case x of
                     Dir _ \<Rightarrow> after dir n
                       (scan_dir lim skip on_file after fs (snprintf lim (dir @ CHR ''/'' # n)) s)
                   | Reg _ \<Rightarrow> on_file (snprintf lim (dir @ CHR ''/'' # n)) s)))"
  by pat_completeness auto

termination
proof (relation "measures
    [\<lambda>x. case x of Inl (lim, _, _, _, _, d, _) \<Rightarrow> lim - length d | Inr (lim, _, _, _, _, d, _) \<Rightarrow> lim - length d,
     \<lambda>x. case x of Inl _ \<Rightarrow> 1 | Inr _ \<Rightarrow> 0,
     \<lambda>x. case x of Inl _ \<Rightarrow> 0 | Inr (_, _, _, _, _, _, ns, _) \<Rightarrow> length ns]", goal_cases)
  case 4
  then show ?case by (auto simp: snprintf_def neq_Nil_conv)
qed auto

declare scan_dir.simps [simp del] scan_entries.simps [simp del]

section \<open>What the scan visits\<close>

datatype visit = File_At string | Left_Dir string string

fun visits :: "(string \<Rightarrow> bool) \<Rightarrow> string \<Rightarrow> (string \<times> fs_node) list \<Rightarrow> visit list" where
  "visits skip dir [] = []"
| "visits skip dir ((n, Reg st) # es) =
     (if skip n then [] else [File_At (dir @ CHR ''/'' # n)]) @ visits skip dir es"
| "visits skip dir ((n, Dir es') # es) =
     (if skip n then [] else visits skip (dir @ CHR ''/'' # n) es' @ [Left_Dir dir n]) @
     visits skip dir es"

fun do_visit :: "(string \<Rightarrow> 's \<Rightarrow> 's) \<Rightarrow> (string \<Rightarrow> string \<Rightarrow> 's \<Rightarrow> 's) \<Rightarrow> visit \<Rightarrow> 's \<Rightarrow> 's" where
  "do_visit on_file after (File_At p) = on_file p"
| "do_visit on_file after (Left_Dir d n) = after d n"

text \<open>Trees whose entries have distinct plain names, and whose paths fit the buffer.\<close>

fun wf_entries :: "(string \<times> fs_node) list \<Rightarrow> bool" where
  "wf_entries [] \<longleftrightarrow> True"
| "wf_entries ((n, Reg st) # es) \<longleftrightarrow> plain_name n \<and> n \<notin> fst ` set es \<and> wf_entries es"
| "wf_entries ((n, Dir es') # es) \<longleftrightarrow> plain_name n \<and> n \<notin> fst ` set es \<and> wf_entries es \<and> wf_entries es'"

fun fits :: "nat \<Rightarrow> (string \<Rightarrow> bool) \<Rightarrow> string \<Rightarrow> (string \<times> fs_node) list \<Rightarrow> bool" where
  "fits lim skip dir [] \<longleftrightarrow> length dir + 3 < lim"
| "fits lim skip dir ((n, Reg st) # es) \<longleftrightarrow> length dir + 1 + length n < lim \<and> fits lim skip dir es"
| "fits lim skip dir ((n, Dir es') # es) \<longleftrightarrow>
     length dir + 1 + length n < lim \<and> fits lim skip dir es \<and>
     (\<not> skip n \<longrightarrow> fits lim skip (dir @ CHR ''/'' # n) es')"

lemma fits_dir: "fits lim skip dir es \<Longrightarrow> length dir + 3 < lim"
  by (induction lim skip dir es rule: fits.induct) auto

lemma wf_entries_plain: "wf_entries es \<Longrightarrow> (n, x) \<in> set es \<Longrightarrow> plain_name n"
  by (induction es rule: wf_entries.induct) auto

lemma wf_entries_map_of: "wf_entries es \<Longrightarrow> (n, x) \<in> set es \<Longrightarrow> map_of es n = Some x"
  by (induction es rule: wf_entries.induct) force+

lemma wf_entries_sub: "wf_entries es \<Longrightarrow> (n, Dir es') \<in> set es \<Longrightarrow> wf_entries es'"
  by (induction es rule: wf_entries.induct) auto

lemma scan_entries_dots:
  assumes "resolve fs dir = Some (Dir es)" "length dir + 3 < lim" "skip ''.''" "skip ''..''"
  shows "scan_entries lim skip f a fs dir (''.'' # ''..'' # ns) s = scan_entries lim skip f a fs dir ns s"
  using assms(2-) resolve_dots [OF assms(1)]
  by (auto simp: scan_entries.simps)

lemma scan_entries_visits:
  assumes "resolve fs dir = Some (Dir es0)" "\<forall>(n, x) \<in> set es. map_of es0 n = Some x"
    and "wf_entries es" "fits lim skip dir es" "skip ''.''" "skip ''..''"
  shows "scan_entries lim skip f a fs dir (map fst es) s = fold (do_visit f a) (visits skip dir es) s"
  using assms
proof (induction skip dir es arbitrary: es0 s rule: visits.induct)
  case (1 skip dir)
  then show ?case by (simp add: scan_entries.simps)
next
  case (2 skip dir n st es)
  then have "resolve fs (dir @ CHR ''/'' # n) = Some (Reg st)"
    using resolve_entry [OF 2(2), of n] by simp
  moreover have "n \<noteq> []" using 2 by (auto simp: plain_name_def)
  ultimately show ?case using 2 by (simp add: scan_entries.simps)
next
  case (3 skip dir n es' es)
  let ?p = "dir @ CHR ''/'' # n"
  have r: "resolve fs ?p = Some (Dir es')" using resolve_entry [OF 3(3), of n] 3(4,5) by simp
  have n: "n \<noteq> []" using 3 by (auto simp: plain_name_def)
  have tl: "scan_entries lim skip f a fs dir (map fst es) s = fold (do_visit f a) (visits skip dir es) s" for s
    using 3 by (intro "3.IH"(2)) auto
  show ?case
  proof (cases "skip n")
    case True
    with tl r n 3(6) show ?thesis by (simp add: scan_entries.simps)
  next
    case False
    have fit: "fits lim skip ?p es'" using 3(6) False by simp
    have "scan_dir lim skip f a fs ?p s = fold (do_visit f a) (visits skip ?p es') s"
    proof -
      have "scan_dir lim skip f a fs ?p s = scan_entries lim skip f a fs ?p (''.'' # ''..'' # map fst es') s"
        by (simp add: scan_dir.simps readdir_all_def r)
      also have "\<dots> = scan_entries lim skip f a fs ?p (map fst es') s"
        using fits_dir [OF fit] 3(7,8) by (intro scan_entries_dots [OF r]) auto
      also have "\<dots> = fold (do_visit f a) (visits skip ?p es') s"
        using 3(5,7,8) False fit wf_entries_map_of [of es']
        by (intro "3.IH"(1) [OF False r]) auto
      finally show ?thesis .
    qed
    with tl r n False 3(6) show ?thesis by (simp add: scan_entries.simps)
  qed
qed

text \<open>The scan of a well-formed tree whose paths fit visits its files and directories in order.\<close>

theorem scan_dir_visits:
  assumes "resolve fs dir = Some (Dir es)" "wf_entries es" "fits lim skip dir es" "skip ''.''" "skip ''..''"
  shows "scan_dir lim skip f a fs dir s = fold (do_visit f a) (visits skip dir es) s"
proof -
  have "\<forall>(n, x) \<in> set es. map_of es n = Some x" using wf_entries_map_of [OF assms(2)] by blast
  from scan_entries_visits [OF assms(1) this assms(2-5), of f a s] show ?thesis
    using scan_entries_dots [OF assms(1) fits_dir [OF assms(3)] assms(4,5), of f a _ s]
    by (simp add: scan_dir.simps readdir_all_def assms(1))
qed

end
