(* ===== verification/Dir_Delete.thy ===== *)
theory Dir_Delete
  imports Dir_Tree "HOL-Library.Sublist"
begin

text \<open>
  What deletion does to a directory tree: the files and directories that are left, the number of files,
  and the preservation of well-formedness; and how \<open>dirname\<close> and \<open>basename\<close> act on path components.
\<close>

section \<open>Files and directories of a tree\<close>

definition file_map :: "fs_node \<Rightarrow> string list \<Rightarrow> file_stat option" where
  "file_map fs q = (case lookup q fs of Some (Reg st) \<Rightarrow> Some st | _ \<Rightarrow> None)"

definition is_dir :: "fs_node \<Rightarrow> string list \<Rightarrow> bool" where
  "is_dir fs q = (case lookup q fs of Some (Dir _) \<Rightarrow> True | _ \<Rightarrow> False)"

fun n_files :: "fs_node \<Rightarrow> nat" and n_files_in :: "(string \<times> fs_node) list \<Rightarrow> nat" where
  "n_files (Reg st) = 1"
| "n_files (Dir es) = n_files_in es"
| "n_files_in [] = 0"
| "n_files_in ((k, n) # es) = n_files n + n_files_in es"

fun wf_node :: "fs_node \<Rightarrow> bool" where
  "wf_node (Reg st) = True"
| "wf_node (Dir es) = wf_entries es"

lemma file_map_simps [simp]:
  "file_map (Reg st) [] = Some st" "file_map (Dir es) [] = None" "file_map (Reg st) (c # cs) = None"
  "file_map (Dir es) (c # cs) = (case map_of es c of None \<Rightarrow> None | Some n \<Rightarrow> file_map n cs)"
  by (auto simp: file_map_def split: option.split)

lemma is_dir_simps [simp]:
  "\<not> is_dir (Reg st) cs" "is_dir (Dir es) []"
  "is_dir (Dir es) (c # cs) = (case map_of es c of None \<Rightarrow> False | Some n \<Rightarrow> is_dir n cs)"
  by (cases cs, auto simp: is_dir_def split: option.split)

lemma lookup_append: "lookup (p @ q) n = Option.bind (lookup p n) (lookup q)"
  by (induction p n rule: lookup.induct) (auto split: option.split)

lemma map_of_map_if: "map_of (map (\<lambda>(k, n). (k, if k = c then f n else n)) es) d =
    (if d = c then map_option f (map_of es d) else map_of es d)"
  by (induction es) auto

lemma map_of_filter_key: "map_of (filter (\<lambda>(k, _). k \<noteq> c) es) d = (if d = c then None else map_of es d)"
  by (induction es) auto

lemma del_files: "c \<noteq> [] \<Longrightarrow> file_map (del c n) q = (if prefix c q then None else file_map n q)"
proof (induction c arbitrary: n q)
  case (Cons c cs)
  then show ?case
    by (cases n; cases q) (auto simp: map_of_map_if map_of_filter_key split: option.split)
qed simp

lemma del_dirs: "c \<noteq> [] \<Longrightarrow> is_dir (del c n) q \<longleftrightarrow> is_dir n q \<and> \<not> prefix c q"
proof (induction c arbitrary: n q)
  case (Cons c cs)
  then show ?case
    by (cases n; cases q) (auto simp: map_of_map_if map_of_filter_key split: option.split)
qed simp

text \<open>Below a file there is nothing, and below an empty directory neither.\<close>

lemma below_file: "file_map n c = Some st \<Longrightarrow> prefix c q \<Longrightarrow> q \<noteq> c \<Longrightarrow> file_map n q = None \<and> \<not> is_dir n q"
  by (cases "q = c") (auto simp: file_map_def is_dir_def lookup_append prefix_def neq_Nil_conv
      split: option.splits fs_node.splits)

lemma below_empty: "lookup c n = Some (Dir []) \<Longrightarrow> prefix c q \<Longrightarrow> file_map n q = None \<and> (q \<noteq> c \<longrightarrow> \<not> is_dir n q)"
  by (auto simp: file_map_def is_dir_def lookup_append prefix_def neq_Nil_conv
      split: option.splits fs_node.splits)
    (case_tac zs; simp)+

lemma del_file:
  assumes "file_map n c = Some st" "c \<noteq> []"
  shows "file_map (del c n) = (file_map n)(c := None)" "is_dir (del c n) = is_dir n"
proof -
  have "is_dir n c = False" using assms(1) by (auto simp: file_map_def is_dir_def split: option.splits fs_node.splits)
  then show "file_map (del c n) = (file_map n)(c := None)" "is_dir (del c n) = is_dir n"
    using below_file [OF assms(1)] by (auto simp: fun_eq_iff del_files del_dirs assms(2))
qed

lemma del_empty_dir:
  assumes "lookup c n = Some (Dir [])" "c \<noteq> []"
  shows "file_map (del c n) = file_map n" "is_dir (del c n) q \<longleftrightarrow> is_dir n q \<and> q \<noteq> c"
  using below_empty [OF assms(1)] by (auto simp: fun_eq_iff del_files del_dirs assms(2))

lemma n_files_filter: "n_files_in (filter P es) \<le> n_files_in es"
  by (induction es) auto

lemma n_files_filter_key:
  "map_of es c = Some n \<Longrightarrow> n_files_in (filter (\<lambda>(k, _). k \<noteq> c) es) + n_files n \<le> n_files_in es"
  by (induction es) (auto simp: n_files_filter trans_le_add2 split: if_splits)

lemma n_files_del: "n_files (del c n) \<le> n_files n"
proof (induction c arbitrary: n)
  case (Cons c cs)
  have m: "n_files_in (map (\<lambda>(k, x). (k, if k = c then del cs x else x)) es) \<le> n_files_in es" for es
    by (induction es) (auto simp: add_mono Cons.IH)
  then show ?case by (cases n) (auto simp: n_files_filter)
qed simp

lemma n_files_pos: "file_map n c = Some st \<Longrightarrow> 0 < n_files n"
proof (induction c arbitrary: n)
  case Nil
  then show ?case by (cases n) auto
next
  case (Cons c cs)
  have "map_of es c = Some x \<Longrightarrow> n_files x \<le> n_files_in es" for es x
    by (induction es) (auto split: if_splits)
  with Cons show ?case by (cases n) (fastforce split: option.splits dest: order_less_le_trans)+
qed

lemma n_files_del_file: "file_map n c = Some st \<Longrightarrow> c \<noteq> [] \<Longrightarrow> n_files (del c n) < n_files n"
proof (induction c arbitrary: n)
  case (Cons c cs)
  then obtain es x where n: "n = Dir es" "map_of es c = Some x" "file_map x cs = Some st"
    by (cases n) (auto split: option.splits)
  show ?case
  proof (cases "cs = []")
    case True
    with n n_files_filter_key [OF n(2)] n_files_pos [OF n(3)] show ?thesis by simp
  next
    case False
    with Cons.IH n have lt: "n_files (del cs x) < n_files x" by blast
    have "map_of es c = Some x \<Longrightarrow>
        n_files_in (map (\<lambda>(k, x). (k, if k = c then del cs x else x)) es) < n_files_in es" for es
    proof (induction es)
      case (Cons e es)
      have "n_files_in (map (\<lambda>(k, x). (k, if k = c then del cs x else x)) es) \<le> n_files_in es"
        by (induction es) (auto simp: add_mono n_files_del)
      with Cons lt show ?case by (cases e) (auto split: if_splits)
    qed simp
    with n False show ?thesis by simp
  qed
qed simp

lemma keys_map_if: "fst ` (\<lambda>(k, n). (k, if k = c then f n else n)) ` S = fst ` S"
  by (auto simp: image_iff split: prod.splits) force+

lemma wf_del: "wf_node n \<Longrightarrow> wf_node (del c n)"
proof (induction c arbitrary: n)
  case (Cons c cs)
  note IH = Cons.IH
  show ?case
  proof (cases n)
    case (Dir es)
    have f: "wf_entries es \<Longrightarrow> wf_entries (filter (\<lambda>(k, _). k \<noteq> c) es)"
      by (induction es rule: wf_entries.induct) auto
    have step: "wf_entries ((k, m) # es) \<longleftrightarrow> plain_name k \<and> k \<notin> fst ` set es \<and> wf_entries es \<and> wf_node m" for k m es
      by (cases m) auto
    have "wf_entries es \<Longrightarrow> wf_entries (map (\<lambda>(k, n). (k, if k = c then del cs n else n)) es)"
    proof (induction es)
      case (Cons e es)
      then show ?case by (cases e) (auto simp: step keys_map_if IH)
    qed simp
    with f Cons.prems Dir show ?thesis by simp
  qed simp
qed simp

section \<open>Parent directories\<close>

lemma comps_slashes: "comps (p @ replicate k CHR ''/'') = comps p"
proof (induction k)
  case (Suc k)
  have "p @ replicate (Suc k) CHR ''/'' = (p @ replicate k CHR ''/'') @ CHR ''/'' # []"
    by (simp add: replicate_append_same)
  with Suc comps_slash [of "p @ replicate k CHR ''/''" "[]"] show ?case by simp
qed simp

lemma strip_split: "\<exists>k. p = strip_slashes p @ replicate k CHR ''/''"
proof -
  let ?s = "takeWhile (\<lambda>c. c = CHR ''/'') (rev p)"
  have "rev p = ?s @ dropWhile (\<lambda>c. c = CHR ''/'') (rev p)" by simp
  then have "p = strip_slashes p @ rev ?s"
    by (metis rev_append rev_rev_ident strip_slashes_def)
  moreover have "rev ?s = replicate (length ?s) CHR ''/''"
    by (intro replicate_eqI) (auto dest: set_takeWhileD)
  ultimately show ?thesis by metis
qed

lemma comps_strip [simp]: "comps (strip_slashes p) = comps p"
  using strip_split [of p] comps_slashes [of "strip_slashes p"] by metis

lemma strip_last: "strip_slashes p \<noteq> [] \<Longrightarrow> last (strip_slashes p) \<noteq> CHR ''/''"
proof -
  assume "strip_slashes p \<noteq> []"
  then have "dropWhile (\<lambda>c. c = CHR ''/'') (rev p) \<noteq> []" by (simp add: strip_slashes_def)
  from hd_dropWhile [OF this] this show ?thesis by (simp add: strip_slashes_def last_rev)
qed

lemma strip_hd: "strip_slashes p \<noteq> [] \<Longrightarrow> hd (strip_slashes p) = hd p"
  using strip_split [of p] by (metis hd_append2)

text \<open>An absolute path: its last component, and its parent.\<close>

lemma abs_path_split:
  assumes "strip_slashes p \<noteq> []" "hd p = CHR ''/''"
  obtains a b where "strip_slashes p = a @ CHR ''/'' # b" "CHR ''/'' \<notin> set b" "b \<noteq> []"
proof -
  have "CHR ''/'' \<in> set (strip_slashes p)" using assms strip_hd [OF assms(1)] by (metis hd_in_set)
  from split_list_last [OF this] obtain a b where
    ab: "strip_slashes p = a @ CHR ''/'' # b" "CHR ''/'' \<notin> set b" by blast
  with strip_last [OF assms(1)] have "b \<noteq> []" by auto
  with ab that show ?thesis by blast
qed

lemma dirname_abs:
  assumes "hd p = CHR ''/''" "p \<noteq> []"
  shows "comps (dirname p) = butlast (comps p)" "hd (dirname p) = CHR ''/''" "dirname p \<noteq> []"
    "basename p = (if comps p = [] then ''/'' else last (comps p))"
proof -
  have *: "comps (dirname p) = butlast (comps p) \<and> hd (dirname p) = CHR ''/'' \<and> dirname p \<noteq> [] \<and>
    basename p = (if comps p = [] then ''/'' else last (comps p))"
  proof (cases "strip_slashes p = []")
    case True
    then have "comps p = []" using comps_strip [of p] by simp
    with True assms(2) show ?thesis by (simp add: dirname_def basename_def fs_simps comps_def)
  next
    case False
    from abs_path_split [OF False assms(1)] obtain a b where
      ab: "strip_slashes p = a @ CHR ''/'' # b" "CHR ''/'' \<notin> set b" "b \<noteq> []" .
    have c: "comps p = comps a @ [b]" using comps_strip [of p] ab by (simp add: fs_simps)
    have dw: "dropWhile (\<lambda>c. c \<noteq> CHR ''/'') (rev (strip_slashes p)) = CHR ''/'' # rev a"
      and tw: "takeWhile (\<lambda>c. c \<noteq> CHR ''/'') (rev (strip_slashes p)) = rev b"
      using ab(2) by (auto simp: ab(1) dropWhile_append3 takeWhile_append)
    have s: "strip_slashes (a @ ''/'') = strip_slashes a" by (simp add: strip_slashes_def)
    have d: "dirname p = (if strip_slashes a = [] then ''/'' else strip_slashes a)"
      using False dw ab(1) s by (simp add: dirname_def Let_def)
    have "hd a = CHR ''/''" if "strip_slashes a \<noteq> []"
    proof -
      from that have "a \<noteq> []" by (auto simp: strip_slashes_def)
      with ab(1) strip_hd [OF False] assms(1) show ?thesis by (cases a) auto
    qed
    moreover have "strip_slashes a = [] \<Longrightarrow> comps a = []" using comps_strip [of a] by simp
    moreover have "basename p = b" using False tw by (simp add: basename_def)
    moreover have "comps ''/'' = []" by (simp add: comps_def)
    ultimately show ?thesis using c d strip_hd [of a] by simp
  qed
  then show "comps (dirname p) = butlast (comps p)" "hd (dirname p) = CHR ''/''" "dirname p \<noteq> []"
    "basename p = (if comps p = [] then ''/'' else last (comps p))" by simp_all
qed

lemma plain_butlast: "list_all plain_name cs \<Longrightarrow> list_all plain_name (butlast cs)"
  by (auto simp: list_all_iff dest: in_set_butlastD)

section \<open>The paths of a tree\<close>

definition path_of :: "string \<Rightarrow> string list \<Rightarrow> string" where
  "path_of dir q = dir @ concat (map (\<lambda>n. CHR ''/'' # n) q)"

lemma path_of_simps [simp]:
  "path_of dir [] = dir" "path_of dir (n # q) = path_of (dir @ CHR ''/'' # n) q"
  by (simp_all add: path_of_def)

lemma path_of_snoc: "path_of dir (q @ [n]) = path_of dir q @ CHR ''/'' # n"
  by (simp add: path_of_def)

lemma comps_path_of: "list_all plain_name q \<Longrightarrow> comps (path_of dir q) = comps dir @ q"
  by (induction q arbitrary: dir) (auto simp: comps_join)

lemma wf_entries_set: "wf_entries es \<Longrightarrow> map_of es n = Some x \<Longrightarrow> plain_name n \<and> wf_node x \<and> (n, x) \<in> set es"
  by (induction es rule: wf_entries.induct) (auto split: if_splits)

lemma lookup_plain: "wf_node fs \<Longrightarrow> lookup q fs = Some x \<Longrightarrow> list_all plain_name q \<and> wf_node x"
proof (induction q fs rule: lookup.induct)
  case (3 c cs es)
  then obtain n where n: "map_of es c = Some n" "lookup cs n = Some x" by (auto split: option.splits)
  with wf_entries_set [of es c n] 3 show ?case by auto
qed auto

lemma file_map_lookup: "file_map fs q = Some st \<longleftrightarrow> lookup q fs = Some (Reg st)"
  by (auto simp: file_map_def split: option.splits fs_node.splits)

text \<open>The files the scan visits.\<close>

lemma visits_iff:
  assumes "wf_entries es"
  shows "File_At p \<in> set (visits skip dir es) \<longleftrightarrow>
    (\<exists>q st. q \<noteq> [] \<and> file_map (Dir es) q = Some st \<and> list_all (\<lambda>n. \<not> skip n) q \<and> p = path_of dir q)"
  using assms
proof (induction skip dir es rule: visits.induct)
  case (1 skip dir)
  then show ?case by (auto simp: neq_Nil_conv)
next
  case (2 skip dir n st es)
  have key: "map_of es k = Some x \<Longrightarrow> k \<noteq> n" for k x using 2(2) by (force dest: map_of_SomeD)
  show ?case
  proof (intro iffI; (elim exE conjE)?)
    assume "File_At p \<in> set (visits skip dir ((n, Reg st) # es))"
    then consider "\<not> skip n" "p = path_of dir [n]" | "File_At p \<in> set (visits skip dir es)"
      by (auto split: if_splits)
    then show "\<exists>q s. q \<noteq> [] \<and> file_map (Dir ((n, Reg st) # es)) q = Some s \<and> list_all (\<lambda>n. \<not> skip n) q \<and> p = path_of dir q"
    proof cases
      case 1
      then show ?thesis by (intro exI [of _ "[n]"] exI [of _ st]) auto
    next
      case b: 2
      with 2 obtain q s where q: "q \<noteq> []" "file_map (Dir es) q = Some s" "list_all (\<lambda>n. \<not> skip n) q" "p = path_of dir q"
        by auto
      then show ?thesis by (intro exI [of _ q] exI [of _ s]) (cases q; auto dest: key split: option.splits)
    qed
  next
    fix q s
    assume q: "q \<noteq> []" "file_map (Dir ((n, Reg st) # es)) q = Some s" "list_all (\<lambda>n. \<not> skip n) q" "p = path_of dir q"
    then obtain k r where k: "q = k # r" by (cases q) auto
    show "File_At p \<in> set (visits skip dir ((n, Reg st) # es))"
    proof (cases "k = n")
      case True
      with q k show ?thesis by (cases r) auto
    next
      case False
      with q k have "file_map (Dir es) q = Some s" by simp
      with q 2 have "File_At p \<in> set (visits skip dir es)" by auto
      then show ?thesis by simp
    qed
  qed
next
  case (3 skip dir n es' es)
  have key: "map_of es k = Some x \<Longrightarrow> k \<noteq> n" for k x using 3(3) by (force dest: map_of_SomeD)
  show ?case
  proof (intro iffI; (elim exE conjE)?)
    assume "File_At p \<in> set (visits skip dir ((n, Dir es') # es))"
    then consider "\<not> skip n" "File_At p \<in> set (visits skip (dir @ CHR ''/'' # n) es')" | "File_At p \<in> set (visits skip dir es)"
      by (auto split: if_splits)
    then show "\<exists>q s. q \<noteq> [] \<and> file_map (Dir ((n, Dir es') # es)) q = Some s \<and> list_all (\<lambda>n. \<not> skip n) q \<and> p = path_of dir q"
    proof cases
      case 1
      with 3 obtain q s where "file_map (Dir es') q = Some s" "list_all (\<lambda>n. \<not> skip n) q"
        "p = path_of (dir @ CHR ''/'' # n) q" by auto
      with 1(1) show ?thesis by (intro exI [of _ "n # q"] exI [of _ s]) auto
    next
      case b: 2
      with 3 obtain q s where q: "q \<noteq> []" "file_map (Dir es) q = Some s" "list_all (\<lambda>n. \<not> skip n) q" "p = path_of dir q"
        by auto
      then show ?thesis by (intro exI [of _ q] exI [of _ s]) (cases q; auto dest: key split: option.splits)
    qed
  next
    fix q s
    assume q: "q \<noteq> []" "file_map (Dir ((n, Dir es') # es)) q = Some s" "list_all (\<lambda>n. \<not> skip n) q" "p = path_of dir q"
    then obtain k r where k: "q = k # r" by (cases q) auto
    show "File_At p \<in> set (visits skip dir ((n, Dir es') # es))"
    proof (cases "k = n")
      case True
      with q k have "r \<noteq> []" by (cases r) auto
      with True q k 3 have "File_At p \<in> set (visits skip (dir @ CHR ''/'' # n) es')" by auto
      with True q k show ?thesis by simp
    next
      case False
      with q k have "file_map (Dir es) q = Some s" by simp
      with q 3 have "File_At p \<in> set (visits skip dir es)" by auto
      then show ?thesis by simp
    qed
  qed
qed

text \<open>Trees with short paths; deletion keeps them short.\<close>

fun short :: "nat \<Rightarrow> string \<Rightarrow> (string \<times> fs_node) list \<Rightarrow> bool" where
  "short lim dir [] \<longleftrightarrow> length dir + 3 < lim"
| "short lim dir ((n, Reg st) # es) \<longleftrightarrow> length dir + 1 + length n + 3 < lim \<and> short lim dir es"
| "short lim dir ((n, Dir es') # es) \<longleftrightarrow> short lim dir es \<and> short lim (dir @ CHR ''/'' # n) es'"

lemma short_dir: "short lim dir es \<Longrightarrow> length dir + 3 < lim"
  by (induction lim dir es rule: short.induct) auto

lemma short_fits: "short lim dir es \<Longrightarrow> fits lim skip dir es"
  by (induction lim dir es rule: short.induct) (auto dest: short_dir)

lemma short_paths:
  "short lim dir es \<Longrightarrow> lookup q (Dir es) = Some x \<Longrightarrow> length (path_of dir q) + 3 < lim"
proof (induction lim dir es arbitrary: q rule: short.induct)
  case (1 lim dir)
  then show ?case by (cases q) auto
next
  case (2 lim dir n st es)
  show ?case
  proof (cases q)
    case Nil
    with 2 short_dir show ?thesis by auto
  next
    case (Cons k r)
    show ?thesis
    proof (cases "k = n")
      case True
      with 2 Cons show ?thesis by (cases r) auto
    next
      case False
      with 2(1) [of q] 2(2,3) Cons show ?thesis by auto
    qed
  qed
next
  case (3 lim dir n es' es)
  show ?case
  proof (cases q)
    case Nil
    with 3 short_dir show ?thesis by auto
  next
    case (Cons k r)
    show ?thesis
    proof (cases "k = n")
      case True
      with 3 Cons show ?thesis by auto
    next
      case False
      with 3(1) [of q] 3(3,4) Cons show ?thesis by auto
    qed
  qed
qed

lemma paths_short:
  "wf_entries es \<Longrightarrow> (\<And>q x. lookup q (Dir es) = Some x \<Longrightarrow> length (path_of dir q) + 3 < lim) \<Longrightarrow> short lim dir es"
proof (induction lim dir es rule: short.induct)
  case (1 lim dir)
  from 1(2) [of "[]"] show ?case by simp
next
  case (2 lim dir n st es)
  have key: "map_of es k = Some x \<Longrightarrow> k \<noteq> n" for k x using 2(2) by (force dest: map_of_SomeD)
  have "length (path_of dir q) + 3 < lim" if "lookup q (Dir es) = Some x" for q x
    using 2(3) [of q] that key by (cases q) (auto split: option.splits if_splits)
  with 2 2(3) [of "[n]"] show ?case by auto
next
  case (3 lim dir n es' es)
  have key: "map_of es k = Some x \<Longrightarrow> k \<noteq> n" for k x using 3(3) by (force dest: map_of_SomeD)
  have "length (path_of dir q) + 3 < lim" if "lookup q (Dir es) = Some x" for q x
    using 3(4) [of q] that key by (cases q) (auto split: option.splits if_splits)
  moreover have "length (path_of (dir @ CHR ''/'' # n) q) + 3 < lim" if "lookup q (Dir es') = Some x" for q x
    using 3(4) [of "n # q"] that by simp
  ultimately show ?case using 3 by auto
qed

end
