(* ===== verification/C_Getopt.thy ===== *)
theory C_Getopt
  imports C_String
begin

text \<open>
  Command lines: \<open>strtok_r\<close> on spaces, \<open>getopt\<close>, and the unsigned hexadecimal conversion of \<open>printf\<close>. The
  programs of the repository start each other with command lines they print, split and parse with
  these functions.
\<close>

section \<open>Words\<close>

text \<open>The tokens \<open>strtok_r\<close> returns one after the other for the separator space.\<close>

function tokens :: "string \<Rightarrow> string list" where
  "tokens s =
     (let s1 = dropWhile (\<lambda>c. c = CHR '' '') s
      in if s1 = [] then []
         else takeWhile (\<lambda>c. c \<noteq> CHR '' '') s1 # tokens (dropWhile (\<lambda>c. c \<noteq> CHR '' '') s1))"
  by pat_completeness auto
termination
proof (relation "measure length", goal_cases)
  case (2 s x)
  have h: "hd x \<noteq> CHR '' ''" using hd_dropWhile [of "\<lambda>c. c = CHR '' ''" s] 2 by (simp add: dropWhile_eq_Nil_conv)
  have "length (dropWhile (\<lambda>c. c \<noteq> CHR '' '') x) < length x"
    using 2(2) h by (cases x) (auto simp: le_imp_less_Suc length_dropWhile_le)
  moreover have "length x \<le> length s" using 2(1) by (simp add: length_dropWhile_le)
  ultimately show ?case by simp
qed simp

declare tokens.simps [simp del]

lemma tokens_Nil [simp]: "tokens [] = []"
  by (simp add: tokens.simps)

lemma tokens_space [simp]: "tokens (CHR '' '' # s) = tokens s"
  by (subst tokens.simps, subst (2) tokens.simps) simp

lemma takeWhile_word: "CHR '' '' \<notin> set w \<Longrightarrow> takeWhile (\<lambda>c. c \<noteq> CHR '' '') w = w"
  by (simp add: takeWhile_eq_all_conv) (metis)

lemma dropWhile_word: "CHR '' '' \<notin> set w \<Longrightarrow> dropWhile (\<lambda>c. c \<noteq> CHR '' '') w = []"
  by (simp add: dropWhile_eq_Nil_conv) (metis)

lemma word_cut:
  assumes "CHR '' '' \<notin> set w"
  shows "takeWhile (\<lambda>c. c \<noteq> CHR '' '') (w @ CHR '' '' # s) = w"
    "dropWhile (\<lambda>c. c \<noteq> CHR '' '') (w @ CHR '' '' # s) = CHR '' '' # s"
  using assms by (induction w) auto

lemma dropWhile_spaces_word:
  "w \<noteq> [] \<Longrightarrow> CHR '' '' \<notin> set w \<Longrightarrow> dropWhile (\<lambda>c. c = CHR '' '') (w @ s) = w @ s"
  by (cases w) auto

lemma tokens_word [simp]: "w \<noteq> [] \<Longrightarrow> CHR '' '' \<notin> set w \<Longrightarrow> tokens w = [w]"
  using dropWhile_spaces_word [of w "[]"]
  by (subst tokens.simps) (simp add: Let_def takeWhile_word dropWhile_word)

lemma tokens_cons [simp]:
  "w \<noteq> [] \<Longrightarrow> CHR '' '' \<notin> set w \<Longrightarrow> tokens (w @ CHR '' '' # s) = w # tokens s"
  using dropWhile_spaces_word [of w "CHR '' '' # s"] by (subst tokens.simps) (simp add: Let_def word_cut)

lemma tokens_option [simp]:
  "c \<noteq> CHR '' '' \<Longrightarrow> tokens (CHR ''-'' # c # CHR '' '' # s) = [CHR ''-'', c] # tokens s"
  using tokens_cons [of "[CHR ''-'', c]" s] by simp

section \<open>Options\<close>

text \<open>Whether an option letter is known and takes an argument, by the option string of \<open>getopt\<close>.\<close>

definition takes_arg :: "string \<Rightarrow> char \<Rightarrow> bool option" where
  "takes_arg optstring c =
     (if c = CHR '':'' then None
      else map_option (\<lambda>r. tl r \<noteq> [] \<and> hd (tl r) = CHR '':'') (strchr optstring c))"

text \<open>
  The letters of one word; the second component is a letter whose argument is the next word. For an
  unknown letter \<open>getopt\<close> returns \<open>?\<close>; here the letter (\<open>optopt\<close>) takes the place of its argument.
\<close>

fun getopt_cluster :: "string \<Rightarrow> string \<Rightarrow> (char \<times> string) list \<times> char option" where
  "getopt_cluster os [] = ([], None)"
| "getopt_cluster os (c # cs) =
     (case takes_arg os c of
        Some True \<Rightarrow> if cs \<noteq> [] then ([(c, cs)], None) else ([], Some c)
      | Some False \<Rightarrow> (case getopt_cluster os cs of (l, n) \<Rightarrow> ((c, []) # l, n))
      | None \<Rightarrow> (case getopt_cluster os cs of (l, n) \<Rightarrow> ((CHR ''?'', [c]) # l, n)))"

text \<open>
  What the calls of \<open>getopt\<close> return for the words behind the program name, and the words that are no
  options, which the C library moves behind them. The value for a missing argument is \<open>:\<close> when the option
  string starts with it.
\<close>

fun getopt_words :: "string \<Rightarrow> string list \<Rightarrow> (char \<times> string) list" where
  "getopt_words os [] = []"
| "getopt_words os (w # ws) =
     (if length w < 2 \<or> hd w \<noteq> CHR ''-'' then getopt_words os ws
      else if w = ''--'' then []
      else (case getopt_cluster os (tl w) of
              (l, None) \<Rightarrow> l @ getopt_words os ws
            | (l, Some c) \<Rightarrow>
                (case ws of
                   [] \<Rightarrow> l @ [(if os \<noteq> [] \<and> hd os = CHR '':'' then CHR '':'' else CHR ''?'', [c])]
                 | v # vs \<Rightarrow> l @ (c, v) # getopt_words os vs)))"

fun getopt_rest :: "string \<Rightarrow> string list \<Rightarrow> string list" where
  "getopt_rest os [] = []"
| "getopt_rest os (w # ws) =
     (if length w < 2 \<or> hd w \<noteq> CHR ''-'' then w # getopt_rest os ws
      else if w = ''--'' then ws
      else (case getopt_cluster os (tl w) of
              (l, None) \<Rightarrow> getopt_rest os ws
            | (l, Some c) \<Rightarrow> (case ws of [] \<Rightarrow> [] | v # vs \<Rightarrow> getopt_rest os vs)))"

lemma getopt_option:
  "takes_arg os c = Some True \<Longrightarrow> c \<noteq> CHR ''-'' \<Longrightarrow>
   getopt_words os ([CHR ''-'', c] # v # ws) = (c, v) # getopt_words os ws"
  by simp

section \<open>Hexadecimal output\<close>

definition hex_char :: "nat \<Rightarrow> char" where
  "hex_char d = (if d < 10 then char_of (48 + d) else char_of (55 + d))"

fun hex_str :: "nat \<Rightarrow> string" where
  "hex_str n = (if n < 16 then [hex_char n] else hex_str (n div 16) @ [hex_char (n mod 16)])"

declare hex_str.simps [simp del]

definition hex02 :: "nat \<Rightarrow> string" where
  "hex02 n = pad_left CHR ''0'' 2 (hex_str n)"

end
