(* ===== verification/Agent_Config.thy ===== *)
theory Agent_Config
  imports C_Getopt
begin

text \<open>
  The configuration of the recording agent (\<open>reagent_config.c\<close>, \<open>reagent_config.h\<close>): the table of
  recorders and cameras, how it is filled from the parsed configuration files, the lookup of a camera by
  its name, and the command lines of the recorder processes. Reading a configuration file, talking to a
  camera, and constants of headers outside the repository are fields of \<open>conf_env\<close>. The word list
  (\<open>lwe_t\<close>) of a worker is \<open>None\<close> when its pointer is null. Calls that act on processes are returned
  as a list of \<open>proc_call\<close>.
\<close>

unbundle bit_operations_syntax

section \<open>Data\<close>

definition MAX_CAM_NAME_SIZE :: nat where "MAX_CAM_NAME_SIZE = 12"
definition MAX_URI :: nat where "MAX_URI = 64"
definition MAX_CAMS :: nat where "MAX_CAMS = 16"
definition MAX_RECORDERS :: nat where "MAX_RECORDERS = 8"
definition BUFF_SIZE_1KB :: nat where "BUFF_SIZE_1KB = 1024"
definition LWE_MAXARG :: nat where "LWE_MAXARG = 32"

definition DO_RECORD_CHM_VIDEO :: u32 where "DO_RECORD_CHM_VIDEO = 0x01"
definition DO_RECORD_CHM_AUDIO :: u32 where "DO_RECORD_CHM_AUDIO = 0x02"
definition DO_RECORD_SSD_VIDEO :: u32 where "DO_RECORD_SSD_VIDEO = 0x04"
definition DO_RECORD_SSD_AUDIO :: u32 where "DO_RECORD_SSD_AUDIO = 0x08"
definition DONT_USE_CHM :: u32 where "DONT_USE_CHM = 0x10"

definition RTSPREC_APP :: string where "RTSPREC_APP = ''/opt/reagent/bin/rtsprec''"
definition METAREC_APP :: string where "METAREC_APP = ''/opt/reagent/bin/metarec''"
definition SPACEMON_APP :: string where "SPACEMON_APP = ''/opt/reagent/bin/space_monitor''"

record worker =
  worker_pid :: int
  worker_cmd :: string
  lwe_words :: "string list option"

record cam_runtime_s =
  is_assigned :: bool
  is_online :: int
  rt_resolution :: int
  rt_compression :: int
  rt_frame_rate :: int
  rt_max_age :: int
  rt_is_essential :: int
  recording_mode_flags :: u32
  recording_status_flags :: u32
  commanded_paused :: bool

record camdef =
  cam_name :: string
  disp_mac :: string
  cam_model :: string
  homepage :: string
  stream_url :: string
  snapshot_url :: string
  mjpeg_url :: string
  chm_auto_rec :: string
  rssd_auto_rec :: string
  conf_resolution :: string
  conf_compression :: string
  conf_frame_rate :: string
  do_audio :: string
  mount_type :: string
  accessory_pwr :: string
  conf_is_essential :: string
  max_age :: string
  cam_rt :: cam_runtime_s
  cam_worker :: worker

record media_info =
  rec_ser_num :: string
  chunk_length :: string
  staging_base :: string
  chm_footage_base :: string
  rssd_footage_base :: string
  media_max_age :: string
  cameras :: "camdef list"
  n_cameras :: nat
  metaworker :: worker
  spacemonitor :: worker
  camon_sock :: int
  is_chm_ready :: bool
  is_rssd_ready :: bool
  n_cams_recording :: int
  rt_loco_id :: string

datatype proc_signal = SIGHUP | SIGQUIT | SIGKILL
datatype proc_call = Kill int proc_signal | Waitpid int | Camon_deinit int

record conf_env =
  malloc_ok :: bool
  MAX_LOCO_ID_SIZE :: nat
  get_cfg_params :: "string option \<Rightarrow> media_info option"
  ovc_set_date_and_time :: "string \<Rightarrow> int"
  ovc_set_rcf :: "string \<Rightarrow> int \<Rightarrow> int \<Rightarrow> int \<Rightarrow> int"
  camon_init :: int
  uc_chm_ready :: bool
  uc_rssd_ready :: bool

section \<open>Words, strings and flags\<close>

definition l_wordexp :: "conf_env \<Rightarrow> string \<Rightarrow> string list option" where
  "l_wordexp E s = (if s = [] \<or> \<not> malloc_ok E then None else Some (take LWE_MAXARG (tokens s)))"

definition str2bool :: "string option \<Rightarrow> bool" where
  "str2bool p =
     (case p of
        Some (c # _) \<Rightarrow> c = CHR ''1'' \<or> c = CHR ''T'' \<or> c = CHR ''t'' \<or> c = CHR ''Y'' \<or> c = CHR ''y''
      | _ \<Rightarrow> False)"

definition is_hex :: "char \<Rightarrow> bool" where
  "is_hex c \<longleftrightarrow> is_digit c \<or> (65 \<le> (of_char c :: nat) \<and> (of_char c :: nat) \<le> 70) \<or>
     (97 \<le> (of_char c :: nat) \<and> (of_char c :: nat) \<le> 102)"

text \<open>The loop that copies hexadecimal digits; \<open>n\<close> digits are still wanted.\<close>

fun mac_digits :: "nat \<Rightarrow> string \<Rightarrow> string" where
  "mac_digits 0 s = []"
| "mac_digits (Suc n) [] = []"
| "mac_digits (Suc n) (c # s) = (if is_hex c then c # mac_digits n s else mac_digits (Suc n) s)"

definition canonical_mac :: "string \<Rightarrow> string" where
  "canonical_mac mac = (let d = mac_digits 12 mac in d @ replicate (12 - length d) (CHR ''0''))"

definition pad_underscores :: "nat \<Rightarrow> string \<Rightarrow> string" where
  "pad_underscores n s = (if length s < n then s @ replicate (n - length s) (CHR ''_'') else s)"

section \<open>Command lines\<close>

definition metarec_flags :: "media_info \<Rightarrow> u32" where
  "metarec_flags m = (if is_chm_ready m then 0x01 else 0) OR (if is_rssd_ready m then 0x02 else 0)"

definition metarec_cmdline :: "media_info \<Rightarrow> string" where
  "metarec_cmdline m =
     METAREC_APP @ '' -l '' @ rt_loco_id m @ '' -d '' @ chunk_length m @ '' -r '' @ hex02 (unat (metarec_flags m)) @
     '' -1 '' @ chm_footage_base m @ '' -2 '' @ rssd_footage_base m"

definition raconf_prepare_for_metarecording :: "conf_env \<Rightarrow> media_info \<Rightarrow> media_info \<times> proc_call list" where
  "raconf_prepare_for_metarecording E m =
     (let w = metaworker m;
          calls = (if worker_pid w \<noteq> 0 then [Kill (worker_pid w) SIGHUP, Waitpid (worker_pid w)] else []);
          cmd = snprintf 511 (metarec_cmdline m)
      in (m\<lparr>metaworker := \<lparr>worker_pid = 0, worker_cmd = cmd, lwe_words = l_wordexp E cmd\<rparr>\<rparr>, calls))"

definition rtsprec_cmdline :: "media_info \<Rightarrow> camdef \<Rightarrow> string" where
  "rtsprec_cmdline m c =
     RTSPREC_APP @ '' -l '' @ rt_loco_id m @ '' -c '' @ cam_name c @ '' -m '' @ canonical_mac (disp_mac c) @
     '' -d '' @ chunk_length m @ '' -r '' @ hex02 (unat (recording_mode_flags (cam_rt c))) @ '' -f 0 -1 '' @
     chm_footage_base m @ '' -2 '' @ rssd_footage_base m @ '' '' @ stream_url c"

definition raconf_prepare_for_recording :: "conf_env \<Rightarrow> media_info \<Rightarrow> camdef \<Rightarrow> int \<times> camdef" where
  "raconf_prepare_for_recording E m c =
     (let cmd = snprintf BUFF_SIZE_1KB (rtsprec_cmdline m c);
          c1 = c\<lparr>cam_worker := (cam_worker c)\<lparr>worker_cmd := cmd, lwe_words := l_wordexp E cmd\<rparr>\<rparr>;
          rt = cam_rt c
      in (if is_online rt \<noteq> 0 then ovc_set_rcf E (homepage c) (rt_resolution rt) (rt_compression rt) (rt_frame_rate rt)
          else 1, c1))"

section \<open>Reading the configuration\<close>

text \<open>What is set in a camera that the configuration file does not contain.\<close>

definition init_camera :: "camdef \<Rightarrow> camdef" where
  "init_camera c =
     c\<lparr>cam_rt := (cam_rt c)\<lparr>rt_resolution := atoi (conf_resolution c), rt_compression := atoi (conf_compression c),
         rt_frame_rate := atoi (conf_frame_rate c), rt_is_essential := atoi (conf_is_essential c),
         is_assigned := disp_mac c \<noteq> [] \<and> stream_url c \<noteq> [], is_online := 0,
         recording_mode_flags := 0, recording_status_flags := 0\<rparr>,
       cam_name := pad_underscores MAX_CAM_NAME_SIZE (cam_name c)\<rparr>"

text \<open>The cameras up to the first one without a name.\<close>

fun init_cameras :: "(camdef \<Rightarrow> camdef) \<Rightarrow> camdef list \<Rightarrow> nat \<times> camdef list" where
  "init_cameras f [] = (0, [])"
| "init_cameras f (c # cs) =
     (if cam_name c = [] then (0, c # cs)
      else (case init_cameras f cs of (n, cs') \<Rightarrow> (Suc n, f c # cs')))"

definition init_media :: "conf_env \<Rightarrow> (camdef \<Rightarrow> camdef) \<Rightarrow> media_info \<Rightarrow> media_info" where
  "init_media E f m =
     (let (n, cs) = init_cameras f (take MAX_CAMS (cameras m))
      in m\<lparr>n_cameras := n_cameras m + n, cameras := cs @ drop MAX_CAMS (cameras m),
           rt_loco_id := (if 0 < n then pad_underscores (MAX_LOCO_ID_SIZE E) (rt_loco_id m) else rt_loco_id m)\<rparr>)"

text \<open>
  The files of the command line; when none can be read, the file that the loop index has reached is tried
  once more, which is the null pointer behind the last argument.
\<close>

definition read_configs :: "conf_env \<Rightarrow> string list \<Rightarrow> media_info list" where
  "read_configs E files =
     (let ms = List.map_filter (\<lambda>f. get_cfg_params E (Some f)) (take MAX_RECORDERS files);
          next = (if length files \<le> MAX_RECORDERS then None else Some (files ! MAX_RECORDERS))
      in if ms \<noteq> [] then ms else (case get_cfg_params E next of Some m \<Rightarrow> [m] | None \<Rightarrow> []))"

text \<open>\<open>raconf_parse\<close>: the new table; without a file, or with a dash as the first, the table is kept.\<close>

definition raconf_parse :: "conf_env \<Rightarrow> string list \<Rightarrow> media_info list \<Rightarrow> media_info list" where
  "raconf_parse E files conf =
     (if files = [] \<or> hd files = ''-'' then conf
      else map (init_media E (\<lambda>c. let c1 = init_camera c in c1\<lparr>cam_rt := (cam_rt c1)\<lparr>commanded_paused := False\<rparr>\<rparr>))
             (read_configs E files))"

text \<open>In \<open>raconf_init\<close> a camera's old process is killed and its words are freed.\<close>

definition reset_camera :: "camdef \<Rightarrow> camdef" where
  "reset_camera c = (let c1 = init_camera c in c1\<lparr>cam_worker := (cam_worker c1)\<lparr>lwe_words := None\<rparr>\<rparr>)"

definition camera_kills :: "camdef list \<Rightarrow> proc_call list" where
  "camera_kills cs =
     concat (map (\<lambda>c. if worker_pid (cam_worker c) \<noteq> 0 then [Kill (worker_pid (cam_worker c)) SIGHUP] else [])
       (takeWhile (\<lambda>c. cam_name c \<noteq> []) (take MAX_CAMS cs)))"

definition spacemon_cmdline :: "int \<Rightarrow> media_info \<Rightarrow> string" where
  "spacemon_cmdline age m =
     SPACEMON_APP @ '' -l '' @ int_str age @ '' '' @ chm_footage_base m @ '' '' @ rssd_footage_base m"

text \<open>One recorder; \<open>age\<close> is the variable \<open>max_age\<close>, which keeps its value from the recorder before.\<close>

definition init_recorder :: "conf_env \<Rightarrow> media_info \<Rightarrow> int \<Rightarrow> media_info \<times> int \<times> proc_call list" where
  "init_recorder E m age =
     (let calls = (if camon_sock m > 0 then [Camon_deinit (camon_sock m)] else []) @ camera_kills (cameras m) @
                  (if worker_pid (spacemonitor m) \<noteq> 0 then [Kill (worker_pid (spacemonitor m)) SIGQUIT] else []);
          m1 = init_media E reset_camera
                 (m\<lparr>is_chm_ready := uc_chm_ready E, is_rssd_ready := uc_rssd_ready E, camon_sock := camon_init E\<rparr>);
          age1 = (if media_max_age m \<noteq> [] then atoi (media_max_age m) else age);
          cmd = snprintf 1023 (spacemon_cmdline age1 m1)
      in (m1\<lparr>spacemonitor := (spacemonitor m1)\<lparr>worker_cmd := cmd, lwe_words := l_wordexp E cmd\<rparr>\<rparr>, age1, calls))"

fun init_recorders :: "conf_env \<Rightarrow> media_info list \<Rightarrow> int \<Rightarrow> media_info list \<times> proc_call list" where
  "init_recorders E [] age = ([], [])"
| "init_recorders E (m # ms) age =
     (case init_recorder E m age of
        (m1, age1, calls) \<Rightarrow> (case init_recorders E ms age1 of (ms1, calls1) \<Rightarrow> (m1 # ms1, calls @ calls1)))"

definition raconf_init :: "conf_env \<Rightarrow> string list \<Rightarrow> media_info list \<Rightarrow> media_info list \<times> proc_call list" where
  "raconf_init E files conf =
     (if files = [] \<or> hd files = ''-'' then (conf, [])
      else init_recorders E (read_configs E files) 0)"

section \<open>Lookup\<close>

definition raconf_get_media_info :: "media_info list \<Rightarrow> int \<Rightarrow> media_info option" where
  "raconf_get_media_info conf irec = (if 0 \<le> irec \<and> irec < int (length conf) then Some (conf ! nat irec) else None)"

definition to_lower :: "char \<Rightarrow> char" where
  "to_lower c = (if 65 \<le> (of_char c :: nat) \<and> (of_char c :: nat) \<le> 90 then char_of ((of_char c :: nat) + 32) else c)"

text \<open>\<open>strncasecmp\<close> with the result 0.\<close>

definition same_name :: "nat \<Rightarrow> string \<Rightarrow> string \<Rightarrow> bool" where
  "same_name n a b \<longleftrightarrow> map to_lower (take n a) = map to_lower (take n b)"

text \<open>
  \<open>raconf_find_camera\<close>: the index of the first camera whose name starts with the given one.
\<close>

fun find_index :: "('a \<Rightarrow> bool) \<Rightarrow> 'a list \<Rightarrow> nat option" where
  "find_index P [] = None"
| "find_index P (x # xs) = (if P x then Some 0 else map_option Suc (find_index P xs))"

definition raconf_find_camera :: "media_info option \<Rightarrow> string option \<Rightarrow> nat option" where
  "raconf_find_camera p_minfo p_name =
     (case (p_name, p_minfo) of
        (Some nm, Some m) \<Rightarrow>
          if nm = [] then None
          else find_index (\<lambda>c. same_name (length nm) nm (cam_name c)) (take (n_cameras m) (cameras m))
      | _ \<Rightarrow> None)"

end
