(* ===== verification/Space_Monitor.thy ===== *)
theory Space_Monitor
  imports Complex_Main Chunk_Name Dir_Delete Agent_Config
begin

text \<open>
  The space monitor (\<open>ra_space_monitor.c\<close>): it deletes the oldest recorded file of a drive while the free
  space is below a threshold, and the oldest file of a camera while the camera's recordings last longer
  than its configured age. The tree of each drive is one \<open>fs_node\<close>; \<open>statvfs\<close>, the float rounding, the
  local time zone and the permission to delete are parameters, as are the names in \<open>reagent_config\<close>.
\<close>

section \<open>Environment and constants\<close>

record mon_env =
  drive_path :: "nat \<Rightarrow> string"
  eCHM :: nat
  eRSSD :: nat
  statvfs :: "fs_node \<Rightarrow> string \<Rightarrow> (nat \<times> nat) option"
  rnd :: "rat \<Rightarrow> rat"
  may_delete :: "string \<Rightarrow> bool"
  local_mktime :: "tm \<Rightarrow> int"
  mon_name_len :: nat
  mon_mac_len :: nat

definition FREE_SPACE_LIMIT :: int where "FREE_SPACE_LIMIT = 20"
definition MAX_TIME_T :: int where "MAX_TIME_T = 2147483647"
definition PATH_MAX_RA :: nat where "PATH_MAX_RA = 1024"
definition MAX_CAMERA_COUNT :: nat where "MAX_CAMERA_COUNT = 16"

record time_based_camera =
  full_path :: string
  max_usec :: u64

section \<open>Free space\<close>

text \<open>
  A float value; \<open>None\<close> is an infinity or a NaN, which is not below any threshold. On failure the C
  function returns \<open>EXIT_FAILURE\<close>, the number 1.
\<close>

definition process_available_space :: "mon_env \<Rightarrow> fs_node \<Rightarrow> string \<Rightarrow> rat option" where
  "process_available_space E fs path =
     (case statvfs E fs path of
        None \<Rightarrow> Some 1
      | Some (f_bavail, f_blocks) \<Rightarrow>
          if f_blocks = 0 then None
          else Some (rnd E (rnd E (rnd E (of_nat f_bavail) / rnd E (of_nat f_blocks)) * 100)))"

definition below :: "rat option \<Rightarrow> int \<Rightarrow> bool" where
  "below x t = (case x of None \<Rightarrow> False | Some v \<Rightarrow> v < of_int t)"

section \<open>Names\<close>

definition get_file_duration :: "string \<Rightarrow> int" where
  "get_file_duration file_path =
     (case strrchr file_path CHR ''/'' of None \<Rightarrow> - 1 | Some f \<Rightarrow> name_duration (tl f))"

definition file_name_to_epoch_sm :: "mon_env \<Rightarrow> string \<Rightarrow> int" where
  "file_name_to_epoch_sm E file_path =
     (case strrchr file_path CHR ''/'' of
        None \<Rightarrow> MAX_TIME_T
      | Some f \<Rightarrow> local_mktime E (name_tm (tl f)))"

definition is_dir_empty :: "fs_node \<Rightarrow> string \<Rightarrow> int" where
  "is_dir_empty fs dir =
     (case readdir_all fs dir of None \<Rightarrow> 0 | Some ns \<Rightarrow> if length ns > 2 then 0 else 1)"

section \<open>The oldest file\<close>

definition skip_oldest :: "string \<Rightarrow> bool" where
  "skip_oldest n \<longleftrightarrow> n = ''..'' \<or> n = ''.'' \<or> n = ''lost+found'' \<or> n = ''staging''"

definition oldest_step :: "mon_env \<Rightarrow> string \<Rightarrow> string \<times> int \<Rightarrow> string \<times> int" where
  "oldest_step E path acc =
     (let t = file_name_to_epoch_sm E path
      in if t \<noteq> MAX_TIME_T \<and> t < snd acc then (path, t) else acc)"

definition find_oldest_file :: "mon_env \<Rightarrow> fs_node \<Rightarrow> string \<Rightarrow> string \<times> int \<Rightarrow> string \<times> int" where
  "find_oldest_file E fs dir_path acc =
     scan_dir PATH_MAX_RA skip_oldest (oldest_step E) (\<lambda>_ _ s. s) fs dir_path acc"

text \<open>The removal of empty directories above a deleted file, at most \<open>k\<close> of them.\<close>

fun remove_dirs :: "mon_env \<Rightarrow> nat \<Rightarrow> string \<Rightarrow> fs_node \<Rightarrow> fs_node" where
  "remove_dirs E 0 d fs = fs"
| "remove_dirs E (Suc k) d fs =
     (if basename d \<noteq> ''VideoFootages'' then
        if is_dir_empty fs d = 0 then fs
        else remove_dirs E k (dirname d) (snd (c_rmdir (may_delete E) d fs))
      else remove_dirs E k (dirname d) fs)"

definition path_to_search :: "mon_env \<Rightarrow> nat \<Rightarrow> string option \<Rightarrow> string" where
  "path_to_search E drive camera =
     snprintf PATH_MAX_RA
       (case camera of
          Some c \<Rightarrow> drive_path E drive @ ''/'' @ c @ ''/''
        | None \<Rightarrow> drive_path E drive @ ''/'')"

definition delete_oldest_file :: "mon_env \<Rightarrow> nat \<Rightarrow> string option \<Rightarrow> fs_node \<Rightarrow> exit_code \<times> fs_node" where
  "delete_oldest_file E drive camera fs =
     (if drive > 1 then (EXIT_FAILURE, fs)
      else let (oldest_file, _) = find_oldest_file E fs (path_to_search E drive camera) ([], MAX_TIME_T);
               (rc, fs1) = c_remove (may_delete E) oldest_file fs
           in if rc \<noteq> 0 then (EXIT_FAILURE, fs1)
              else (EXIT_SUCCESS, remove_dirs E 5 (dirname oldest_file) fs1))"

section \<open>Grooming by free space\<close>

definition drive_of :: "mon_env \<Rightarrow> string \<Rightarrow> nat" where
  "drive_of E base = (if strstr base ''chm'' = None then eRSSD E else eCHM E)"

partial_function (option) space_loop ::
    "mon_env \<Rightarrow> int \<Rightarrow> string \<Rightarrow> rat option \<Rightarrow> fs_node \<Rightarrow> fs_node option" where
  "space_loop E space_threshold base avail fs =
     (if below avail space_threshold then
        (case delete_oldest_file E (drive_of E base) None fs of
           (EXIT_FAILURE, fs1) \<Rightarrow> Some fs1
         | (EXIT_SUCCESS, fs1) \<Rightarrow>
             space_loop E space_threshold base (process_available_space E fs1 base) fs1)
      else Some fs)"

definition space_handler :: "mon_env \<Rightarrow> int \<Rightarrow> string \<Rightarrow> fs_node \<Rightarrow> fs_node option" where
  "space_handler E space_threshold base fs =
     (let avail = process_available_space E fs base
      in if avail \<noteq> Some 1 then space_loop E space_threshold base avail fs else Some fs)"

section \<open>Grooming by age\<close>

definition skip_duration :: "string \<Rightarrow> bool" where
  "skip_duration n \<longleftrightarrow> skip_oldest n \<or> n = ''METADATA''"

text \<open>The durations are added in \<open>uint64_t\<close>, where the failure value \<open>-1\<close> wraps.\<close>

definition process_duration :: "fs_node \<Rightarrow> string \<Rightarrow> u64" where
  "process_duration fs dir_path =
     scan_dir PATH_MAX_RA skip_duration (\<lambda>path s. s + word_of_int (get_file_duration path))
       (\<lambda>_ _ s. s) fs dir_path 0"

partial_function (option) groom_loop ::
    "mon_env \<Rightarrow> nat \<Rightarrow> string \<Rightarrow> time_based_camera \<Rightarrow> u64 \<Rightarrow> fs_node \<Rightarrow> fs_node option" where
  "groom_loop E drive path cam current_duration fs =
     (if current_duration > max_usec cam then
        let fs1 = snd (delete_oldest_file E drive (Some (full_path cam)) fs)
        in groom_loop E drive path cam (process_duration fs1 path) fs1
      else Some fs)"

definition groom_handler :: "mon_env \<Rightarrow> string \<Rightarrow> time_based_camera \<Rightarrow> fs_node \<Rightarrow> fs_node option" where
  "groom_handler E base cam fs =
     (let path = snprintf PATH_MAX_RA (base @ ''/'' @ full_path cam)
      in groom_loop E (drive_of E base) path cam (process_duration fs path) fs)"

section \<open>Options, configuration and the main loop\<close>

text \<open>The option loop returns the threshold, as \<open>Inl\<close> when it ends with a usage message.\<close>

fun monitor_options :: "(char \<times> string) list \<Rightarrow> int \<Rightarrow> int + int" where
  "monitor_options [] thr = Inr thr"
| "monitor_options ((opt, optarg) # os) thr =
     (if opt = CHR ''v'' then monitor_options os thr
      else if opt = CHR ''l'' then
        monitor_options os
          (let v = atoi optarg in if v < 20 \<or> v = 999999 then 20 else v)
      else Inl thr)"

text \<open>\<open>parse_arg\<close>: the exit code, the threshold and the directories (at most 16).\<close>

definition parse_arg :: "(char \<times> string) list \<Rightarrow> string list \<Rightarrow> exit_code \<times> int \<times> string list" where
  "parse_arg opts args =
     (case monitor_options opts FREE_SPACE_LIMIT of
        Inl thr \<Rightarrow> (EXIT_SUCCESS, thr, [])
      | Inr thr \<Rightarrow> if args = [] then (EXIT_FAILURE, thr, []) else (EXIT_SUCCESS, thr, take 16 args))"

text \<open>\<open>sscanf\<close> with \<open>%lu\<close>.\<close>

definition sscanf_u64 :: "string \<Rightarrow> u64 option" where
  "sscanf_u64 s =
     (case dropWhile is_space s of
        [] \<Rightarrow> None
      | c # r \<Rightarrow>
          (let neg = (c = CHR ''-''); ds = (if neg \<or> c = CHR ''+'' then r else c # r)
           in if ds = [] \<or> \<not> is_digit (hd ds) then None
              else let v = digits_val 0 ds
                   in Some (if v > 18446744073709551615 then - 1
                            else if neg then word_of_int (- v) else word_of_int v)))"

text \<open>
  The table of the cameras with an age limit. \<open>crt\<close> keeps its value from one camera to the next. A name
  that fills the 13 bytes of \<open>cname\<close> is read beyond them, and more than 16 entries are written behind
  the table (\<open>None\<close>).
\<close>

fun time_based_cameras ::
    "mon_env \<Rightarrow> camdef list \<Rightarrow> u64 \<Rightarrow> time_based_camera list \<Rightarrow> time_based_camera list option" where
  "time_based_cameras E [] crt tab = Some tab"
| "time_based_cameras E (c # cs) crt tab =
     (if disp_mac c \<noteq> [] \<and> max_age c \<noteq> [] then
        if length (cam_name c) > 12 then None else
        let crt1 = (case sscanf_u64 (max_age c) of Some v \<Rightarrow> v | None \<Rightarrow> crt) * 60 * 60 * 1000000
        in if crt1 > 0 then
             if length tab \<ge> MAX_CAMERA_COUNT then None
             else time_based_cameras E cs crt1
               (tab @ [\<lparr>full_path = snprintf (mon_name_len E + mon_mac_len E + 1)
                          (cam_name c @ ''.'' @ disp_mac c), max_usec = crt1\<rparr>])
           else time_based_cameras E cs crt1 tab
      else time_based_cameras E cs crt tab)"

text \<open>
  One pass of the main loop over the directories; \<open>ctrl i\<close> says that the grooming control file exists when
  directory \<open>i\<close> is its turn.
\<close>

definition monitor_dir ::
    "mon_env \<Rightarrow> int \<Rightarrow> time_based_camera list \<Rightarrow> bool \<Rightarrow> string \<Rightarrow> fs_node \<Rightarrow> fs_node option" where
  "monitor_dir E thr tab ctrl base fs =
     (if ctrl then Some fs
      else (case space_handler E thr base fs of
              None \<Rightarrow> None
            | Some fs1 \<Rightarrow> foldM (groom_handler E base) tab fs1))"

definition monitor_pass ::
    "mon_env \<Rightarrow> int \<Rightarrow> time_based_camera list \<Rightarrow> (nat \<Rightarrow> bool) \<Rightarrow> string list \<Rightarrow> fs_node \<Rightarrow> fs_node option" where
  "monitor_pass E thr tab ctrl bases fs =
     foldM (\<lambda>i. monitor_dir E thr tab (ctrl i) (bases ! i)) [0..<length bases] fs"

end
