(* ===== verification/Space_Props.thy ===== *)
theory Space_Props
  imports Space_Monitor
begin

text \<open>
  What grooming does to a drive: which file a deletion removes, which directories go with it, that the
  free-space loop ends and removes files in the order of their times, and when the loop by age does.
\<close>

section \<open>Monitored directories and eligible files\<close>

definition monitored :: "string \<Rightarrow> fs_node \<Rightarrow> bool" where
  "monitored dir fs \<longleftrightarrow> wf_node fs \<and> dir \<noteq> [] \<and> hd dir = CHR ''/'' \<and> list_all plain_name (comps dir) \<and>
     (case resolve fs dir of Some (Dir es) \<Rightarrow> short PATH_MAX_RA dir es | _ \<Rightarrow> True)"

definition epoch_of :: "mon_env \<Rightarrow> string \<Rightarrow> string list \<Rightarrow> int" where
  "epoch_of E dir q = file_name_to_epoch_sm E (path_of dir q)"

definition eligible :: "mon_env \<Rightarrow> string \<Rightarrow> fs_node \<Rightarrow> string list \<Rightarrow> bool" where
  "eligible E dir fs q \<longleftrightarrow> q \<noteq> [] \<and> file_map fs (comps dir @ q) \<noteq> None \<and>
     list_all (\<lambda>n. \<not> skip_oldest n) q \<and> epoch_of E dir q < MAX_TIME_T"

text \<open>The parent directories of a deleted file that may disappear with it.\<close>

definition pruned :: "string list \<Rightarrow> fs_node \<Rightarrow> fs_node \<Rightarrow> bool" where
  "pruned c fs fs' \<longleftrightarrow> (\<forall>d. is_dir fs' d \<longrightarrow> is_dir fs d) \<and>
     (\<forall>d. is_dir fs d \<and> \<not> is_dir fs' d \<longrightarrow> strict_prefix d c \<and> last d \<noteq> ''VideoFootages'')"

section \<open>Finding the oldest file\<close>

lemma fold_oldest:
  assumes "fold (do_visit (oldest_step E) (\<lambda>_ _ s. s)) vs (p0, m0) = (p1, m1)" "m0 \<le> MAX_TIME_T"
  shows "m1 \<le> m0 \<and> (\<forall>p. File_At p \<in> set vs \<longrightarrow> m1 \<le> file_name_to_epoch_sm E p) \<and>
    ((p1, m1) = (p0, m0) \<or>
     (File_At p1 \<in> set vs \<and> m1 = file_name_to_epoch_sm E p1 \<and> m1 < MAX_TIME_T))"
  using assms
proof (induction vs arbitrary: p0 m0)
  case (Cons v vs)
  show ?case
  proof (cases v)
    case (File_At p)
    let ?t = "file_name_to_epoch_sm E p"
    have st: "oldest_step E p (p0, m0) = (if ?t \<noteq> MAX_TIME_T \<and> ?t < m0 then (p, ?t) else (p0, m0))"
      by (simp add: oldest_step_def Let_def)
    show ?thesis
    proof (cases "?t \<noteq> MAX_TIME_T \<and> ?t < m0")
      case True
      with Cons.prems have "fold (do_visit (oldest_step E) (\<lambda>_ _ s. s)) vs (p, ?t) = (p1, m1)"
        by (simp add: File_At st)
      from Cons.IH [OF this] True Cons.prems(2) show ?thesis by (auto simp: File_At)
    next
      case False
      with Cons.prems have "fold (do_visit (oldest_step E) (\<lambda>_ _ s. s)) vs (p0, m0) = (p1, m1)"
        by (auto simp: File_At st)
      from Cons.IH [OF this Cons.prems(2)] False Cons.prems(2) show ?thesis by (auto simp: File_At)
    qed
  next
    case (Left_Dir d n)
    with Cons.prems have "fold (do_visit (oldest_step E) (\<lambda>_ _ s. s)) vs (p0, m0) = (p1, m1)" by simp
    from Cons.IH [OF this Cons.prems(2)] show ?thesis by (simp add: Left_Dir)
  qed
qed simp

lemma resolve_wf:
  assumes "monitored dir fs" "resolve fs dir = Some (Dir es)"
  shows "lookup (comps dir) fs = Some (Dir es)" "wf_entries es" "short PATH_MAX_RA dir es"
proof -
  show l: "lookup (comps dir) fs = Some (Dir es)"
    using assms resolve_lookup_dir [of dir fs es] by (auto simp: monitored_def)
  show "wf_entries es" using lookup_plain [OF _ l] assms(1) by (simp add: monitored_def)
  show "short PATH_MAX_RA dir es" using assms by (simp add: monitored_def)
qed

lemma file_map_append: "lookup p fs = Some n \<Longrightarrow> file_map fs (p @ q) = file_map n q"
  by (simp add: file_map_def lookup_append)

lemma eligible_visit:
  assumes "monitored dir fs" "resolve fs dir = Some (Dir es)"
  shows "eligible E dir fs q \<longleftrightarrow> File_At (path_of dir q) \<in> set (visits skip_oldest dir es) \<and>
      q \<noteq> [] \<and> file_map (Dir es) q \<noteq> None \<and> list_all (\<lambda>n. \<not> skip_oldest n) q \<and> epoch_of E dir q < MAX_TIME_T"
  using visits_iff [OF resolve_wf(2) [OF assms]]
  by (auto simp: eligible_def file_map_append [OF resolve_wf(1) [OF assms]])

lemma not_a_dir:
  assumes "monitored dir fs" "\<forall>es. resolve fs dir \<noteq> Some (Dir es)"
  shows "\<not> eligible E dir fs q"
proof
  assume e: "eligible E dir fs q"
  then obtain x where "lookup (comps dir @ q) fs = Some x" "q \<noteq> []"
    by (auto simp: eligible_def file_map_lookup)
  then obtain y where "lookup (comps dir) fs = Some y" "lookup q y = Some x" "q \<noteq> []"
    by (auto simp: lookup_append bind_eq_Some_conv)
  then obtain es where "lookup (comps dir) fs = Some (Dir es)" by (cases y; cases q) auto
  with assms resolve_lookup_dir [of dir fs es] show False by (auto simp: monitored_def)
qed

lemma find_oldest:
  assumes "monitored dir fs"
  obtains "find_oldest_file E fs dir ([], MAX_TIME_T) = ([], MAX_TIME_T)" "\<forall>q. \<not> eligible E dir fs q"
  | q t where "find_oldest_file E fs dir ([], MAX_TIME_T) = (path_of dir q, t)" "eligible E dir fs q"
      "\<forall>r. eligible E dir fs r \<longrightarrow> epoch_of E dir q \<le> epoch_of E dir r"
proof (cases "\<exists>es. resolve fs dir = Some (Dir es)")
  case False
  then have "find_oldest_file E fs dir ([], MAX_TIME_T) = ([], MAX_TIME_T)"
    by (auto simp: find_oldest_file_def scan_dir.simps readdir_all_def split: option.split fs_node.split)
  with not_a_dir [OF assms] False that(1) show thesis by blast
next
  case True
  then obtain es where es: "resolve fs dir = Some (Dir es)" by blast
  note w = resolve_wf [OF assms es]
  obtain p t where pt: "find_oldest_file E fs dir ([], MAX_TIME_T) = (p, t)" by (metis surj_pair)
  then have f: "fold (do_visit (oldest_step E) (\<lambda>_ _ s. s)) (visits skip_oldest dir es) ([], MAX_TIME_T) = (p, t)"
    using scan_dir_visits [OF es w(2) short_fits [OF w(3)], where f = "oldest_step E" and a = "\<lambda>_ _ s. s" and s = "([], MAX_TIME_T)"]
    by (simp add: find_oldest_file_def skip_oldest_def)
  note o = fold_oldest [OF f order_refl]
  have min: "t \<le> epoch_of E dir r" if "eligible E dir fs r" for r
    using o that eligible_visit [OF assms es, of E r] by (auto simp: epoch_of_def)
  show thesis
  proof (cases "p = [] \<and> t = MAX_TIME_T")
    case True
    have "\<not> eligible E dir fs r" for r using min [of r] True by (auto simp: eligible_def)
    with pt True that(1) show thesis by blast
  next
    case False
    with o have p: "File_At p \<in> set (visits skip_oldest dir es)" "t = file_name_to_epoch_sm E p" "t < MAX_TIME_T"
      by auto
    then obtain q st where q: "q \<noteq> []" "file_map (Dir es) q = Some st" "list_all (\<lambda>n. \<not> skip_oldest n) q"
      "p = path_of dir q" using visits_iff [OF w(2)] by blast
    then have "eligible E dir fs q"
      using p w(1) by (simp add: eligible_def epoch_of_def file_map_append)
    with pt q p min that(2) show thesis by (auto simp: epoch_of_def)
  qed
qed

section \<open>Removing empty directories\<close>

lemma is_dir_lookup: "lookup c fs = Some (Dir es) \<Longrightarrow> is_dir fs c"
  by (simp add: is_dir_def)

lemma rmdir_effect:
  assumes "d \<noteq> []" "list_all plain_name (comps d)"
  shows "file_map (snd (c_rmdir may d fs)) = file_map fs"
    "is_dir (snd (c_rmdir may d fs)) c \<Longrightarrow> is_dir fs c"
    "is_dir fs c \<Longrightarrow> \<not> is_dir (snd (c_rmdir may d fs)) c \<Longrightarrow> c = comps d \<and> comps d \<noteq> []"
    "wf_node fs \<Longrightarrow> wf_node (snd (c_rmdir may d fs))" "n_files (snd (c_rmdir may d fs)) \<le> n_files fs"
proof -
  have *: "snd (c_rmdir may d fs) = fs \<or>
     (lookup (comps d) fs = Some (Dir []) \<and> comps d \<noteq> [] \<and> snd (c_rmdir may d fs) = del (comps d) fs)"
    using resolve_lookup_dir [OF assms(2,1), of fs "[]"] canon_plain [OF assms(2), of "[]"]
    by (auto simp: c_rmdir_def split: option.split fs_node.split list.split)
  show "file_map (snd (c_rmdir may d fs)) = file_map fs"
    "is_dir (snd (c_rmdir may d fs)) c \<Longrightarrow> is_dir fs c"
    "is_dir fs c \<Longrightarrow> \<not> is_dir (snd (c_rmdir may d fs)) c \<Longrightarrow> c = comps d \<and> comps d \<noteq> []"
    "wf_node fs \<Longrightarrow> wf_node (snd (c_rmdir may d fs))" "n_files (snd (c_rmdir may d fs)) \<le> n_files fs"
    using * del_empty_dir [of "comps d" fs] wf_del n_files_del by auto
qed

lemma remove_dirs_effect:
  assumes "hd d = CHR ''/''" "d \<noteq> []" "list_all plain_name (comps d)"
  shows "file_map (remove_dirs E k d fs) = file_map fs \<and>
    (\<forall>c. is_dir (remove_dirs E k d fs) c \<longrightarrow> is_dir fs c) \<and>
    (\<forall>c. is_dir fs c \<and> \<not> is_dir (remove_dirs E k d fs) c \<longrightarrow> prefix c (comps d) \<and> last c \<noteq> ''VideoFootages'') \<and>
    (wf_node fs \<longrightarrow> wf_node (remove_dirs E k d fs)) \<and> n_files (remove_dirs E k d fs) \<le> n_files fs"
  using assms
proof (induction k arbitrary: d fs)
  case (Suc k)
  note up = dirname_abs [OF Suc.prems(1,2)]
  have pl: "list_all plain_name (comps (dirname d))" using up(1) plain_butlast [OF Suc.prems(3)] by simp
  note IH = Suc.IH [OF up(2,3) pl]
  have pre: "prefix c (comps d)" if "prefix c (comps (dirname d))" for c
    using that up(1) prefix_order.trans [OF _ prefixeq_butlast] by metis
  show ?case
  proof (cases "basename d \<noteq> ''VideoFootages''")
    case False
    with IH [of fs] pre show ?thesis by auto
  next
    case vf: True
    show ?thesis
    proof (cases "is_dir_empty fs d = 0")
      case True
      with vf show ?thesis by simp
    next
      case False
      let ?f1 = "snd (c_rmdir (may_delete E) d fs)"
      note r = rmdir_effect [OF Suc.prems(2,3), where may = "may_delete E" and fs = fs]
      have e: "remove_dirs E (Suc k) d fs = remove_dirs E k (dirname d) ?f1" using vf False by simp
      have gone: "prefix c (comps d) \<and> last c \<noteq> ''VideoFootages''" if "is_dir fs c" "\<not> is_dir ?f1 c" for c
        using r(3) [OF that] up(4) vf by auto
      let ?g = "remove_dirs E k (dirname d) ?f1"
      note g = IH [of ?f1]
      have "file_map ?g = file_map fs" using g r(1) by simp
      moreover have "\<forall>c. is_dir ?g c \<longrightarrow> is_dir fs c" using g r(2) by blast
      moreover have "\<forall>c. is_dir fs c \<and> \<not> is_dir ?g c \<longrightarrow> prefix c (comps d) \<and> last c \<noteq> ''VideoFootages''"
        using g gone pre by blast
      moreover have "wf_node fs \<longrightarrow> wf_node ?g" using g r(4) by blast
      moreover have "n_files ?g \<le> n_files fs" using g r(5) order_trans by blast
      ultimately show ?thesis unfolding e by simp
    qed
  qed
qed simp

section \<open>Deleting the oldest file\<close>

lemma eligible_path:
  assumes "monitored dir fs" "eligible E dir fs q"
  shows "comps (path_of dir q) = comps dir @ q" "list_all plain_name (comps dir @ q)"
    "path_of dir q \<noteq> []" "hd (path_of dir q) = CHR ''/''" "last (path_of dir q) \<noteq> CHR ''/''"
proof -
  from assms(2) obtain st where l: "lookup (comps dir @ q) fs = Some (Reg st)"
    by (auto simp: eligible_def file_map_lookup)
  with lookup_plain [OF _ this] assms(1) show p: "list_all plain_name (comps dir @ q)"
    by (simp add: monitored_def)
  then show "comps (path_of dir q) = comps dir @ q" by (simp add: comps_path_of)
  show "path_of dir q \<noteq> []" "hd (path_of dir q) = CHR ''/''"
    using assms(1) by (simp_all add: monitored_def path_of_def)
  obtain q' n where q: "q = q' @ [n]" using assms(2) by (cases q rule: rev_cases) (auto simp: eligible_def)
  with p have "n \<noteq> []" "CHR ''/'' \<notin> set n" by (auto simp: plain_name_def)
  moreover from this have "last n \<noteq> CHR ''/''" by (metis last_in_set)
  ultimately show "last (path_of dir q) \<noteq> CHR ''/''" by (simp add: q path_of_snoc)
qed

lemma delete_cases:
  assumes m: "monitored (path_to_search E drive camera) fs" and d: "drive \<le> 1"
  defines "dir \<equiv> path_to_search E drive camera"
  obtains (none) "delete_oldest_file E drive camera fs = (EXIT_FAILURE, fs)" "\<forall>q. \<not> eligible E dir fs q"
  | (protected) q where "delete_oldest_file E drive camera fs = (EXIT_FAILURE, fs)" "eligible E dir fs q"
      "\<forall>r. eligible E dir fs r \<longrightarrow> epoch_of E dir q \<le> epoch_of E dir r" "\<not> may_delete E (path_of dir q)"
  | (deleted) q fs' where "delete_oldest_file E drive camera fs = (EXIT_SUCCESS, fs')" "eligible E dir fs q"
      "\<forall>r. eligible E dir fs r \<longrightarrow> epoch_of E dir q \<le> epoch_of E dir r" "may_delete E (path_of dir q)"
      "file_map fs' = (file_map fs)(comps dir @ q := None)" "pruned (comps dir @ q) fs fs'"
      "wf_node fs'" "n_files fs' < n_files fs"
proof -
  from m have m': "monitored dir fs" by (simp add: dir_def)
  from find_oldest [OF m', of E] show thesis
  proof cases
    case 1
    then have "delete_oldest_file E drive camera fs = (EXIT_FAILURE, fs)"
      using d by (simp add: delete_oldest_file_def dir_def c_remove_def resolve_def)
    with 1 none show thesis by blast
  next
    case (2 q t)
    let ?c = "comps dir @ q"
    note p = eligible_path [OF m' 2(2)]
    from 2(2) obtain st where st: "file_map fs ?c = Some st" by (auto simp: eligible_def)
    have c: "?c \<noteq> []" using 2(2) by (simp add: eligible_def)
    have r: "resolve fs (path_of dir q) = Some (Reg st)"
      using resolve_lookup [of "path_of dir q" fs] p st by (simp add: file_map_lookup)
    have rm: "c_remove (may_delete E) (path_of dir q) fs =
        (if may_delete E (path_of dir q) then (0, del ?c fs) else (- 1, fs))"
      using r p(1) canon_plain [OF p(2), of "[]"] c by (simp add: c_remove_def)
    show thesis
    proof (cases "may_delete E (path_of dir q)")
      case False
      then have "delete_oldest_file E drive camera fs = (EXIT_FAILURE, fs)"
        using d 2(1) rm by (simp add: delete_oldest_file_def dir_def)
      with 2 False protected show thesis by blast
    next
      case True
      let ?f1 = "del ?c fs" and ?d = "dirname (path_of dir q)"
      note up = dirname_abs [OF p(4,3)]
      have pl: "list_all plain_name (comps ?d)" using up(1) plain_butlast [OF p(2)] p(1) by simp
      note e = remove_dirs_effect [OF up(2,3) pl, of E 5 ?f1]
      note f = del_file [OF st c]
      have res: "delete_oldest_file E drive camera fs = (EXIT_SUCCESS, remove_dirs E 5 ?d ?f1)"
        using d 2(1) rm True by (simp add: delete_oldest_file_def dir_def)
      have "strict_prefix a ?c" if "prefix a (comps ?d)" for a
      proof -
        have "prefix a (butlast ?c)" using that up(1) p(1) by simp
        moreover have "strict_prefix (butlast ?c) ?c"
          using c by (intro strict_prefixI prefixeq_butlast) (metis append_butlast_last_id not_Cons_self2 self_append_conv)
        ultimately show ?thesis by (rule prefix_order.le_less_trans)
      qed
      then have "pruned ?c fs (remove_dirs E 5 ?d ?f1)"
        using e f(2) unfolding pruned_def by metis
      moreover have "wf_node (remove_dirs E 5 ?d ?f1)"
        using e wf_del [of fs ?c] m' by (simp add: monitored_def)
      moreover have "n_files (remove_dirs E 5 ?d ?f1) < n_files fs"
        using e n_files_del_file [OF st c] by linarith
      moreover have "file_map (remove_dirs E 5 ?d ?f1) = (file_map fs)(?c := None)" using e f(1) by simp
      ultimately show thesis using deleted [OF res 2(2,3) True] by blast
    qed
  qed
qed

text \<open>A tree that only lost files and directories is still monitored.\<close>

lemma monitored_shrink:
  assumes "monitored dir fs" "wf_node fs'"
    and files: "\<And>q. file_map fs' q \<noteq> None \<Longrightarrow> file_map fs q \<noteq> None" and dirs: "\<And>q. is_dir fs' q \<Longrightarrow> is_dir fs q"
  shows "monitored dir fs'"
proof -
  have "short PATH_MAX_RA dir es'" if es': "resolve fs' dir = Some (Dir es')" for es'
  proof -
    have l': "lookup (comps dir) fs' = Some (Dir es')"
      using es' resolve_lookup_dir [of dir fs' es'] assms(1) by (auto simp: monitored_def)
    then have "is_dir fs (comps dir)" using dirs is_dir_lookup by blast
    then obtain es where l: "lookup (comps dir) fs = Some (Dir es)"
      by (auto simp: is_dir_def split: option.splits fs_node.splits)
    then have es: "resolve fs dir = Some (Dir es)"
      using resolve_lookup_dir [of dir fs es] assms(1) by (auto simp: monitored_def)
    note sh = resolve_wf(3) [OF assms(1) es]
    show ?thesis
    proof (rule paths_short)
      show "wf_entries es'" using lookup_plain [OF assms(2) l'] by simp
      fix q x assume "lookup q (Dir es') = Some x"
      then have x: "lookup (comps dir @ q) fs' = Some x" by (simp add: lookup_append l')
      have "lookup (comps dir @ q) fs \<noteq> None"
      proof (cases x)
        case (Reg st)
        with x files [of "comps dir @ q"] show ?thesis by (auto simp: file_map_def split: option.splits)
      next
        case (Dir xs)
        with x dirs [of "comps dir @ q"] show ?thesis by (auto simp: is_dir_def split: option.splits)
      qed
      with l show "length (path_of dir q) + 3 < PATH_MAX_RA"
        using short_paths [OF sh, of q] by (auto simp: lookup_append)
    qed
  qed
  with assms(1,2) show ?thesis by (auto simp: monitored_def split: option.splits fs_node.splits)
qed

lemma deleted_monitored:
  assumes "monitored dir fs" "file_map fs' = (file_map fs)(c := None)" "pruned c fs fs'" "wf_node fs'"
  shows "monitored dir fs'"
  using assms(2,3) by (intro monitored_shrink [OF assms(1,4)]) (auto simp: pruned_def split: if_splits)

lemma eligible_deleted:
  "file_map fs' = (file_map fs)(comps dir @ q := None) \<Longrightarrow>
   eligible E dir fs' r \<longleftrightarrow> eligible E dir fs r \<and> r \<noteq> q"
  by (auto simp: eligible_def)

section \<open>The times of the files\<close>

lemma strrchr_name: "CHR ''/'' \<notin> set n \<Longrightarrow> strrchr (p @ CHR ''/'' # n) CHR ''/'' = Some (CHR ''/'' # n)"
  by (simp add: strrchr_append strrchr_notin)

lemma epoch_last:
  assumes "q \<noteq> []" "list_all plain_name q"
  shows "epoch_of E dir q = local_mktime E (name_tm (last q))"
proof -
  obtain q' n where q: "q = q' @ [n]" using assms(1) by (cases q rule: rev_cases) auto
  with assms(2) have "CHR ''/'' \<notin> set n" by (simp add: plain_name_def)
  then show ?thesis by (simp add: epoch_of_def file_name_to_epoch_sm_def q path_of_snoc strrchr_name)
qed

section \<open>The grooming relation\<close>

text \<open>
  What a sequence of deletions may do: files of the directory disappear, each no younger than any
  eligible file that is left, and nothing else changes but empty directories.
\<close>

definition grooms :: "mon_env \<Rightarrow> string \<Rightarrow> fs_node \<Rightarrow> fs_node \<Rightarrow> bool" where
  "grooms E dir fs fs' \<longleftrightarrow>
     (\<forall>c. file_map fs' c = file_map fs c \<or> file_map fs' c = None) \<and>
     (\<forall>c. file_map fs c \<noteq> file_map fs' c \<longrightarrow> (\<exists>q. c = comps dir @ q \<and> eligible E dir fs q \<and>
        (\<forall>r. eligible E dir fs' r \<longrightarrow> epoch_of E dir q \<le> epoch_of E dir r))) \<and>
     (\<forall>d. is_dir fs' d \<longrightarrow> is_dir fs d) \<and>
     (\<forall>d. is_dir fs d \<and> \<not> is_dir fs' d \<longrightarrow> last d \<noteq> ''VideoFootages'')"

lemma grooms_refl [simp]: "grooms E dir fs fs"
  by (simp add: grooms_def)

lemma grooms_step:
  assumes "eligible E dir fs q" "\<forall>r. eligible E dir fs r \<longrightarrow> epoch_of E dir q \<le> epoch_of E dir r"
    and f1: "file_map f1 = (file_map fs)(comps dir @ q := None)" and pr: "pruned (comps dir @ q) fs f1"
    and g: "grooms E dir f1 f2"
  shows "grooms E dir fs f2"
proof -
  have sub: "eligible E dir fs r" if "eligible E dir f1 r" for r
    using that eligible_deleted [OF f1] by blast
  have sub2: "eligible E dir f1 r" if "eligible E dir f2 r" for r
    using that g unfolding grooms_def eligible_def by metis
  have "\<exists>q. c = comps dir @ q \<and> eligible E dir fs q \<and>
      (\<forall>r. eligible E dir f2 r \<longrightarrow> epoch_of E dir q \<le> epoch_of E dir r)"
    if ne: "file_map fs c \<noteq> file_map f2 c" for c
  proof (cases "c = comps dir @ q")
    case True
    with assms(1,2) sub sub2 show ?thesis by blast
  next
    case False
    with ne f1 have "file_map f1 c \<noteq> file_map f2 c" by simp
    with g sub show ?thesis unfolding grooms_def by blast
  qed
  moreover have "file_map f2 c = file_map fs c \<or> file_map f2 c = None" for c
    using g f1 unfolding grooms_def by (metis fun_upd_other fun_upd_same)
  ultimately show ?thesis using g pr unfolding grooms_def pruned_def by blast
qed

text \<open>No further deletion is possible: no file is eligible, or an oldest one is protected.\<close>

definition exhausted :: "mon_env \<Rightarrow> string \<Rightarrow> fs_node \<Rightarrow> bool" where
  "exhausted E dir fs \<longleftrightarrow> (\<forall>q. eligible E dir fs q \<longrightarrow>
     (\<exists>r. eligible E dir fs r \<and> epoch_of E dir r \<le> epoch_of E dir q \<and> \<not> may_delete E (path_of dir r)))"

lemma space_loop_total:
  fixes E base
  defines "drive \<equiv> drive_of E base"
  defines "dir \<equiv> path_to_search E drive None"
  assumes "monitored dir fs" "drive \<le> 1"
  shows "\<exists>fs'. space_loop E thr base avail fs = Some fs' \<and> grooms E dir fs fs' \<and>
    ((fs' = fs \<and> \<not> below avail thr) \<or> \<not> below (process_available_space E fs' base) thr \<or> exhausted E dir fs')"
  using assms(3)
proof (induction "n_files fs" arbitrary: fs avail rule: less_induct)
  case less
  note loop = space_loop.simps [of E thr base avail fs, folded drive_def]
  show ?case
  proof (cases "below avail thr")
    case False
    then show ?thesis by (simp add: loop)
  next
    case True
    from less.prems have m: "monitored (path_to_search E drive None) fs" by (simp add: dir_def)
    from delete_cases [OF m assms(4), folded dir_def] show ?thesis
    proof cases
      case 1
      with True show ?thesis by (simp add: loop exhausted_def)
    next
      case (2 q)
      then have "exhausted E dir fs" unfolding exhausted_def by blast
      with 2(1) True show ?thesis by (simp add: loop)
    next
      case (3 q f1)
      have "monitored dir f1" using deleted_monitored [OF less.prems 3(5-7)] .
      from less.hyps [OF 3(8) this, of "process_available_space E f1 base"] obtain f2 where
        f2: "space_loop E thr base (process_available_space E f1 base) f1 = Some f2" "grooms E dir f1 f2"
        "(f2 = f1 \<and> \<not> below (process_available_space E f1 base) thr) \<or>
          \<not> below (process_available_space E f2 base) thr \<or> exhausted E dir f2"
        by blast
      have "space_loop E thr base avail fs = Some f2" using True 3(1) f2(1) by (simp add: loop)
      moreover have "grooms E dir fs f2" by (rule grooms_step [OF 3(2,3,5,6) f2(2)])
      ultimately show ?thesis using f2(3) by auto
    qed
  qed
qed

section \<open>Grooming by age\<close>

lemma fold_no_files:
  "(\<And>p. File_At p \<notin> set vs) \<Longrightarrow> fold (do_visit f (\<lambda>_ _ s. s)) vs s = s"
proof (induction vs arbitrary: s)
  case (Cons v vs)
  from Cons.prems have "File_At p \<notin> set vs" for p by (meson list.set_intros(2))
  moreover obtain d n where "v = Left_Dir d n" using Cons.prems by (cases v) auto
  ultimately show ?case using Cons.IH by simp
qed simp

lemma groom_loop_total:
  fixes E cam drive
  defines "dir \<equiv> path_to_search E drive (Some (full_path cam))"
  assumes "monitored dir fs" "drive \<le> 1"
    and "\<forall>q. eligible E dir fs q \<longrightarrow> may_delete E (path_of dir q)"
    and pos: "\<And>f. monitored dir f \<Longrightarrow> grooms E dir fs f \<Longrightarrow> 0 < process_duration f path \<Longrightarrow> \<exists>q. eligible E dir f q"
    and cur: "dur = process_duration fs path"
  shows "\<exists>fs'. groom_loop E drive path cam dur fs = Some fs' \<and> grooms E dir fs fs' \<and>
    process_duration fs' path \<le> max_usec cam"
  using assms(2,4) pos cur
proof (induction "n_files fs" arbitrary: fs dur rule: less_induct)
  case less
  note loop = groom_loop.simps [of E drive path cam dur fs]
  show ?case
  proof (cases "dur > max_usec cam")
    case False
    then have "groom_loop E drive path cam dur fs = Some fs" by (simp add: loop)
    then show ?thesis
      by (intro exI [of _ fs] conjI grooms_refl) (use False less.prems(4) in \<open>simp_all add: not_less\<close>)
  next
    case True
    have "(0::u64) < dur" using True by (rule order_le_less_trans [rotated]) simp
    with less.prems(3) [OF less.prems(1)] less.prems(4) obtain q0 where q0: "eligible E dir fs q0" by auto
    from less.prems(1) have m: "monitored (path_to_search E drive (Some (full_path cam))) fs" by (simp add: dir_def)
    from delete_cases [OF m assms(3), folded dir_def] show ?thesis
    proof cases
      case 1
      with q0 show ?thesis by blast
    next
      case (2 q)
      with less.prems(2) show ?thesis by blast
    next
      case (3 q f1)
      have m1: "monitored dir f1" using deleted_monitored [OF less.prems(1) 3(5-7)] .
      note st = grooms_step [OF 3(2,3,5,6)]
      have "\<forall>q. eligible E dir f1 q \<longrightarrow> may_delete E (path_of dir q)"
        using less.prems(2) eligible_deleted [OF 3(5)] by blast
      from less.hyps [OF 3(8) m1 this less.prems(3) refl] st obtain f2 where
        f2: "groom_loop E drive path cam (process_duration f1 path) f1 = Some f2" "grooms E dir f1 f2"
        "process_duration f2 path \<le> max_usec cam"
        by blast
      with True 3(1) st [OF f2(2)] show ?thesis by (simp add: loop)
    qed
  qed
qed

end
