(* ===== verification/Space_Claims.thy ===== *)
theory Space_Claims
  imports Space_Props
begin

text \<open>
  The properties of the space monitor: the deletion of the oldest file, the two grooming loops, and the
  names of the recorder as the monitor reads them. A small drive serves as the concrete instance.
\<close>

section \<open>A small drive\<close>

definition demo_chunk :: string where "demo_chunk = ''20200131-040148.000000100.v''"
definition demo_late :: string where "demo_late = ''20210131-040148.000000100.v''"

definition demo_drive :: fs_node where
  "demo_drive = Dir [(''chm'', Dir [(''CAM'', Dir
     [(demo_late, Reg \<lparr>st_size = 1, st_mtime = 0\<rparr>), (demo_chunk, Reg \<lparr>st_size = 1, st_mtime = 0\<rparr>)])])]"

definition demo_mon :: mon_env where
  "demo_mon = \<lparr>drive_path = (\<lambda>i. if i = 0 then ''/chm'' else ''/rssd''), eCHM = 0, eRSSD = 1,
     statvfs = (\<lambda>fs _. Some (10 + (2 - n_files fs) * 20, 100)), rnd = (\<lambda>x. x), may_delete = (\<lambda>_. True),
     local_mktime = (\<lambda>t. tm_year t), mon_name_len = 12, mon_mac_len = 12\<rparr>"

lemma demo_paths [simp]:
  "path_to_search demo_mon 0 None = ''/chm/''" "path_to_search demo_mon 0 (Some ''CAM'') = ''/chm/CAM/''"
  "drive_of demo_mon ''/chm'' = 0"
  by (simp_all add: path_to_search_def demo_mon_def PATH_MAX_RA_def drive_of_def)

lemma demo_times:
  "name_tm demo_chunk = \<lparr>tm_year = 120, tm_mon = 0, tm_mday = 31, tm_hour = 4, tm_min = 1, tm_sec = 48\<rparr>"
  "name_tm demo_late = \<lparr>tm_year = 121, tm_mon = 0, tm_mday = 31, tm_hour = 4, tm_min = 1, tm_sec = 48\<rparr>"
  by (simp_all add: name_tm_def demo_chunk_def demo_late_def atoi_def atol_def strtol10_def is_space_def
      is_digit_def digit_val_def clamp_long_def LONG_MAX_def LONG_MIN_def)

lemma demo_plain [simp]: "plain_name demo_chunk" "plain_name demo_late" "demo_chunk \<noteq> demo_late" "demo_late \<noteq> demo_chunk"
  "length demo_chunk = 27" "length demo_late = 27"
  by (simp_all add: plain_name_def demo_chunk_def demo_late_def)

lemma demo_comps [simp]: "comps ''/chm/'' = [''chm'']" "comps ''/chm/CAM/'' = [''chm'', ''CAM'']"
  "comps ''/chm/CAM'' = [''chm'', ''CAM'']"
  by (simp_all add: comps_def)

lemma demo_monitored: "monitored ''/chm/'' demo_drive" "monitored ''/chm/CAM/'' demo_drive"
  by (simp_all add: monitored_def demo_drive_def resolve_def PATH_MAX_RA_def plain_name_def
     demo_plain[unfolded plain_name_def])

section \<open>Deletion\<close>

text \<open>
  C18: the oldest file. On a drive whose paths fit the buffers, a deletion that succeeds removes exactly one
  file, an eligible one no younger than any other (not under \<open>lost+found\<close> or \<open>staging\<close>); besides it
  only directories above it can go, and none named \<open>VideoFootages\<close>. It fails only when no file is
  eligible or the oldest one may not be deleted, and then nothing changes.
\<close>

theorem oldest_deleted:
  assumes "monitored (path_to_search E drive camera) fs" "drive \<le> 1"
    and "delete_oldest_file E drive camera fs = (rc, fs')"
  shows "if rc = EXIT_SUCCESS then
      (\<exists>q. eligible E (path_to_search E drive camera) fs q \<and>
         (\<forall>r. eligible E (path_to_search E drive camera) fs r \<longrightarrow>
            epoch_of E (path_to_search E drive camera) q \<le> epoch_of E (path_to_search E drive camera) r) \<and>
         file_map fs' = (file_map fs)(comps (path_to_search E drive camera) @ q := None) \<and>
         pruned (comps (path_to_search E drive camera) @ q) fs fs')
    else fs' = fs \<and> exhausted E (path_to_search E drive camera) fs"
  using delete_cases [OF assms(1,2)]
proof cases
  case 3
  with assms(3) show ?thesis by auto
qed (use assms(3) in \<open>auto simp: exhausted_def\<close>)

lemma demo_entries: "resolve demo_drive ''/chm/CAM/'' = Some (Dir
    [(demo_late, Reg \<lparr>st_size = 1, st_mtime = 0\<rparr>), (demo_chunk, Reg \<lparr>st_size = 1, st_mtime = 0\<rparr>)])"
  by (simp add: resolve_def demo_drive_def)

lemma demo_epochs: "epoch_of demo_mon d [demo_chunk] = 120" "epoch_of demo_mon d [demo_late] = 121"
  by (simp_all add: epoch_last demo_times) (simp_all add: demo_mon_def)

lemma demo_mktime: "local_mktime demo_mon (name_tm demo_chunk) = 120"
    "local_mktime demo_mon (name_tm demo_late) = 121" "may_delete demo_mon p"
  by (simp_all add: demo_times) (simp_all add: demo_mon_def)

lemma demo_not_skipped: "\<not> skip_oldest demo_chunk" "\<not> skip_oldest demo_late"
  by (simp_all add: skip_oldest_def demo_chunk_def demo_late_def)

lemma demo_eligible: "eligible demo_mon ''/chm/CAM/'' demo_drive q \<longleftrightarrow> q = [demo_chunk] \<or> q = [demo_late]"
proof
  assume "eligible demo_mon ''/chm/CAM/'' demo_drive q"
  then show "q = [demo_chunk] \<or> q = [demo_late]"
    by (cases q; cases "tl q") (auto simp: eligible_def demo_drive_def split: if_splits)
next
  assume "q = [demo_chunk] \<or> q = [demo_late]"
  then show "eligible demo_mon ''/chm/CAM/'' demo_drive q"
    by (auto simp: eligible_def demo_drive_def epoch_last demo_mktime MAX_TIME_T_def demo_not_skipped)
qed

theorem oldest_deleted_witness:
  "\<exists>fs'. delete_oldest_file demo_mon 0 (Some ''CAM'') demo_drive = (EXIT_SUCCESS, fs') \<and>
     file_map fs' = (file_map demo_drive)([''chm'', ''CAM'', demo_chunk] := None)"
proof -
  obtain rc fs' where r: "delete_oldest_file demo_mon 0 (Some ''CAM'') demo_drive = (rc, fs')" by fastforce
  have "\<not> exhausted demo_mon ''/chm/CAM/'' demo_drive"
    using demo_eligible by (auto simp: exhausted_def demo_mon_def)
  with oldest_deleted [of demo_mon 0 "Some ''CAM''" demo_drive rc fs'] demo_monitored r
  obtain q where q: "rc = EXIT_SUCCESS" "eligible demo_mon ''/chm/CAM/'' demo_drive q"
    "\<forall>r. eligible demo_mon ''/chm/CAM/'' demo_drive r \<longrightarrow> epoch_of demo_mon ''/chm/CAM/'' q \<le> epoch_of demo_mon ''/chm/CAM/'' r"
    "file_map fs' = (file_map demo_drive)(comps ''/chm/CAM/'' @ q := None)"
    by (auto split: if_splits)
  from q(3) [rule_format, of "[demo_chunk]"] q(2) have "q = [demo_chunk]"
    by (auto simp: demo_eligible demo_epochs)
  with q(1,4) r show ?thesis by simp
qed

section \<open>Grooming by free space\<close>

text \<open>
  C19: the free-space loop ends. Whatever \<open>statvfs\<close> reports, \<open>space_handler\<close> returns on a drive whose
  paths fit the buffers; the files it removed are eligible ones, none younger than an eligible file that
  is left, and at the end the free space is not below the threshold, or no further file can be deleted,
  or \<open>statvfs\<close> failed or reported exactly one percent at the start and the drive is untouched.
\<close>

theorem space_grooming_ends:
  assumes "monitored (path_to_search E (drive_of E base) None) fs" "drive_of E base \<le> 1"
  shows "\<exists>fs'. space_handler E thr base fs = Some fs' \<and>
    grooms E (path_to_search E (drive_of E base) None) fs fs' \<and>
    ((fs' = fs \<and> process_available_space E fs base = Some 1) \<or>
     \<not> below (process_available_space E fs' base) thr \<or>
     exhausted E (path_to_search E (drive_of E base) None) fs')"
proof (cases "process_available_space E fs base = Some 1")
  case True
  then show ?thesis by (simp add: space_handler_def)
next
  case False
  from space_loop_total [OF assms, of thr "process_available_space E fs base"]
  show ?thesis using False by (auto simp: space_handler_def)
qed

theorem space_grooming_ends_witness:
  "\<exists>fs'. space_handler demo_mon 20 ''/chm'' demo_drive = Some fs' \<and> fs' \<noteq> demo_drive"
proof -
  have s: "process_available_space demo_mon fs b = Some (10 + (2 - of_nat (n_files fs)) * 20)"
    if "n_files fs \<le> 2" for fs b
    using that by (simp add: process_available_space_def demo_mon_def of_nat_diff)
  have n: "n_files demo_drive = 2" by (simp add: demo_drive_def)
  from space_grooming_ends [of demo_mon "''/chm''" demo_drive 20] demo_monitored
  obtain fs' where f: "space_handler demo_mon 20 ''/chm'' demo_drive = Some fs'" "grooms demo_mon ''/chm/'' demo_drive fs'"
    "fs' = demo_drive \<and> process_available_space demo_mon demo_drive ''/chm'' = Some 1 \<or>
     \<not> below (process_available_space demo_mon fs' ''/chm'') 20 \<or> exhausted demo_mon ''/chm/'' fs'"
    by auto
  have "fs' \<noteq> demo_drive"
  proof
    assume e: "fs' = demo_drive"
    have "eligible demo_mon ''/chm/'' demo_drive [''CAM'', demo_chunk]"
      by (simp add: eligible_def demo_drive_def epoch_last demo_mktime MAX_TIME_T_def demo_not_skipped
          skip_oldest_def [of "''CAM''"] plain_name_def [of "''CAM''"])
    then have "\<not> exhausted demo_mon ''/chm/'' demo_drive" by (auto simp: exhausted_def demo_mon_def)
    with f(3) s [of demo_drive] n e show False by (simp add: below_def)
  qed
  with f(1) show ?thesis by blast
qed

text \<open>
  One percent is taken for the error value: a drive with exactly one percent free is not groomed.
\<close>

lemma one_percent_ignored:
  assumes "\<And>x. rnd E x = x" "statvfs E fs base = Some (n, 100 * n)" "0 < n"
  shows "space_handler E thr base fs = Some fs" "below (process_available_space E fs base) FREE_SPACE_LIMIT"
proof -
  have "process_available_space E fs base = Some 1"
    using assms by (simp add: process_available_space_def)
  then show "space_handler E thr base fs = Some fs" "below (process_available_space E fs base) FREE_SPACE_LIMIT"
    by (simp_all add: space_handler_def below_def FREE_SPACE_LIMIT_def)
qed

section \<open>Grooming by age\<close>

lemma counted_eligible:
  assumes m: "monitored dir f" and p: "comps path = comps dir" "path \<noteq> []" "length path \<le> length dir"
    and times: "\<forall>q. file_map f (comps dir @ q) \<noteq> None \<longrightarrow> epoch_of E dir q < MAX_TIME_T"
    and pos: "0 < process_duration f path"
  shows "\<exists>q. eligible E dir f q"
proof (rule ccontr)
  assume no: "\<not> ?thesis"
  have pl: "list_all plain_name (comps path)" using m p(1) by (simp add: monitored_def)
  have "process_duration f path = 0"
  proof (cases "\<exists>es. resolve f path = Some (Dir es)")
    case False
    then show ?thesis
      by (auto simp: process_duration_def scan_dir.simps readdir_all_def split: option.split fs_node.split)
  next
    case True
    then obtain es where es: "resolve f path = Some (Dir es)" by blast
    then have l: "lookup (comps dir) f = Some (Dir es)" using resolve_lookup_dir [OF pl p(2)] p(1) by simp
    then have d: "resolve f dir = Some (Dir es)" using resolve_lookup_dir [of dir f es] m by (simp add: monitored_def)
    note w = resolve_wf [OF m d]
    have "short PATH_MAX_RA path es"
    proof (rule paths_short [OF w(2)])
      fix q x assume "lookup q (Dir es) = Some x"
      from short_paths [OF w(3) this] p(3) show "length (path_of path q) + 3 < PATH_MAX_RA"
        by (simp add: path_of_def)
    qed
    note v = scan_dir_visits [OF es w(2) short_fits [OF this], where skip = skip_duration]
    have nf: "File_At r \<notin> set (visits skip_duration path es)" for r
    proof
      assume "File_At r \<in> set (visits skip_duration path es)"
      then obtain q st where q: "q \<noteq> []" "file_map (Dir es) q = Some st" "list_all (\<lambda>n. \<not> skip_duration n) q"
        using visits_iff [OF w(2)] by blast
      then have "list_all (\<lambda>n. \<not> skip_oldest n) q" by (auto simp: skip_duration_def list_all_iff)
      with q times l have "eligible E dir f q" by (auto simp: eligible_def file_map_append)
      with no show False by blast
    qed
    have "process_duration f path = fold (do_visit (\<lambda>path s. s + word_of_int (get_file_duration path)) (\<lambda>_ _ s. s))
        (visits skip_duration path es) 0"
      unfolding process_duration_def by (rule v) (simp_all add: skip_duration_def skip_oldest_def)
    also have "\<dots> = 0" by (rule fold_no_files [OF nf])
    finally show ?thesis .
  qed
  with pos show False by simp
qed

text \<open>
  C20: grooming by age ends, when it can. When the directory on the command line is that of the drive, every
  file of the camera has a name with a time before 2038 and may be deleted, and the paths fit the
  buffers, \<open>groom_handler\<close> returns; the camera's recordings then last no longer than its limit, and the
  oldest ones were removed.
\<close>

theorem groom_by_age_ends:
  assumes "base = drive_path E (drive_of E base)" "drive_of E base \<le> 1"
    and "length base + length (full_path cam) + 3 \<le> PATH_MAX_RA"
    and "monitored (base @ ''/'' @ full_path cam @ ''/'') fs"
    and "\<forall>q. file_map fs (comps (base @ ''/'' @ full_path cam) @ q) \<noteq> None \<longrightarrow>
      epoch_of E (base @ ''/'' @ full_path cam @ ''/'') q < MAX_TIME_T \<and>
      may_delete E (path_of (base @ ''/'' @ full_path cam @ ''/'') q)"
  shows "\<exists>fs'. groom_handler E base cam fs = Some fs' \<and>
    grooms E (base @ ''/'' @ full_path cam @ ''/'') fs fs' \<and>
    process_duration fs' (base @ ''/'' @ full_path cam) \<le> max_usec cam"
proof -
  define drive where "drive = drive_of E base"
  let ?path = "base @ ''/'' @ full_path cam" and ?dir = "base @ ''/'' @ full_path cam @ ''/''"
  have s: "path_to_search E drive (Some (full_path cam)) = ?dir" "snprintf PATH_MAX_RA ?path = ?path"
    using assms(1,3) by (simp_all add: path_to_search_def drive_def [symmetric] snprintf_def)
  have c: "comps ?path = comps ?dir" using comps_slash [of ?path "[]"] by simp
  have m: "monitored (path_to_search E drive (Some (full_path cam))) fs" using assms(4) s by simp
  have may: "\<forall>q. eligible E ?dir fs q \<longrightarrow> may_delete E (path_of ?dir q)"
    using assms(5) c by (simp add: eligible_def)
  have pos: "\<exists>q. eligible E ?dir f q"
    if f: "monitored ?dir f" "grooms E ?dir fs f" "0 < process_duration f ?path" for f
  proof (rule counted_eligible [OF f(1) c _ _ _ f(3)])
    show "\<forall>q. file_map f (comps ?dir @ q) \<noteq> None \<longrightarrow> epoch_of E ?dir q < MAX_TIME_T"
      using f(2) assms(5) unfolding grooms_def c [symmetric] by metis
  qed simp_all
  from groom_loop_total [OF m, where path = ?path, unfolded s, OF _ may pos refl] assms(2)
  show ?thesis using s(2) by (simp add: groom_handler_def drive_def Let_def)
qed

lemma demo_duration: "name_duration demo_chunk = 100" "name_duration demo_late = 100"
  by (simp_all add: name_duration_def demo_chunk_def demo_late_def atol_def strtol10_def is_space_def
      is_digit_def digit_val_def clamp_long_def LONG_MAX_def LONG_MIN_def)

theorem groom_by_age_ends_witness:
  "\<exists>fs'. groom_handler demo_mon ''/chm'' \<lparr>full_path = ''CAM'', max_usec = 100\<rparr> demo_drive = Some fs' \<and>
     process_duration fs' ''/chm/CAM'' \<le> 100"
proof -
  have "epoch_of demo_mon ''/chm/CAM/'' q < MAX_TIME_T \<and> may_delete demo_mon (path_of ''/chm/CAM/'' q)"
    if f: "file_map demo_drive ([''chm'', ''CAM''] @ q) \<noteq> None" for q
  proof -
    have "q = [demo_chunk] \<or> q = [demo_late]"
      using f by (cases q; cases "tl q") (auto simp: demo_drive_def split: if_splits)
    then show ?thesis by (auto simp: demo_epochs MAX_TIME_T_def) (auto simp: demo_mon_def)
  qed
  with groom_by_age_ends [of "''/chm''" demo_mon "\<lparr>full_path = ''CAM'', max_usec = 100\<rparr>" demo_drive] demo_monitored
  show ?thesis by (auto simp: PATH_MAX_RA_def demo_mon_def [THEN arg_cong [where f = drive_path]])
qed

text \<open>
  C21: grooming by age does not end when it cannot delete. The result of the deletion is ignored, so as
  soon as a deletion fails while the recordings of the camera last too long, the loop never returns, and
  neither does the pass over the directories it is part of.
\<close>

lemma groom_loop_stuck:
  assumes "max_usec cam < process_duration fs path"
    and "fst (delete_oldest_file E drive (Some (full_path cam)) fs) = EXIT_FAILURE"
  shows "groom_loop E drive path cam (process_duration fs path) fs = None"
proof -
  have same: "snd (delete_oldest_file E drive (Some (full_path cam)) fs) = fs"
    using assms(2) by (auto simp: delete_oldest_file_def c_remove_def Let_def split: if_splits prod.splits option.splits)
  have "\<not> (e = E \<and> d = drive \<and> p = path \<and> c = cam \<and> u = process_duration fs path \<and> f = fs)"
    if "groom_loop e d p c u f = Some y" for e d p c u f y
  proof (rule groom_loop.raw_induct [OF _ that,
      where P = "\<lambda>e d p c u f y. \<not> (e = E \<and> d = drive \<and> p = path \<and> c = cam \<and> u = process_duration fs path \<and> f = fs)"])
    fix gl e d p c u f y
    assume "\<And>e d p c u f y. gl e d p c u f = Some y \<Longrightarrow>
        \<not> (e = E \<and> d = drive \<and> p = path \<and> c = cam \<and> u = process_duration fs path \<and> f = fs)"
      and "(if max_usec c < u
            then let fs1 = snd (delete_oldest_file e d (Some (full_path c)) f)
                 in gl e d p c (process_duration fs1 p) fs1
            else Some f) = Some y"
    then show "\<not> (e = E \<and> d = drive \<and> p = path \<and> c = cam \<and> u = process_duration fs path \<and> f = fs)"
      using assms(1) same by (auto simp: Let_def) blast
  qed
  from this [of E drive path cam "process_duration fs path" fs] show ?thesis
    by (cases "groom_loop E drive path cam (process_duration fs path) fs") auto
qed

theorem groom_spins:
  assumes "length base + length (full_path cam) + 2 \<le> PATH_MAX_RA"
    and "max_usec cam < process_duration fs (base @ ''/'' @ full_path cam)"
    and "fst (delete_oldest_file E (drive_of E base) (Some (full_path cam)) fs) = EXIT_FAILURE"
    and "space_handler E thr base fs = Some fs"
  shows "groom_handler E base cam fs = None \<and> monitor_dir E thr (cam # tab) False base fs = None"
proof -
  have "snprintf PATH_MAX_RA (base @ ''/'' @ full_path cam) = base @ ''/'' @ full_path cam"
    using assms(1) by (simp add: snprintf_def)
  then have "groom_handler E base cam fs = None"
    using groom_loop_stuck [OF assms(2,3)] by (simp add: groom_handler_def)
  with assms(4) show ?thesis by (simp add: monitor_dir_def)
qed

theorem groom_spins_witness:
  "monitor_dir (demo_mon\<lparr>may_delete := \<lambda>_. False, statvfs := \<lambda>_ _. None\<rparr>) 20
     [\<lparr>full_path = ''CAM'', max_usec = 0\<rparr>] False ''/chm'' demo_drive = None"
proof -
  let ?E = "demo_mon\<lparr>may_delete := \<lambda>_. False, statvfs := \<lambda>_ _. None\<rparr>"
  let ?es = "[(demo_late, Reg \<lparr>st_size = 1, st_mtime = 0\<rparr>), (demo_chunk, Reg \<lparr>st_size = 1, st_mtime = 0\<rparr>)]"
  have es: "resolve demo_drive ''/chm/CAM'' = Some (Dir ?es)" by (simp add: resolve_def demo_drive_def)
  have v: "visits skip_duration ''/chm/CAM'' ?es = [File_At (''/chm/CAM/'' @ demo_late), File_At (''/chm/CAM/'' @ demo_chunk)]"
    by (simp add: skip_duration_def demo_not_skipped) (simp add: demo_chunk_def demo_late_def)
  have du: "get_file_duration (''/chm/CAM/'' @ n) = name_duration n" if "plain_name n" for n
    using strrchr_name [of n "''/chm/CAM''"] that by (simp add: get_file_duration_def plain_name_def)
  have "process_duration demo_drive ''/chm/CAM'' = fold (do_visit (\<lambda>path s. s + word_of_int (get_file_duration path))
      (\<lambda>_ _ s. s)) (visits skip_duration ''/chm/CAM'' ?es) 0"
    unfolding process_duration_def
    by (rule scan_dir_visits [OF es]) (simp_all add: PATH_MAX_RA_def skip_duration_def skip_oldest_def)
  also have "\<dots> = 200" unfolding v using du [of demo_chunk] du [of demo_late] by (simp add: demo_duration)
  finally have d: "process_duration demo_drive ''/chm/CAM'' = 200" .
  have "fst (delete_oldest_file ?E 0 (Some ''CAM'') demo_drive) = EXIT_FAILURE"
    by (auto simp: delete_oldest_file_def c_remove_def split: prod.split option.split)
  moreover have "space_handler ?E 20 ''/chm'' demo_drive = Some demo_drive"
    by (simp add: space_handler_def process_available_space_def)
  moreover have "drive_of ?E ''/chm'' = 0" using demo_paths(3) by (simp add: drive_of_def)
  ultimately show ?thesis
    using groom_spins [of "''/chm''" "\<lparr>full_path = ''CAM'', max_usec = 0\<rparr>" demo_drive ?E 20 "[]"] d
    by (simp add: PATH_MAX_RA_def)
qed

section \<open>The names of the recorder\<close>

text \<open>
  C22: the monitor reads the recorder's names right. From the path of a finished chunk the monitor takes the
  second in which the recording began (in its local time zone, which here is the recorder's) and the
  microseconds the recorder wrote into the name.
\<close>

theorem recorder_name_read:
  assumes "local_mktime E = mktime" "1000 \<le> tm_year (gmtime_r t) + 1900" "tm_year (gmtime_r t) + 1900 \<le> 9999"
    and "int usecs \<le> LONG_MAX"
  shows "file_name_to_epoch_sm E (dir @ ''/'' @ chunk_name (gmtime_r t) @ data_suffix usecs) = t \<and>
    get_file_duration (dir @ ''/'' @ chunk_name (gmtime_r t) @ data_suffix usecs) = int usecs"
proof -
  let ?n = "chunk_name (gmtime_r t) @ data_suffix usecs"
  have nd: "\<not> is_digit CHR ''.''" "\<not> is_digit CHR ''/''" by (simp_all add: is_digit_def)
  have n: "name_tm ?n = gmtime_r t"
    using name_tm_chunk [OF gmtime_valid assms(2,3), of "data_suffix usecs"] nd by (simp add: data_suffix_def)
  have "CHR ''/'' \<notin> set (chunk_name (gmtime_r t))"
    using nd(2) pad0_digits by (auto simp: chunk_name_shape(1) [OF gmtime_valid assms(2,3)])
  moreover have "CHR ''/'' \<notin> set (data_suffix usecs)" using nd(2) pad0_digits by (auto simp: data_suffix_def)
  ultimately have "strrchr (dir @ CHR ''/'' # ?n) CHR ''/'' = Some (CHR ''/'' # ?n)" by (intro strrchr_name) simp
  with n name_duration_chunk [OF gmtime_valid assms(2-4)] show ?thesis
    by (simp add: file_name_to_epoch_sm_def get_file_duration_def assms(1) mktime_gmtime)
qed

lemma gmtime_100: "gmtime_r 100 = \<lparr>tm_year = 70, tm_mon = 0, tm_mday = 1, tm_hour = 0, tm_min = 1, tm_sec = 40\<rparr>"
  using gmtime_mktime [of "\<lparr>tm_year = 70, tm_mon = 0, tm_mday = 1, tm_hour = 0, tm_min = 1, tm_sec = 40\<rparr>"]
  by (simp add: mktime_def days_to_year_def days_to_month_def leaps_to_def valid_tm_def month_len_def)

theorem recorder_name_read_witness:
  "get_file_duration (''d'' @ ''/'' @ chunk_name (gmtime_r 100) @ data_suffix 7) = 7"
  using recorder_name_read [of "demo_mon\<lparr>local_mktime := mktime\<rparr>" 100 7 "''d''"]
  by (simp add: gmtime_100 LONG_MAX_def)

section \<open>Ages that cannot be read\<close>

text \<open>
  The limit of a camera whose age cannot be read is computed again from the value left by the camera before
  it: a second camera whose age is not a number gets the limit of the first, multiplied once more.
\<close>

lemma stale_age:
  assumes "sscanf_u64 (max_age c) = None" "disp_mac c \<noteq> []" "max_age c \<noteq> []" "length (cam_name c) \<le> 12"
    and "crt * 3600000000 > 0" "length tab < MAX_CAMERA_COUNT"
  shows "\<exists>p. time_based_cameras E [c] crt tab = Some (tab @ [\<lparr>full_path = p, max_usec = crt * 3600000000\<rparr>])"
  using assms by (simp add: Let_def mult.assoc)

end
