(* ===== verification/Recording_List.thy ===== *)
theory Recording_List
  imports Chunk_Name Dir_Delete Xml_Writer
begin

text \<open>
  The list of recordings (\<open>camera_recordings.c\<close>): the scan of a drive into one chunk table per camera, the
  sort by start time, and the printed intervals of continuous recording. \<open>None\<close> is an access outside the
  tables.
\<close>

section \<open>State\<close>

record single_chunk =
  chunk_start :: int
  chunk_duration_us :: u64

text \<open>One entry of \<open>TIME_ARRAY\<close>; the entries of \<open>recording\<close> that were not written are zero.\<close>

record cam_rec =
  recording :: "nat \<Rightarrow> single_chunk"
  num_chunks :: u16
  camera_name :: string

text \<open>
  The scan's state: the table, \<open>*camera_increment\<close>, and the static \<open>current_chunk_index\<close>, which lives
  from one drive to the next.
\<close>

record rl_state =
  TIME_ARRAY :: "cam_rec list"
  camera_increment :: nat
  current_chunk_index :: nat

record rl_env =
  rl_drive :: "nat \<Rightarrow> string"
  rl_CHM :: nat
  rl_RSSD :: nat
  rl_mktime :: "tm \<Rightarrow> int"

definition MAX_TRACKS :: nat where "MAX_TRACKS = 16"
definition MAX_DRIVES :: nat where "MAX_DRIVES = 2"
definition MAX_CHUNKS :: nat where "MAX_CHUNKS = 65536"
definition RL_NAME_LENGTH :: nat where "RL_NAME_LENGTH = 12"
definition RL_PATH_MAX :: nat where "RL_PATH_MAX = 4096"
definition RL_MAX_TIME_T :: int where "RL_MAX_TIME_T = 2147483647"
definition micro_secs_per_second :: int where "micro_secs_per_second = 1000000"

definition DRIVE_NAME_ARRAY :: "string list" where "DRIVE_NAME_ARRAY = [''CHM'', ''SSD'']"

definition empty_cam :: cam_rec where
  "empty_cam = \<lparr>recording = (\<lambda>_. \<lparr>chunk_start = 0, chunk_duration_us = 0\<rparr>), num_chunks = 0, camera_name = []\<rparr>"

section \<open>Files and names\<close>

definition get_drive_availability :: "rl_env \<Rightarrow> fs_node \<Rightarrow> nat \<Rightarrow> bool" where
  "get_drive_availability E fs drive \<longleftrightarrow> readdir_all fs (rl_drive E drive) \<noteq> None"

text \<open>The \<open>int\<close> the comparison returns is the truncated difference.\<close>

definition compare_chunks :: "single_chunk \<Rightarrow> single_chunk \<Rightarrow> int" where
  "compare_chunks a b = s32 (chunk_start a - chunk_start b)"

definition get_file_duration_rl :: "string \<Rightarrow> int" where
  "get_file_duration_rl file_path =
     (case strrchr file_path CHR ''/'' of None \<Rightarrow> - 1 | Some f \<Rightarrow> name_duration (tl f))"

definition file_name_to_epoch_rl :: "rl_env \<Rightarrow> string \<Rightarrow> int" where
  "file_name_to_epoch_rl E file_path =
     (case strrchr file_path CHR ''/'' of
        None \<Rightarrow> RL_MAX_TIME_T
      | Some f \<Rightarrow> rl_mktime E (name_tm (tl f)))"

definition epoch_to_timestamp :: "int \<Rightarrow> string" where
  "epoch_to_timestamp t = take 30 (strftime_icd (gmtime_r t))"

section \<open>The scan\<close>

definition skip_rl :: "string \<Rightarrow> bool" where
  "skip_rl n \<longleftrightarrow> n = ''..'' \<or> n = ''.'' \<or> n = ''lost+found'' \<or> n = ''staging'' \<or> n = ''METADATA''"

definition chunk_at :: "rl_env \<Rightarrow> string \<Rightarrow> single_chunk" where
  "chunk_at E path = \<lparr>chunk_start = file_name_to_epoch_rl E path,
     chunk_duration_us = word_of_int (get_file_duration_rl path)\<rparr>"

definition add_chunk :: "rl_env \<Rightarrow> string \<Rightarrow> rl_state option \<Rightarrow> rl_state option" where
  "add_chunk E path so = Option.bind so (\<lambda>s.
     let ci = camera_increment s; k = current_chunk_index s
     in if ci \<ge> MAX_TRACKS \<or> k \<ge> MAX_CHUNKS then None
        else let c = TIME_ARRAY s ! ci
             in Some (s\<lparr>TIME_ARRAY := (TIME_ARRAY s)[ci := c\<lparr>recording := (recording c)(k := chunk_at E path),
                                                          num_chunks := num_chunks c + 1\<rparr>],
                        current_chunk_index := k + 1\<rparr>))"

text \<open>
  The camera name without trailing underscores. A shorter name ends with a zero byte, where the loop
  stops at once; a name of underscores only is read before its first byte.
\<close>

definition strip_name :: "string \<Rightarrow> string option" where
  "strip_name d_name =
     (let s = take RL_NAME_LENGTH d_name
      in if length s < RL_NAME_LENGTH then Some s
         else let r = rev (dropWhile (\<lambda>c. c = CHR ''_'') (rev s))
              in if r = [] then None else Some r)"

definition end_camera :: "rl_env \<Rightarrow> string \<Rightarrow> string \<Rightarrow> rl_state option \<Rightarrow> rl_state option" where
  "end_camera E dir_path d_name so = Option.bind so (\<lambda>s.
     if dir_path = rl_drive E 0 \<or> dir_path = rl_drive E 1 then
       let ci = camera_increment s
       in if ci \<ge> MAX_TRACKS then None
          else case strip_name d_name of
                 None \<Rightarrow> None
               | Some nm \<Rightarrow>
                   Some (s\<lparr>TIME_ARRAY := (TIME_ARRAY s)[ci := (TIME_ARRAY s ! ci)\<lparr>camera_name := nm\<rparr>],
                           camera_increment := ci + 1, current_chunk_index := 0\<rparr>)
     else Some s)"

definition search_directory :: "rl_env \<Rightarrow> fs_node \<Rightarrow> string \<Rightarrow> rl_state \<Rightarrow> rl_state option" where
  "search_directory E fs dir_path s =
     scan_dir RL_PATH_MAX skip_rl (add_chunk E) (end_camera E) fs dir_path (Some s)"

section \<open>Sorting and printing\<close>

text \<open>\<open>qsort\<close> with a comparison function: the C library sorts by a stable merge sort.\<close>

fun insert_by :: "('a \<Rightarrow> 'a \<Rightarrow> int) \<Rightarrow> 'a \<Rightarrow> 'a list \<Rightarrow> 'a list" where
  "insert_by cmp x [] = [x]"
| "insert_by cmp x (y # ys) = (if cmp x y \<le> 0 then x # y # ys else y # insert_by cmp x ys)"

definition qsort :: "('a \<Rightarrow> 'a \<Rightarrow> int) \<Rightarrow> 'a list \<Rightarrow> 'a list" where
  "qsort cmp xs = foldr (insert_by cmp) xs []"

definition chunks_of :: "cam_rec \<Rightarrow> single_chunk list" where
  "chunks_of c = map (recording c) [0..<unat (num_chunks c)]"

text \<open>
  The test for a gap: \<open>time_t\<close> plus \<open>uint64_t\<close> is unsigned, and \<open>abs\<close> takes the low 32 bits as an
  \<open>int\<close>.
\<close>

definition is_gap :: "single_chunk \<Rightarrow> single_chunk \<Rightarrow> bool" where
  "is_gap a b \<longleftrightarrow>
     abs (s32 (chunk_start b - (chunk_start a + uint (chunk_duration_us a) div micro_secs_per_second))) > 1"

definition tab_line :: "nat \<Rightarrow> string \<Rightarrow> string" where
  "tab_line k s = replicate k (CHR 0x09) @ s @ [CHR 0x0A]"

definition time_line :: "string \<Rightarrow> int \<Rightarrow> string" where
  "time_line nm t = tab_line 3 (''<'' @ nm @ ''>'' @ epoch_to_timestamp t @ ''</'' @ nm @ ''>'')"

definition end_in_loop :: "single_chunk \<Rightarrow> int" where
  "end_in_loop c = s64 (chunk_start c + s64 (uint (chunk_duration_us c) div micro_secs_per_second))"

text \<open>After the loop the duration is converted to \<open>time_t\<close> before the division.\<close>

definition end_after_loop :: "single_chunk \<Rightarrow> int" where
  "end_after_loop c = s64 (chunk_start c + s64 (uint (chunk_duration_us c)) sdiv micro_secs_per_second)"

fun print_gaps :: "single_chunk list \<Rightarrow> string" where
  "print_gaps (a # b # cs) =
     (if is_gap a b then
        time_line ''end_time'' (end_in_loop a) @ tab_line 2 ''</video_segments>'' @
        tab_line 2 ''<video_segments>'' @ time_line ''start_time'' (chunk_start b)
      else []) @ print_gaps (b # cs)"
| "print_gaps cs = []"

definition print_camera :: "nat \<Rightarrow> cam_rec \<Rightarrow> string" where
  "print_camera drive c =
     (let cs = qsort compare_chunks (chunks_of c)
      in if cs = [] then []
         else tab_line 1 ''<segments>'' @
           tab_line 2 (''<name>'' @ camera_name c @ ''</name>'') @
           tab_line 2 (''<location_name>'' @ DRIVE_NAME_ARRAY ! drive @ ''</location_name>'') @
           tab_line 2 ''<video_segments>'' @
           time_line ''start_time'' (chunk_start (hd cs)) @
           print_gaps cs @
           time_line ''end_time'' (end_after_loop (last cs)) @
           tab_line 2 ''</video_segments>'' @
           tab_line 1 ''</segments>'')"

text \<open>\<open>print_ssd\<close>: the output, and the static chunk index that is left.\<close>

definition print_ssd :: "rl_env \<Rightarrow> fs_node \<Rightarrow> nat \<Rightarrow> nat \<Rightarrow> (string \<times> nat) option" where
  "print_ssd E fs drive index =
     (if drive > MAX_DRIVES then Some ([], index)
      else if drive \<ge> length DRIVE_NAME_ARRAY then None
      else map_option
        (\<lambda>s. (concat (map (print_camera drive) (take (camera_increment s) (TIME_ARRAY s))), current_chunk_index s))
        (search_directory E fs (rl_drive E drive)
           \<lparr>TIME_ARRAY = replicate MAX_TRACKS empty_cam, camera_increment = 0, current_chunk_index = index\<rparr>))"

definition print_recordings :: "rl_env \<Rightarrow> fs_node \<Rightarrow> string option" where
  "print_recordings E fs =
     (case print_ssd E fs (rl_CHM E) 0 of
        None \<Rightarrow> None
      | Some (out1, index) \<Rightarrow>
          if get_drive_availability E fs (rl_RSSD E) then
            map_option (\<lambda>(out2, _). out1 @ out2) (print_ssd E fs (rl_RSSD E) index)
          else Some out1)"

definition recordings_main :: "rl_env \<Rightarrow> fs_node \<Rightarrow> string option" where
  "recordings_main E fs = map_option
     (\<lambda>out. tab_line 0 ''<?xml version=\"1.0\" encoding=\"UTF-8\"?>'' @ tab_line 0 ''<recordings_list>'' @
        out @ tab_line 0 ''</recordings_list>'') (print_recordings E fs)"

end
