(* ===== verification/Recording_Props.thy ===== *)
theory Recording_Props
  imports Recording_List
begin

text \<open>
  What the list of recordings contains: the tables the scan builds, the intervals that are printed and
  what they cover, and the nesting of the printed tags.
\<close>

section \<open>The tables the scan builds\<close>

definition files_of :: "visit list \<Rightarrow> string list" where
  "files_of vs = concat (map (\<lambda>v. case v of File_At p \<Rightarrow> [p] | Left_Dir _ _ \<Rightarrow> []) vs)"

lemma files_of_simps [simp]:
  "files_of [] = []" "files_of (File_At p # vs) = p # files_of vs" "files_of (Left_Dir d n # vs) = files_of vs"
  "files_of (vs @ ws) = files_of vs @ files_of ws"
  by (simp_all add: files_of_def)

definition put_chunks :: "single_chunk list \<Rightarrow> nat \<Rightarrow> cam_rec \<Rightarrow> cam_rec" where
  "put_chunks cs k c = c\<lparr>recording := (\<lambda>i. if k \<le> i \<and> i < k + length cs then cs ! (i - k) else recording c i),
     num_chunks := num_chunks c + of_nat (length cs)\<rparr>"

lemma put_chunks_Nil [simp]: "put_chunks [] k c = c"
  by (cases c) (auto simp: put_chunks_def fun_eq_iff)

lemma put_chunks_Cons:
  "put_chunks cs (Suc k) (c\<lparr>recording := (recording c)(k := x), num_chunks := num_chunks c + 1\<rparr>) = put_chunks (x # cs) k c"
  by (auto simp: put_chunks_def fun_eq_iff nth_Cons' algebra_simps)

abbreviation rl_visit :: "rl_env \<Rightarrow> visit \<Rightarrow> rl_state option \<Rightarrow> rl_state option" where
  "rl_visit E \<equiv> do_visit (add_chunk E) (end_camera E)"

lemma scan_files:
  assumes "\<forall>d n. Left_Dir d n \<in> set vs \<longrightarrow> d \<noteq> rl_drive E 0 \<and> d \<noteq> rl_drive E 1"
    and "camera_increment s < MAX_TRACKS" "length (TIME_ARRAY s) = MAX_TRACKS"
    and "current_chunk_index s + length (files_of vs) \<le> MAX_CHUNKS"
  shows "fold (rl_visit E) vs (Some s) = Some (s\<lparr>
     TIME_ARRAY := (TIME_ARRAY s)[camera_increment s :=
       put_chunks (map (chunk_at E) (files_of vs)) (current_chunk_index s) (TIME_ARRAY s ! camera_increment s)],
     current_chunk_index := current_chunk_index s + length (files_of vs)\<rparr>)"
  using assms
proof (induction vs arbitrary: s)
  case (Cons v vs)
  show ?case
  proof (cases v)
    case (File_At p)
    let ?ci = "camera_increment s" and ?k = "current_chunk_index s"
    let ?c = "TIME_ARRAY s ! ?ci"
    let ?s = "s\<lparr>TIME_ARRAY := (TIME_ARRAY s)[?ci := ?c\<lparr>recording := (recording ?c)(?k := chunk_at E p),
                num_chunks := num_chunks ?c + 1\<rparr>], current_chunk_index := ?k + 1\<rparr>"
    have a: "add_chunk E p (Some s) = Some ?s"
      using Cons.prems File_At by (simp add: add_chunk_def Let_def)
    have "fold (rl_visit E) vs (Some ?s) = Some (?s\<lparr>
       TIME_ARRAY := (TIME_ARRAY ?s)[camera_increment ?s :=
         put_chunks (map (chunk_at E) (files_of vs)) (current_chunk_index ?s) (TIME_ARRAY ?s ! camera_increment ?s)],
       current_chunk_index := current_chunk_index ?s + length (files_of vs)\<rparr>)"
      using Cons.prems File_At by (intro Cons.IH) auto
    then show ?thesis using Cons.prems(2,3) by (simp add: File_At a put_chunks_Cons)
  next
    case (Left_Dir d n)
    with Cons.prems have "end_camera E d n (Some s) = Some s" by (auto simp: end_camera_def)
    moreover have "fold (rl_visit E) vs (Some s) = Some (s\<lparr>
       TIME_ARRAY := (TIME_ARRAY s)[camera_increment s :=
         put_chunks (map (chunk_at E) (files_of vs)) (current_chunk_index s) (TIME_ARRAY s ! camera_increment s)],
       current_chunk_index := current_chunk_index s + length (files_of vs)\<rparr>)"
      using Cons.prems Left_Dir by (intro Cons.IH) auto
    ultimately show ?thesis by (simp add: Left_Dir)
  qed
qed simp

text \<open>The cameras of a drive: its directories, each with the chunks of all files below it.\<close>

fun drive_cameras :: "rl_env \<Rightarrow> string \<Rightarrow> (string \<times> fs_node) list \<Rightarrow> (string \<times> single_chunk list) list" where
  "drive_cameras E root [] = []"
| "drive_cameras E root ((n, Reg st) # es) = drive_cameras E root es"
| "drive_cameras E root ((n, Dir es') # es) =
     (if skip_rl n then []
      else [(n, map (chunk_at E) (files_of (visits skip_rl (root @ CHR ''/'' # n) es')))]) @
     drive_cameras E root es"

text \<open>A drive: only directories at the top, and no drive path inside the other.\<close>

definition drive_shape :: "rl_env \<Rightarrow> string \<Rightarrow> (string \<times> fs_node) list \<Rightarrow> bool" where
  "drive_shape E root es \<longleftrightarrow>
     (root = rl_drive E 0 \<or> root = rl_drive E 1) \<and>
     (\<forall>p. rl_drive E 0 \<noteq> root @ CHR ''/'' # p \<and> rl_drive E 1 \<noteq> root @ CHR ''/'' # p) \<and>
     (\<forall>n st. (n, Reg st) \<in> set es \<longrightarrow> skip_rl n)"

lemma visits_below: "Left_Dir d n \<in> set (visits skip dir es) \<Longrightarrow> \<exists>p. d = dir @ p"
  by (induction skip dir es rule: visits.induct) (fastforce split: if_splits)+

definition cam_entry :: "string \<times> single_chunk list \<Rightarrow> cam_rec" where
  "cam_entry c = (put_chunks (snd c) 0 empty_cam)\<lparr>camera_name := the (strip_name (fst c))\<rparr>"

lemma scan_cameras:
  assumes "drive_shape E root es" "current_chunk_index s = 0"
    and "length (TIME_ARRAY s) = MAX_TRACKS"
    and "camera_increment s + length (drive_cameras E root es) \<le> MAX_TRACKS"
    and "\<forall>i. camera_increment s \<le> i \<longrightarrow> i < MAX_TRACKS \<longrightarrow> TIME_ARRAY s ! i = empty_cam"
    and "\<forall>(n, cs) \<in> set (drive_cameras E root es). strip_name n \<noteq> None \<and> length cs < MAX_CHUNKS"
  shows "\<exists>s'. fold (rl_visit E) (visits skip_rl root es) (Some s) = Some s' \<and> current_chunk_index s' = 0 \<and>
     camera_increment s' = camera_increment s + length (drive_cameras E root es) \<and>
     take (camera_increment s') (TIME_ARRAY s') =
       take (camera_increment s) (TIME_ARRAY s) @ map cam_entry (drive_cameras E root es)"
  using assms
proof (induction es arbitrary: s)
  case Nil
  then show ?case by simp
next
  case (Cons e es)
  have shape: "drive_shape E root es" using Cons.prems(1) by (simp add: drive_shape_def)
  obtain n x where e: "e = (n, x)" by (cases e)
  show ?case
  proof (cases "skip_rl n")
    case True
    with e have "visits skip_rl root (e # es) = visits skip_rl root es"
      "drive_cameras E root (e # es) = drive_cameras E root es" by (cases x; simp)+
    with Cons.IH [OF shape Cons.prems(2,3)] Cons.prems(4-6) show ?thesis by simp
  next
    case False
    then obtain es' where x: "x = Dir es'"
      using Cons.prems(1) e by (cases x) (auto simp: drive_shape_def)
    let ?vs = "visits skip_rl (root @ CHR ''/'' # n) es'" and ?ci = "camera_increment s"
    define cs where "cs = map (chunk_at E) (files_of ?vs)"
    have dc: "drive_cameras E root (e # es) = (n, cs) # drive_cameras E root es"
      using False by (simp add: e x cs_def)
    obtain nm where nm: "strip_name n = Some nm" using Cons.prems(6) dc by auto
    have len: "length (files_of ?vs) < MAX_CHUNKS" using Cons.prems(6) dc by (auto simp: cs_def)
    have ci: "?ci < MAX_TRACKS" using Cons.prems(4) dc by simp
    have below: "\<forall>d m. Left_Dir d m \<in> set ?vs \<longrightarrow> d \<noteq> rl_drive E 0 \<and> d \<noteq> rl_drive E 1"
      using visits_below [of _ _ skip_rl "root @ CHR ''/'' # n" es'] Cons.prems(1)
      unfolding drive_shape_def by fastforce
    let ?s1 = "s\<lparr>TIME_ARRAY := (TIME_ARRAY s)[?ci := put_chunks cs 0 empty_cam],
                 current_chunk_index := length (files_of ?vs)\<rparr>"
    let ?s2 = "?s1\<lparr>TIME_ARRAY := (TIME_ARRAY s)[?ci := cam_entry (n, cs)],
                 camera_increment := ?ci + 1, current_chunk_index := 0\<rparr>"
    have "fold (rl_visit E) ?vs (Some s) = Some ?s1"
      using scan_files [OF below ci Cons.prems(3)] len Cons.prems(2,5) ci by (simp add: cs_def)
    moreover have "end_camera E root n (Some ?s1) = Some ?s2"
      using Cons.prems(1,3) ci nm by (auto simp: end_camera_def drive_shape_def cam_entry_def Let_def)
    ultimately have f: "fold (rl_visit E) (visits skip_rl root (e # es)) (Some s) =
        fold (rl_visit E) (visits skip_rl root es) (Some ?s2)"
      using False by (simp add: e x)
    have "\<exists>s'. fold (rl_visit E) (visits skip_rl root es) (Some ?s2) = Some s' \<and> current_chunk_index s' = 0 \<and>
       camera_increment s' = camera_increment ?s2 + length (drive_cameras E root es) \<and>
       take (camera_increment s') (TIME_ARRAY s') =
         take (camera_increment ?s2) (TIME_ARRAY ?s2) @ map cam_entry (drive_cameras E root es)"
      using Cons.prems dc by (intro Cons.IH [OF shape]) auto
    moreover have "take (camera_increment ?s2) (TIME_ARRAY ?s2) = take ?ci (TIME_ARRAY s) @ [cam_entry (n, cs)]"
      using Cons.prems(3) ci by (simp add: take_Suc_conv_app_nth)
    ultimately show ?thesis unfolding f dc by auto
  qed
qed

lemma chunks_of_entry:
  assumes "length cs < MAX_CHUNKS"
  shows "chunks_of (cam_entry (n, cs)) = cs"
proof -
  have "unat (of_nat (length cs) :: u16) = length cs"
    using assms by (simp add: MAX_CHUNKS_def unat_of_nat take_bit_nat_eq_self)
  then show ?thesis
    by (intro nth_equalityI) (simp_all add: chunks_of_def cam_entry_def put_chunks_def empty_cam_def)
qed

section \<open>Sorting\<close>

lemma qsort_key:
  assumes "\<forall>a \<in> set xs. \<forall>b \<in> set xs. cmp a b \<le> 0 \<longleftrightarrow> f a \<le> (f b :: 'k::linorder)"
  shows "qsort cmp xs = sort_key f xs"
proof -
  have ins: "insert_by cmp x ys = insort_key f x ys" if "x \<in> set xs" "set ys \<subseteq> set xs" for x ys
    using that assms by (induction ys) auto
  have "foldr (insert_by cmp) zs [] = foldr (insort_key f) zs []" if "set zs \<subseteq> set xs" for zs
    using that
  proof (induction zs)
    case (Cons z zs)
    have "set (sort_key f zs) \<subseteq> set xs" using Cons.prems by simp
    with Cons ins [of z "sort_key f zs"] show ?case by (simp add: sort_key_def)
  qed simp
  then show ?thesis by (simp add: qsort_def sort_key_def)
qed

section \<open>Intervals of continuous recording\<close>

definition end_of :: "single_chunk \<Rightarrow> int" where
  "end_of c = chunk_start c + uint (chunk_duration_us c) div 1000000"

text \<open>
  A chunk of at least a second, with times the 32-bit conversions keep; chunks of shorter duration can
  make an interval end before its chunks do.
\<close>

definition sane_chunk :: "single_chunk \<Rightarrow> bool" where
  "sane_chunk c \<longleftrightarrow> 0 \<le> chunk_start c \<and> 1000000 \<le> uint (chunk_duration_us c) \<and> end_of c < 2147483648"

lemma sane_bounds:
  assumes "sane_chunk c"
  shows "chunk_start c + 1 \<le> end_of c" "uint (chunk_duration_us c) < 9223372036854775808"
    "chunk_start c < 2147483648" "0 \<le> uint (chunk_duration_us c) div 1000000"
    "uint (chunk_duration_us c) div 1000000 < 2147483648"
proof -
  let ?d = "uint (chunk_duration_us c)"
  have "1000000 div 1000000 \<le> ?d div 1000000"
    using assms unfolding sane_chunk_def by (intro zdiv_mono1) auto
  then show s: "chunk_start c + 1 \<le> end_of c" by (simp add: end_of_def)
  show "0 \<le> ?d div 1000000" by (simp add: pos_imp_zdiv_nonneg_iff)
  show q: "?d div 1000000 < 2147483648" using assms by (simp add: sane_chunk_def end_of_def)
  have "?d = 1000000 * (?d div 1000000) + ?d mod 1000000" by simp
  moreover have "?d mod 1000000 < 1000000" by simp
  ultimately show "?d < 9223372036854775808" using q by linarith
  show "chunk_start c < 2147483648" using s assms by (simp add: sane_chunk_def)
qed

lemma sane_gap:
  assumes "sane_chunk a" "sane_chunk b"
  shows "is_gap a b \<longleftrightarrow> abs (chunk_start b - end_of a) > 1"
proof -
  have "0 \<le> end_of a" using sane_bounds(1) [OF assms(1)] assms(1) by (simp add: sane_chunk_def)
  then have "- 2147483648 \<le> chunk_start b - end_of a" "chunk_start b - end_of a < 2147483648"
    using assms sane_bounds(3) [OF assms(2)] by (auto simp: sane_chunk_def)
  then show ?thesis by (simp add: is_gap_def end_of_def micro_secs_per_second_def)
qed

lemma sane_ends:
  assumes "sane_chunk c"
  shows "end_in_loop c = end_of c" "end_after_loop c = end_of c"
  using sane_bounds [OF assms] assms
  by (simp_all add: end_in_loop_def end_after_loop_def end_of_def sane_chunk_def micro_secs_per_second_def)

text \<open>The runs of chunks without a gap between neighbours: what the printed intervals stand for.\<close>

fun runs :: "single_chunk list \<Rightarrow> single_chunk list list" where
  "runs (a # b # cs) =
     (if is_gap a b then [a] # runs (b # cs) else (a # hd (runs (b # cs))) # tl (runs (b # cs)))"
| "runs [a] = [[a]]"
| "runs [] = []"

lemma runs_nonempty: "cs \<noteq> [] \<Longrightarrow> \<exists>r rs. runs cs = r # rs \<and> r \<noteq> [] \<and> hd r = hd cs"
  by (induction cs rule: runs.induct) auto

lemma concat_runs [simp]: "concat (runs cs) = cs"
proof (induction cs rule: runs.induct)
  case (1 a b cs)
  obtain r rs where "runs (b # cs) = r # rs" using runs_nonempty [of "b # cs"] by auto
  with 1 show ?case by auto
qed simp_all

definition interval :: "single_chunk list \<Rightarrow> int \<times> int" where
  "interval r = (chunk_start (hd r), end_of (last r))"

definition intervals :: "cam_rec \<Rightarrow> (int \<times> int) list" where
  "intervals c = map interval (runs (sort_key chunk_start (chunks_of c)))"

text \<open>Within a run the chunks end in order.\<close>

lemma run_last:
  "runs cs = r # rs \<Longrightarrow> \<forall>c \<in> set cs. sane_chunk c \<Longrightarrow> end_of (hd r) \<le> end_of (last r)"
proof (induction cs arbitrary: r rs rule: runs.induct)
  case (1 a b cs)
  obtain q qs where q: "runs (b # cs) = q # qs" "q \<noteq> []" "hd q = b" using runs_nonempty [of "b # cs"] by auto
  show ?case
  proof (cases "is_gap a b")
    case True
    with "1.prems" show ?thesis by auto
  next
    case False
    with "1.prems"(1) q have r: "r = a # q" by auto
    have "end_of b \<le> end_of (last q)" using "1.IH"(2) [OF False q(1)] "1.prems"(2) q(3) by simp
    moreover have "end_of a \<le> end_of b"
    proof -
      have sb: "sane_chunk a" "sane_chunk b" using "1.prems"(2) by simp_all
      with False sane_gap [OF sb] sane_bounds(1) [OF sb(2)] show ?thesis by linarith
    qed
    ultimately show ?thesis using r q(2) by simp
  qed
qed auto

text \<open>The seconds of a run: those of its chunks, none between.\<close>

lemma run_seconds:
  assumes "sorted (map chunk_start cs)" "\<forall>c \<in> set cs. sane_chunk c"
  shows "(\<exists>(s, e) \<in> set (map interval (runs cs)). s \<le> t \<and> t \<le> e) \<longleftrightarrow>
     (\<exists>c \<in> set cs. chunk_start c \<le> t \<and> t \<le> end_of c)"
  using assms
proof (induction cs rule: runs.induct)
  case (1 a b cs)
  obtain r rs where r: "runs (b # cs) = r # rs" "r \<noteq> []" "hd r = b" using runs_nonempty [of "b # cs"] by auto
  have IH: "(\<exists>(s, e) \<in> set (map interval (r # rs)). s \<le> t \<and> t \<le> e) \<longleftrightarrow>
     (\<exists>c \<in> set (b # cs). chunk_start c \<le> t \<and> t \<le> end_of c)"
    using 1 r(1) by (cases "is_gap a b") auto
  show ?case
  proof (cases "is_gap a b")
    case True
    with IH r show ?thesis by (simp add: interval_def)
  next
    case False
    have ab: "chunk_start a \<le> chunk_start b" and sa: "sane_chunk a" and sb: "sane_chunk b"
      using "1.prems" by auto
    have near: "chunk_start b \<le> end_of a + 1" "end_of a \<le> end_of b"
      using False sane_gap [OF sa sb] sane_bounds(1) [OF sb] by auto
    have last: "end_of a \<le> end_of (last r)"
    proof -
      have "\<forall>c \<in> set (b # cs). sane_chunk c" using "1.prems"(2) by simp
      from run_last [OF r(1) this] r(3) near(2) show ?thesis by simp
    qed
    let ?rest = "\<exists>(s, e) \<in> set (map interval rs). s \<le> t \<and> t \<le> e"
      and ?in = "\<lambda>c. chunk_start c \<le> t \<and> t \<le> end_of c"
    have rr: "runs (a # b # cs) = (a # r) # rs" using False r(1) by simp
    have i: "interval (a # r) = (chunk_start a, end_of (last r))" "interval r = (chunk_start b, end_of (last r))"
      using r by (simp_all add: interval_def)
    have L: "(\<exists>(s, e) \<in> set (map interval (runs (a # b # cs))). s \<le> t \<and> t \<le> e) \<longleftrightarrow>
        (chunk_start a \<le> t \<and> t \<le> end_of (last r)) \<or> ?rest"
      unfolding rr by (simp add: i(1))
    have B: "(chunk_start b \<le> t \<and> t \<le> end_of (last r)) \<or> ?rest \<longleftrightarrow> (\<exists>c \<in> set (b # cs). ?in c)"
      using IH by (simp add: i(2))
    have "chunk_start a \<le> t \<and> t \<le> end_of (last r) \<longleftrightarrow>
        (chunk_start b \<le> t \<and> t \<le> end_of (last r)) \<or> ?in a"
      using near last ab by linarith
    moreover have "(\<exists>c \<in> set (a # b # cs). ?in c) \<longleftrightarrow> ?in a \<or> (\<exists>c \<in> set (b # cs). ?in c)" by simp
    ultimately show ?thesis unfolding L using B by blast
  qed
qed (auto simp: interval_def)

end
