(* ===== verification/Recording_Claims.thy ===== *)
theory Recording_Claims
  imports Recording_Props Space_Claims
begin

text \<open>
  The properties of the list of recordings: what is printed for a camera and which seconds it covers, and
  that the whole document is printed, with its tags nested. The drive of the space monitor's example
  serves here too.
\<close>

section \<open>The text of a camera\<close>

definition interval_text :: "int \<times> int \<Rightarrow> string" where
  "interval_text i = tab_line 2 ''<video_segments>'' @ time_line ''start_time'' (fst i) @
     time_line ''end_time'' (snd i) @ tab_line 2 ''</video_segments>''"

definition camera_text :: "nat \<Rightarrow> string \<Rightarrow> (int \<times> int) list \<Rightarrow> string" where
  "camera_text drive nm ivs = tab_line 1 ''<segments>'' @ tab_line 2 (''<name>'' @ nm @ ''</name>'') @
     tab_line 2 (''<location_name>'' @ DRIVE_NAME_ARRAY ! drive @ ''</location_name>'') @
     concat (map interval_text ivs) @ tab_line 1 ''</segments>''"

lemma gaps_text:
  assumes "cs \<noteq> []" "\<forall>c \<in> set cs. sane_chunk c"
  shows "tab_line 2 ''<video_segments>'' @ time_line ''start_time'' (chunk_start (hd cs)) @ print_gaps cs @
      time_line ''end_time'' (end_after_loop (last cs)) @ tab_line 2 ''</video_segments>'' =
    concat (map (\<lambda>r. interval_text (interval r)) (runs cs))"
  using assms
proof (induction cs rule: runs.induct)
  case (1 a b cs)
  note e = sane_ends [of a]
  obtain r rs where r: "runs (b # cs) = r # rs" "r \<noteq> []" "hd r = b" using runs_nonempty [of "b # cs"] by auto
  show ?case
  proof (cases "is_gap a b")
    case True
    with 1 e show ?thesis by (simp add: interval_text_def interval_def)
  next
    case False
    from "1.IH"(2) [OF False] "1.prems" r False show ?thesis
      by (simp add: interval_text_def interval_def)
  qed
next
  case (2 a)
  then show ?case using sane_ends [of a] by (simp add: interval_text_def interval_def)
qed simp

lemma compare_chunks_key:
  assumes "\<forall>c \<in> set cs. sane_chunk c"
  shows "qsort compare_chunks cs = sort_key chunk_start cs"
proof (rule qsort_key, intro ballI)
  fix a b assume "a \<in> set cs" "b \<in> set cs"
  with assms have "sane_chunk a" "sane_chunk b" by auto
  with sane_bounds(3) [of a] sane_bounds(3) [of b]
  show "compare_chunks a b \<le> 0 \<longleftrightarrow> chunk_start a \<le> chunk_start b"
    by (simp add: compare_chunks_def sane_chunk_def)
qed

text \<open>
  C23: the intervals of a camera. When every chunk lasts at least a second and its times fit 31 bits, the
  text printed for the camera lists one interval per run of chunks without a gap; a second lies in one of
  these intervals exactly when it lies in a chunk of the camera, in whatever order the scan found them.
\<close>

theorem listed_intervals:
  assumes "\<forall>c \<in> set (chunks_of cam). sane_chunk c" "chunks_of cam \<noteq> []"
  shows "print_camera drive cam = camera_text drive (camera_name cam) (intervals cam) \<and>
    ((\<exists>(s, e) \<in> set (intervals cam). s \<le> t \<and> t \<le> e) \<longleftrightarrow>
     (\<exists>c \<in> set (chunks_of cam). chunk_start c \<le> t \<and> t \<le> end_of c))"
proof -
  let ?cs = "sort_key chunk_start (chunks_of cam)"
  have cs: "?cs \<noteq> []" "\<forall>c \<in> set ?cs. sane_chunk c"
    using assms by (simp_all flip: set_empty)
  have "print_camera drive cam = camera_text drive (camera_name cam) (intervals cam)"
    using gaps_text [OF cs] cs(1)
    by (simp add: print_camera_def Let_def compare_chunks_key [OF assms(1)] camera_text_def intervals_def o_def)
  moreover have "(\<exists>(s, e) \<in> set (intervals cam). s \<le> t \<and> t \<le> e) \<longleftrightarrow>
     (\<exists>c \<in> set (chunks_of cam). chunk_start c \<le> t \<and> t \<le> end_of c)"
    using run_seconds [OF _ cs(2), of t] by (simp add: intervals_def)
  ultimately show ?thesis by blast
qed

definition demo_cam :: cam_rec where
  "demo_cam = cam_entry (''FRONT_______'', [\<lparr>chunk_start = 160, chunk_duration_us = 60000000\<rparr>,
     \<lparr>chunk_start = 100, chunk_duration_us = 60000000\<rparr>, \<lparr>chunk_start = 300, chunk_duration_us = 60000000\<rparr>])"

theorem listed_intervals_witness:
  "print_camera 0 demo_cam = camera_text 0 ''FRONT'' [(100, 220), (300, 360)]"
proof -
  have c: "chunks_of demo_cam = [\<lparr>chunk_start = 160, chunk_duration_us = 60000000\<rparr>,
     \<lparr>chunk_start = 100, chunk_duration_us = 60000000\<rparr>, \<lparr>chunk_start = 300, chunk_duration_us = 60000000\<rparr>]"
    unfolding demo_cam_def by (rule chunks_of_entry) (simp add: MAX_CHUNKS_def)
  have n: "camera_name demo_cam = ''FRONT''"
    by (simp add: demo_cam_def cam_entry_def strip_name_def RL_NAME_LENGTH_def)
  have "intervals demo_cam = [(100, 220), (300, 360)]"
    by (simp add: intervals_def c is_gap_def micro_secs_per_second_def interval_def end_of_def s32_def)
  with listed_intervals [of demo_cam 0] c n show ?thesis by (simp add: sane_chunk_def end_of_def)
qed

section \<open>Nesting\<close>

text \<open>Text that keeps an open tag open.\<close>

definition keeps_open :: "string \<Rightarrow> string \<Rightarrow> bool" where
  "keeps_open nm s \<longleftrightarrow> (\<forall>r st. xml_scan (s @ r) (nm # st) = xml_scan r (nm # st))"

lemma no_lt_tab: "CHR ''<'' \<notin> set (replicate k (CHR 0x09))" by simp

lemma timestamp_no_lt: "CHR ''<'' \<notin> set (epoch_to_timestamp t)"
proof -
  have "\<not> is_digit CHR ''<''" by (simp add: is_digit_def)
  then have "CHR ''<'' \<notin> set (pad0 w n)" for w n using pad0_digits by blast
  then have "CHR ''<'' \<notin> set (strftime_icd (gmtime_r t))" by (simp add: strftime_icd_def int_str_no_lt)
  then show ?thesis using in_set_takeD by (force simp: epoch_to_timestamp_def)
qed

lemma neutral_tab_line: "neutral s \<Longrightarrow> neutral (tab_line k s)"
  unfolding tab_line_def by (intro neutral_append neutral_text [of "replicate k _"] neutral_text [of "[_]"]) simp_all

lemma neutral_time_line: "tag_name nm \<Longrightarrow> neutral (time_line nm t)"
  unfolding time_line_def by (intro neutral_tab_line neutral_tagged neutral_text timestamp_no_lt)

lemma scan_neutral: "neutral s \<Longrightarrow> xml_scan (s @ r) st = xml_scan r st"
  by (simp add: neutral_def)

lemma scan_open_line: "tag_name nm \<Longrightarrow>
    xml_scan (tab_line k (''<'' @ nm @ ''>'') @ r) st = xml_scan r (nm # st)"
  using xml_scan_text [of "replicate k (CHR 0x09)" "CHR ''<'' # nm @ CHR ''>'' # [CHR 0x0A] @ r" st]
    xml_scan_open [of nm "[CHR 0x0A] @ r" st] xml_scan_text [of "[CHR 0x0A]" r "nm # st"]
  by (simp add: tab_line_def del: xml_scan.simps)

lemma scan_close_line: "tag_name nm \<Longrightarrow>
    xml_scan (tab_line k (''</'' @ nm @ ''>'') @ r) (nm # st) = xml_scan r st"
  using xml_scan_text [of "replicate k (CHR 0x09)" "CHR ''<'' # CHR ''/'' # nm @ CHR ''>'' # [CHR 0x0A] @ r" "nm # st"]
    xml_scan_close [of nm "[CHR 0x0A] @ r" st] xml_scan_text [of "[CHR 0x0A]" r st]
  by (simp add: tab_line_def del: xml_scan.simps)

lemma tags [simp]: "tag_name ''video_segments''" "tag_name ''start_time''" "tag_name ''end_time''"
  "tag_name ''segments''" "tag_name ''name''" "tag_name ''location_name''" "tag_name ''recordings_list''"
  by (simp_all add: tag_name_def)

lemma gaps_keep_open: "keeps_open ''video_segments'' (print_gaps cs)"
proof (induction cs rule: print_gaps.induct)
  case (1 a b cs)
  have o: "xml_scan (tab_line 2 ''<video_segments>'' @ r) st = xml_scan r (''video_segments'' # st)" for r st
    using scan_open_line [of "''video_segments''" 2 r st] by simp
  have c: "xml_scan (tab_line 2 ''</video_segments>'' @ r) (''video_segments'' # st) = xml_scan r st" for r st
    using scan_close_line [of "''video_segments''" 2 r st] by simp
  from 1 show ?case
    by (simp add: keeps_open_def scan_neutral [OF neutral_time_line] o c del: xml_scan.simps)
qed (simp_all add: keeps_open_def)

lemma neutral_camera:
  assumes "CHR ''<'' \<notin> set (camera_name cam)" "drive < 2"
  shows "neutral (print_camera drive cam)"
proof -
  have d: "neutral (DRIVE_NAME_ARRAY ! drive)"
    using assms(2) by (intro neutral_text) (auto simp: DRIVE_NAME_ARRAY_def less_Suc_eq numeral_2_eq_2)
  have n: "neutral (tab_line 2 (''<'' @ ''name'' @ ''>'' @ camera_name cam @ ''</'' @ ''name'' @ ''>''))"
    "neutral (tab_line 2 (''<'' @ ''location_name'' @ ''>'' @ DRIVE_NAME_ARRAY ! drive @ ''</'' @ ''location_name'' @ ''>''))"
    by (intro neutral_tab_line neutral_tagged neutral_text tags assms(1) d)+
  have o: "xml_scan (tab_line 2 ''<video_segments>'' @ r) st = xml_scan r (''video_segments'' # st)"
    "xml_scan (tab_line 1 ''<segments>'' @ r) st = xml_scan r (''segments'' # st)" for r st
    using scan_open_line [of "''video_segments''" 2 r st] scan_open_line [of "''segments''" 1 r st] by simp_all
  have c: "xml_scan (tab_line 2 ''</video_segments>'' @ r) (''video_segments'' # st) = xml_scan r st"
    "xml_scan (tab_line 1 ''</segments>'' @ r) (''segments'' # st) = xml_scan r st" for r st
    using scan_close_line [of "''video_segments''" 2 r st] scan_close_line [of "''segments''" 1 r st] by simp_all
  have g: "xml_scan (print_gaps cs @ r) (''video_segments'' # st) = xml_scan r (''video_segments'' # st)" for cs r st
    using gaps_keep_open [of cs] by (simp add: keeps_open_def)
  show ?thesis
    using scan_neutral [OF n(1)] scan_neutral [OF n(2)]
    by (simp add: neutral_def print_camera_def Let_def o c g scan_neutral [OF neutral_time_line]
        del: xml_scan.simps One_nat_def)
qed

section \<open>The whole document\<close>

text \<open>A drive the tables can hold.\<close>

definition listable :: "rl_env \<Rightarrow> fs_node \<Rightarrow> nat \<Rightarrow> bool" where
  "listable E fs drive \<longleftrightarrow> drive < 2 \<and>
     (case resolve fs (rl_drive E drive) of
        Some (Dir es) \<Rightarrow> wf_entries es \<and> fits RL_PATH_MAX skip_rl (rl_drive E drive) es \<and>
          drive_shape E (rl_drive E drive) es \<and> length (drive_cameras E (rl_drive E drive) es) \<le> MAX_TRACKS \<and>
          list_all (\<lambda>(n, cs). strip_name n \<noteq> None \<and> length cs < MAX_CHUNKS) (drive_cameras E (rl_drive E drive) es)
      | _ \<Rightarrow> True)"

definition listed_cameras :: "rl_env \<Rightarrow> fs_node \<Rightarrow> nat \<Rightarrow> (string \<times> single_chunk list) list" where
  "listed_cameras E fs drive =
     (case resolve fs (rl_drive E drive) of Some (Dir es) \<Rightarrow> drive_cameras E (rl_drive E drive) es | _ \<Rightarrow> [])"

lemma print_ssd_cameras:
  assumes "listable E fs drive"
  shows "print_ssd E fs drive 0 =
    Some (concat (map (\<lambda>c. print_camera drive (cam_entry c)) (listed_cameras E fs drive)), 0)"
proof -
  let ?root = "rl_drive E drive"
  let ?s = "\<lparr>TIME_ARRAY = replicate MAX_TRACKS empty_cam, camera_increment = 0, current_chunk_index = 0\<rparr>"
  have d: "\<not> MAX_DRIVES < drive" "\<not> length DRIVE_NAME_ARRAY \<le> drive"
    using assms by (simp_all add: listable_def MAX_DRIVES_def DRIVE_NAME_ARRAY_def)
  show ?thesis
  proof (cases "\<exists>es. resolve fs ?root = Some (Dir es)")
    case False
    then have "listed_cameras E fs drive = []" "search_directory E fs ?root ?s = Some ?s"
      by (auto simp: listed_cameras_def search_directory_def scan_dir.simps readdir_all_def
          split: option.split fs_node.split)
    then show ?thesis using d by (simp add: print_ssd_def)
  next
    case True
    then obtain es where es: "resolve fs ?root = Some (Dir es)" by blast
    then have l: "wf_entries es" "fits RL_PATH_MAX skip_rl ?root es" "drive_shape E ?root es"
      "length (drive_cameras E ?root es) \<le> MAX_TRACKS"
      "list_all (\<lambda>(n, cs). strip_name n \<noteq> None \<and> length cs < MAX_CHUNKS) (drive_cameras E ?root es)"
      using assms by (simp_all add: listable_def)
    have "search_directory E fs ?root ?s = fold (rl_visit E) (visits skip_rl ?root es) (Some ?s)"
      unfolding search_directory_def using l es by (intro scan_dir_visits) (simp_all add: skip_rl_def)
    moreover have "\<exists>s'. fold (rl_visit E) (visits skip_rl ?root es) (Some ?s) = Some s' \<and> current_chunk_index s' = 0 \<and>
       camera_increment s' = camera_increment ?s + length (drive_cameras E ?root es) \<and>
       take (camera_increment s') (TIME_ARRAY s') =
         take (camera_increment ?s) (TIME_ARRAY ?s) @ map cam_entry (drive_cameras E ?root es)"
      using l by (intro scan_cameras) (auto simp: list_all_iff)
    ultimately obtain s' where s': "search_directory E fs ?root ?s = Some s'" "current_chunk_index s' = 0"
      "take (camera_increment s') (TIME_ARRAY s') = map cam_entry (drive_cameras E ?root es)" by auto
    then show ?thesis using d es by (simp add: print_ssd_def listed_cameras_def o_def)
  qed
qed

lemma neutral_cameras:
  assumes "listable E fs drive" "list_all (\<lambda>(n, cs). CHR ''<'' \<notin> set n) (listed_cameras E fs drive)"
  shows "neutral (concat (map (\<lambda>c. print_camera drive (cam_entry c)) (listed_cameras E fs drive)))"
proof (rule neutral_concat)
  have "neutral (print_camera drive (cam_entry (n, cs)))" if n: "(n, cs) \<in> set (listed_cameras E fs drive)" for n cs
  proof (rule neutral_camera)
    have "strip_name n \<noteq> None"
      using assms(1) n by (auto simp: listable_def listed_cameras_def list_all_iff
          split: option.splits fs_node.splits)
    then obtain nm where nm: "strip_name n = Some nm" by blast
    then have "set nm \<subseteq> set n"
      by (auto simp: strip_name_def Let_def split: if_splits dest!: in_set_takeD set_dropWhileD)
    then show "CHR ''<'' \<notin> set (camera_name (cam_entry (n, cs)))"
      using assms(2) n nm
      by (auto simp: cam_entry_def list_all_iff)
    show "drive < 2" using assms(1) by (simp add: listable_def)
  qed
  then show "list_all neutral (map (\<lambda>c. print_camera drive (cam_entry c)) (listed_cameras E fs drive))"
    by (auto simp: list_all_iff)
qed

text \<open>
  C24: the document. On drives that hold only camera directories at the top (at most sixteen, each with
  fewer than 65536 files, named with anything but underscores and an opening bracket), the program
  writes no table out of bounds: it prints the cameras of the first drive and, when it is mounted, of
  the second one, each with all chunks below its directory, and the tags of the document nest.
\<close>

theorem recordings_document:
  assumes "listable E fs (rl_CHM E)" "listable E fs (rl_RSSD E)"
    and "list_all (\<lambda>(n, cs). CHR ''<'' \<notin> set n) (listed_cameras E fs (rl_CHM E) @ listed_cameras E fs (rl_RSSD E))"
  shows "\<exists>body. print_recordings E fs = Some body \<and>
    body = concat (map (\<lambda>c. print_camera (rl_CHM E) (cam_entry c)) (listed_cameras E fs (rl_CHM E))) @
      concat (map (\<lambda>c. print_camera (rl_RSSD E) (cam_entry c)) (listed_cameras E fs (rl_RSSD E))) \<and>
    (\<exists>d. recordings_main E fs = Some d \<and> xml_scan d [] = Some [])"
proof -
  let ?out = "\<lambda>drive. concat (map (\<lambda>c. print_camera drive (cam_entry c)) (listed_cameras E fs drive))"
  have empty: "listed_cameras E fs drive = []" if "\<not> get_drive_availability E fs drive" for drive
    using that by (auto simp: listed_cameras_def get_drive_availability_def readdir_all_def
        split: option.splits fs_node.splits)
  have p: "print_recordings E fs = Some (?out (rl_CHM E) @ ?out (rl_RSSD E))"
    using print_ssd_cameras [OF assms(1)] print_ssd_cameras [OF assms(2)] empty
    by (simp add: print_recordings_def)
  have body: "neutral (?out (rl_CHM E) @ ?out (rl_RSSD E))"
    using assms by (intro neutral_append neutral_cameras) auto
  have decl: "xml_scan (tab_line 0 ''<?xml version=\"1.0\" encoding=\"UTF-8\"?>'' @ r) st = xml_scan r st" for r st
    by (simp add: tab_line_def)
  have o: "xml_scan (tab_line 0 ''<recordings_list>'' @ r) st = xml_scan r (''recordings_list'' # st)" for r st
    using scan_open_line [of "''recordings_list''" 0 r st] by simp
  have c: "xml_scan (tab_line 0 ''</recordings_list>'') [''recordings_list''] = Some []"
    using scan_close_line [of "''recordings_list''" 0 "[]" "[]"] by simp
  have "recordings_main E fs = Some (tab_line 0 ''<?xml version=\"1.0\" encoding=\"UTF-8\"?>'' @
      tab_line 0 ''<recordings_list>'' @ (?out (rl_CHM E) @ ?out (rl_RSSD E)) @ tab_line 0 ''</recordings_list>'')"
    by (simp add: recordings_main_def p)
  moreover have "xml_scan (tab_line 0 ''<?xml version=\"1.0\" encoding=\"UTF-8\"?>'' @
      tab_line 0 ''<recordings_list>'' @ (?out (rl_CHM E) @ ?out (rl_RSSD E)) @ tab_line 0 ''</recordings_list>'') [] = Some []"
    unfolding decl o scan_neutral [OF body] by (rule c)
  ultimately show ?thesis using p by blast
qed

definition demo_rl :: rl_env where
  "demo_rl = \<lparr>rl_drive = (\<lambda>i. if i = 0 then ''/chm'' else ''/rssd''), rl_CHM = 0, rl_RSSD = 1,
     rl_mktime = (\<lambda>t. tm_year t)\<rparr>"

theorem recordings_document_witness:
  "\<exists>d. recordings_main demo_rl demo_drive = Some d \<and> xml_scan d [] = Some []"
proof -
  let ?cam = "(''CAM'', Dir [(demo_late, Reg \<lparr>st_size = 1, st_mtime = 0\<rparr>), (demo_chunk, Reg \<lparr>st_size = 1, st_mtime = 0\<rparr>)])"
  have r: "resolve demo_drive ''/chm'' = Some (Dir [?cam])" "resolve demo_drive ''/rssd'' = None"
    by (simp_all add: resolve_def demo_drive_def comps_def)
  have k: "\<not> skip_rl ''CAM''" "\<not> skip_rl demo_chunk" "\<not> skip_rl demo_late"
    by (simp_all add: skip_rl_def) (simp_all add: demo_chunk_def demo_late_def)
  have "listable demo_rl demo_drive 0" "listable demo_rl demo_drive 1"
    by (simp_all add: listable_def demo_rl_def r k RL_PATH_MAX_def drive_shape_def MAX_TRACKS_def MAX_CHUNKS_def
        strip_name_def RL_NAME_LENGTH_def plain_name_def [of "''CAM''"])
  moreover have "list_all (\<lambda>(n, cs). CHR ''<'' \<notin> set n) (listed_cameras demo_rl demo_drive 0 @ listed_cameras demo_rl demo_drive 1)"
    by (simp add: listed_cameras_def demo_rl_def r k)
  ultimately show ?thesis using recordings_document [of demo_rl demo_drive] by (auto simp: demo_rl_def)
qed

text \<open>
  The chunk index is not reset between the drives. When a file lies behind the last camera at the top of the
  first drive, the chunks of the second drive's first camera are stored behind it while the count starts
  at zero, and what is listed for them are the zero entries in front.
\<close>

lemma stale_index:
  assumes "length cs \<le> k" "length cs < MAX_CHUNKS"
  shows "chunks_of (put_chunks cs k empty_cam) = replicate (length cs) \<lparr>chunk_start = 0, chunk_duration_us = 0\<rparr>"
proof -
  have "unat (of_nat (length cs) :: u16) = length cs"
    using assms(2) by (simp add: MAX_CHUNKS_def unat_of_nat take_bit_nat_eq_self)
  then show ?thesis
    using assms(1) by (intro nth_equalityI) (simp_all add: chunks_of_def put_chunks_def empty_cam_def)
qed

end
