(* ===== verification/Data_Search.thy ===== *)
theory Data_Search
  imports Chunk_Name Dir_Delete "HOL-Library.Multiset"
begin

text \<open>
  The file helpers of the recording agent (\<open>ra_data_search.c\<close>): copying, directories and links, the
  search for the oldest and the newest recording of a directory, and the name helpers. Constants of
  headers outside the repository and the time zone are fields of the environment. \<open>None\<close> is an access
  through a null pointer or outside a buffer.
\<close>

record ds_env =
  DESTINATION_LENGTH :: nat
  DS_PATH_MAX :: nat
  ds_mktime :: "tm \<Rightarrow> int"
  ds_localtime :: "int \<Rightarrow> tm"

definition K_BYTES :: nat where "K_BYTES = 1024"
definition BUFF_SIZE_BIG :: nat where "BUFF_SIZE_BIG = 4096"

section \<open>Streams\<close>

text \<open>
  The streams a process has open, each as the path it was opened with, and the calls of the C library that
  open and close one.
\<close>

type_synonym streams = "string multiset"

definition fopened :: "string \<Rightarrow> streams \<Rightarrow> streams" where "fopened path os = add_mset path os"
definition fclosed :: "string \<Rightarrow> streams \<Rightarrow> streams" where "fclosed path os = os - {#path#}"

lemma fclosed_fopened [simp]: "fclosed p (fopened p os) = os"
  by (simp add: fopened_def fclosed_def)

lemma fclosed_under [simp]: "fclosed p (fopened q (fopened p os)) = fopened q os"
  by (simp add: fopened_def fclosed_def)

section \<open>Copying a file\<close>

text \<open>
  The loop reads until a short read has set the end-of-file flag and hands every block to \<open>fwrite\<close>; reading
  does not fail. The stream is buffered by the C library: of the first \<open>n\<close> bytes it has been given,
  \<open>held n\<close> are still in its buffer, the others have been written to the file. \<open>room\<close> is the number of bytes
  the file system can still store; \<open>fwrite\<close> comes back short when the bytes it writes out do not fit. The
  loop returns the exit code and the bytes the stream was given.
\<close>

function copy_loop :: "(nat \<Rightarrow> nat) \<Rightarrow> nat \<Rightarrow> u8 list \<Rightarrow> u8 list \<Rightarrow> exit_code \<times> u8 list" where
  "copy_loop held room src given =
     (let buff = take BUFF_SIZE_BIG src; given1 = given @ buff
      in if buff \<noteq> [] \<and> room < length given1 - held (length given1) then (EXIT_FAILURE, given1)
         else if length buff < BUFF_SIZE_BIG then (EXIT_SUCCESS, given1)
         else copy_loop held room (drop BUFF_SIZE_BIG src) given1)"
  by pat_completeness auto
termination by (relation "measure (\<lambda>(_, _, src, _). length src)") (auto simp: BUFF_SIZE_BIG_def)

declare copy_loop.simps [simp del]

text \<open>
  \<open>copy_file\<close> on the contents of the files and the open streams; \<open>openable\<close> says which paths \<open>fopen\<close> opens
  for writing. Opening for writing empties the file, also when it is the source. The last \<open>fclose\<close> writes out
  what the buffer still holds, as far as it fits; its result is not looked at.
\<close>

definition copy_file :: "(string \<Rightarrow> bool) \<Rightarrow> (nat \<Rightarrow> nat) \<Rightarrow> nat \<Rightarrow> string \<Rightarrow> string \<Rightarrow>
    (string \<rightharpoonup> u8 list) \<Rightarrow> streams \<Rightarrow> exit_code \<times> (string \<rightharpoonup> u8 list) \<times> streams" where
  "copy_file openable held room source_file dest_file files os =
     (case files source_file of
        None \<Rightarrow> (EXIT_FAILURE, files, os)
      | Some _ \<Rightarrow>
          (let os1 = fopened source_file os
           in if \<not> openable dest_file then (EXIT_FAILURE, files, fclosed source_file os1)
              else (let files1 = files(dest_file \<mapsto> []); os2 = fopened dest_file os1;
                        (rc, given) = copy_loop held room (the (files1 source_file)) []
                    in (rc, files1(dest_file \<mapsto> take room given), fclosed dest_file (fclosed source_file os2)))))"

section \<open>Strings and paths\<close>

lemma strstr_length: "strstr s sub = Some m \<Longrightarrow> length m \<le> length s"
  by (induction s sub rule: strstr.induct) (auto split: if_splits)

text \<open>
  \<open>remove_substr\<close>: after a removal the search goes on one byte behind the place of the match. The result
  is the string and whether anything was removed. An empty \<open>sub\<close> is not modelled (\<open>None\<close>).
\<close>

function remove_loop :: "string \<Rightarrow> string \<Rightarrow> string \<Rightarrow> bool \<Rightarrow> (string \<times> bool) option" where
  "remove_loop sub before rest found =
     (if sub = [] then None
      else (case strstr rest sub of
              None \<Rightarrow> Some (before @ rest, found)
            | Some m \<Rightarrow>
                let a = take (length rest - length m) rest; b = drop (length sub) m
                in if b = [] then Some (before @ a, True)
                   else remove_loop sub (before @ a @ [hd b]) (tl b) True))"
  by pat_completeness auto

termination
proof (relation "measure (\<lambda>(_, _, rest, _). length rest)", goal_cases)
  case (2 sub before rest found m a b)
  then have "length b \<le> length rest" "b \<noteq> []" using strstr_length [of rest sub m] by auto
  then show ?case by (cases b) auto
qed simp

declare remove_loop.simps [simp del]

definition remove_substr :: "string \<Rightarrow> string \<Rightarrow> (string \<times> bool) option" where
  "remove_substr s sub = remove_loop sub [] s False"

text \<open>
  \<open>_mkdir\<close>: the paths handed to \<open>mkdir\<close>, in order. The path is cut to the 255 bytes of the buffer; an
  empty path is written before its first byte.
\<close>

fun mkdir_prefixes :: "string \<Rightarrow> string \<Rightarrow> string list" where
  "mkdir_prefixes done [] = [done]"
| "mkdir_prefixes done (c # cs) =
     (if c = CHR ''/'' then [done] else []) @ mkdir_prefixes (done @ [c]) cs"

definition mkdir_calls :: "string option \<Rightarrow> string list option" where
  "mkdir_calls dir =
     (case dir of
        None \<Rightarrow> Some []
      | Some d \<Rightarrow>
          (let tmp = take 255 d;
               tmp1 = (if tmp \<noteq> [] \<and> last tmp = CHR ''/'' then butlast tmp else tmp)
           in if tmp = [] then None
              else if tmp1 = [] then Some [[]]
              else Some (mkdir_prefixes [hd tmp1] (tl tmp1))))"

text \<open>
  \<open>mklink\<close>: the two paths given to \<open>symlink\<close>, or a failure. \<open>destination\<close> is the buffer of
  \<open>DESTINATION_LENGTH\<close> bytes, as a string shorter than that.
\<close>

definition mklink :: "ds_env \<Rightarrow> (string \<Rightarrow> string \<Rightarrow> int) \<Rightarrow> string \<Rightarrow> string \<Rightarrow> int" where
  "mklink E symlink file destination =
     (case strrchr file CHR ''/'' of
        None \<Rightarrow> 1
      | Some p_temp \<Rightarrow>
          if length p_temp > DS_PATH_MAX E - 1 - length destination then 1
          else symlink file (destination @ p_temp))"

definition get_file_size :: "fs_node \<Rightarrow> string \<Rightarrow> nat option" where
  "get_file_size fs file_name =
     (case resolve fs file_name of Some (Reg st) \<Rightarrow> Some (st_size st div K_BYTES) | _ \<Rightarrow> None)"

definition get_timeoffset :: "string option \<Rightarrow> int" where
  "get_timeoffset env =
     (case env of
        None \<Rightarrow> 0
      | Some s \<Rightarrow>
          (case strstr s ''time_offset='' of None \<Rightarrow> 0 | Some t \<Rightarrow> atol (drop 12 t)))"

text \<open>
  \<open>get_camera_dir_path\<close>: the paths of the matching directory entries and their number as a \<open>uint8_t\<close>, or a
  failure (\<open>Inl\<close>).
\<close>

definition get_camera_dir_path ::
    "ds_env \<Rightarrow> fs_node \<Rightarrow> string \<Rightarrow> string \<Rightarrow> (exit_code + string list \<times> u8) option" where
  "get_camera_dir_path E fs cam_name root_dir =
     (if length root_dir \<ge> 1023 then None
      else let temp_path = root_dir @ ''/''
           in (case readdir_all fs temp_path of
                 None \<Rightarrow> Some (Inl EXIT_FAILURE)
               | Some ns \<Rightarrow>
                   (let cams = filter (\<lambda>n. n \<noteq> ''..'' \<and> n \<noteq> ''.'' \<and> n \<noteq> ''METADATA'' \<and> strstr n cam_name \<noteq> None) ns
                    in if cams = [] then Some (Inl EXIT_FAILURE)
                       else Some (Inr (map (\<lambda>n. snprintf (DS_PATH_MAX E - 1) (temp_path @ ''/'' @ n)) cams,
                                       of_nat (length cams))))))"

section \<open>Recording file names\<close>

text \<open>
  The pattern \<open>[0-9]{8}-[0-9]{6}.[0-9]{9}.[a-zA-Z]+\<close> at the start of a string, and anywhere in it, as
  \<open>regexec\<close> searches.
\<close>

definition ra_name_here :: "string \<Rightarrow> bool" where
  "ra_name_here s \<longleftrightarrow>
     length s \<ge> 27 \<and> list_all is_digit (take 8 s) \<and> s ! 8 = CHR ''-'' \<and>
     list_all is_digit (take 6 (drop 9 s)) \<and> list_all is_digit (take 9 (drop 16 s)) \<and> is_alpha (s ! 26)"

definition check_ra_file_regex :: "string option \<Rightarrow> int" where
  "check_ra_file_regex f =
     (case f of None \<Rightarrow> - 1
      | Some s \<Rightarrow> if list_ex (\<lambda>i. ra_name_here (drop i s)) [0..<length s] then 0 else 1)"

definition file_name_to_epoch :: "ds_env \<Rightarrow> string \<Rightarrow> int option" where
  "file_name_to_epoch E file_name =
     (if check_ra_file_regex (Some file_name) \<noteq> 0 then None else Some (ds_mktime E (name_tm file_name)))"

definition epoch_to_icd_format :: "ds_env \<Rightarrow> int \<Rightarrow> nat \<Rightarrow> string" where
  "epoch_to_icd_format E rawtime sz = take sz (take 79 (strftime_icd (ds_localtime E rawtime)))"

section \<open>The oldest and the newest recording\<close>

text \<open>The globals of the file.\<close>

record ds_state =
  mtime_start :: int
  mtime_end :: int
  temp_buff :: string
  time_epoch :: int

text \<open>What \<open>nftw\<close> reports: each path, whether it is a file (\<open>FTW_F\<close>), and its modification time.\<close>

type_synonym ftw_entry = "string \<times> bool \<times> int"

fun ftw_entries :: "string \<Rightarrow> (string \<times> fs_node) list \<Rightarrow> ftw_entry list" where
  "ftw_entries dir [] = []"
| "ftw_entries dir ((n, Reg st) # es) = (dir @ CHR ''/'' # n, True, st_mtime st) # ftw_entries dir es"
| "ftw_entries dir ((n, Dir es') # es) =
     (dir @ CHR ''/'' # n, False, 0) # ftw_entries (dir @ CHR ''/'' # n) es' @ ftw_entries dir es"

definition nftw :: "fs_node \<Rightarrow> string \<Rightarrow> (ftw_entry \<Rightarrow> ds_state \<Rightarrow> ds_state option) \<Rightarrow> ds_state \<Rightarrow> (int \<times> ds_state) option" where
  "nftw fs path fn s =
     (case resolve fs path of
        None \<Rightarrow> Some (- 1, s)
      | Some (Reg st) \<Rightarrow> map_option (Pair 0) (fn (path, True, st_mtime st) s)
      | Some (Dir es) \<Rightarrow> map_option (Pair 0) (foldM fn ((path, False, 0) # ftw_entries path es) s))"

definition get_oldest_timestamp :: "ds_env \<Rightarrow> ftw_entry \<Rightarrow> ds_state \<Rightarrow> ds_state option" where
  "get_oldest_timestamp E e s =
     (case e of (fpath, is_file, mt) \<Rightarrow>
        if is_file \<and> (mtime_start s = 0 \<or> mt < mtime_start s) then
          (case strrchr fpath CHR ''/'' of
             None \<Rightarrow> None
           | Some f \<Rightarrow>
               (case file_name_to_epoch E (tl f) of
                  None \<Rightarrow> Some s
                | Some t \<Rightarrow> Some (s\<lparr>mtime_start := mt, temp_buff := fpath, time_epoch := t\<rparr>)))
        else Some s)"

definition get_newest_timestamp :: "ds_env \<Rightarrow> ftw_entry \<Rightarrow> ds_state \<Rightarrow> ds_state option" where
  "get_newest_timestamp E e s =
     (case e of (fpath, is_file, mt) \<Rightarrow>
        if is_file \<and> (mtime_end s = 0 \<or> mt > mtime_end s) then
          (case strrchr fpath CHR ''/'' of
             None \<Rightarrow> None
           | Some f \<Rightarrow>
               (case file_name_to_epoch E (tl f) of
                  None \<Rightarrow> Some s
                | Some t \<Rightarrow> Some (s\<lparr>mtime_end := mt, temp_buff := fpath, time_epoch := t\<rparr>)))
        else Some s)"

text \<open>
  The result: the exit code, the path, and the time written to \<open>*e_time\<close>, if any. The return value of
  \<open>nftw\<close> is compared with \<open>EXIT_FAILURE\<close>, which is 1, while a failing \<open>nftw\<close> returns -1.
\<close>

definition data_time_result :: "ds_env \<Rightarrow> ds_state \<Rightarrow> (exit_code \<times> string \<times> int option) option" where
  "data_time_result E s =
     (case strrchr (temp_buff s) CHR ''/'' of
        None \<Rightarrow> None
      | Some t \<Rightarrow> Some (EXIT_SUCCESS, take (DS_PATH_MAX E) (temp_buff s), file_name_to_epoch E (tl t)))"

definition get_data_start_time :: "ds_env \<Rightarrow> fs_node \<Rightarrow> string \<Rightarrow> ds_state \<Rightarrow>
    ((exit_code \<times> string \<times> int option) \<times> ds_state) option" where
  "get_data_start_time E fs path s =
     (case nftw fs path (get_oldest_timestamp E) (s\<lparr>mtime_start := 0\<rparr>) of
        None \<Rightarrow> None
      | Some (rc, s1) \<Rightarrow>
          if rc = 1 then Some ((EXIT_FAILURE, [], None), s1)
          else map_option (\<lambda>r. (r, s1)) (data_time_result E s1))"

definition get_data_end_time :: "ds_env \<Rightarrow> fs_node \<Rightarrow> string \<Rightarrow> ds_state \<Rightarrow>
    ((exit_code \<times> string \<times> int option) \<times> ds_state) option" where
  "get_data_end_time E fs path s =
     (case nftw fs path (get_newest_timestamp E) (s\<lparr>mtime_end := 0\<rparr>) of
        None \<Rightarrow> None
      | Some (rc, s1) \<Rightarrow>
          if rc = 1 then Some ((EXIT_FAILURE, [], None), s1)
          else map_option (\<lambda>r. (r, s1)) (data_time_result E s1))"

section \<open>Extensions and padding\<close>

text \<open>\<open>strip_ext\<close>: \<open>k\<close> is the index \<open>end\<close> points to; it stops at the start of the name.\<close>

fun ext_index :: "string \<Rightarrow> nat \<Rightarrow> nat" where
  "ext_index s 0 = 0"
| "ext_index s (Suc k) =
     (if Suc k < length s \<and> s ! Suc k \<in> {CHR ''.'', CHR 0x5C, CHR ''/''} then Suc k else ext_index s k)"

definition strip_ext :: "string \<Rightarrow> string" where
  "strip_ext fname =
     (let e = ext_index fname (length fname)
      in if 0 < e \<and> fname ! e = CHR ''.'' \<and> fname ! (e - 1) \<notin> {CHR 0x5C, CHR ''/''}
         then take e fname else fname)"

text \<open>
  The two padding functions work on a character array, here a list with its zero bytes; each returns the
  array, or \<open>None\<close> when it reads or writes behind it.
\<close>

definition c_str :: "string \<Rightarrow> string" where
  "c_str v = takeWhile (\<lambda>c. c \<noteq> CHR 0x00) v"

fun trim_loop :: "nat \<Rightarrow> string \<Rightarrow> string" where
  "trim_loop 0 v = v"
| "trim_loop (Suc n) (c # d # v) =
     (if c = CHR ''_'' \<and> (d = CHR 0x00 \<or> d = CHR ''_'' \<or> n = 0) then CHR 0x00 else c) # trim_loop n (d # v)"
| "trim_loop (Suc n) v = v"

definition trim_trailing_undersore :: "string \<Rightarrow> nat \<Rightarrow> string option" where
  "trim_trailing_undersore v len = (if length v \<le> len then None else Some (trim_loop len v))"

definition add_trailing_underscore :: "string \<Rightarrow> nat \<Rightarrow> string option" where
  "add_trailing_underscore v len =
     (let n = length (c_str v)
      in if length v < len \<or> n \<ge> length v then None
         else Some (c_str v @ replicate (len - n) (CHR ''_'') @ drop (max n len) v))"

end
