(* ===== verification/Data_Claims.thy ===== *)
theory Data_Claims
  imports Data_Search Space_Claims
begin

text \<open>
  The properties of the agent's file helpers: copying, the period of the stored recordings, the names it
  recognises, and the padding of names.
\<close>

section \<open>Copying\<close>

text \<open>What fits is copied whatever the buffer does.\<close>

lemma copy_loop_fits:
  "length given + length src \<le> room \<Longrightarrow> copy_loop held room src given = (EXIT_SUCCESS, given @ src)"
proof (induction held room src given rule: copy_loop.induct)
  case (1 held room src given)
  then show ?case by (subst copy_loop.simps) (auto simp: Let_def)
qed

text \<open>
  The stream is given a prefix of the file, the whole file when the loop ends well. Bytes that have been
  written out are not taken back (\<open>steady\<close>), so the loop fails exactly when the bytes written out before the
  file is closed do not fit, and by then the room is used up.
\<close>

definition steady :: "(nat \<Rightarrow> nat) \<Rightarrow> bool" where
  "steady held \<longleftrightarrow> (\<forall>m n. m \<le> n \<longrightarrow> m - held m \<le> n - held n)"

lemma copy_loop_result:
  assumes "steady held" "src \<noteq> [] \<or> length given - held (length given) \<le> room"
  shows "\<exists>rest. copy_loop held room src given =
     (if length (given @ src) - held (length (given @ src)) \<le> room then (EXIT_SUCCESS, given @ src)
      else (EXIT_FAILURE, rest)) \<and>
     (room < length (given @ src) - held (length (given @ src)) \<longrightarrow>
        take room rest = take room (given @ src))"
  using assms
proof (induction held room src given rule: copy_loop.induct)
  case (1 held room src given)
  let ?b = "take BUFF_SIZE_BIG src" and ?r = "drop BUFF_SIZE_BIG src" and ?all = "length (given @ src)"
  let ?n = "length (given @ ?b)"
  have mono: "?n - held ?n \<le> ?all - held ?all" using "1.prems"(1) by (simp add: steady_def)
  consider (short) "?b \<noteq> []" "room < ?n - held ?n" | (last) "?b = [] \<or> \<not> room < ?n - held ?n" "length ?b < BUFF_SIZE_BIG"
    | (more) "?b = [] \<or> \<not> room < ?n - held ?n" "\<not> length ?b < BUFF_SIZE_BIG" by blast
  then show ?case
  proof cases
    case short
    have "take room (given @ ?b) = take room (given @ src)"
    proof -
      have "room \<le> ?n" using short(2) by simp
      then have "take room (given @ src) = take room ((given @ ?b) @ ?r)" by simp
      also have "\<dots> = take room (given @ ?b)" using \<open>room \<le> ?n\<close> by (simp only: take_append) simp
      finally show ?thesis by simp
    qed
    then show ?thesis using short mono by (subst copy_loop.simps) (auto simp: Let_def)
  next
    case last
    then have "?b = src" by simp
    then show ?thesis using last "1.prems"(2) by (subst copy_loop.simps) (auto simp: Let_def)
  next
    case more
    then have b: "?b \<noteq> []" by (auto simp: BUFF_SIZE_BIG_def)
    have e: "(given @ ?b) @ ?r = given @ src" by simp
    from more b have "?r \<noteq> [] \<or> ?n - held ?n \<le> room" by simp
    from "1.IH" [OF refl refl _ _ "1.prems"(1) this, unfolded e] more b obtain rest where
      "copy_loop held room ?r (given @ ?b) =
         (if ?all - held ?all \<le> room then (EXIT_SUCCESS, given @ src) else (EXIT_FAILURE, rest))"
      "room < ?all - held ?all \<longrightarrow> take room rest = take room (given @ src)"
      by auto
    moreover have "copy_loop held room src given = copy_loop held room ?r (given @ ?b)"
      using more b by (subst copy_loop.simps) (auto simp: Let_def)
    ultimately show ?thesis by (intro exI [of _ rest]) simp
  qed
qed

lemma copy_file_fits:
  assumes "files src = Some d" "openable dst" "src \<noteq> dst" "length d \<le> room"
  shows "copy_file openable held room src dst files os = (EXIT_SUCCESS, files(dst \<mapsto> d), os)"
  using assms by (simp add: copy_file_def copy_loop_fits Let_def)

lemma copy_file_streams: "copy_file openable held room src dst files os = (rc, fs, os1) \<Longrightarrow> os1 = os"
  by (auto simp: copy_file_def Let_def split: option.splits prod.splits if_splits)

text \<open>
  C25: copying. A file that can be opened is copied as far as the bytes fit, no other file changes and no
  stream stays open. The call fails exactly when the bytes that leave the buffer of the stream before it is
  closed do not fit: an end of the file that is still in the buffer then and does not fit is lost, and the
  call reports success. A file copied onto itself is emptied, and the call reports success. The one
  assumption about the buffer is that bytes written out are not taken back.
\<close>

theorem copy_file_result:
  assumes "files src = Some d" "openable dst" "steady held"
  shows "copy_file openable held room src dst files os =
     (if src = dst then (EXIT_SUCCESS, files(dst \<mapsto> []), os)
      else (if length d - held (length d) \<le> room then EXIT_SUCCESS else EXIT_FAILURE, files(dst \<mapsto> take room d), os))"
proof (cases "src = dst")
  case True
  then show ?thesis using assms(1,2) by (simp add: copy_file_def copy_loop_fits Let_def)
next
  case False
  have "d \<noteq> [] \<or> length ([] :: u8 list) - held (length ([] :: u8 list)) \<le> room" by simp
  from copy_loop_result [OF assms(3) this, unfolded append_Nil] obtain rest where
    "copy_loop held room d [] = (if length d - held (length d) \<le> room then (EXIT_SUCCESS, d) else (EXIT_FAILURE, rest))"
    "room < length d - held (length d) \<longrightarrow> take room rest = take room d"
    by blast
  then show ?thesis using assms(1,2) False by (auto simp: copy_file_def Let_def)
qed

text \<open>
  The witness copies three bytes to a file system with room for two: with a buffer of 4096 bytes, which holds
  a last block that is shorter, the copy is cut and reported as a success; without a buffer it fails.
\<close>

theorem copy_file_result_witness:
  "copy_file (\<lambda>_. True) (\<lambda>n. n mod 4096) 2 ''a'' ''b'' [''a'' \<mapsto> [1, 2, 3]] {#} =
     (EXIT_SUCCESS, [''a'' \<mapsto> [1, 2, 3], ''b'' \<mapsto> [1, 2]], {#}) \<and>
   copy_file (\<lambda>_. True) (\<lambda>_. 0) 2 ''a'' ''b'' [''a'' \<mapsto> [1, 2, 3]] {#} =
     (EXIT_FAILURE, [''a'' \<mapsto> [1, 2, 3], ''b'' \<mapsto> [1, 2]], {#})"
proof -
  have "m - m mod 4096 \<le> n - n mod 4096" if "m \<le> n" for m n :: nat
    using that by (simp add: minus_mod_eq_mult_div div_le_mono)
  then have "steady (\<lambda>n. n mod 4096)" "steady (\<lambda>_. 0)" by (simp_all add: steady_def)
  then show ?thesis
    using copy_file_result [of "[''a'' \<mapsto> [1, 2, 3]]" "''a''" "[1, 2, 3]" "\<lambda>_. True" "''b''" "\<lambda>n. n mod 4096" 2 "{#}"]
      copy_file_result [of "[''a'' \<mapsto> [1, 2, 3]]" "''a''" "[1, 2, 3]" "\<lambda>_. True" "''b''" "\<lambda>_. 0" 2 "{#}"]
    by simp
qed

section \<open>Recognised names\<close>

lemma list_all_pad0: "list_all is_digit (pad0 w n)"
  by (simp add: list_all_iff pad0_digits)

lemma not_digits: "\<not> is_digit CHR ''-''" "\<not> is_digit CHR ''.''" "\<not> is_digit CHR ''d''" "\<not> is_alpha CHR ''.''"
  "is_alpha CHR ''d''"
  by (simp_all add: is_digit_def is_alpha_def)

lemma digit_not_alpha: "is_digit c \<Longrightarrow> \<not> is_alpha c"
  by (auto simp: is_digit_def is_alpha_def)

text \<open>The parts of a recorder's name.\<close>

lemma recorder_name_parts:
  assumes "1000 \<le> tm_year (gmtime_r t) + 1900" "tm_year (gmtime_r t) + 1900 \<le> 9999"
  obtains d h where "chunk_name (gmtime_r t) = d @ ''-'' @ h" "length d = 8" "length h = 6"
    "list_all is_digit d" "list_all is_digit h"
proof -
  note v = gmtime_valid [of t]
  note f = valid_tm_fields [OF v] and sh = chunk_name_shape [OF v assms]
  let ?g = "gmtime_r t"
  show thesis
  proof (rule that)
    show "chunk_name ?g = (pad0 4 (nat (tm_year ?g + 1900)) @ pad0 2 (nat (tm_mon ?g + 1)) @ pad0 2 (nat (tm_mday ?g))) @ ''-'' @
        (pad0 2 (nat (tm_hour ?g)) @ pad0 2 (nat (tm_min ?g)) @ pad0 2 (nat (tm_sec ?g)))"
      using sh(1) by simp
  qed (use f sh in \<open>simp_all add: list_all_pad0\<close>)
qed

lemma dash_only:
  assumes "list_all is_digit d" "length d = 8" "\<forall>c \<in> set r. c \<noteq> CHR ''-''" "0 < i"
  shows "\<not> ra_name_here (drop i (d @ CHR ''-'' # r))"
proof
  assume h: "ra_name_here (drop i (d @ CHR ''-'' # r))"
  then have l: "i + 8 < length (d @ CHR ''-'' # r)" by (auto simp: ra_name_here_def)
  have "drop i (d @ CHR ''-'' # r) ! 8 = CHR ''-''" using h by (simp add: ra_name_here_def)
  with nth_drop [of i "d @ CHR ''-'' # r" 8] l
  have n: "(d @ CHR ''-'' # r) ! (i + 8) = CHR ''-''" by (simp del: drop_append)
  have "(d @ CHR ''-'' # r) ! (i + 8) = r ! (i - 1)"
    using assms(2,4) by (simp add: nth_append nth_Cons')
  moreover have "i - 1 < length r" using l assms(2,4) by simp
  ultimately show False using n assms(3) nth_mem by metis
qed

lemma search_at_start:
  assumes "list_all is_digit d" "length d = 8" "\<forall>c \<in> set r. c \<noteq> CHR ''-''"
  shows "check_ra_file_regex (Some (d @ CHR ''-'' # r)) = 0 \<longleftrightarrow> ra_name_here (d @ CHR ''-'' # r)"
proof -
  have "ra_name_here (drop i (d @ CHR ''-'' # r)) \<Longrightarrow> i = 0" for i using dash_only [OF assms, of i] by (cases i) auto
  then have "(\<exists>i < length (d @ CHR ''-'' # r). ra_name_here (drop i (d @ CHR ''-'' # r))) \<longleftrightarrow> ra_name_here (d @ CHR ''-'' # r)"
    by (metis drop0 length_greater_0_conv append_is_Nil_conv list.distinct(1))
  moreover have "check_ra_file_regex (Some n) = 0 \<longleftrightarrow> (\<exists>i < length n. ra_name_here (drop i n))" for n
    by (auto simp: check_ra_file_regex_def list_ex_iff)
  ultimately show ?thesis by blast
qed

lemma name_at_start:
  assumes "list_all is_digit d" "length d = 8" "list_all is_digit h" "length h = 6" "list_all is_digit u" "9 \<le> length u"
  shows "ra_name_here (d @ CHR ''-'' # h @ CHR ''.'' # u @ ''.data'') \<longleftrightarrow> length u = 9"
proof -
  let ?name = "d @ CHR ''-'' # h @ CHR ''.'' # u @ ''.data''"
  have "?name ! 26 = (u @ ''.data'') ! 10" using assms(2,4) by (simp add: nth_append nth_Cons')
  moreover have "take 8 ?name = d" "?name ! 8 = CHR ''-''" "take 6 (drop 9 ?name) = h"
    "take 9 (drop 16 ?name) = take 9 u" "27 \<le> length ?name"
    using assms(2,4,6) by (simp_all add: nth_append)
  moreover have "list_all is_digit (take 9 u)" using assms(5) by (auto simp: list_all_iff dest: in_set_takeD)
  ultimately have "ra_name_here ?name \<longleftrightarrow> is_alpha ((u @ ''.data'') ! 10)"
    using assms(1,3) by (simp add: ra_name_here_def)
  also have "\<dots> \<longleftrightarrow> length u = 9"
  proof (cases "length u = 9")
    case True
    then show ?thesis by (simp add: nth_append not_digits)
  next
    case False
    with assms(6) have "10 \<le> length u" by simp
    then have "(u @ ''.data'') ! 10 = CHR ''.'' \<or> (u @ ''.data'') ! 10 \<in> set u"
      by (cases "length u = 10") (auto simp: nth_append)
    with False assms(5) show ?thesis using digit_not_alpha not_digits(4) by (auto simp: list_all_iff)
  qed
  finally show ?thesis .
qed

lemma nine_digits: "length (pad0 9 n) = 9 \<longleftrightarrow> n < 10 ^ 9"
proof
  assume "length (pad0 9 n) = 9"
  then have "length (nat_str n) \<le> 9" by (simp add: pad0_def pad_left_def)
  with nat_str_bound [of n] show "n < 10 ^ 9"
    using power_increasing [of "length (nat_str n)" 9 "10::nat"] by simp
qed simp

text \<open>
  C26: the names of the recorder. The agent recognises the name of a finished chunk exactly when the recorded
  duration has at most nine digits of microseconds, and then reads back the second the recording began;
  a chunk of a thousand seconds or more is not found.
\<close>

theorem recorder_name_recognised:
  assumes "ds_mktime E = mktime" "1000 \<le> tm_year (gmtime_r t) + 1900" "tm_year (gmtime_r t) + 1900 \<le> 9999"
  shows "file_name_to_epoch E (chunk_name (gmtime_r t) @ data_suffix usecs) = (if usecs < 10 ^ 9 then Some t else None)"
proof -
  obtain d h where n: "chunk_name (gmtime_r t) = d @ ''-'' @ h" "length d = 8" "length h = 6"
    "list_all is_digit d" "list_all is_digit h" using recorder_name_parts [OF assms(2,3)] .
  let ?u = "pad0 9 usecs" and ?name = "chunk_name (gmtime_r t) @ data_suffix usecs"
  have nm: "?name = d @ CHR ''-'' # h @ CHR ''.'' # ?u @ ''.data''" by (simp add: n(1) data_suffix_def)
  have ud: "list_all is_digit ?u" "9 \<le> length ?u" by (simp add: list_all_pad0) (simp add: pad0_def pad_left_def)
  have nodash: "\<forall>c \<in> set (h @ CHR ''.'' # ?u @ ''.data''). c \<noteq> CHR ''-''"
    using n(5) ud(1) not_digits(1) by (auto simp: list_all_iff)
  have r: "check_ra_file_regex (Some ?name) = 0 \<longleftrightarrow> usecs < 10 ^ 9"
    unfolding nm search_at_start [OF n(4,2) nodash] name_at_start [OF n(4,2,5,3) ud] by (rule nine_digits)
  have "name_tm ?name = gmtime_r t"
    using name_tm_chunk [OF gmtime_valid assms(2,3), of "data_suffix usecs"] not_digits(2)
    by (simp add: data_suffix_def)
  with r show ?thesis by (simp add: file_name_to_epoch_def assms(1) mktime_gmtime)
qed

theorem recorder_name_recognised_witness:
  "file_name_to_epoch \<lparr>DESTINATION_LENGTH = 64, DS_PATH_MAX = 4096, ds_mktime = mktime, ds_localtime = gmtime_r\<rparr>
     (chunk_name (gmtime_r 100) @ data_suffix 1200000000) = None"
  using recorder_name_recognised [of "\<lparr>DESTINATION_LENGTH = 64, DS_PATH_MAX = 4096, ds_mktime = mktime, ds_localtime = gmtime_r\<rparr>" 100 1200000000]
  by (simp add: gmtime_100)

section \<open>The period of the recordings\<close>

text \<open>
  The two callbacks have the same shape: a file counts when it is better than the best one so far and has a
  recording's name.
\<close>

definition recording_at :: "ds_env \<Rightarrow> ftw_entry \<Rightarrow> bool" where
  "recording_at E e = (case e of (p, is_file, m) \<Rightarrow>
     is_file \<and> (\<exists>f. strrchr p CHR ''/'' = Some f \<and> file_name_to_epoch E (tl f) \<noteq> None))"

text \<open>The state after a scan: unchanged, or the best recording of the entries.\<close>

definition best_of :: "ds_env \<Rightarrow> (int \<Rightarrow> int \<Rightarrow> bool) \<Rightarrow> ftw_entry list \<Rightarrow> string \<Rightarrow> int \<Rightarrow> bool" where
  "best_of E better es p m \<longleftrightarrow> (p, True, m) \<in> set es \<and> recording_at E (p, True, m) \<and>
     (\<forall>(q, f, k) \<in> set es. recording_at E (q, f, k) \<longrightarrow> \<not> better k m)"

lemma start_callback:
  assumes "b \<longrightarrow> (\<exists>f. strrchr p CHR ''/'' = Some f)"
  shows "\<exists>s'. get_oldest_timestamp E (p, b, m) s = Some s' \<and>
     (if recording_at E (p, b, m) \<and> (mtime_start s = 0 \<or> m < mtime_start s)
      then mtime_start s' = m \<and> temp_buff s' = p else s' = s)"
  using assms by (cases "strrchr p CHR ''/''"; cases "file_name_to_epoch E (tl (the (strrchr p CHR ''/'')))")
    (auto simp: get_oldest_timestamp_def recording_at_def simp del: strrchr_None)

lemma end_callback:
  assumes "b \<longrightarrow> (\<exists>f. strrchr p CHR ''/'' = Some f)"
  shows "\<exists>s'. get_newest_timestamp E (p, b, m) s = Some s' \<and>
     (if recording_at E (p, b, m) \<and> (mtime_end s = 0 \<or> m > mtime_end s)
      then mtime_end s' = m \<and> temp_buff s' = p else s' = s)"
  using assms by (cases "strrchr p CHR ''/''"; cases "file_name_to_epoch E (tl (the (strrchr p CHR ''/'')))")
    (auto simp: get_newest_timestamp_def recording_at_def simp del: strrchr_None)

lemma scan_best:
  assumes step: "\<And>p b m s. (p, b, m) \<in> set es \<Longrightarrow> \<exists>s'. fn (p, b, m) s = Some s' \<and>
      (if recording_at E (p, b, m) \<and> (best s = 0 \<or> better m (best s))
       then best s' = m \<and> temp_buff s' = p else s' = s)"
    and pos: "\<And>p b m. (p, b, m) \<in> set es \<Longrightarrow> recording_at E (p, b, m) \<Longrightarrow> 0 < (m::int)" and s0: "best s0 = 0"
    and irr: "\<And>m. \<not> better m m" and tr: "\<And>j k m. better m k \<Longrightarrow> \<not> better j k \<Longrightarrow> \<not> better j m"
  shows "\<exists>s'. foldM fn es s0 = Some s' \<and>
    (if \<exists>e \<in> set es. recording_at E e then 0 < best s' \<and> best_of E better es (temp_buff s') (best s') else s' = s0)"
  using step pos
proof (induction es rule: rev_induct)
  case (snoc e es)
  obtain p b m where e: "e = (p, b, m)" by (cases e)
  have "\<exists>s'. foldM fn es s0 = Some s' \<and>
    (if \<exists>e \<in> set es. recording_at E e then 0 < best s' \<and> best_of E better es (temp_buff s') (best s') else s' = s0)"
  proof (rule snoc.IH)
    fix p b m s assume "(p, b, m) \<in> set es"
    then show "\<exists>s'. fn (p, b, m) s = Some s' \<and>
      (if recording_at E (p, b, m) \<and> (best s = 0 \<or> better m (best s))
       then best s' = m \<and> temp_buff s' = p else s' = s)" by (intro snoc.prems(1)) simp
  next
    fix p b m assume "(p, b, m) \<in> set es" "recording_at E (p, b, m)"
    then show "0 < m" by (intro snoc.prems(2) [of p b]) simp_all
  qed
  then obtain s1 where s1: "foldM fn es s0 = Some s1"
    "if \<exists>e \<in> set es. recording_at E e then 0 < best s1 \<and> best_of E better es (temp_buff s1) (best s1) else s1 = s0"
    by blast
  obtain s2 where s2: "fn e s1 = Some s2"
    "if recording_at E e \<and> (best s1 = 0 \<or> better m (best s1)) then best s2 = m \<and> temp_buff s2 = p else s2 = s1"
    using snoc.prems(1) [of p b m s1] e by auto
  have f: "foldM fn (es @ [e]) s0 = Some s2" using s1(1) s2(1) by (simp add: foldM_append)
  have b: "b" if "recording_at E e" using that by (simp add: e recording_at_def)
  have m: "0 < m" if "recording_at E e" using that snoc.prems(2) [of p b m] e by simp
  show ?case
  proof (cases "recording_at E e")
    case False
    then have ex: "(\<exists>x \<in> set (es @ [e]). recording_at E x) \<longleftrightarrow> (\<exists>x \<in> set es. recording_at E x)" and s2: "s2 = s1"
      using s2(2) by auto
    have keep: "best_of E better (es @ [e]) q k" if "best_of E better es q k" for q k
      using that False by (auto simp: best_of_def e)
    show ?thesis unfolding ex using f s1(2) keep s2
      by (cases "\<exists>x \<in> set es. recording_at E x") simp_all
  next
    case rec: True
    show ?thesis
    proof (cases "best s1 = 0 \<or> better m (best s1)")
      case True
      have "\<not> better k m" if "(q, g, k) \<in> set es" "recording_at E (q, g, k)" for q g k
      proof -
        from that have "0 < best s1 \<and> best_of E better es (temp_buff s1) (best s1)" using s1(2) by (auto split: if_splits)
        with True that tr [of m "best s1" k] show ?thesis by (auto simp: best_of_def)
      qed
      with True rec b m s2(2) irr have "best_of E better (es @ [e]) (temp_buff s2) (best s2)" "0 < best s2"
        by (auto simp: best_of_def e)
      with f rec show ?thesis by auto
    next
      case False
      with s2(2) have "s2 = s1" by simp
      moreover have "\<exists>e \<in> set es. recording_at E e" using False s1(2) s0 by (auto split: if_splits)
      ultimately have "best_of E better (es @ [e]) (temp_buff s2) (best s2)" "0 < best s2"
        using False s1(2) by (auto simp: best_of_def e)
      with f rec show ?thesis by auto
    qed
  qed
qed (simp add: s0)

lemma ftw_slash: "(p, b, m) \<in> set (ftw_entries dir es) \<Longrightarrow> \<exists>f. strrchr p CHR ''/'' = Some f"
proof (induction dir es rule: ftw_entries.induct)
  case (2 dir n st es)
  then show ?case using strrchr_None [of p "CHR ''/''"] by (cases "strrchr p CHR ''/''") auto
next
  case (3 dir n es' es)
  then show ?case using strrchr_None [of p "CHR ''/''"] by (cases "strrchr p CHR ''/''") auto
qed simp

lemma scan_start:
  assumes "resolve fs path = Some (Dir es)" "\<forall>(p, b, m) \<in> set (ftw_entries path es). b \<longrightarrow> 0 < m"
  shows "\<exists>s'. nftw fs path (get_oldest_timestamp E) (s\<lparr>mtime_start := 0\<rparr>) = Some (0, s') \<and>
    (if \<exists>e \<in> set (ftw_entries path es). recording_at E e
     then best_of E (<) (ftw_entries path es) (temp_buff s') (mtime_start s') else s' = s\<lparr>mtime_start := 0\<rparr>)"
proof -
  have "\<exists>s'. foldM (get_oldest_timestamp E) (ftw_entries path es) (s\<lparr>mtime_start := 0\<rparr>) = Some s' \<and>
    (if \<exists>e \<in> set (ftw_entries path es). recording_at E e
     then 0 < mtime_start s' \<and> best_of E (<) (ftw_entries path es) (temp_buff s') (mtime_start s')
     else s' = s\<lparr>mtime_start := 0\<rparr>)"
    using assms(2) ftw_slash [of _ _ _ path es]
    by (intro scan_best start_callback) (auto simp: recording_at_def)
  moreover have "get_oldest_timestamp E (path, False, 0) s = Some s" for s by (simp add: get_oldest_timestamp_def)
  ultimately show ?thesis using assms(1) by (auto simp: nftw_def split: if_splits)
qed

lemma scan_end:
  assumes "resolve fs path = Some (Dir es)" "\<forall>(p, b, m) \<in> set (ftw_entries path es). b \<longrightarrow> 0 < m"
  shows "\<exists>s'. nftw fs path (get_newest_timestamp E) (s\<lparr>mtime_end := 0\<rparr>) = Some (0, s') \<and>
    (if \<exists>e \<in> set (ftw_entries path es). recording_at E e
     then best_of E (>) (ftw_entries path es) (temp_buff s') (mtime_end s') else s' = s\<lparr>mtime_end := 0\<rparr>)"
proof -
  have "\<exists>s'. foldM (get_newest_timestamp E) (ftw_entries path es) (s\<lparr>mtime_end := 0\<rparr>) = Some s' \<and>
    (if \<exists>e \<in> set (ftw_entries path es). recording_at E e
     then 0 < mtime_end s' \<and> best_of E (>) (ftw_entries path es) (temp_buff s') (mtime_end s')
     else s' = s\<lparr>mtime_end := 0\<rparr>)"
    using assms(2) ftw_slash [of _ _ _ path es]
    by (intro scan_best end_callback) (auto simp: recording_at_def)
  moreover have "get_newest_timestamp E (path, False, 0) s = Some s" for s by (simp add: get_newest_timestamp_def)
  ultimately show ?thesis using assms(1) by (auto simp: nftw_def split: if_splits)
qed

lemma best_result:
  assumes "best_of E better es (temp_buff s) k"
  shows "\<exists>f t. strrchr (temp_buff s) CHR ''/'' = Some f \<and> file_name_to_epoch E (tl f) = Some t \<and>
     data_time_result E s = Some (EXIT_SUCCESS, take (DS_PATH_MAX E) (temp_buff s), Some t)"
  using assms by (auto simp: best_of_def recording_at_def data_time_result_def)

text \<open>
  C27: the stored period. On a directory that holds recordings, the start query returns the one modified first
  and the end query the one modified last, with the times in their names. On a directory without any,
  and on one that does not exist, both report success and return the path of the query before.
\<close>

theorem recorded_period:
  assumes "resolve fs path = Some (Dir es)" "\<forall>(p, b, m) \<in> set (ftw_entries path es). b \<longrightarrow> 0 < m"
  shows "if \<exists>e \<in> set (ftw_entries path es). recording_at E e then
      (\<exists>p m f t s'. best_of E (<) (ftw_entries path es) p m \<and> strrchr p CHR ''/'' = Some f \<and>
         file_name_to_epoch E (tl f) = Some t \<and>
         get_data_start_time E fs path s = Some ((EXIT_SUCCESS, take (DS_PATH_MAX E) p, Some t), s')) \<and>
      (\<exists>p m f t s'. best_of E (>) (ftw_entries path es) p m \<and> strrchr p CHR ''/'' = Some f \<and>
         file_name_to_epoch E (tl f) = Some t \<and>
         get_data_end_time E fs path s = Some ((EXIT_SUCCESS, take (DS_PATH_MAX E) p, Some t), s'))
    else
      get_data_start_time E fs path s = map_option (\<lambda>r. (r, s\<lparr>mtime_start := 0\<rparr>)) (data_time_result E s) \<and>
      get_data_end_time E fs path s = map_option (\<lambda>r. (r, s\<lparr>mtime_end := 0\<rparr>)) (data_time_result E s)"
proof (cases "\<exists>e \<in> set (ftw_entries path es). recording_at E e")
  case True
  obtain s1 where s1: "nftw fs path (get_oldest_timestamp E) (s\<lparr>mtime_start := 0\<rparr>) = Some (0, s1)"
    "best_of E (<) (ftw_entries path es) (temp_buff s1) (mtime_start s1)"
    using scan_start [OF assms, of E s] True by auto
  obtain s2 where s2: "nftw fs path (get_newest_timestamp E) (s\<lparr>mtime_end := 0\<rparr>) = Some (0, s2)"
    "best_of E (>) (ftw_entries path es) (temp_buff s2) (mtime_end s2)"
    using scan_end [OF assms, of E s] True by auto
  show ?thesis using True best_result [OF s1(2)] best_result [OF s2(2)] s1 s2
    by (simp add: get_data_start_time_def get_data_end_time_def) blast
next
  case False
  have "data_time_result E (s\<lparr>mtime_start := 0\<rparr>) = data_time_result E s"
    "data_time_result E (s\<lparr>mtime_end := 0\<rparr>) = data_time_result E s" by (simp_all add: data_time_result_def cong: option.case_cong)
  then show ?thesis using False scan_start [OF assms, of E s] scan_end [OF assms, of E s]
    by (simp add: get_data_start_time_def get_data_end_time_def)
qed

definition demo_ds :: ds_env where
  "demo_ds = \<lparr>DESTINATION_LENGTH = 64, DS_PATH_MAX = 4096, ds_mktime = mktime, ds_localtime = gmtime_r\<rparr>"

text \<open>The query of a directory with one file of another kind returns the previous answer.\<close>

theorem recorded_period_witness:
  "get_data_start_time demo_ds (Dir [(''d'', Dir [(''x'', Reg \<lparr>st_size = 1, st_mtime = 5\<rparr>)])]) ''/d''
     \<lparr>mtime_start = 7, mtime_end = 7, temp_buff = ''/old/y'', time_epoch = 7\<rparr> =
   Some ((EXIT_SUCCESS, ''/old/y'', None), \<lparr>mtime_start = 0, mtime_end = 7, temp_buff = ''/old/y'', time_epoch = 7\<rparr>)"
proof -
  let ?fs = "Dir [(''d'', Dir [(''x'', Reg \<lparr>st_size = 1, st_mtime = 5\<rparr>)])]"
  have r: "resolve ?fs ''/d'' = Some (Dir [(''x'', Reg \<lparr>st_size = 1, st_mtime = 5\<rparr>)])"
    by (simp add: resolve_def comps_def)
  have n: "file_name_to_epoch demo_ds ''x'' = None" "file_name_to_epoch demo_ds ''y'' = None"
    by (simp_all add: file_name_to_epoch_def check_ra_file_regex_def ra_name_here_def)
  from recorded_period [OF r, of demo_ds "\<lparr>mtime_start = 7, mtime_end = 7, temp_buff = ''/old/y'', time_epoch = 7\<rparr>"] n
  show ?thesis by (simp add: recording_at_def data_time_result_def demo_ds_def)
qed

section \<open>Names with underscores\<close>

text \<open>A name that padding can be removed from: no zero byte, no two underscores in a row, none at the end.\<close>

fun paddable :: "string \<Rightarrow> bool" where
  "paddable [] \<longleftrightarrow> True"
| "paddable [c] \<longleftrightarrow> c \<noteq> CHR ''_'' \<and> c \<noteq> CHR 0x00"
| "paddable (c # d # s) \<longleftrightarrow> \<not> (c = CHR ''_'' \<and> d = CHR ''_'') \<and> c \<noteq> CHR 0x00 \<and> paddable (d # s)"

lemma paddable_no_zero: "paddable s \<Longrightarrow> CHR 0x00 \<notin> set s"
  by (induction s rule: paddable.induct) auto

lemma trim_underscores: "r \<noteq> [] \<Longrightarrow> trim_loop k (replicate k CHR ''_'' @ r) = replicate k CHR 0x00 @ r"
proof (induction k)
  case (Suc k)
  then obtain d v where dv: "replicate k CHR ''_'' @ r = d # v" by (cases "replicate k CHR ''_'' @ r") auto
  then have "d = CHR ''_'' \<or> k = 0" by (cases k) auto
  then show ?case using Suc dv by (cases k) auto
qed simp

lemma trim_padded:
  "paddable s \<Longrightarrow> r \<noteq> [] \<Longrightarrow> trim_loop (length s + k) (s @ replicate k CHR ''_'' @ r) = s @ replicate k CHR 0x00 @ r"
proof (induction s rule: paddable.induct)
  case 1
  then show ?case by (simp add: trim_underscores)
next
  case (2 c)
  then obtain d v where "replicate k CHR ''_'' @ r = d # v" by (cases "replicate k CHR ''_'' @ r") auto
  then show ?case using 2 trim_underscores [of r k] by simp
next
  case (3 c d s)
  then have "d \<noteq> CHR 0x00" using paddable_no_zero [of "d # s"] by auto
  with 3 show ?case by auto
qed

text \<open>
  C28: padding. A name without two underscores in a row and without one at its end comes back unchanged when
  it is padded with underscores to the field length and trimmed again.
\<close>

theorem padding_roundtrip:
  assumes "paddable s" "length s \<le> len" "0 < k"
  shows "\<exists>v. add_trailing_underscore (s @ replicate (len + k - length s) CHR 0x00) len = Some v \<and>
     c_str v = s @ replicate (len - length s) CHR ''_'' \<and>
     map_option c_str (trim_trailing_undersore v len) = Some s"
proof -
  let ?z = "replicate (len + k - length s) CHR 0x00" and ?u = "replicate (len - length s) CHR ''_''"
    and ?r = "replicate k CHR 0x00"
  have z: "CHR 0x00 \<notin> set s" by (rule paddable_no_zero [OF assms(1)])
  have tw: "takeWhile (\<lambda>c. c \<noteq> CHR 0x00) (replicate n CHR 0x00) = []" for n by (cases n) auto
  have c: "c_str (s @ ?z) = s" using z tw by (auto simp: c_str_def takeWhile_append2 intro: takeWhile_append2 [THEN trans])
  have a: "add_trailing_underscore (s @ ?z) len = Some (s @ ?u @ ?r)"
    using assms c by (auto simp: add_trailing_underscore_def Let_def)
  have t: "trim_trailing_undersore (s @ ?u @ ?r) len = Some (s @ replicate (len - length s) CHR 0x00 @ ?r)"
    using trim_padded [OF assms(1), of ?r "len - length s"] assms by (simp add: trim_trailing_undersore_def)
  have "c_str (s @ replicate (len - length s) CHR 0x00 @ ?r) = s"
    using z tw by (auto simp: c_str_def takeWhile_append tw simp flip: replicate_add)
  moreover have "c_str (s @ ?u @ ?r) = s @ ?u"
    using z tw by (auto simp: c_str_def takeWhile_append)
  ultimately show ?thesis using a t by simp
qed

theorem padding_roundtrip_witness:
  "map_option c_str (trim_trailing_undersore (''FRONT_CAM___'' @ [CHR 0x00]) 12) = Some ''FRONT_CAM''"
  using padding_roundtrip [of "''FRONT_CAM''" 12 1]
  by (auto simp: add_trailing_underscore_def c_str_def numeral_nat)

text \<open>A name with two underscores inside is cut there.\<close>

lemma double_underscore_cut:
  "map_option c_str (trim_trailing_undersore (''A__B'' @ [CHR 0x00]) 4) = Some ''A''"
  by (simp add: trim_trailing_undersore_def c_str_def numeral_nat)

text \<open>A second occurrence right behind a removed one stays.\<close>

lemma adjacent_occurrence_stays: "remove_substr ''ababX'' ''ab'' = Some (''abX'', True)"
  by (simp add: remove_substr_def remove_loop.simps)

end
