(* ===== verification/Access_Data.thy ===== *)
theory Access_Data
  imports Chunk_Name Dir_Tree Meta_Writer
begin

text \<open>
  The command that serves recordings (\<open>access_data.c\<close>): it checks a request for a download or for playback,
  hands it to \<open>perform_download\<close> and reports the result. The download itself, the configuration and the
  process table are parameters. \<open>None\<close> is a null pointer access or a buffer overflow.
\<close>

section \<open>Data\<close>

datatype request_type = e_download | e_playback

datatype download_status =
  DOWNLOAD_RANGE_ERR | DOWNLOAD_OUT_OF_RANGE | DOWNLOAD_FAILURE | DOWNLOAD_OK_PARTIAL | DOWNLOAD_OK_FULL |
  DOWNLOAD_SIZE_ERR | DOWNLOAD_INTERNAL_ERR | DOWNLOAD_OTHER

record data_range =
  range_start :: u32
  range_end :: u32

record download_payload =
  pl_camera :: string
  pl_start :: int
  pl_end :: int
  pl_destination :: string

record ad_args =
  ad_type :: int
  m_type :: int
  p_start_time :: "string option"
  p_end_time :: "string option"
  p_camera_name :: "string option"
  p_loco_id :: "string option"
  p_destination :: "string option"
  p_session_id :: "string option"

record ad_env =
  ad_mktime :: "tm \<Rightarrow> int"
  ad_time :: int
  ad_ids :: process_ids
  raconf_recorders :: int
  raconf_cameras :: int
  ad_name_len :: nat
  ad_dest_len :: nat
  ad_fs :: fs_node
  proc_names :: "string list option"
  proc_stat :: "int \<Rightarrow> string option"
  pbC :: "string option"
  pbC_writable :: bool
  ad_perform_download :: "download_payload \<Rightarrow> int \<Rightarrow> int \<Rightarrow> exit_code \<times> download_status \<times> data_range"

text \<open>
  The times of a request are stored in unsigned fields of 32 bits (the code prints them with \<open>%u\<close>).
\<close>

definition payload_time :: "int \<Rightarrow> int" where "payload_time t = uint (word_of_int t :: u32)"

definition e_start :: int where "e_start = 0"
definition e_end :: int where "e_end = 3"
definition e_chm :: int where "e_chm = 1"
definition nl :: string where "nl = [CHR 0x0A]"
definition LENGTH_TIMESTAMP :: nat where "LENGTH_TIMESTAMP = 32"

section \<open>Helpers\<close>

definition get_timestamp_str :: "u32 \<Rightarrow> nat \<Rightarrow> string" where
  "get_timestamp_str secs len =
     (let s = strftime_icd (gmtime_r (uint secs)) in if length s < len then s else [])"

text \<open>The conversions of \<open>fscanf\<close> with \<open>%ld (%[^)]) %c\<close>; the result is the name when all three succeed.\<close>

definition scan_stat :: "string \<Rightarrow> string option" where
  "scan_stat s =
     (let s1 = dropWhile is_space s;
          s2 = (if s1 \<noteq> [] \<and> hd s1 \<in> {CHR ''-'', CHR ''+''} then tl s1 else s1)
      in if s2 = [] \<or> \<not> is_digit (hd s2) then None
         else let s3 = dropWhile is_space (dropWhile is_digit s2)
              in if s3 = [] \<or> hd s3 \<noteq> CHR ''('' then None
                 else let nm = takeWhile (\<lambda>c. c \<noteq> CHR '')'') (tl s3);
                          r = dropWhile (\<lambda>c. c \<noteq> CHR '')'') (tl s3)
                      in if nm = [] \<or> r = [] \<or> dropWhile is_space (tl r) = [] then None else Some nm)"

text \<open>The process number and what is printed on the way.\<close>

fun find_process :: "ad_env \<Rightarrow> string \<Rightarrow> string list \<Rightarrow> int \<times> string" where
  "find_process E name [] = (- 1, [])"
| "find_process E name (d_name # ds) =
     (let lpid = atol d_name
      in if lpid < 0 then find_process E name ds
         else (case proc_stat E lpid of
                 None \<Rightarrow> find_process E name ds
               | Some content \<Rightarrow>
                   (case scan_stat content of
                      None \<Rightarrow> (- 1, ''fscanf failed '' @ nl)
                    | Some pname \<Rightarrow> if pname = name then (lpid, []) else find_process E name ds)))"

definition proc_find :: "ad_env \<Rightarrow> string \<Rightarrow> int \<times> string" where
  "proc_find E name = (case proc_names E of None \<Rightarrow> (- 1, []) | Some ds \<Rightarrow> find_process E name ds)"

text \<open>What looking for the playback server, and starting it when there is none, prints.\<close>

definition start_player :: "ad_env \<Rightarrow> string" where
  "start_player E = (let (pid, txt) = proc_find E ''rtspplay'' in if pid = - 1 then txt @ nl else txt)"

text \<open>\<open>genID\<close>: the new number and the content of the counter file.\<close>

definition genID :: "ad_env \<Rightarrow> int \<times> string option" where
  "genID E =
     (case pbC E of
        None \<Rightarrow> if pbC_writable E then (1, Some ''1'') else (- 1, None)
      | Some content \<Rightarrow>
          (let s = dropWhile is_space content;
               d = (if s \<noteq> [] \<and> hd s \<in> {CHR ''-'', CHR ''+''} then tl s else s);
               val = s32 ((if d = [] \<or> \<not> is_digit (hd d) then 0 else atoi s) + 1)
           in (val, if pbC_writable E then Some (int_str val) else Some content)))"

definition to_epoch :: "ad_env \<Rightarrow> string \<Rightarrow> int" where
  "to_epoch E file_name = ad_mktime E (name_tm file_name)"

section \<open>The command line\<close>

definition initial_args :: ad_args where
  "initial_args = \<lparr>ad_type = - 1, m_type = - 1, p_start_time = None, p_end_time = None, p_camera_name = None,
     p_loco_id = None, p_destination = None, p_session_id = None\<rparr>"

text \<open>The option loop; for an unknown option the argument is the option character (\<open>optopt\<close>).\<close>

fun ad_options :: "(char \<times> string) list \<Rightarrow> ad_args \<Rightarrow> ad_args option" where
  "ad_options [] a = Some a"
| "ad_options ((opt, optarg) # os) a =
     (if opt = CHR ''t'' then
        if atoi optarg \<ge> e_end \<or> atoi optarg \<le> e_start then None
        else ad_options os (a\<lparr>ad_type := atoi optarg\<rparr>)
      else if opt = CHR ''i'' then ad_options os (a\<lparr>p_session_id := Some optarg\<rparr>)
      else if opt = CHR ''m'' then ad_options os (a\<lparr>m_type := atoi optarg\<rparr>)
      else if opt = CHR ''s'' then ad_options os (a\<lparr>p_start_time := Some optarg\<rparr>)
      else if opt = CHR ''e'' then ad_options os (a\<lparr>p_end_time := Some optarg\<rparr>)
      else if opt = CHR ''c'' then ad_options os (a\<lparr>p_camera_name := Some optarg\<rparr>)
      else if opt = CHR ''l'' then ad_options os (a\<lparr>p_loco_id := Some optarg\<rparr>)
      else if opt = CHR ''d'' then ad_options os (a\<lparr>p_destination := Some optarg\<rparr>)
      else if opt = CHR ''?'' \<and> optarg \<noteq> ''v'' then None
      else ad_options os a)"

definition ad_parse_arg :: "(char \<times> string) list \<Rightarrow> ad_args option" where
  "ad_parse_arg opts =
     (case ad_options opts initial_args of
        None \<Rightarrow> None
      | Some a \<Rightarrow>
          if ad_type a = - 1 \<or> p_start_time a = None \<or> p_end_time a = None \<or> p_camera_name a = None \<or>
             (p_destination a = None \<and> ad_type a = 1)
          then None else Some a)"

section \<open>The request\<close>

text \<open>\<open>strchr\<close> for the \<open>T\<close>, which becomes a dash; without one the null pointer is written to.\<close>

definition dash_for_T :: "string \<Rightarrow> string option" where
  "dash_for_T s =
     (if CHR ''T'' \<notin> set s then None
      else Some (takeWhile (\<lambda>c. c \<noteq> CHR ''T'') s @ CHR ''-'' # tl (dropWhile (\<lambda>c. c \<noteq> CHR ''T'') s)))"

definition pad_camera :: "nat \<Rightarrow> string \<Rightarrow> string" where
  "pad_camera n name = take n name @ replicate (n - length name) (CHR ''_'')"

text \<open>The checks of a download: an existing directory, the extension, and a duration that has begun.\<close>

definition download_error :: "ad_env \<Rightarrow> string \<Rightarrow> int \<Rightarrow> int \<Rightarrow> string option" where
  "download_error E dest v_start v_end =
     (let temp_dest = take 1023 dest;
          dir = (case strrchr temp_dest CHR ''/'' of
                   None \<Rightarrow> temp_dest | Some f \<Rightarrow> take (length temp_dest - length f) temp_dest)
      in if (case resolve (ad_fs E) dir of Some (Dir _) \<Rightarrow> False | _ \<Rightarrow> True) \<or> strstr dest ''.lvdat'' = None
         then Some ''Error: 404 invalid destination''
         else if v_start \<ge> v_end \<or> v_start > ad_time E then Some ''Error: 416 invalid duration''
         else None)"

text \<open>The playback directory, in a buffer of 80 bytes.\<close>

definition playback_session :: "ad_env \<Rightarrow> string option \<Rightarrow> string" where
  "playback_session E sid = (case sid of Some s \<Rightarrow> s | None \<Rightarrow> take 9 (nat_str (nat (fst (genID E) mod 2 ^ 32))))"

definition playback_dir :: "string \<Rightarrow> string option" where
  "playback_dir session =
     (let d = ''/tmp/playback/'' @ session in if length d \<ge> 80 then None else Some d)"

definition status_text :: "download_status \<Rightarrow> string" where
  "status_text st =
     (case st of
        DOWNLOAD_RANGE_ERR \<Rightarrow> ''Error: 416 Video outside of Requested Range''
      | DOWNLOAD_OUT_OF_RANGE \<Rightarrow> ''Error: 404 No Video in the Requested Range''
      | DOWNLOAD_FAILURE \<Rightarrow> ''Error: 404 Cannot Serve File''
      | DOWNLOAD_OK_PARTIAL \<Rightarrow> ''Download Success''
      | DOWNLOAD_OK_FULL \<Rightarrow> ''Download Success''
      | DOWNLOAD_SIZE_ERR \<Rightarrow> ''Error: 413 Video Requested Too Large''
      | DOWNLOAD_INTERNAL_ERR \<Rightarrow> ''Error: 500 Internal Server Error''
      | DOWNLOAD_OTHER \<Rightarrow> ''Error: 404 Cannot Serve File'')"

definition stream_text :: "string \<Rightarrow> string \<Rightarrow> data_range \<Rightarrow> string" where
  "stream_text session camera r =
     ''<?xml version=\"1.0\" encoding=\"utf-8\"?> '' @ nl @ ''     <video_stream> '' @ nl @
     ''         <session_id>'' @ session @ ''</session_id> '' @ nl @
     ''         <start_time>'' @ get_timestamp_str (range_start r) LENGTH_TIMESTAMP @ ''</start_time> '' @ nl @
     ''         <end_time>'' @ get_timestamp_str (range_end r) LENGTH_TIMESTAMP @ ''</end_time> '' @ nl @
     ''         <stream_url>rtsp://localhost/playback/'' @ session @ ''/'' @ camera @ ''.vra</stream_url> '' @ nl @
     ''     </video_stream > '' @ nl"

text \<open>The download and the report; the two last steps of \<open>main\<close>.\<close>

definition serve :: "ad_env \<Rightarrow> ad_args \<Rightarrow> string \<Rightarrow> download_payload \<Rightarrow> string \<Rightarrow> exit_code \<times> string" where
  "serve E a camera pl session =
     (case ad_perform_download E pl (ad_type a) ((if m_type a = - 1 then e_chm else m_type a) mod 256) of
        (EXIT_FAILURE, st, r) \<Rightarrow> (EXIT_FAILURE, status_text st @ nl)
      | (EXIT_SUCCESS, st, r) \<Rightarrow>
          (EXIT_SUCCESS, if ad_type a = 2 then stream_text session camera r else []))"

text \<open>\<open>main\<close>: the exit code and the standard output.\<close>

definition access_main :: "ad_env \<Rightarrow> (char \<times> string) list \<Rightarrow> (exit_code \<times> string) option" where
  "access_main E opts =
     (if \<not> reduce_privileges (ad_ids E) then Some (EXIT_FAILURE, [])
      else if raconf_recorders E \<le> 0 \<or> raconf_cameras E \<le> 0 then Some (EXIT_FAILURE, [])
      else (case ad_parse_arg opts of
              None \<Rightarrow> Some (EXIT_FAILURE, [])
            | Some a \<Rightarrow>
                (case (dash_for_T (the (p_start_time a)), dash_for_T (the (p_end_time a))) of
                   (Some s, Some e) \<Rightarrow>
                     (let v_start = to_epoch E s; v_end = to_epoch E e; camera = the (p_camera_name a);
                          pl = \<lparr>pl_camera = pad_camera (ad_name_len E) camera, pl_start = payload_time v_start,
                                pl_end = payload_time v_end,
                                pl_destination = []\<rparr>
                      in if ad_type a = 2 then
                           let session = playback_session E (p_session_id a)
                           in (case playback_dir session of
                                 None \<Rightarrow> None
                               | Some d \<Rightarrow>
                                   Some (let (rc, txt) = serve E a camera (pl\<lparr>pl_destination := d\<rparr>) session
                                         in (rc, start_player E @ txt)))
                         else (let dest = the (p_destination a)
                               in (case download_error E dest v_start v_end of
                                     Some msg \<Rightarrow> Some (EXIT_FAILURE, msg @ nl)
                                   | None \<Rightarrow>
                                       Some (serve E a camera
                                         (pl\<lparr>pl_destination := take (ad_dest_len E - 1) dest\<rparr>) []))))
                 | _ \<Rightarrow> None)))"

end
