(* ===== verification/Dir_Worker.thy ===== *)
theory Dir_Worker
  imports Chunk_Name Meta_Writer
begin

text \<open>
  The directory worker (\<open>dir_worker.c\<close>): the command that lists, looks up and removes recorded files and
  prints the recording intervals. The directory walker behind it is a library that is not in the
  repository; its four entry points are parameters.
\<close>

record recording_interval =
  startTime :: int
  endTime :: int

record dw_env =
  dw_localtime :: "int \<Rightarrow> tm"
  dw_get_all_files :: "string \<Rightarrow> int \<Rightarrow> int \<Rightarrow> exit_code \<times> chunk_file list"
  dw_get_file_on_time :: "string \<Rightarrow> int \<Rightarrow> exit_code \<times> chunk_file"
  dw_groom_files :: "string \<Rightarrow> int \<Rightarrow> exit_code \<times> chunk_file list"
  dw_get_all_recordings :: "string \<Rightarrow> int \<Rightarrow> int \<Rightarrow> exit_code \<times> recording_interval list"

definition get_file_path :: "dw_env \<Rightarrow> string \<Rightarrow> int \<Rightarrow> string" where
  "get_file_path E base_path epoch_seconds =
     (let t = dw_localtime E epoch_seconds
      in take 4094 (base_path @ ''/'' @ pad0 4 (nat (tm_year t + 1900)) @ ''/'' @ pad0 2 (nat (tm_mon t + 1)) @ ''/'' @
           pad0 2 (nat (tm_mday t)) @ ''/'' @ pad0 2 (nat (tm_hour t))))"

definition dw_parse_input_timestamp :: "string \<Rightarrow> int" where
  "dw_parse_input_timestamp strtime =
     (if strtime = [] then 0
      else (case strptime_icd strtime of None \<Rightarrow> 0 | Some t \<Rightarrow> mktime t mod 2 ^ 64))"

definition dw_get_timestamp_str :: "dw_env \<Rightarrow> int \<Rightarrow> string" where
  "dw_get_timestamp_str E secs = strftime_icd (dw_localtime E (s64 secs))"

section \<open>The options\<close>

record dw_args =
  dw_location :: string
  dw_subpath :: string
  dw_start :: int
  dw_end :: int
  is_listall :: bool
  is_searchfile :: bool
  is_removefiles :: bool
  is_interval :: bool

definition dw_initial :: dw_args where
  "dw_initial = \<lparr>dw_location = [], dw_subpath = [], dw_start = 0, dw_end = 0, is_listall = False,
     is_searchfile = False, is_removefiles = False, is_interval = False\<rparr>"

text \<open>One option; \<open>None\<close> is the exit with status 1. A subpath is copied over the one before it.\<close>

definition dw_option :: "char \<Rightarrow> string \<Rightarrow> dw_args \<Rightarrow> dw_args option" where
  "dw_option opt optarg a =
     (if opt = CHR ''d'' then
        Some (a\<lparr>dw_location := (if optarg = ''SSD'' then ''/mnt/removableSSD/video/VideoFootages''
                                else ''/mnt/chmSSD/video/VideoFootages'')\<rparr>)
      else if opt = CHR ''k'' then
        Some (a\<lparr>dw_subpath := (if optarg \<noteq> [] then take 127 optarg else ''METADATA'')\<rparr>)
      else if opt = CHR ''s'' then Some (a\<lparr>dw_start := dw_parse_input_timestamp optarg\<rparr>)
      else if opt = CHR ''e'' then Some (a\<lparr>dw_end := dw_parse_input_timestamp optarg\<rparr>)
      else if opt = CHR ''a'' then Some (a\<lparr>is_listall := True\<rparr>)
      else if opt = CHR ''q'' then Some (a\<lparr>is_searchfile := True\<rparr>)
      else if opt = CHR ''r'' then Some (a\<lparr>is_removefiles := True\<rparr>)
      else if opt = CHR ''i'' then Some (a\<lparr>is_interval := True\<rparr>)
      else if opt = CHR '':'' \<or> opt = CHR ''?'' then None
      else Some a)"

fun dw_options :: "(char \<times> string) list \<Rightarrow> dw_args \<Rightarrow> dw_args option" where
  "dw_options [] a = Some a"
| "dw_options ((opt, optarg) # os) a =
     (case dw_option opt optarg a of None \<Rightarrow> None | Some a' \<Rightarrow> dw_options os a')"

definition two_modes :: "dw_args \<Rightarrow> bool" where
  "two_modes a \<longleftrightarrow>
     (is_listall a \<and> is_searchfile a) \<or> (is_listall a \<and> is_removefiles a) \<or> (is_listall a \<and> is_interval a) \<or>
     (is_searchfile a \<and> is_interval a) \<or> (is_searchfile a \<and> is_removefiles a) \<or> (is_interval a \<and> is_removefiles a)"

definition search_dir_path :: "dw_args \<Rightarrow> string" where
  "search_dir_path a = take 4094
     ((if dw_location a = [] then ''/mnt/chmSSD/video/VideoFootages'' else dw_location a) @ ''/'' @
      (if dw_subpath a = [] then ''METADATA'' else dw_subpath a))"

section \<open>The commands\<close>

definition eol :: string where "eol = [CHR 0x0A]"

definition file_line :: "dw_env \<Rightarrow> string \<Rightarrow> chunk_file \<Rightarrow> string" where
  "file_line E dir f = get_file_path E dir (epochseconds f) @ ''/'' @ filename f @ eol"

definition numbered :: "string list \<Rightarrow> string" where
  "numbered ls = concat (map (\<lambda>(i, l). nat_str (Suc i) @ '': '' @ l) (enumerate 0 ls))"

definition dw_listall :: "dw_env \<Rightarrow> dw_args \<Rightarrow> string" where
  "dw_listall E a =
     (case dw_get_all_files E (search_dir_path a) (dw_start a) (dw_end a) of
        (EXIT_SUCCESS, fs) \<Rightarrow> numbered (map (file_line E (search_dir_path a)) fs)
      | (EXIT_FAILURE, _) \<Rightarrow> [])"

definition dw_searchfile :: "dw_env \<Rightarrow> dw_args \<Rightarrow> string" where
  "dw_searchfile E a =
     (if dw_start a = 0 then ''Searching a file needs a start_time !'' @ eol
      else (case dw_get_file_on_time E (search_dir_path a) (dw_start a) of
              (EXIT_SUCCESS, f) \<Rightarrow> file_line E (search_dir_path a) f
            | (EXIT_FAILURE, _) \<Rightarrow> []))"

text \<open>The second component says that the files were handed to \<open>groom_files\<close> for removal.\<close>

definition dw_removefiles :: "dw_env \<Rightarrow> dw_args \<Rightarrow> string \<times> bool" where
  "dw_removefiles E a =
     (if dw_end a = 0 then (''Deleting files needs a end_time !'' @ eol, False)
      else (case dw_groom_files E (search_dir_path a) (dw_end a) of
              (EXIT_SUCCESS, fs) \<Rightarrow> (numbered (map (file_line E (search_dir_path a)) fs), True)
            | (EXIT_FAILURE, _) \<Rightarrow> ([], True)))"

definition dw_intervals :: "dw_env \<Rightarrow> dw_args \<Rightarrow> string" where
  "dw_intervals E a =
     (case dw_get_all_recordings E (search_dir_path a) (dw_start a) (dw_end a) of
        (EXIT_SUCCESS, rs) \<Rightarrow> numbered (map (\<lambda>r. dw_get_timestamp_str E (startTime r) @ '' --> '' @
                                    dw_get_timestamp_str E (endTime r) @ eol) rs)
      | (EXIT_FAILURE, _) \<Rightarrow> [])"

text \<open>\<open>main\<close>: the exit status, the standard output, and whether files were handed over for removal.\<close>

definition dirworker_main :: "dw_env \<Rightarrow> (char \<times> string) list \<Rightarrow> int \<times> string \<times> bool" where
  "dirworker_main E opts =
     (case dw_options opts dw_initial of
        None \<Rightarrow> (1, [], False)
      | Some a \<Rightarrow>
          if two_modes a then (1, [], False)
          else (0, (if is_listall a then dw_listall E a else []) @
                   (if is_searchfile a then dw_searchfile E a else []) @
                   (if is_removefiles a then fst (dw_removefiles E a) else []) @
                   (if is_interval a then dw_intervals E a else []),
                is_removefiles a \<and> snd (dw_removefiles E a)))"

end
