(* ===== verification/Service_Claims.thy ===== *)
theory Service_Claims
  imports Access_Data Dir_Worker Recorder_Props Metarec_Main Space_Claims
begin

text \<open>
  The properties of the two commands that serve recordings: when a download succeeds, where the directory
  worker looks for what the recorder has written, and when it removes files.
\<close>

section \<open>Times on the command line\<close>

lemma no_T: "CHR ''T'' \<notin> set (pad0 w n)" "CHR ''T'' \<notin> set (nat_str n)"
  using pad0_digits [of "CHR ''T''" w n] nat_str_digits [of "CHR ''T''" n] by (auto simp: is_digit_def)

lemma cut_at_tag:
  assumes "c \<notin> set a"
  shows "takeWhile (\<lambda>x. x \<noteq> c) (a @ c # b) = a" "dropWhile (\<lambda>x. x \<noteq> c) (a @ c # b) = c # b"
  using assms by (induction a) auto

text \<open>A printed time with a dash for its \<open>T\<close> is the beginning of a recorder's file name.\<close>

lemma dash_timestamp:
  assumes "valid_tm t" "1000 \<le> tm_year t + 1900" "tm_year t + 1900 \<le> 9999"
  shows "dash_for_T (strftime_icd t) = Some (chunk_name t)"
proof -
  define y where "y = nat (tm_year t + 1900)"
  note sh = chunk_name_shape [OF assms, folded y_def]
  have yy: "tm_year t + 1900 = int y" using assms(2) by (simp add: y_def)
  have y4: "int_str (int y) = pad0 4 y"
  proof -
    have "length (nat_str y) \<le> 4" using length_nat_str [of y 4] sh(3) by simp
    moreover have "\<not> length (nat_str y) \<le> 3"
    proof
      assume "length (nat_str y) \<le> 3"
      then have "(10::nat) ^ length (nat_str y) \<le> 10 ^ 3" by (intro power_increasing) auto
      with nat_str_bound [of y] sh(2) show False by simp
    qed
    ultimately show ?thesis by (simp add: int_str_def pad0_def pad_left_def)
  qed
  let ?d = "pad0 4 y @ pad0 2 (nat (tm_mon t + 1)) @ pad0 2 (nat (tm_mday t))"
    and ?h = "pad0 2 (nat (tm_hour t)) @ pad0 2 (nat (tm_min t)) @ pad0 2 (nat (tm_sec t))"
  have s: "strftime_icd t = ?d @ CHR ''T'' # ?h" by (simp add: strftime_icd_def yy y4)
  have "CHR ''T'' \<notin> set ?d" by (simp only: set_append Un_iff no_T simp_thms)
  note cut = cut_at_tag [OF this, of ?h]
  show ?thesis unfolding s dash_for_T_def cut sh(1) by simp
qed

lemma epoch_of_argument:
  assumes "ad_mktime E = mktime" "1000 \<le> tm_year (gmtime_r t) + 1900" "tm_year (gmtime_r t) + 1900 \<le> 9999"
  shows "to_epoch E (chunk_name (gmtime_r t)) = t"
  using name_tm_chunk [OF gmtime_valid assms(2,3), of "[]"] by (simp add: to_epoch_def assms(1) mktime_gmtime)

section \<open>Downloads\<close>

definition directory_of :: "string \<Rightarrow> string" where
  "directory_of dest =
     (case strrchr (take 1023 dest) CHR ''/'' of
        None \<Rightarrow> take 1023 dest | Some f \<Rightarrow> take (length (take 1023 dest) - length f) (take 1023 dest))"

text \<open>
  C29: a download request. With the times printed as the manual says, the request handed on carries these
  seconds, reduced to the 32 bits of the payload, and the camera name padded to its field, and it goes to the
  drive of the command line, to the CHM when none is given. The command succeeds exactly when the directory
  of the destination exists, the destination has the extension \<open>.lvdat\<close>, the period is not empty and has
  begun, and the download itself succeeds.
\<close>

theorem download_request:
  assumes "ad_mktime E = mktime"
    and "1000 \<le> tm_year (gmtime_r s) + 1900" "tm_year (gmtime_r s) + 1900 \<le> 9999"
    and "1000 \<le> tm_year (gmtime_r e) + 1900" "tm_year (gmtime_r e) + 1900 \<le> 9999"
    and "reduce_privileges (ad_ids E)" "0 < raconf_recorders E" "0 < raconf_cameras E"
    and "ad_parse_arg opts = Some a" "ad_type a = 1"
    and "p_start_time a = Some (strftime_icd (gmtime_r s))" "p_end_time a = Some (strftime_icd (gmtime_r e))"
    and "p_camera_name a = Some cam" "p_destination a = Some dest"
  shows "(\<exists>txt. access_main E opts = Some (EXIT_SUCCESS, txt)) \<longleftrightarrow>
     (\<exists>es. resolve (ad_fs E) (directory_of dest) = Some (Dir es)) \<and> strstr dest ''.lvdat'' \<noteq> None \<and>
     s < e \<and> s \<le> ad_time E \<and>
     fst (ad_perform_download E \<lparr>pl_camera = pad_camera (ad_name_len E) cam, pl_start = s mod 2 ^ 32, pl_end = e mod 2 ^ 32,
            pl_destination = take (ad_dest_len E - 1) dest\<rparr> 1 (if m_type a = - 1 then 1 else m_type a mod 256)) = EXIT_SUCCESS"
proof -
  let ?pl = "\<lparr>pl_camera = pad_camera (ad_name_len E) cam, pl_start = payload_time s, pl_end = payload_time e,
     pl_destination = take (ad_dest_len E - 1) dest\<rparr>"
  let ?drive = "if m_type a = - 1 then 1 else m_type a mod 256"
  have t: "payload_time x = x mod 2 ^ 32" for x by (simp add: payload_time_def uint_word_of_int)
  have m: "access_main E opts = Some (case download_error E dest s e of
      Some msg \<Rightarrow> (EXIT_FAILURE, msg @ nl) | None \<Rightarrow> serve E a cam ?pl [])"
    using assms(6-14) dash_timestamp [OF gmtime_valid assms(2,3)] dash_timestamp [OF gmtime_valid assms(4,5)]
      epoch_of_argument [OF assms(1-3)] epoch_of_argument [OF assms(1,4,5)]
    by (simp add: access_main_def Let_def split: option.split)
  have err: "download_error E dest s e = None \<longleftrightarrow>
      (\<exists>es. resolve (ad_fs E) (directory_of dest) = Some (Dir es)) \<and> strstr dest ''.lvdat'' \<noteq> None \<and>
      s < e \<and> s \<le> ad_time E"
    by (auto simp: download_error_def directory_of_def [symmetric] Let_def split: option.split fs_node.split)
  have d: "(if m_type a = - 1 then e_chm else m_type a) mod 256 = ?drive" by (simp add: e_chm_def)
  have "(\<exists>txt. serve E a cam ?pl [] = (EXIT_SUCCESS, txt)) \<longleftrightarrow> fst (ad_perform_download E ?pl 1 ?drive) = EXIT_SUCCESS"
    unfolding serve_def d using assms(10)
    by (cases "ad_perform_download E ?pl 1 ?drive"; cases "fst (ad_perform_download E ?pl 1 ?drive)") auto
  with m err show ?thesis unfolding t by (cases "download_error E dest s e") auto
qed

definition demo_ad :: ad_env where
  "demo_ad = \<lparr>ad_mktime = mktime, ad_time = 1000, ad_ids = \<lparr>euid = 7, egid = 7, setegid_rc = 0, seteuid_rc = 0\<rparr>,
     raconf_recorders = 1, raconf_cameras = 1, ad_name_len = 12, ad_dest_len = 64,
     ad_fs = Dir [(''d'', Dir [])], proc_names = Some [], proc_stat = (\<lambda>_. None), pbC = None, pbC_writable = False,
     ad_perform_download = (\<lambda>pl _ drive. (if pl_camera pl = ''FRONT_______'' \<and> drive = 1 then EXIT_SUCCESS else EXIT_FAILURE,
       DOWNLOAD_OK_FULL, \<lparr>range_start = 0, range_end = 0\<rparr>))\<rparr>"

lemma gmtime_160: "gmtime_r 160 = \<lparr>tm_year = 70, tm_mon = 0, tm_mday = 1, tm_hour = 0, tm_min = 2, tm_sec = 40\<rparr>"
  using gmtime_mktime [of "\<lparr>tm_year = 70, tm_mon = 0, tm_mday = 1, tm_hour = 0, tm_min = 2, tm_sec = 40\<rparr>"]
  by (simp add: mktime_def days_to_year_def days_to_month_def leaps_to_def valid_tm_def month_len_def)

text \<open>
  The witness serves a request without a drive from the CHM, and refuses the same request for the other one,
  on which the download of this environment fails.
\<close>

theorem download_request_witness:
  "(\<exists>txt. access_main demo_ad [(CHR ''t'', ''1''), (CHR ''s'', strftime_icd (gmtime_r 100)),
      (CHR ''e'', strftime_icd (gmtime_r 160)), (CHR ''c'', ''FRONT''), (CHR ''d'', ''/d/x.lvdat'')] =
    Some (EXIT_SUCCESS, txt)) \<and>
   (\<nexists>txt. access_main demo_ad [(CHR ''t'', ''1''), (CHR ''m'', ''2''), (CHR ''s'', strftime_icd (gmtime_r 100)),
      (CHR ''e'', strftime_icd (gmtime_r 160)), (CHR ''c'', ''FRONT''), (CHR ''d'', ''/d/x.lvdat'')] =
    Some (EXIT_SUCCESS, txt))"
proof -
  let ?rest = "[(CHR ''s'', strftime_icd (gmtime_r 100)),
      (CHR ''e'', strftime_icd (gmtime_r 160)), (CHR ''c'', ''FRONT''), (CHR ''d'', ''/d/x.lvdat'')]"
  let ?a = "\<lambda>m. \<lparr>ad_type = 1, m_type = m, p_start_time = Some (strftime_icd (gmtime_r 100)),
     p_end_time = Some (strftime_icd (gmtime_r 160)), p_camera_name = Some ''FRONT'', p_loco_id = None,
     p_destination = Some ''/d/x.lvdat'', p_session_id = None\<rparr>"
  have n: "atoi ''1'' = 1" "atoi ''2'' = 2"
    by (simp_all add: atoi_def atol_def strtol10_def is_space_def is_digit_def digit_val_def clamp_long_def
        LONG_MAX_def LONG_MIN_def)
  have p: "ad_parse_arg ((CHR ''t'', ''1'') # ?rest) = Some (?a (- 1))"
    "ad_parse_arg ((CHR ''t'', ''1'') # (CHR ''m'', ''2'') # ?rest) = Some (?a 2)"
    by (simp_all add: ad_parse_arg_def initial_args_def n e_start_def e_end_def)
  have d: "resolve (Dir [(''d'', Dir [])]) (directory_of ''/d/x.lvdat'') = Some (Dir [])"
    by (simp add: directory_of_def resolve_def comps_def)
  have c: "pad_camera 12 ''FRONT'' = ''FRONT_______''"
    by (simp add: pad_camera_def numeral_nat)
  note r = download_request [where E = demo_ad and s = 100 and e = 160 and cam = "''FRONT''" and dest = "''/d/x.lvdat''"]
  show ?thesis
    using r [where a = "?a (- 1)", OF _ _ _ _ _ _ _ _ p(1)] r [where a = "?a 2", OF _ _ _ _ _ _ _ _ p(2)] d c
    by (simp add: demo_ad_def gmtime_100 gmtime_160 reduce_privileges_def)
qed

text \<open>A session id of more than 65 characters overflows the buffer of the playback directory.\<close>

lemma long_session_overflows: "65 < length session \<Longrightarrow> playback_dir session = None"
  by (simp add: playback_dir_def)

section \<open>Where the recorder puts its files\<close>

text \<open>
  C30: the directory worker prints the path of a finished chunk. For a chunk of a session that recorded below
  \<open>METADATA\<close> of a drive, the path printed from its start second and its file name is the path under
  which the recorder left it.
\<close>

theorem worker_finds_chunk:
  assumes "dw_localtime E = gmtime_r" "b \<noteq> []" "last b \<noteq> CHR ''/''" "j < n_locs s"
    and "data_loc (pchan s) ! j = loc_dirs (l\<lparr>basedir := b\<rparr>)"
    and "length b + 30 \<le> 4094" "0 \<le> tm_year (gmtime_r (tv_sec (tod d0))) + 1900"
      "tm_year (gmtime_r (tv_sec (tod d0))) + 1900 \<le> 9999"
  shows "file_line E (search_dir_path (dw_initial\<lparr>dw_location := b\<rparr>))
      \<lparr>epochseconds = tv_sec (tod d0), duration_seconds = k,
       filename = chunk_fname (chunk (session_named s d0 ds)) @ data_suffix (chunk_duration_usecs (chunk (session_named s d0 ds)))\<rparr>
    = final_path (session_named s d0 ds) j @ eol"
proof -
  let ?t = "gmtime_r (tv_sec (tod d0))"
  note f = valid_tm_fields [OF gmtime_valid [of "tv_sec (tod d0)"]]
  have dd: "datadir (data_loc (pchan s) ! j) = b @ ''/METADATA/''"
    using assms(2,3) by (simp add: assms(5) loc_dirs_def Let_def)
  have sp: "search_dir_path (dw_initial\<lparr>dw_location := b\<rparr>) = b @ ''/METADATA''"
    using assms(2,6) by (simp add: search_dir_path_def dw_initial_def)
  have y: "nat (tm_year ?t + 1900) < 10 ^ 4" using assms(7,8) by simp
  have "length (pad0 4 (nat (tm_year ?t + 1900))) = 4" using y by (intro length_pad0) auto
  then have p: "get_file_path E (b @ ''/METADATA'') (tv_sec (tod d0)) @ ''/'' = b @ ''/METADATA/'' @ hour_path ?t"
    using assms(6) f by (simp add: get_file_path_def assms(1) Let_def hour_path_def)
  have q: "get_file_path E (b @ ''/METADATA'') (tv_sec (tod d0)) @ ''/'' @ x = b @ ''/METADATA/'' @ hour_path ?t @ x" for x
    using arg_cong [OF p, of "\<lambda>z. z @ x"] by simp
  show ?thesis
    using q dd by (simp add: file_line_def sp final_path_def session_named_def upd_chunk_def)
qed

theorem worker_finds_chunk_witness:
  "\<exists>E s. final_path (session_named s (demo_desc 100) []) 0 @ eol =
     file_line E (search_dir_path (dw_initial\<lparr>dw_location := ''/mnt/a''\<rparr>))
       \<lparr>epochseconds = 100, duration_seconds = 0, filename = chunk_fname (chunk (session_named s (demo_desc 100) [])) @
          data_suffix (chunk_duration_usecs (chunk (session_named s (demo_desc 100) [])))\<rparr>"
proof -
  let ?E = "\<lparr>dw_localtime = gmtime_r, dw_get_all_files = (\<lambda>_ _ _. (EXIT_FAILURE, [])),
     dw_get_file_on_time = (\<lambda>_ _. (EXIT_FAILURE, \<lparr>epochseconds = 0, duration_seconds = 0, filename = []\<rparr>)),
     dw_groom_files = (\<lambda>_ _. (EXIT_FAILURE, [])), dw_get_all_recordings = (\<lambda>_ _ _. (EXIT_FAILURE, []))\<rparr>"
  let ?s = "demo_recorder\<lparr>pchan := (pchan demo_recorder)\<lparr>data_loc := [loc_dirs (loc_init ''/mnt/a'')]\<rparr>\<rparr>"
  have t: "tv_sec (tod (demo_desc 100)) = 100" by (simp add: demo_desc_def)
  have y: "0 \<le> tm_year (gmtime_r 100) + 1900" "tm_year (gmtime_r 100) + 1900 \<le> 9999"
    by (simp_all add: gmtime_100)
  have n: "0 < n_locs ?s" by (simp add: n_locs_def)
  have dl: "data_loc (pchan ?s) ! 0 = loc_dirs (loc_init ''/mnt/a''\<lparr>basedir := ''/mnt/a''\<rparr>)"
    by (simp add: loc_init_def)
  have e: "dw_localtime ?E = gmtime_r" by simp
  note w = worker_finds_chunk [where E = ?E and s = ?s and b = "''/mnt/a''" and j = 0 and l = "loc_init ''/mnt/a''"
      and ?d0.0 = "demo_desc 100" and k = 0 and ds = "[]", unfolded t, OF e _ _ n dl _ y]
  show ?thesis
    by (rule exI [of _ ?E], rule exI [of _ ?s], rule sym, rule w) simp_all
qed

section \<open>Removal\<close>

lemma option_modes:
  assumes "dw_option opt arg a = Some a'"
  shows "is_listall a' \<longleftrightarrow> is_listall a \<or> opt = CHR ''a''"
    "is_searchfile a' \<longleftrightarrow> is_searchfile a \<or> opt = CHR ''q''"
    "is_removefiles a' \<longleftrightarrow> is_removefiles a \<or> opt = CHR ''r''"
    "is_interval a' \<longleftrightarrow> is_interval a \<or> opt = CHR ''i''"
    "opt \<noteq> CHR ''e'' \<Longrightarrow> dw_end a' = dw_end a"
  using assms by (auto simp: dw_option_def split: if_split_asm)

lemma options_modes:
  assumes "dw_options opts a = Some a'"
  shows "is_listall a' \<longleftrightarrow> is_listall a \<or> CHR ''a'' \<in> fst ` set opts"
    "is_searchfile a' \<longleftrightarrow> is_searchfile a \<or> CHR ''q'' \<in> fst ` set opts"
    "is_removefiles a' \<longleftrightarrow> is_removefiles a \<or> CHR ''r'' \<in> fst ` set opts"
    "is_interval a' \<longleftrightarrow> is_interval a \<or> CHR ''i'' \<in> fst ` set opts"
    "CHR ''e'' \<notin> fst ` set opts \<Longrightarrow> dw_end a' = dw_end a"
  using assms by (induction opts a rule: dw_options.induct) (auto simp: option_modes split: option.splits)

text \<open>
  C31: removal is asked for. The directory worker hands files over for removal only when the option for it is
  given, no option of another mode is, and an end time is; then it exits with status 0.
\<close>

theorem removal_is_explicit:
  assumes "dirworker_main E opts = (rc, txt, True)"
  shows "CHR ''r'' \<in> fst ` set opts \<and> CHR ''a'' \<notin> fst ` set opts \<and> CHR ''q'' \<notin> fst ` set opts \<and>
    CHR ''i'' \<notin> fst ` set opts \<and> CHR ''e'' \<in> fst ` set opts \<and> rc = 0"
proof -
  from assms obtain a where a: "dw_options opts dw_initial = Some a" "\<not> two_modes a" "is_removefiles a"
    "snd (dw_removefiles E a)" "rc = 0"
    by (auto simp: dirworker_main_def split: option.splits if_splits)
  then have "dw_end a \<noteq> 0" by (auto simp: dw_removefiles_def split: if_splits)
  moreover have "dw_end dw_initial = 0" by (simp add: dw_initial_def)
  ultimately show ?thesis
    using a options_modes [OF a(1)] by (auto simp: two_modes_def dw_initial_def)
qed

definition groomed_chunk :: chunk_file where
  "groomed_chunk = \<lparr>epochseconds = 100, duration_seconds = 60, filename = ''19700101-000140.000060000.data''\<rparr>"

definition grooming_dw :: dw_env where
  "grooming_dw = \<lparr>dw_localtime = gmtime_r, dw_get_all_files = (\<lambda>_ _ _. (EXIT_FAILURE, [])),
     dw_get_file_on_time = (\<lambda>_ _. (EXIT_FAILURE, groomed_chunk)),
     dw_groom_files = (\<lambda>_ e. if e = 1580443308 then (EXIT_SUCCESS, [groomed_chunk]) else (EXIT_FAILURE, [])),
     dw_get_all_recordings = (\<lambda>_ _ _. (EXIT_FAILURE, []))\<rparr>"

text \<open>The witness hands a file over for removal: with the end time of the command line, and it is listed.\<close>

theorem removal_is_explicit_witness:
  "let opts = [(CHR ''r'', []),
     (CHR ''e'', strftime_icd \<lparr>tm_year = 120, tm_mon = 0, tm_mday = 31, tm_hour = 4, tm_min = 1, tm_sec = 48\<rparr>)]
   in dirworker_main grooming_dw opts = (0, ''1: '' @ file_line grooming_dw (search_dir_path dw_initial) groomed_chunk, True) \<and>
     CHR ''r'' \<in> fst ` set opts \<and> CHR ''a'' \<notin> fst ` set opts \<and> CHR ''q'' \<notin> fst ` set opts \<and>
     CHR ''i'' \<notin> fst ` set opts \<and> CHR ''e'' \<in> fst ` set opts"
proof -
  let ?t = "\<lparr>tm_year = 120, tm_mon = 0, tm_mday = 31, tm_hour = 4, tm_min = 1, tm_sec = 48\<rparr>"
  have s: "strptime_icd (strftime_icd ?t) = Some ?t"
    by (rule strptime_strftime) (simp_all add: valid_tm_def month_len_def)
  have ne: "strftime_icd ?t \<noteq> []" by (simp add: strftime_icd_def)
  have "mktime ?t = 1580443308"
    by (simp add: mktime_def days_to_year_def days_to_month_def leaps_to_def)
  then have p: "dw_parse_input_timestamp (strftime_icd ?t) = 1580443308"
    using ne by (simp add: dw_parse_input_timestamp_def s)
  have g: "dw_groom_files grooming_dw d 1580443308 = (EXIT_SUCCESS, [groomed_chunk])" for d
    by (simp add: grooming_dw_def)
  have one: "nat_str (Suc 0) = ''1''" by code_simp
  have l: "numbered (map (file_line grooming_dw d) [groomed_chunk]) = ''1: '' @ file_line grooming_dw d groomed_chunk" for d
    by (simp add: numbered_def one)
  have "dw_options [(CHR ''r'', []), (CHR ''e'', strftime_icd ?t)] dw_initial =
      Some (dw_initial\<lparr>is_removefiles := True, dw_end := 1580443308\<rparr>)"
    by (simp add: dw_option_def p)
  then have m: "dirworker_main grooming_dw [(CHR ''r'', []), (CHR ''e'', strftime_icd ?t)] =
      (0, ''1: '' @ file_line grooming_dw (search_dir_path dw_initial) groomed_chunk, True)"
    using g l by (simp add: dirworker_main_def two_modes_def dw_removefiles_def dw_initial_def search_dir_path_def)
  from removal_is_explicit [OF m] m show ?thesis by (simp add: Let_def)
qed

end
