(* ===== verification/Launch_Claims.thy ===== *)
theory Launch_Claims
  imports Agent_Config Metarec_Main Space_Claims
begin

text \<open>
  The command lines by which the agent starts its helper processes, read by the programs that are started:
  the metadata recorder and the space monitor. And the lookup of a camera after the configuration has
  been read.
\<close>

section \<open>The metadata recorder\<close>

text \<open>A value that survives the printing and the splitting of a command line.\<close>

definition plain_word :: "string \<Rightarrow> bool" where
  "plain_word w \<longleftrightarrow> w \<noteq> [] \<and> CHR '' '' \<notin> set w"

lemma metarec_flags_cases:
  "(is_chm_ready m \<longrightarrow> is_rssd_ready m \<longrightarrow> metarec_flags m = 3) \<and> (is_chm_ready m \<longrightarrow> \<not> is_rssd_ready m \<longrightarrow> metarec_flags m = 1) \<and>
   (\<not> is_chm_ready m \<longrightarrow> is_rssd_ready m \<longrightarrow> metarec_flags m = 2) \<and> (\<not> is_chm_ready m \<longrightarrow> \<not> is_rssd_ready m \<longrightarrow> metarec_flags m = 0)"
  by (simp add: metarec_flags_def)

lemma metarec_flags_range: "metarec_flags m \<in> {0, 1, 2, 3}"
  using metarec_flags_cases [of m] by (cases "is_chm_ready m"; cases "is_rssd_ready m") simp_all

lemma hex_digits: "hex_char 0 = CHR ''0''" "hex_char (Suc 0) = CHR ''1''" "hex_char 2 = CHR ''2''" "hex_char 3 = CHR ''3''"
  by code_simp+

lemma hex_of_flags:
  "hex02 0 = ''00''" "hex02 (Suc 0) = ''01''" "hex02 2 = ''02''" "hex02 3 = ''03''"
  by (simp_all add: hex02_def pad_left_def hex_str.simps hex_digits)

lemma metarec_tokens:
  assumes "plain_word (rt_loco_id m)" "plain_word (chunk_length m)" "plain_word (chm_footage_base m)"
    "plain_word (rssd_footage_base m)"
  shows "tokens (metarec_cmdline m) =
    [METAREC_APP, ''-l'', rt_loco_id m, ''-d'', chunk_length m, ''-r'', hex02 (unat (metarec_flags m)),
     ''-1'', chm_footage_base m, ''-2'', rssd_footage_base m]"
proof -
  have a: "METAREC_APP \<noteq> []" "CHR '' '' \<notin> set METAREC_APP" by (simp_all add: METAREC_APP_def)
  have h: "hex02 (unat (metarec_flags m)) \<noteq> []" "CHR '' '' \<notin> set (hex02 (unat (metarec_flags m)))"
    using metarec_flags_range [of m] by (auto simp: hex_of_flags)
  show ?thesis using assms a h by (simp add: metarec_cmdline_def plain_word_def)
qed

lemma scanned_flags:
  "sscanf_hex ''00'' = Some 0" "sscanf_hex ''01'' = Some 1" "sscanf_hex ''02'' = Some 2" "sscanf_hex ''03'' = Some 3"
  by code_simp+

lemma metarec_flags_parsed:
  "sscanf_hex (hex02 (unat (metarec_flags m))) = Some (uint (metarec_flags m)) \<and> metarec_flags m AND 31 = metarec_flags m"
  using metarec_flags_range [of m]
  by (auto simp: hex_of_flags scanned_flags)

text \<open>
  C32: the metadata recorder is started with what the agent knows. When the locomotive, the chunk length
  and the two directories contain no space and the command line fits its buffer, the option loop of the
  recorder, run on the words the agent executes, sets the recording mode to the ready drives, both
  directories, two copies, and the chunk length when it is a positive number.
\<close>

theorem metarec_reads_agent:
  assumes "plain_word (rt_loco_id m)" "plain_word (chunk_length m)" "plain_word (chm_footage_base m)"
    "plain_word (rssd_footage_base m)"
    and "length (metarec_cmdline m) \<le> 510" "malloc_ok E"
    and "length (chm_footage_base m) < sizeof_basedir M" "length (rssd_footage_base m) < sizeof_basedir M"
  shows "\<exists>ws c. lwe_words (metaworker (fst (raconf_prepare_for_metarecording E m))) = Some (METAREC_APP # ws) \<and>
    metarec_options M (getopt_words '':r:d:l:1:2:v'' ws) (metarec_chan, False) = Inr (c, False) \<and>
    recording_mode c = metarec_flags m \<and> n_copies c = 2 \<and>
    map basedir (data_loc c) = [chm_footage_base m, rssd_footage_base m] \<and>
    src_premise c = take METAREC_LOCO_ID_LENGTH (rt_loco_id m) \<and>
    chunk_duration c = (if atoi (chunk_length m) > 0 then atoi (chunk_length m) else 120)"
proof -
  let ?ws = "[''-l'', rt_loco_id m, ''-d'', chunk_length m, ''-r'', hex02 (unat (metarec_flags m)),
     ''-1'', chm_footage_base m, ''-2'', rssd_footage_base m]"
  have "metarec_cmdline m \<noteq> []" by (simp add: metarec_cmdline_def)
  then have w: "lwe_words (metaworker (fst (raconf_prepare_for_metarecording E m))) = Some (METAREC_APP # ?ws)"
    using assms(5,6) metarec_tokens [OF assms(1-4)]
    by (simp add: raconf_prepare_for_metarecording_def snprintf_def l_wordexp_def LWE_MAXARG_def Let_def)
  have g: "getopt_words '':r:d:l:1:2:v'' ?ws =
      [(CHR ''l'', rt_loco_id m), (CHR ''d'', chunk_length m), (CHR ''r'', hex02 (unat (metarec_flags m))),
       (CHR ''1'', chm_footage_base m), (CHR ''2'', rssd_footage_base m)]"
    by (simp add: takes_arg_def)
  have o: "\<exists>c. metarec_options M (getopt_words '':r:d:l:1:2:v'' ?ws) (metarec_chan, False) = Inr (c, False) \<and>
    recording_mode c = metarec_flags m \<and> n_copies c = 2 \<and>
    map basedir (data_loc c) = [chm_footage_base m, rssd_footage_base m] \<and>
    src_premise c = take METAREC_LOCO_ID_LENGTH (rt_loco_id m) \<and>
    chunk_duration c = (if atoi (chunk_length m) > 0 then atoi (chunk_length m) else 120)"
    unfolding g using assms(7,8) metarec_flags_parsed [of m] by (simp add: metarec_chan_def set_basedir_def loc_init_def)
  from o obtain c where "metarec_options M (getopt_words '':r:d:l:1:2:v'' ?ws) (metarec_chan, False) = Inr (c, False) \<and>
    recording_mode c = metarec_flags m \<and> n_copies c = 2 \<and>
    map basedir (data_loc c) = [chm_footage_base m, rssd_footage_base m] \<and>
    src_premise c = take METAREC_LOCO_ID_LENGTH (rt_loco_id m) \<and>
    chunk_duration c = (if atoi (chunk_length m) > 0 then atoi (chunk_length m) else 120)" ..
  with w show ?thesis by (intro exI [of _ ?ws] exI [of _ c]) simp
qed

definition demo_worker :: worker where
  "demo_worker = \<lparr>worker_pid = 0, worker_cmd = [], lwe_words = None\<rparr>"

definition demo_media :: media_info where
  "demo_media = \<lparr>rec_ser_num = ''1'', chunk_length = ''120'', staging_base = ''/s'', chm_footage_base = ''/c'',
     rssd_footage_base = ''/r'', media_max_age = ''168'', cameras = [], n_cameras = 0, metaworker = demo_worker,
     spacemonitor = demo_worker, camon_sock = 0, is_chm_ready = True, is_rssd_ready = False, n_cams_recording = 0,
     rt_loco_id = ''LOCO''\<rparr>"

definition demo_conf :: conf_env where
  "demo_conf = \<lparr>malloc_ok = True, MAX_LOCO_ID_SIZE = 10, get_cfg_params = (\<lambda>_. Some demo_media),
     ovc_set_date_and_time = (\<lambda>_. 0), ovc_set_rcf = (\<lambda>_ _ _ _. 0), camon_init = 5, uc_chm_ready = True,
     uc_rssd_ready = True\<rparr>"

definition demo_main :: main_env where
  "demo_main = \<lparr>cenv = demo_chunk_env, sizeof_basedir = 256, ptc_connect_ok = True, attach_ok = True,
     thread_create_ok = True, TIME_INFO_var = None\<rparr>"

theorem metarec_reads_agent_witness:
  "\<exists>ws c. lwe_words (metaworker (fst (raconf_prepare_for_metarecording demo_conf demo_media))) = Some (METAREC_APP # ws) \<and>
    metarec_options demo_main (getopt_words '':r:d:l:1:2:v'' ws) (metarec_chan, False) = Inr (c, False) \<and>
    map basedir (data_loc c) = [''/c'', ''/r'']"
proof -
  have f: "length (hex02 (unat (metarec_flags demo_media))) = 2"
    using metarec_flags_range [of demo_media] by (auto simp: hex_of_flags)
  have p: "plain_word (rt_loco_id demo_media)" "plain_word (chunk_length demo_media)"
    "plain_word (chm_footage_base demo_media)" "plain_word (rssd_footage_base demo_media)"
    by (simp_all add: demo_media_def plain_word_def)
  have "length (rt_loco_id demo_media) = 4" "length (chunk_length demo_media) = 3"
    "length (chm_footage_base demo_media) = 2" "length (rssd_footage_base demo_media) = 2"
    by (simp_all add: demo_media_def)
  with f have l: "length (metarec_cmdline demo_media) \<le> 510"
    by (simp add: metarec_cmdline_def METAREC_APP_def)
  have e: "malloc_ok demo_conf" "length (chm_footage_base demo_media) < sizeof_basedir demo_main"
    "length (rssd_footage_base demo_media) < sizeof_basedir demo_main"
    by (simp_all add: demo_conf_def demo_main_def demo_media_def)
  have b: "[chm_footage_base demo_media, rssd_footage_base demo_media] = [''/c'', ''/r'']"
    by (simp add: demo_media_def)
  from metarec_reads_agent [OF p l e] b show ?thesis by metis
qed

section \<open>The space monitor\<close>

lemma atoi_int_str: "0 \<le> v \<Longrightarrow> v < 2147483648 \<Longrightarrow> atoi (int_str v) = v"
  using atoi_pad0 [of "[]" "nat v" 0] by (simp add: int_str_def pad0_def pad_left_def)

lemma int_str_plain: "0 \<le> v \<Longrightarrow> plain_word (int_str v)"
  using nat_str_digits [of "CHR '' ''" "nat v"] by (auto simp: plain_word_def int_str_def is_digit_def)

lemma atoi_bounds: "- 2147483648 \<le> atoi s \<and> atoi s < 2147483648"
  using sint_range_size [of "word_of_int (atol s) :: 32 word"] by (simp add: atoi_def s32_def word_size)

lemma spacemon_tokens:
  assumes "0 \<le> age" "plain_word (chm_footage_base m)" "plain_word (rssd_footage_base m)"
  shows "tokens (spacemon_cmdline age m) =
    [SPACEMON_APP, ''-l'', int_str age, chm_footage_base m, rssd_footage_base m]"
proof -
  have "SPACEMON_APP \<noteq> []" "CHR '' '' \<notin> set SPACEMON_APP" by (simp_all add: SPACEMON_APP_def)
  then show ?thesis
    using assms(2,3) int_str_plain [OF assms(1)] by (simp add: spacemon_cmdline_def plain_word_def)
qed

lemma init_media_bases [simp]:
  "chm_footage_base (init_media E f m) = chm_footage_base m" "rssd_footage_base (init_media E f m) = rssd_footage_base m"
  by (simp_all add: init_media_def Let_def split: prod.split)

text \<open>
  C33: the space monitor takes an age for a percentage. The agent starts the space monitor with the
  configured age of recordings, in hours, for its option \<open>-l\<close>; the monitor's option loop makes it the
  percentage of space it keeps free, at least 20. From 101 hours on every amount of free space is too
  little.
\<close>

theorem monitor_reads_hours_as_percent:
  assumes "plain_word (chm_footage_base m)" "plain_word (rssd_footage_base m)"
    and "hd (chm_footage_base m) \<noteq> CHR ''-''" "hd (rssd_footage_base m) \<noteq> CHR ''-''" "media_max_age m \<noteq> []"
    and "0 \<le> atoi (media_max_age m)" "malloc_ok E"
    and "length (spacemon_cmdline (atoi (media_max_age m)) m) \<le> 1022"
  shows "\<exists>ws thr. lwe_words (spacemonitor (fst (init_recorder E m age))) = Some (SPACEMON_APP # ws) \<and>
    parse_arg (getopt_words ''h?vl:'' ws) (getopt_rest ''h?vl:'' ws) =
      (EXIT_SUCCESS, thr, [chm_footage_base m, rssd_footage_base m]) \<and>
    thr = (if atoi (media_max_age m) < 20 \<or> atoi (media_max_age m) = 999999 then 20 else atoi (media_max_age m)) \<and>
    (100 < thr \<longrightarrow> (\<forall>free \<le> 100. below (Some free) thr))"
proof -
  let ?h = "atoi (media_max_age m)"
  let ?ws = "[''-l'', int_str ?h, chm_footage_base m, rssd_footage_base m]"
  have c: "spacemon_cmdline ?h (init_media E f m') = spacemon_cmdline ?h m"
    if "chm_footage_base m' = chm_footage_base m" "rssd_footage_base m' = rssd_footage_base m" for f m'
    using that by (simp add: spacemon_cmdline_def)
  have "spacemon_cmdline ?h m \<noteq> []" by (simp add: spacemon_cmdline_def)
  then have w: "lwe_words (spacemonitor (fst (init_recorder E m age))) = Some (SPACEMON_APP # ?ws)"
    using assms(5,7,8) spacemon_tokens [OF assms(6,1,2)]
    by (simp add: init_recorder_def c snprintf_def l_wordexp_def LWE_MAXARG_def Let_def)
  have g: "getopt_words ''h?vl:'' ?ws = [(CHR ''l'', int_str ?h)]"
    "getopt_rest ''h?vl:'' ?ws = [chm_footage_base m, rssd_footage_base m]"
    using assms(3,4) by (simp_all add: takes_arg_def)
  have a: "atoi (int_str ?h) = ?h" using atoi_int_str [OF assms(6)] atoi_bounds by blast
  show ?thesis
    using w by (intro exI [of _ ?ws] exI [of _ "if ?h < 20 \<or> ?h = 999999 then 20 else ?h"])
      (simp only: g, simp add: parse_arg_def a below_def Let_def order_le_less_trans)
qed

theorem monitor_reads_hours_as_percent_witness:
  "\<exists>ws. lwe_words (spacemonitor (fst (init_recorder demo_conf demo_media 0))) = Some (SPACEMON_APP # ws) \<and>
    parse_arg (getopt_words ''h?vl:'' ws) (getopt_rest ''h?vl:'' ws) = (EXIT_SUCCESS, 168, [''/c'', ''/r''])"
proof -
  have a: "atoi (media_max_age demo_media) = 168"
    by (simp add: demo_media_def atoi_def atol_def strtol10_def is_space_def is_digit_def digit_val_def clamp_long_def
        LONG_MAX_def LONG_MIN_def)
  have l: "length (int_str 168) = 3" by (simp add: int_str_def nat_str.simps)
  have b: "chm_footage_base demo_media = ''/c''" "rssd_footage_base demo_media = ''/r''" by (simp_all add: demo_media_def)
  have p: "plain_word (chm_footage_base demo_media)" "plain_word (rssd_footage_base demo_media)"
    "hd (chm_footage_base demo_media) \<noteq> CHR ''-''" "hd (rssd_footage_base demo_media) \<noteq> CHR ''-''" "media_max_age demo_media \<noteq> []"
    by (simp_all add: demo_media_def plain_word_def)
  have n: "0 \<le> atoi (media_max_age demo_media)" "malloc_ok demo_conf"
    "length (spacemon_cmdline (atoi (media_max_age demo_media)) demo_media) \<le> 1022"
    using a l by (simp_all add: demo_conf_def spacemon_cmdline_def SPACEMON_APP_def b)
  show ?thesis using monitor_reads_hours_as_percent [OF p n, of 0] by (auto simp: a b)
qed

section \<open>Lookup of a camera\<close>

lemma init_cameras_eq:
  "init_cameras f cs = (length (takeWhile (\<lambda>c. cam_name c \<noteq> []) cs),
     map f (takeWhile (\<lambda>c. cam_name c \<noteq> []) cs) @ dropWhile (\<lambda>c. cam_name c \<noteq> []) cs)"
  by (induction cs) auto

lemma find_index_Some_iff:
  "find_index P xs = Some i \<longleftrightarrow> i < length xs \<and> P (xs ! i) \<and> (\<forall>j < i. \<not> P (xs ! j))"
proof (induction xs arbitrary: i)
  case (Cons x xs)
  show ?case
  proof (cases i)
    case 0
    then show ?thesis by (cases "find_index P xs") auto
  next
    case (Suc k)
    have "find_index P (x # xs) = Some i \<longleftrightarrow> \<not> P x \<and> find_index P xs = Some k"
      using Suc by (cases "find_index P xs") auto
    then show ?thesis unfolding Cons.IH using Suc by (auto simp: All_less_Suc2)
  qed
qed simp

lemma named_nth:
  assumes "j < length (takeWhile (\<lambda>c. cam_name c \<noteq> []) (take n cs))"
  shows "takeWhile (\<lambda>c. cam_name c \<noteq> []) (take n cs) ! j = cs ! j" "cam_name (cs ! j) \<noteq> []"
proof -
  let ?T = "takeWhile (\<lambda>c. cam_name c \<noteq> []) (take n cs)"
  have "?T ! j = take n cs ! j" using assms by (metis nth_append takeWhile_dropWhile_id)
  moreover have "j < n" using assms length_takeWhile_le [of "\<lambda>c. cam_name c \<noteq> []" "take n cs"] by simp
  ultimately show e: "?T ! j = cs ! j" by simp
  have "cam_name (?T ! j) \<noteq> []" using assms by (metis (mono_tags, lifting) nth_mem set_takeWhileD)
  with e show "cam_name (cs ! j) \<noteq> []" by simp
qed

lemma same_name_pad: "same_name (length nm) nm (pad_underscores n nm)"
  by (simp add: same_name_def pad_underscores_def)

definition padded_name :: "media_info \<Rightarrow> nat \<Rightarrow> string" where
  "padded_name m j = pad_underscores MAX_CAM_NAME_SIZE (cam_name (cameras m ! j))"

lemma parsed_cameras:
  assumes "get_cfg_params E (Some fl) = Some m" "fl \<noteq> ''-''" "n_cameras m = 0"
    and "raconf_get_media_info (raconf_parse E [fl] conf) 0 = Some m'"
  shows "n_cameras m' = length (takeWhile (\<lambda>c. cam_name c \<noteq> []) (take MAX_CAMS (cameras m)))"
    "map cam_name (take (n_cameras m') (cameras m')) = map (padded_name m) [0..<n_cameras m']"
proof -
  let ?P = "\<lambda>c. cam_name c \<noteq> []"
  let ?T = "takeWhile ?P (take MAX_CAMS (cameras m))"
  have m': "m' = init_media E (\<lambda>c. let c1 = init_camera c in c1\<lparr>cam_rt := (cam_rt c1)\<lparr>commanded_paused := False\<rparr>\<rparr>) m"
    using assms by (simp add: raconf_get_media_info_def raconf_parse_def read_configs_def map_filter_simps MAX_RECORDERS_def)
  show n: "n_cameras m' = length ?T"
    using assms(3) by (simp add: m' init_media_def init_cameras_eq)
  have c: "take (n_cameras m') (cameras m') =
      map (\<lambda>c. let c1 = init_camera c in c1\<lparr>cam_rt := (cam_rt c1)\<lparr>commanded_paused := False\<rparr>\<rparr>) ?T"
    unfolding n by (simp add: m' init_media_def init_cameras_eq)
  have "map cam_name (map (\<lambda>c. let c1 = init_camera c in c1\<lparr>cam_rt := (cam_rt c1)\<lparr>commanded_paused := False\<rparr>\<rparr>) ?T) =
      map (padded_name m) [0..<length ?T]"
    by (rule nth_equalityI) (simp_all add: init_camera_def padded_name_def Let_def named_nth)
  then show "map cam_name (take (n_cameras m') (cameras m')) = map (padded_name m) [0..<n_cameras m']"
    using c n by simp
qed

text \<open>
  C34: finding a camera. After the configuration has been read, a camera is found under its configured
  name exactly when the padded name of no camera before it starts with that name, without regard to
  case.
\<close>

theorem camera_found:
  assumes "get_cfg_params E (Some fl) = Some m" "fl \<noteq> ''-''" "n_cameras m = 0"
    and "raconf_get_media_info (raconf_parse E [fl] conf) 0 = Some m'" "i < n_cameras m'"
    and "cam_name (cameras m ! i) = nm"
  shows "raconf_find_camera (Some m') (Some nm) = Some i \<longleftrightarrow>
    (\<forall>j < i. \<not> same_name (length nm) nm (padded_name m j))"
proof -
  note p = parsed_cameras [OF assms(1-4)]
  let ?cs = "take (n_cameras m') (cameras m')"
  have len: "length ?cs = n_cameras m'" using arg_cong [OF p(2), of length] by simp
  have nth: "cam_name (?cs ! j) = padded_name m j" if "j < n_cameras m'" for j
    using arg_cong [OF p(2), of "\<lambda>l. l ! j"] that len by simp
  have "cam_name (cameras m ! i) \<noteq> []" using assms(5) p(1) by (intro named_nth(2) [of i MAX_CAMS]) simp
  then have ne: "nm \<noteq> []" using assms(6) by simp
  have "same_name (length nm) nm (padded_name m i)"
    using assms(6) same_name_pad by (simp add: padded_name_def)
  then show ?thesis
    using ne assms(5) len nth by (simp add: raconf_find_camera_def find_index_Some_iff)
qed

definition demo_cam :: "string \<Rightarrow> camdef" where
  "demo_cam nm = \<lparr>cam_name = nm, disp_mac = ''ACCC8E982FEB'', cam_model = ''M'', homepage = ''h'', stream_url = ''s'',
     snapshot_url = ''p'', mjpeg_url = ''j'', chm_auto_rec = ''1'', rssd_auto_rec = ''1'', conf_resolution = ''0'',
     conf_compression = ''0'', conf_frame_rate = ''0'', do_audio = ''T'', mount_type = ''0'', accessory_pwr = ''0'',
     conf_is_essential = ''1'', max_age = [],
     cam_rt = \<lparr>is_assigned = True, is_online = 0, rt_resolution = 0, rt_compression = 0, rt_frame_rate = 0,
       rt_max_age = 0, rt_is_essential = 0, recording_mode_flags = 0, recording_status_flags = 0,
       commanded_paused = False\<rparr>,
     cam_worker = demo_worker\<rparr>"

definition two_cams :: media_info where
  "two_cams = demo_media\<lparr>cameras := [demo_cam ''CAM10'', demo_cam ''CAM1'']\<rparr>"

text \<open>The witness has the second camera's name as the beginning of the first one's: it is not found.\<close>

theorem camera_found_witness:
  "\<exists>m'. raconf_get_media_info (raconf_parse (demo_conf\<lparr>get_cfg_params := (\<lambda>_. Some two_cams)\<rparr>) [''c.xml''] []) 0 = Some m' \<and>
     raconf_find_camera (Some m') (Some ''CAM1'') \<noteq> Some 1"
proof -
  let ?E = "demo_conf\<lparr>get_cfg_params := (\<lambda>_. Some two_cams)\<rparr>"
  let ?ms = "raconf_parse ?E [''c.xml''] []"
  have ne: "?ms \<noteq> []"
    by (simp add: raconf_parse_def read_configs_def map_filter_simps MAX_RECORDERS_def)
  then obtain m' where m': "raconf_get_media_info ?ms 0 = Some m'" by (simp add: raconf_get_media_info_def)
  have p: "get_cfg_params ?E (Some ''c.xml'') = Some two_cams" "''c.xml'' \<noteq> ''-''" "n_cameras two_cams = 0"
    by (simp_all add: two_cams_def demo_media_def)
  have n: "1 < n_cameras m'"
    unfolding parsed_cameras(1) [OF p m'] by (simp add: two_cams_def demo_cam_def MAX_CAMS_def numeral_nat)
  have c: "cam_name (cameras two_cams ! 1) = ''CAM1''" by (simp add: two_cams_def demo_cam_def)
  have "same_name (length ''CAM1'') ''CAM1'' (padded_name two_cams 0)"
    by (simp add: same_name_def padded_name_def pad_underscores_def MAX_CAM_NAME_SIZE_def two_cams_def demo_cam_def numeral_nat)
  then have "\<not> (\<forall>j < 1. \<not> same_name (length ''CAM1'') ''CAM1'' (padded_name two_cams j))" by blast
  with camera_found [OF p m' n c] m' show ?thesis by blast
qed

section \<open>Reading the configuration again\<close>

text \<open>When no file of the command line can be read, the base configuration is not tried.\<close>

lemma base_config_not_tried:
  assumes "\<forall>f \<in> set files. get_cfg_params E (Some f) = None" "length files \<le> MAX_RECORDERS"
  shows "read_configs E files = (case get_cfg_params E None of Some m \<Rightarrow> [m] | None \<Rightarrow> [])"
proof -
  have "List.map_filter (\<lambda>f. get_cfg_params E (Some f)) (take MAX_RECORDERS files) = []"
    using assms(1) in_set_takeD [of _ MAX_RECORDERS files] by (auto simp: map_filter_def filter_empty_conv)
  then show ?thesis using assms(2) by (simp add: read_configs_def)
qed

text \<open>
  The table is cleared before it is read again, so the processes of the configuration before are neither
  killed nor remembered.
\<close>

lemma camera_kills_none: "\<forall>c \<in> set cs. worker_pid (cam_worker c) = 0 \<Longrightarrow> camera_kills cs = []"
  by (auto simp: camera_kills_def dest!: set_takeWhileD in_set_takeD)

lemma no_old_process_killed:
  assumes "\<forall>f m. get_cfg_params E f = Some m \<longrightarrow> camon_sock m = 0 \<and> worker_pid (spacemonitor m) = 0 \<and>
      (\<forall>c \<in> set (cameras m). worker_pid (cam_worker c) = 0)"
    and "files \<noteq> []" "hd files \<noteq> ''-''"
  shows "snd (raconf_init E files conf) = []"
proof -
  have r: "snd (init_recorders E ms age) = []"
    if "\<forall>m \<in> set ms. camon_sock m = 0 \<and> worker_pid (spacemonitor m) = 0 \<and> (\<forall>c \<in> set (cameras m). worker_pid (cam_worker c) = 0)"
    for ms age
    using that
  proof (induction ms arbitrary: age)
    case (Cons m ms)
    have "snd (snd (init_recorder E m age)) = []"
      using Cons.prems by (simp add: init_recorder_def camera_kills_none Let_def split: prod.split)
    then show ?case using Cons by (auto split: prod.splits) (metis snd_conv)
  qed simp
  have "\<forall>m \<in> set (read_configs E files). \<exists>f. get_cfg_params E f = Some m"
    by (auto simp: read_configs_def map_filter_def split: if_splits option.splits)
  then show ?thesis using assms by (auto simp: raconf_init_def intro!: r)
qed

end
