(* ===== verification/Video_Download.thy ===== *)
theory Video_Download
  imports Access_Data Data_Search Agent_Config
begin

text \<open>
  The video download (\<open>ra_download.c\<close>): it looks up the chunks of a camera in a period, checks the room of
  the destination, copies the chunks there, writes the metadata document with a segment per run of chunks,
  signs, encrypts and zips; a playback request only links the chunks. The search for chunks, the stored
  signatures, encryption, the shell commands and the layout of the chunk header are outside the
  repository and are fields of \<open>dl_env\<close>. \<open>None\<close> is a write outside a buffer or a use of a null
  pointer. The debug output (\<open>radld_verbose\<close> is 0) and the log are left out.
\<close>

section \<open>Data\<close>

record dr_chunk =
  dr_epoch :: int
  dr_duration :: nat
  dr_gap :: bool

record dr_data =
  dr_name :: string
  dr_model :: string
  dr_compression :: nat
  dr_chunks :: "dr_chunk list"
  found_chunks :: int

type_synonym files = "string \<rightharpoonup> u8 list"

text \<open>
  The globals of the file, the files it works on and every stream the process has open, those of local
  variables included; a stream is the path it was opened with.
\<close>

record dl_state =
  dl_files :: files
  open_streams :: streams
  meta_fp :: "string option"
  temp_hash_fp :: "string option"
  destination_dir :: string
  metadata_file :: string
  temphash_file :: string
  dl_fps :: int
  dl_hres :: int
  dl_vres :: int
  starttimeoffset :: int

record dl_env =
  dl_ds :: ds_env
  dl_minfo :: "media_info option"
  CAM_NAME_LEN :: nat
  CAM_ARRAY :: nat
  LOCO_STORAGE :: nat
  PFX_SIZE :: nat
  HMACKEY_LEN :: nat
  usecs_per_second :: nat
  retrive_data :: "int \<Rightarrow> string \<Rightarrow> int \<Rightarrow> int \<Rightarrow> int \<times> dr_data"
  make_filepath :: "int \<Rightarrow> dr_data \<Rightarrow> dr_chunk \<Rightarrow> exit_code \<times> string"
  chunk_time_info :: "u8 list \<Rightarrow> string \<times> int"
  dl_TIME_INFO :: "string option"
  neg_to_u64 :: "int \<Rightarrow> u64"
  get_stored_sig :: "u8 list option \<Rightarrow> u8 list \<times> int \<times> int \<times> int"
  calc_HMAC :: "u8 list option \<Rightarrow> u8 list"
  encrypt_file :: "string \<Rightarrow> string \<Rightarrow> files \<Rightarrow> exit_code \<times> files"
  shell :: "string \<Rightarrow> files \<Rightarrow> int \<times> files"
  mkstemp :: "files \<Rightarrow> string option"
  epoch_to_string :: "u64 \<Rightarrow> string"
  dl_statvfs :: "string \<Rightarrow> files \<Rightarrow> (int \<times> int) option"
  is_directory :: "string \<Rightarrow> bool"
  copy_room :: nat
  stdio_held :: "nat \<Rightarrow> nat"
  can_fopen :: "string \<Rightarrow> bool"
  can_unlink :: "string \<Rightarrow> bool"
  stale_size :: int

definition compression_table :: "int list" where "compression_table = [10, 20, 30, 50]"
definition VIDEO_DOWNLOAD_STAGE_LOCATION :: string where
  "VIDEO_DOWNLOAD_STAGE_LOCATION = ''/mnt/removableSSD/download/vdownload/''"
definition VIDEO_DOWNLOAD_BACKUP_STAGE_LOCATION :: string where
  "VIDEO_DOWNLOAD_BACKUP_STAGE_LOCATION = ''/ldars/vdownload/''"
definition META_FILE :: string where "META_FILE = ''metadata.xml''"
definition TEMP_HASH :: string where "TEMP_HASH = ''temp_hash''"

section \<open>Double precision numbers\<close>

text \<open>
  An integer rounded to the nearest \<open>double\<close>, ties to an even mantissa. The doubles of the code are such
  integers divided by a power of two: byte counts over \<open>1024 * 1024\<close>, and products with the constant
  \<open>0.6\<close>, which is \<open>C06 / 2 ^ 53\<close>.
\<close>

fun bitlen :: "nat \<Rightarrow> nat" where
  "bitlen n = (if n = 0 then 0 else Suc (bitlen (n div 2)))"

declare bitlen.simps [simp del]

definition round53 :: "nat \<Rightarrow> nat" where
  "round53 n =
     (let k = bitlen n - 53; q = n div 2 ^ k; r = n mod 2 ^ k
      in if k = 0 then n else if 2 * r < 2 ^ k \<or> (2 * r = 2 ^ k \<and> even q) then q * 2 ^ k else (q + 1) * 2 ^ k)"

definition dbl :: "int \<Rightarrow> int" where
  "dbl x = (if x < 0 then - int (round53 (nat (- x))) else int (round53 (nat x)))"

definition C06 :: int where "C06 = 5404319552844595"

text \<open>\<open>total / (1024 * 1024) >= available * 0.6\<close> for the two numbers of bytes.\<close>

definition too_large :: "int \<Rightarrow> int \<Rightarrow> bool" where
  "too_large available bytes_sum \<longleftrightarrow> bytes_sum * 2 ^ 53 \<ge> dbl (available * C06)"

definition free_bytes :: "int \<times> int \<Rightarrow> int" where
  "free_bytes v = (case v of (f_bfree, f_bsize) \<Rightarrow> dbl (s64 (f_bfree * f_bsize)))"

section \<open>Files and text\<close>

definition to_bytes :: "string \<Rightarrow> u8 list" where "to_bytes s = map of_char s"
definition from_bytes :: "u8 list \<Rightarrow> string" where "from_bytes bs = map (\<lambda>b. char_of (unat b)) bs"

text \<open>\<open>fprintf\<close> to an open stream; what is written to a file that has been removed is lost.\<close>

definition fput :: "string \<Rightarrow> string \<Rightarrow> dl_state \<Rightarrow> dl_state" where
  "fput path txt st =
     (case dl_files st path of
        None \<Rightarrow> st
      | Some bs \<Rightarrow> st\<lparr>dl_files := (dl_files st)(path \<mapsto> bs @ to_bytes txt)\<rparr>)"

definition unlink :: "dl_env \<Rightarrow> string \<Rightarrow> dl_state \<Rightarrow> dl_state" where
  "unlink E path st =
     (if can_unlink E path then st\<lparr>dl_files := (dl_files st)(path := None)\<rparr> else st)"

definition fopen_stream :: "string \<Rightarrow> dl_state \<Rightarrow> dl_state" where
  "fopen_stream path st = st\<lparr>open_streams := fopened path (open_streams st)\<rparr>"

definition fclose :: "string \<Rightarrow> dl_state \<Rightarrow> dl_state" where
  "fclose path st = st\<lparr>open_streams := fclosed path (open_streams st)\<rparr>"

text \<open>A file that is opened for writing is created empty.\<close>

definition fopen_new :: "string \<Rightarrow> dl_state \<Rightarrow> dl_state" where
  "fopen_new path st = fopen_stream path (st\<lparr>dl_files := (dl_files st)(path \<mapsto> [])\<rparr>)"

definition cleanup :: "dl_state \<Rightarrow> dl_state" where
  "cleanup st =
     (let st1 = (case meta_fp st of None \<Rightarrow> st | Some p \<Rightarrow> (fclose p st)\<lparr>meta_fp := None\<rparr>)
      in (case temp_hash_fp st1 of None \<Rightarrow> st1 | Some p \<Rightarrow> (fclose p st1)\<lparr>temp_hash_fp := None\<rparr>))"

definition indent :: "nat \<Rightarrow> string" where "indent n = replicate n CHR '' ''"

definition element :: "nat \<Rightarrow> string \<Rightarrow> string \<Rightarrow> string" where
  "element n tag txt = indent n @ ''<'' @ tag @ ''>'' @ txt @ ''</'' @ tag @ ''>'' @ nl"

definition metadata_start :: string where
  "metadata_start = ''<?xml version=\"1.0\" encoding=\"UTF-8\"?>'' @ nl @ '' <download>'' @ nl"
definition metadata_end :: string where "metadata_end = ''</download>'' @ nl"
definition metadata_segments_start :: string where "metadata_segments_start = indent 3 @ ''<segments>'' @ nl"
definition metadata_segments_end :: string where "metadata_segments_end = indent 3 @ ''</segments>'' @ nl"

definition metadata_video_segment_start :: string where
  "metadata_video_segment_start = indent 8 @ ''<segment>'' @ nl @ indent 13 @ ''<chunks>'' @ nl"

definition metadata_video_chunk :: "string \<Rightarrow> string \<Rightarrow> string" where
  "metadata_video_chunk nm sig =
     indent 17 @ ''<chunk>'' @ nl @ element 21 ''name'' nm @ element 21 ''signature'' sig @
     indent 18 @ ''</chunk>'' @ nl"

definition metadata_video_segment :: "string \<Rightarrow> string \<Rightarrow> string" where
  "metadata_video_segment st en =
     indent 13 @ ''</chunks>'' @ nl @ element 13 ''start_time'' st @ element 13 ''end_time'' en @
     indent 9 @ ''</segment>'' @ nl"

section \<open>The time offset of a chunk\<close>

text \<open>A \<open>double\<close> converted to \<open>uint64_t\<close>; for a negative one C leaves the result to the compiler.\<close>

definition d2u :: "dl_env \<Rightarrow> int \<Rightarrow> u64" where
  "d2u E x = (if 0 \<le> x then word_of_int x else neg_to_u64 E x)"

text \<open>
  \<open>get_timeoffset_from_chunk_header\<close>: the offset, which keeps its value when the chunk cannot be read, and
  the state. The header is read into a cleared buffer.
\<close>

definition get_timeoffset_from_chunk_header ::
    "dl_env \<Rightarrow> string \<Rightarrow> bool \<Rightarrow> u64 \<Rightarrow> bool \<Rightarrow> dl_state \<Rightarrow> u64 \<times> dl_state" where
  "get_timeoffset_from_chunk_header E cpath isfirstchunk offset isplayback st =
     (case dl_files st cpath of
        None \<Rightarrow> (offset, st)
      | Some bs \<Rightarrow>
          (let st1 = fclose cpath (fopen_stream cpath st);
               (time_src, off) = chunk_time_info E (take (PFX_SIZE E) bs @ replicate (PFX_SIZE E - length bs) 0)
           in if bs = [] then (offset, st1)
              else if time_src \<noteq> [] then
                if isfirstchunk \<and> \<not> isplayback then (d2u E (dbl off), st1\<lparr>starttimeoffset := dbl off\<rparr>)
                else (word_of_int off, st1)
              else (let cur = get_timeoffset (dl_TIME_INFO E)
                    in if isfirstchunk then (d2u E (dbl cur), st1\<lparr>starttimeoffset := dbl cur\<rparr>)
                       else (word_of_int cur, st1))))"

section \<open>The metadata file\<close>

text \<open>
  \<open>init_meta_file\<close>: the metadata file is the stream of a local variable until it is returned, so it is closed
  here when the hash file cannot be opened.
\<close>

definition init_meta_file :: "dl_env \<Rightarrow> string \<Rightarrow> dl_state \<Rightarrow> (string option \<times> dl_state) option" where
  "init_meta_file E destination st =
     (if destination = [] then Some (None, st)
      else if length destination + length META_FILE \<ge> DESTINATION_LENGTH (dl_ds E) then None
      else
        (let mf = destination @ META_FILE; hf = destination @ TEMP_HASH;
             s1 = st\<lparr>destination_dir := destination, metadata_file := mf, temphash_file := hf\<rparr>
         in if \<not> can_fopen E mf then Some (None, s1)
            else
              (let s2 = fopen_new mf s1
               in if \<not> can_fopen E hf then Some (None, fclose mf (cleanup (s2\<lparr>temp_hash_fp := None\<rparr>)))
                  else
                    (let s3 = (fopen_new hf s2)\<lparr>temp_hash_fp := Some hf\<rparr>
                     in Some (Some mf, fput mf metadata_segments_start (fput mf metadata_start s3))))))"

text \<open>\<open>add_cumulative_sig\<close>: the signature of a chunk, also written to the hash file.\<close>

definition add_cumulative_sig :: "dl_env \<Rightarrow> string \<Rightarrow> string \<Rightarrow> dl_state \<Rightarrow> string \<times> dl_state" where
  "add_cumulative_sig E p hash_path st =
     (let (hex_sig, f, h, v) = get_stored_sig E (dl_files st p);
          sig = concat (map (\<lambda>i. hex02 (if i < length hex_sig then unat (hex_sig ! i) else 0)) [0..<HMACKEY_LEN E div 2])
      in (sig, fput hash_path sig (st\<lparr>dl_fps := f, dl_hres := h, dl_vres := v\<rparr>)))"

section \<open>Copying the chunks\<close>

text \<open>
  The sizes of the chunks whose path is known; a chunk that cannot be examined counts with the size of the
  one before (\<open>sb\<close> is not cleared).
\<close>

fun size_pass :: "dl_env \<Rightarrow> int \<Rightarrow> dr_data \<Rightarrow> files \<Rightarrow> dr_chunk list \<Rightarrow> int \<Rightarrow> int \<Rightarrow> int" where
  "size_pass E drive data fs [] sb tot = tot"
| "size_pass E drive data fs (c # cs) sb tot =
     (case make_filepath E drive data c of
        (EXIT_FAILURE, _) \<Rightarrow> size_pass E drive data fs cs sb tot
      | (EXIT_SUCCESS, tp) \<Rightarrow>
          (let sb1 = (case fs tp of None \<Rightarrow> sb | Some bs \<Rightarrow> int (length bs))
           in size_pass E drive data fs cs sb1 (dbl (tot + dbl sb1))))"

text \<open>The variables of the loop: segment start, counter, first-chunk flag, the two offsets.\<close>

record seg_state =
  seg_s :: u64
  seg_cc :: nat
  first_chunk :: bool
  first_offset :: u64
  last_offset :: u64
  seg_start_time :: string

definition chunk_end :: "u64 \<Rightarrow> dr_chunk \<Rightarrow> u64" where
  "chunk_end off c = word_of_int (dr_epoch c) - off + of_nat (dr_duration c div 1000000)"

text \<open>The text and the state when the segment ends with this chunk; \<open>next\<close> is the chunk behind it.\<close>

definition close_segment ::
    "dl_env \<Rightarrow> string \<Rightarrow> string \<Rightarrow> dr_chunk \<Rightarrow> dr_chunk option \<Rightarrow> seg_state \<Rightarrow> dl_state \<Rightarrow> seg_state \<times> dl_state" where
  "close_segment E mf tp c next v st =
     (let (lo, st1) = get_timeoffset_from_chunk_header E tp False (last_offset v) False st;
          st2 = fput mf (metadata_video_segment (seg_start_time v) (epoch_to_string E (chunk_end lo c))) st1;
          v1 = v\<lparr>last_offset := lo, seg_s := chunk_end lo c\<rparr>
      in (case next of
            None \<Rightarrow> (v1, st2)
          | Some d \<Rightarrow>
              (let (fo, st3) = get_timeoffset_from_chunk_header E tp False (first_offset v1) False st2;
                   s = word_of_int (dr_epoch d) - fo
               in (v1\<lparr>first_offset := fo, seg_s := s, seg_start_time := epoch_to_string E s\<rparr>,
                   fput mf metadata_video_segment_start st3))))"

text \<open>Before the first chunk that is used: its offset, and the start of the first segment.\<close>

definition open_first :: "dl_env \<Rightarrow> string \<Rightarrow> string \<Rightarrow> seg_state \<Rightarrow> dl_state \<Rightarrow> seg_state \<times> dl_state" where
  "open_first E mf tp v st =
     (let (v1, st1) = (if first_chunk v then (v, st)
                       else (case get_timeoffset_from_chunk_header E tp True (first_offset v) False st of
                               (fo, s) \<Rightarrow> (v\<lparr>first_offset := fo, first_chunk := True\<rparr>, s)))
      in if seg_cc v1 = 0
         then (v1\<lparr>seg_cc := 1, seg_s := seg_s v1 - first_offset v1,
                  seg_start_time := epoch_to_string E (seg_s v1 - first_offset v1)\<rparr>,
               fput mf metadata_video_segment_start st1)
         else (v1\<lparr>seg_cc := seg_cc v1 + 1\<rparr>, st1))"

text \<open>The entry of a chunk and, behind a gap and behind the last chunk, the end of the segment.\<close>

definition chunk_entry ::
    "dl_env \<Rightarrow> string \<Rightarrow> string \<Rightarrow> string \<Rightarrow> string \<Rightarrow> dr_chunk \<Rightarrow> dr_chunk option \<Rightarrow> seg_state \<Rightarrow> dl_state \<Rightarrow>
     seg_state \<times> dl_state" where
  "chunk_entry E mf hf tp p c next v st =
     (let (sig, st1) = add_cumulative_sig E tp hf st;
          st2 = fput mf (metadata_video_chunk p (take (HMACKEY_LEN E) sig)) st1
      in if dr_gap c \<or> next = None then close_segment E mf tp c next v st2 else (v, st2))"

text \<open>
  One chunk with a known path, ending with its copy. The result is a failure of the copy (\<open>Inl\<close>) or the
  next state.
\<close>

definition chunk_step ::
    "dl_env \<Rightarrow> string \<Rightarrow> string \<Rightarrow> string \<Rightarrow> string \<Rightarrow> dr_chunk \<Rightarrow> dr_chunk option \<Rightarrow> seg_state \<Rightarrow> dl_state \<Rightarrow>
     (dl_state + seg_state \<times> dl_state) option" where
  "chunk_step E mf hf destination tp c next v st =
     (case strrchr tp CHR ''/'' of
        None \<Rightarrow> None
      | Some slash \<Rightarrow>
          (let p = tl slash;
               (v1, st1) = open_first E mf tp v st;
               (v2, st2) = chunk_entry E mf hf tp p c next v1 st1;
               tq = snprintf (DS_PATH_MAX (dl_ds E) - 1) (destination @ ''/'' @ p)
           in if length p \<ge> 256 then None
              else (case copy_file (can_fopen E) (stdio_held E) (copy_room E) tp tq (dl_files st2) (open_streams st2) of
                      (EXIT_FAILURE, fs, os) \<Rightarrow> Some (Inl (st2\<lparr>dl_files := fs, open_streams := os\<rparr>))
                    | (EXIT_SUCCESS, fs, os) \<Rightarrow> Some (Inr (v2, st2\<lparr>dl_files := fs, open_streams := os\<rparr>)))))"

definition head_option :: "'a list \<Rightarrow> 'a option" where
  "head_option xs = (case xs of [] \<Rightarrow> None | x # _ \<Rightarrow> Some x)"

fun chunk_loop ::
    "dl_env \<Rightarrow> string \<Rightarrow> string \<Rightarrow> int \<Rightarrow> dr_data \<Rightarrow> string \<Rightarrow> dr_chunk list \<Rightarrow> seg_state \<Rightarrow> dl_state \<Rightarrow>
     (download_status \<times> dl_state) option" where
  "chunk_loop E mf hf drive data destination [] v st =
     Some (if seg_cc v = 0 then DOWNLOAD_FAILURE else DOWNLOAD_OK_FULL, st)"
| "chunk_loop E mf hf drive data destination (c # cs) v st =
     (case make_filepath E drive data c of
        (EXIT_FAILURE, _) \<Rightarrow> chunk_loop E mf hf drive data destination cs v st
      | (EXIT_SUCCESS, tp) \<Rightarrow>
          (case chunk_step E mf hf destination tp c (head_option cs) v st of
             None \<Rightarrow> None
           | Some (Inl st1) \<Rightarrow> Some (DOWNLOAD_INTERNAL_ERR, st1)
           | Some (Inr (v1, st1)) \<Rightarrow> chunk_loop E mf hf drive data destination cs v1 st1))"

definition insert_chunk_metadata ::
    "dl_env \<Rightarrow> string \<Rightarrow> dr_data \<Rightarrow> int \<Rightarrow> string \<Rightarrow> dl_state \<Rightarrow> (download_status \<times> dl_state) option" where
  "insert_chunk_metadata E mf data drive destination st =
     (if found_chunks data \<le> 0 then Some (DOWNLOAD_INTERNAL_ERR, st)
      else if nat (found_chunks data) > length (dr_chunks data) then None
      else
        (let cs = take (nat (found_chunks data)) (dr_chunks data);
             available = (case dl_statvfs E destination (dl_files st) of None \<Rightarrow> 0 | Some v \<Rightarrow> free_bytes v)
         in if too_large available (size_pass E (drive - 1) data (dl_files st) cs (stale_size E) 0)
            then Some (DOWNLOAD_SIZE_ERR, st)
            else (case temp_hash_fp st of
                    None \<Rightarrow> None
                  | Some hf \<Rightarrow>
                      chunk_loop E mf hf (drive - 1) data destination cs
                        \<lparr>seg_s = word_of_int (dr_epoch (hd cs)), seg_cc = 0, first_chunk = False, first_offset = 0,
                         last_offset = 0, seg_start_time = []\<rparr> st)))"

section \<open>The metadata of the drive\<close>

definition xml_declaration :: string where
  "xml_declaration = ''<?xml version=\"1.0\" encoding=\"UTF-8\"?>''"

text \<open>
  The loop that copies the collector's output in blocks of 511 bytes, up to the first zero byte of each, and
  removes the document's declaration from the first block that has it.
\<close>

function copy_blocks :: "u8 list \<Rightarrow> bool \<Rightarrow> string option" where
  "copy_blocks bs match_flag =
     (let buf = c_str (from_bytes (take 511 bs))
      in (case (if buf = [] \<or> match_flag then Some (buf, match_flag) else remove_substr buf xml_declaration) of
            None \<Rightarrow> None
          | Some (txt, m) \<Rightarrow>
              if length bs < 511 then Some txt
              else map_option ((@) txt) (copy_blocks (drop 511 bs) m)))"
  by pat_completeness auto
termination by (relation "measure (\<lambda>(bs, _). length bs)") auto

declare copy_blocks.simps [simp del]

definition collector_command :: "dl_env \<Rightarrow> media_info \<Rightarrow> download_payload \<Rightarrow> int \<Rightarrow> string \<Rightarrow> string" where
  "collector_command E m msg drive fname =
     snprintf 1024 (''/opt/reagent/bin/metacollector -l '' @ rt_loco_id m @ '' -d '' @
       (if drive = 1 then ''CHM'' else ''SSD'') @ '' -k METADATA -s '' @
       epoch_to_icd_format (dl_ds E) (pl_start msg) 23 @ '' -e '' @ epoch_to_icd_format (dl_ds E) (pl_end msg) 23 @
       '' -g true -v true -t true -i true '' @ fname @ '' -p -h'')"

text \<open>The exit code is only logged; what is returned is the state.\<close>

definition get_metadata_from_drive ::
    "dl_env \<Rightarrow> string \<Rightarrow> media_info \<Rightarrow> download_payload \<Rightarrow> int \<Rightarrow> dl_state \<Rightarrow> dl_state option" where
  "get_metadata_from_drive E mf m msg drive st =
     (case mkstemp E (dl_files st) of
        None \<Rightarrow> Some st
      | Some fname \<Rightarrow>
          (let (rc, fs) = shell E (collector_command E m msg drive fname) ((dl_files st)(fname \<mapsto> []));
               st1 = st\<lparr>dl_files := fs\<rparr>
           in if rc \<noteq> 0 then Some st1
              else (case fs fname of
                      None \<Rightarrow> Some st1
                    | Some bs \<Rightarrow>
                        if \<not> can_fopen E fname then Some st1
                        else map_option (\<lambda>txt. unlink E fname (fclose fname (fput mf txt (fopen_stream fname st1))))
                               (copy_blocks bs False))))"

section \<open>The main data\<close>

definition maindata_name :: "dl_env \<Rightarrow> dr_data \<Rightarrow> string option" where
  "maindata_name E data =
     map_option c_str (trim_trailing_undersore
       (take (CAM_NAME_LEN E + 1) (dr_name data @ replicate (CAM_NAME_LEN E + 1) (CHR 0x00)) @ replicate 5 (CHR 0x00))
       (CAM_NAME_LEN E + 1))"

definition mount_type_of :: "media_info \<Rightarrow> string \<Rightarrow> int" where
  "mount_type_of m nm =
     (case raconf_find_camera (Some m) (Some nm) of
        None \<Rightarrow> 0 | Some i \<Rightarrow> atoi (mount_type (cameras m ! i)) mod 256)"

definition maindata_text ::
    "dl_env \<Rightarrow> media_info \<Rightarrow> dr_data \<Rightarrow> download_payload \<Rightarrow> int \<Rightarrow> string \<Rightarrow> string \<Rightarrow> dl_state \<Rightarrow> string" where
  "maindata_text E m data msg clips nm sig st =
     indent 3 @ ''<maindata>'' @ nl @
     element 9 ''serial'' (take 12 (rec_ser_num m)) @
     element 9 ''locoid'' (take (LOCO_STORAGE E - 1) (rt_loco_id m)) @
     element 9 ''name'' nm @
     element 9 ''model'' (dr_model data) @
     element 9 ''segment_count'' (int_str (clips mod 256)) @
     element 9 ''starttime'' (take 23 (epoch_to_string E (word_of_int (pl_start msg)))) @
     element 9 ''endtime'' (take 23 (epoch_to_string E (word_of_int (pl_end msg)))) @
     element 9 ''starttimeoffset'' (int_str (starttimeoffset st) @ ''.000000'') @
     element 9 ''gpsformat'' ''DMS'' @
     element 9 ''mount_type'' (int_str (mount_type_of m nm)) @
     element 9 ''resolution'' (snprintf 16 (int_str (dl_hres st) @ ''x'' @ int_str (dl_vres st))) @
     element 9 ''compression'' (snprintf 16 (int_str (compression_table ! (dr_compression data mod 4)))) @
     element 9 ''frame_rate'' (snprintf 16 (int_str (dl_fps st))) @
     element 9 ''signature'' sig @
     indent 5 @ ''</maindata>'' @ nl @ '' ''"

text \<open>The end of \<open>insert_maindata\<close>: the metadata file is closed, encrypted and removed.\<close>

definition close_metadata ::
    "dl_env \<Rightarrow> download_payload \<Rightarrow> dl_state \<Rightarrow> (download_status \<times> download_payload \<times> dl_state) option" where
  "close_metadata E msg st =
     (case meta_fp st of
        None \<Rightarrow> None
      | Some p \<Rightarrow>
          (let st1 = (fclose p st)\<lparr>meta_fp := None\<rparr>;
               dest_file = take (DS_PATH_MAX (dl_ds E)) (destination_dir st1) @ ''metadata.dat'';
               (rc, fs) = encrypt_file E (metadata_file st1) dest_file (dl_files st1);
               st2 = unlink E (metadata_file st1) (st1\<lparr>dl_files := fs\<rparr>)
           in Some (case rc of EXIT_FAILURE \<Rightarrow> DOWNLOAD_INTERNAL_ERR | EXIT_SUCCESS \<Rightarrow> DOWNLOAD_OK_FULL, msg, st2)))"

text \<open>The period of the chunks that were found, in the fields of the message.\<close>

definition found_period :: "dr_data \<Rightarrow> int \<Rightarrow> download_payload \<Rightarrow> download_payload" where
  "found_period data clips msg =
     (let c0 = dr_chunks data ! 0; cl = dr_chunks data ! nat (clips - 1)
      in msg\<lparr>pl_start := payload_time (dr_epoch c0),
             pl_end := payload_time (payload_time (dr_epoch cl) + int (dr_duration cl div 1000000))\<rparr>)"

text \<open>The hash file is closed, hashed and removed, and the main data is written; \<open>hf\<close> is the hash file's stream.\<close>

definition write_maindata ::
    "dl_env \<Rightarrow> string \<Rightarrow> media_info \<Rightarrow> dr_data \<Rightarrow> download_payload \<Rightarrow> int \<Rightarrow> string \<Rightarrow> string \<Rightarrow> dl_state \<Rightarrow> dl_state" where
  "write_maindata E mf m data msg clips nm hf st =
     (let hash = calc_HMAC E (dl_files st (temphash_file st));
          sig = take (HMACKEY_LEN E) (concat (map (\<lambda>b. hex02 (unat b)) hash));
          st1 = unlink E (temphash_file st) ((fclose hf st)\<lparr>temp_hash_fp := None\<rparr>)
      in fput mf (maindata_text E m data msg clips nm sig st1) (st1\<lparr>starttimeoffset := 0\<rparr>))"

text \<open>
  \<open>insert_maindata\<close>, called with the open metadata file; the message comes back with the period that was
  found.
\<close>

definition insert_maindata ::
    "dl_env \<Rightarrow> string \<Rightarrow> dr_data \<Rightarrow> download_payload \<Rightarrow> int \<Rightarrow> int \<Rightarrow> dl_state \<Rightarrow>
     (download_status \<times> download_payload \<times> dl_state) option" where
  "insert_maindata E mf data msg drive clips st =
     (let st1 = fput mf metadata_segments_end st
      in case (dl_minfo E, maindata_name E data) of
           (_, None) \<Rightarrow> None
         | (None, Some nm) \<Rightarrow> Some (DOWNLOAD_INTERNAL_ERR, msg, st1\<lparr>starttimeoffset := 0\<rparr>)
         | (Some m, Some nm) \<Rightarrow>
             (case temp_hash_fp st of
                None \<Rightarrow> None
              | Some hf \<Rightarrow>
                  if HMACKEY_LEN E \<ge> 64 \<or> clips < 1 \<or> nat clips > length (dr_chunks data) then None
                  else (case get_metadata_from_drive E mf m (found_period data clips msg) drive
                               (write_maindata E mf m data msg clips nm hf st1) of
                          None \<Rightarrow> None
                        | Some st2 \<Rightarrow> close_metadata E (found_period data clips msg) (fput mf metadata_end st2))))"

section \<open>The destination\<close>

definition run :: "dl_env \<Rightarrow> string \<Rightarrow> dl_state \<Rightarrow> int \<times> dl_state" where
  "run E cmd st = (let (rc, fs) = shell E cmd (dl_files st) in (rc, st\<lparr>dl_files := fs\<rparr>))"

definition clean_download_dir :: "dl_env \<Rightarrow> string \<Rightarrow> dl_state \<Rightarrow> exit_code \<times> dl_state" where
  "clean_download_dir E path st =
     (let ext = (if path = VIDEO_DOWNLOAD_STAGE_LOCATION \<or> path = VIDEO_DOWNLOAD_BACKUP_STAGE_LOCATION
                 then ''/*'' else ''/*.lvdat'')
      in if length path + length ext > DS_PATH_MAX (dl_ds E) - 1 - length ''rm -f '' then (EXIT_FAILURE, st)
         else (case run E (''rm -f '' @ path @ ext) st of
                 (rc, st1) \<Rightarrow> (if rc = 0 then EXIT_SUCCESS else EXIT_FAILURE, st1)))"

text \<open>The limits in bytes: 3200 and 50 times \<open>1024 * 1024\<close>.\<close>

definition storage_limit :: "int \<Rightarrow> int" where
  "storage_limit ty = (if ty = 2 then 50 else 3200) * 1048576"

definition validate_destination :: "dl_env \<Rightarrow> string \<Rightarrow> int \<Rightarrow> dl_state \<Rightarrow> exit_code \<times> dl_state" where
  "validate_destination E destination ty st =
     (if \<not> is_directory E destination then (EXIT_FAILURE, st)
      else (case clean_download_dir E destination st of
              (EXIT_FAILURE, st1) \<Rightarrow> (EXIT_FAILURE, st1)
            | (EXIT_SUCCESS, st1) \<Rightarrow>
                (case dl_statvfs E destination (dl_files st1) of
                   None \<Rightarrow> (EXIT_FAILURE, st1)
                 | Some v \<Rightarrow> (if free_bytes v < storage_limit ty then EXIT_FAILURE else EXIT_SUCCESS, st1))))"

definition zip_command :: "string \<Rightarrow> string \<Rightarrow> string" where
  "zip_command zip_file dest = ''/opt/reagent/bin/zip -0 -m -j -q '' @ zip_file @ '' '' @ dest @ ''* > /dev/null 2>&1''"

text \<open>\<open>zip_files\<close>: the status and the file size, when it is known.\<close>

definition zip_files ::
    "dl_env \<Rightarrow> string \<Rightarrow> bool \<Rightarrow> dl_state \<Rightarrow> (download_status \<times> nat option \<times> dl_state) option" where
  "zip_files E file_name encrypt st =
     (let zip_file = file_name @ ''.zip''; cmd = zip_command zip_file (destination_dir st)
      in if length file_name > DS_PATH_MAX (dl_ds E) - 4 - 1 then Some (DOWNLOAD_INTERNAL_ERR, None, st)
         else if length cmd \<ge> BUFF_SIZE_BIG then None
         else (case run E cmd st of
                 (rc, st1) \<Rightarrow>
                   if rc \<noteq> 0 then Some (DOWNLOAD_INTERNAL_ERR, None, snd (clean_download_dir E (destination_dir st1) st1))
                   else (let size_of = (\<lambda>s. map_option (\<lambda>bs. length bs div K_BYTES) (dl_files s file_name))
                         in if \<not> encrypt then Some (DOWNLOAD_OK_FULL, size_of st1, st1)
                            else (case encrypt_file E zip_file file_name (dl_files st1) of
                                    (EXIT_FAILURE, fs) \<Rightarrow>
                                      Some (DOWNLOAD_INTERNAL_ERR, None,
                                        snd (clean_download_dir E (destination_dir st1) (st1\<lparr>dl_files := fs\<rparr>)))
                                  | (EXIT_SUCCESS, fs) \<Rightarrow>
                                      (let st2 = unlink E zip_file (st1\<lparr>dl_files := fs\<rparr>)
                                       in Some (DOWNLOAD_OK_FULL, size_of st2, st2))))))"

section \<open>Playback\<close>

text \<open>
  \<open>prepare_playback\<close>: the range of the linked chunks, corrected by the offsets of the first and the last one,
  and the paths that are linked. The offsets are 0 until they have been read.
\<close>

fun playback_loop ::
    "dl_env \<Rightarrow> int \<Rightarrow> dr_data \<Rightarrow> int \<Rightarrow> (nat \<times> dr_chunk) list \<Rightarrow> bool \<Rightarrow> u64 \<Rightarrow> u64 \<Rightarrow> data_range \<Rightarrow> string list \<Rightarrow> dl_state \<Rightarrow>
     (data_range \<times> string list \<times> dl_state) option" where
  "playback_loop E drive data n [] seen fo lo rg ls st = Some (rg, ls, st)"
| "playback_loop E drive data n ((i, c) # cs) seen fo lo rg ls st =
     (case make_filepath E drive data c of
        (_, tp) \<Rightarrow>
          if tp = [] then playback_loop E drive data n cs seen fo lo rg ls st
          else if n < 1 \<or> nat n > length (dr_chunks data) then None
          else
            (let (fo1, st1) = (if seen then (fo, st) else get_timeoffset_from_chunk_header E tp True fo True st);
                 (lo1, st2) = (if int i = found_chunks data - 1
                               then get_timeoffset_from_chunk_header E tp False lo True st1 else (lo, st1));
                 c0 = dr_chunks data ! 0; cl = dr_chunks data ! nat (n - 1);
                 rg1 = \<lparr>range_start = ucast (word_of_int (dr_epoch c0) - fo1),
                        range_end = ucast (word_of_int (dr_epoch cl) +
                          of_nat (dr_duration cl div usecs_per_second E + 1) - lo1)\<rparr>
             in playback_loop E drive data n cs True fo1 lo1 rg1 (ls @ [tp]) st2))"

definition prepare_playback ::
    "dl_env \<Rightarrow> dr_data \<Rightarrow> int \<Rightarrow> string \<Rightarrow> data_range \<Rightarrow> int \<Rightarrow> dl_state \<Rightarrow>
     (exit_code \<times> data_range \<times> string list \<times> dl_state) option" where
  "prepare_playback E data drive destination rg n st =
     (if found_chunks data \<le> 0 then Some (EXIT_FAILURE, rg, [], st)
      else if nat (found_chunks data) > length (dr_chunks data) then None
      else map_option (\<lambda>(r, ls, s). (EXIT_SUCCESS, r, ls, s))
             (playback_loop E (drive - 1) data n (enumerate 0 (take (nat (found_chunks data)) (dr_chunks data)))
                False 0 0 rg [] st))"

section \<open>The request\<close>

text \<open>What a call leaves: exit code, status, size, range, the message, the linked paths, and the state.\<close>

record dl_result =
  dl_rc :: exit_code
  dl_status :: download_status
  dl_size :: nat
  dl_range :: data_range
  dl_msg :: download_payload
  dl_links :: "string list"

definition failed :: "download_status \<Rightarrow> data_range \<Rightarrow> download_payload \<Rightarrow> dl_result" where
  "failed status rg msg = \<lparr>dl_rc = EXIT_FAILURE, dl_status = status, dl_size = 0, dl_range = rg, dl_msg = msg, dl_links = []\<rparr>"

text \<open>The directory of a destination: everything up to its last slash.\<close>

definition dest_directory :: "string \<Rightarrow> string" where
  "dest_directory d =
     (case strrchr d CHR ''/'' of None \<Rightarrow> d | Some p \<Rightarrow> take (length d - length p + 1) d)"

text \<open>The status a failing step leaves.\<close>

definition step_status :: "download_status \<Rightarrow> download_status" where
  "step_status rc = (if rc = DOWNLOAD_SIZE_ERR \<or> rc = DOWNLOAD_INTERNAL_ERR then rc else DOWNLOAD_FAILURE)"

definition later_status :: "download_status \<Rightarrow> download_status" where
  "later_status rc = (if rc = DOWNLOAD_INTERNAL_ERR then rc else DOWNLOAD_FAILURE)"

text \<open>From the found chunks to the zipped file, with the metadata file open.\<close>

definition build_download ::
    "dl_env \<Rightarrow> string \<Rightarrow> string \<Rightarrow> dr_data \<Rightarrow> download_payload \<Rightarrow> int \<Rightarrow> data_range \<Rightarrow> dl_state \<Rightarrow> (dl_result \<times> dl_state) option" where
  "build_download E mf destination data msg drive rg st =
     (case insert_chunk_metadata E mf data drive destination st of
        None \<Rightarrow> None
      | Some (rc1, st1) \<Rightarrow>
          if rc1 \<noteq> DOWNLOAD_OK_FULL then Some (failed (step_status rc1) rg msg, cleanup st1)
          else (case insert_maindata E mf data msg drive (found_chunks data) st1 of
                  None \<Rightarrow> None
                | Some (rc2, msg2, st2) \<Rightarrow>
                    if rc2 \<noteq> DOWNLOAD_OK_FULL then Some (failed (later_status rc2) rg msg2, cleanup st2)
                    else (case zip_files E (pl_destination msg2) True st2 of
                            None \<Rightarrow> None
                          | Some (rc3, sz, st3) \<Rightarrow>
                              if rc3 \<noteq> DOWNLOAD_OK_FULL then Some (failed (later_status rc3) rg msg2, cleanup st3)
                              else Some (\<lparr>dl_rc = EXIT_SUCCESS, dl_status = DOWNLOAD_OK_FULL,
                                           dl_size = (case sz of None \<Rightarrow> 0 | Some n \<Rightarrow> n), dl_range = rg,
                                           dl_msg = msg2, dl_links = []\<rparr>, cleanup st3))))"

definition start_download ::
    "dl_env \<Rightarrow> download_payload \<Rightarrow> int \<Rightarrow> string \<Rightarrow> dr_data \<Rightarrow> data_range \<Rightarrow> dl_state \<Rightarrow> (dl_result \<times> dl_state) option" where
  "start_download E msg drive destination data rg st =
     (case dl_minfo E of
        None \<Rightarrow> Some (failed DOWNLOAD_INTERNAL_ERR rg msg, st)
      | Some _ \<Rightarrow>
          (case init_meta_file E destination st of
             None \<Rightarrow> None
           | Some (None, st1) \<Rightarrow> Some (failed DOWNLOAD_INTERNAL_ERR rg msg, cleanup st1)
           | Some (Some mf, st1) \<Rightarrow> build_download E mf destination data msg drive rg (st1\<lparr>meta_fp := Some mf\<rparr>)))"

definition find_and_serve ::
    "dl_env \<Rightarrow> download_payload \<Rightarrow> int \<Rightarrow> int \<Rightarrow> string \<Rightarrow> data_range \<Rightarrow> dl_state \<Rightarrow> (dl_result \<times> dl_state) option" where
  "find_and_serve E msg ty drive destination rg st =
     (case retrive_data E (drive - 1) (pl_camera msg) (pl_start msg) (pl_end msg) of
        (n, data) \<Rightarrow>
          if n < 1 then
            Some (failed (if n = - 1 then DOWNLOAD_RANGE_ERR else DOWNLOAD_FAILURE) rg msg, st)
          else if ty = 2 then
            (case prepare_playback E data drive destination rg n st of
               None \<Rightarrow> None
             | Some (EXIT_FAILURE, r, ls, st1) \<Rightarrow> Some (failed DOWNLOAD_FAILURE r msg, st1)
             | Some (EXIT_SUCCESS, r, ls, st1) \<Rightarrow>
                 Some (\<lparr>dl_rc = EXIT_SUCCESS, dl_status = DOWNLOAD_FAILURE, dl_size = 0, dl_range = r,
                         dl_msg = msg, dl_links = ls\<rparr>, st1))
          else start_download E msg drive destination data rg st)"

definition perform_download ::
    "dl_env \<Rightarrow> download_payload \<Rightarrow> int \<Rightarrow> int \<Rightarrow> data_range \<Rightarrow> dl_state \<Rightarrow> (dl_result \<times> dl_state) option" where
  "perform_download E msg ty drive rg st =
     (let destination = take (DESTINATION_LENGTH (dl_ds E)) (pl_destination msg)
      in if ty = 2 then
           (let cmd = ''rm -rf '' @ destination @ ''/*''
            in if length cmd \<ge> 256 then None
               else (case run E cmd st of
                       (rc, st1) \<Rightarrow>
                         if rc = 1 then Some (failed DOWNLOAD_FAILURE rg msg, st1)
                         else find_and_serve E msg ty drive (destination @ ''/'') rg st1))
         else (case validate_destination E (dest_directory destination) ty st of
                 (EXIT_FAILURE, st1) \<Rightarrow> Some (failed DOWNLOAD_INTERNAL_ERR rg msg, st1)
               | (EXIT_SUCCESS, st1) \<Rightarrow> find_and_serve E msg ty drive (dest_directory destination) rg st1))"

text \<open>\<open>do_download\<close>: the removable drive first, the other one when that fails.\<close>

definition padded_camera :: "dl_env \<Rightarrow> string \<Rightarrow> string option" where
  "padded_camera E nm =
     map_option c_str (add_trailing_underscore (take (CAM_ARRAY E) (nm @ replicate (CAM_ARRAY E) (CHR 0x00))) (CAM_NAME_LEN E))"

definition no_range :: data_range where "no_range = \<lparr>range_start = 0, range_end = 0\<rparr>"

definition do_download :: "dl_env \<Rightarrow> download_payload \<Rightarrow> dl_state \<Rightarrow> (dl_result \<times> dl_state) option" where
  "do_download E msg st =
     (case padded_camera E (pl_camera msg) of
        None \<Rightarrow> None
      | Some cam \<Rightarrow>
          (case perform_download E (msg\<lparr>pl_camera := cam\<rparr>) 1 2 no_range st of
             None \<Rightarrow> None
           | Some (r, st1) \<Rightarrow>
               if dl_rc r = EXIT_SUCCESS then Some (r, st1)
               else perform_download E (dl_msg r) 1 1 no_range st1))"

section \<open>Snapshots\<close>

definition snapshot_command :: "string \<Rightarrow> string \<Rightarrow> string" where
  "snapshot_command snap url =
     ''wget --user=reagent --password=WabtecRE2020 -nd -r -O '' @ snap @ '' -A jpeg,jpg,bmp,gif,png '' @ url"

definition get_snapshot ::
    "dl_env \<Rightarrow> string \<Rightarrow> string \<Rightarrow> dl_state \<Rightarrow> ((exit_code \<times> nat \<times> download_status) \<times> dl_state) option" where
  "get_snapshot E camera snap st =
     (let fail = (EXIT_FAILURE, 0, DOWNLOAD_FAILURE)
      in case dl_minfo E of
           None \<Rightarrow> Some (fail, st)
         | Some m \<Rightarrow>
             (case raconf_find_camera (Some m) (Some camera) of
                None \<Rightarrow> Some (fail, st)
              | Some i \<Rightarrow>
                  (let url = snapshot_url (cameras m ! i)
                   in if snap = [] \<or> url = [] then Some (fail, st)
                      else (case clean_download_dir E snap st of
                              (EXIT_FAILURE, st1) \<Rightarrow> Some (fail, st1)
                            | (EXIT_SUCCESS, st1) \<Rightarrow>
                                (let cmd = snapshot_command snap url
                                 in if length cmd \<ge> BUFF_SIZE_BIG then None
                                    else (case run E cmd st1 of
                                            (rc, st2) \<Rightarrow>
                                              if rc \<noteq> 0 then Some (fail, st2)
                                              else (case dl_files st2 snap of
                                                      None \<Rightarrow> Some (fail, st2)
                                                    | Some bs \<Rightarrow>
                                                        Some ((EXIT_SUCCESS, length bs div K_BYTES, DOWNLOAD_OK_FULL), st2))))))))"

end
