(* ===== verification/Download_Claims.thy ===== *)
theory Download_Claims
  imports Video_Download Data_Claims Launch_Claims
begin

text \<open>
  The properties of the video download: the check of the room at the destination in double precision, the
  segments of the metadata document, and the streams a request leaves open.
\<close>

section \<open>Rounding to a double\<close>

lemma bitlen_bounds: "n < 2 ^ bitlen n \<and> (0 < n \<longrightarrow> 2 ^ (bitlen n - 1) \<le> n)"
proof (induction n rule: bitlen.induct)
  case (1 n)
  show ?case
  proof (cases "n = 0")
    case False
    let ?b = "bitlen (n div 2)"
    have b: "bitlen n = Suc ?b" using False by (simp add: bitlen.simps [of n])
    have ih: "n div 2 < 2 ^ ?b" "0 < n div 2 \<longrightarrow> 2 ^ (?b - 1) \<le> n div 2" using 1 [OF False] by auto
    from ih(1) have "n < 2 ^ Suc ?b" by simp
    moreover have "2 ^ ?b \<le> n"
    proof (cases "n div 2 = 0")
      case True
      then show ?thesis using False by (simp add: bitlen.simps)
    next
      case pos: False
      then have "?b = Suc (?b - 1)" by (simp add: bitlen.simps [of "n div 2"])
      then have "(2::nat) ^ ?b = 2 * 2 ^ (?b - 1)" by (metis power_Suc)
      also have "\<dots> \<le> n" using ih(2) pos by simp
      finally show ?thesis .
    qed
    ultimately show ?thesis using b by simp
  qed (simp add: bitlen.simps)
qed

lemma bitlen_less: "n < 2 ^ b \<Longrightarrow> bitlen n \<le> b"
proof (rule ccontr)
  assume n: "n < 2 ^ b" "\<not> bitlen n \<le> b"
  then have "0 < n" by (cases "n = 0") (simp_all add: bitlen.simps)
  then have "2 ^ (bitlen n - 1) \<le> n" using bitlen_bounds [of n] by simp
  moreover have "(2::nat) ^ b \<le> 2 ^ (bitlen n - 1)" using n(2) by (intro power_increasing) auto
  ultimately show False using n(1) by linarith
qed

text \<open>Rounding does not pass a number that is a double.\<close>

lemma round53_le:
  assumes "n \<le> m * 2 ^ 53" "n < 2 ^ 106"
  shows "round53 n \<le> m * 2 ^ 53"
proof -
  define k where "k = bitlen n - 53"
  have k: "k \<le> 53" using bitlen_less [OF assms(2)] by (simp add: k_def)
  define j :: nat where "j = 2 ^ (53 - k)"
  have e: "m * 2 ^ 53 = (m * j) * 2 ^ k" using k by (simp add: j_def flip: power_add)
  have split: "n = n div 2 ^ k * 2 ^ k + n mod 2 ^ k" by (rule div_mult_mod_eq [symmetric])
  show ?thesis
  proof (cases "n mod 2 ^ k = 0")
    case True
    then have "round53 n = n" using split by (simp add: round53_def k_def [symmetric] Let_def)
    then show ?thesis using assms(1) by simp
  next
    case False
    then have "n div 2 ^ k * 2 ^ k < (m * j) * 2 ^ k" using assms(1) e split by linarith
    then have "n div 2 ^ k + 1 \<le> m * j" by simp
    then have "(n div 2 ^ k + 1) * 2 ^ k \<le> m * 2 ^ 53" unfolding e by (rule mult_le_mono1)
    moreover have "round53 n \<le> (n div 2 ^ k + 1) * 2 ^ k"
      using False by (auto simp: round53_def k_def [symmetric] Let_def)
    ultimately show ?thesis by (rule order_trans [rotated])
  qed
qed

text \<open>Rounding goes down by at most half a unit of the last place.\<close>

lemma round53_ge: "2 * n \<le> 2 * round53 n + 2 ^ (bitlen n - 53)"
proof -
  define k where "k = bitlen n - 53"
  define q where "q = n div 2 ^ k"
  define r where "r = n mod 2 ^ k"
  define u where "u = (2::nat) ^ k"
  have split: "n = q * u + r" unfolding q_def r_def u_def by (rule div_mult_mod_eq [symmetric])
  have r: "r < u" by (simp add: r_def u_def)
  have "round53 n = (if k = 0 then n else if 2 * r < u \<or> (2 * r = u \<and> even q) then q * u else (q + 1) * u)"
    by (simp add: round53_def Let_def k_def q_def r_def u_def)
  with split r have "2 * n \<le> 2 * round53 n + u" by (auto simp: algebra_simps)
  then show ?thesis by (simp add: u_def k_def)
qed

lemma C06_five: "5 * C06 = 3 * 2 ^ 53 - 1" by (simp add: C06_def)

lemma round53_small: "n < 2 ^ 53 \<Longrightarrow> round53 n = n"
  using bitlen_less [of n 53] by (simp add: round53_def)

text \<open>
  C35: the room of the destination. As long as less than a petabyte is free, the comparison of doubles
  refuses a download exactly when its size is at least three fifths of the free space, to the byte.
\<close>

theorem size_check_exact:
  assumes "0 \<le> available" "available < 2 ^ 50" "0 \<le> bytes_sum"
  shows "too_large available bytes_sum \<longleftrightarrow> 3 * available \<le> 5 * bytes_sum"
proof -
  define n where "n = nat (available * C06)"
  have p: "0 \<le> available * C06" using assms(1) by (simp add: C06_def)
  have n: "int n = available * C06" using p by (simp add: n_def)
  have d: "dbl (available * C06) = int (round53 n)" using p by (simp add: dbl_def n_def)
  have five: "5 * int n = 3 * 2 ^ 53 * available - available"
    using C06_five by (simp add: n algebra_simps)
  have "int n < 2 ^ 103" using five assms(2) by simp
  then have "int n < int (2 ^ 103)" by simp
  then have small: "n < 2 ^ 103" by (simp only: of_nat_less_iff)
  have unit: "2 ^ (bitlen n - 53) \<le> (2::nat) ^ 50"
    using bitlen_less [OF small] by (intro power_increasing) auto
  show ?thesis
  proof
    assume "3 * available \<le> 5 * bytes_sum"
    then have "5 * int n \<le> 5 * (bytes_sum * 2 ^ 53)" using five assms(1) by simp
    then have "int n \<le> int (nat bytes_sum * 2 ^ 53)" using assms(3) by simp
    then have "n \<le> nat bytes_sum * 2 ^ 53" by (simp only: of_nat_le_iff)
    then have "round53 n \<le> nat bytes_sum * 2 ^ 53"
      using small by (intro round53_le) auto
    then have "int (round53 n) \<le> int (nat bytes_sum * 2 ^ 53)" by (simp only: of_nat_le_iff)
    then show "too_large available bytes_sum" using assms(3) by (simp add: too_large_def d)
  next
    assume "too_large available bytes_sum"
    then have "int (round53 n) \<le> bytes_sum * 2 ^ 53" by (simp add: too_large_def d)
    moreover have "2 * int n \<le> 2 * int (round53 n) + 2 ^ 50"
    proof -
      have "2 * n \<le> 2 * round53 n + 2 ^ 50" using round53_ge [of n] unit by simp
      then have "int (2 * n) \<le> int (2 * round53 n + 2 ^ 50)" by (simp only: of_nat_le_iff)
      then show ?thesis by simp
    qed
    ultimately have "10 * int n \<le> 10 * (bytes_sum * 2 ^ 53) + 5 * 2 ^ 50" by simp
    with five assms(2) show "3 * available \<le> 5 * bytes_sum" by simp
  qed
qed

theorem size_check_exact_witness: "too_large 1000000 600000 \<and> \<not> too_large 1000000 599999"
  using size_check_exact [of 1000000 600000] size_check_exact [of 1000000 599999] by simp

section \<open>Opening and closing\<close>

lemma fclose_fopen [simp]: "fclose p (fopen_stream p st) = st"
  by (simp add: fclose_def fopen_stream_def)

section \<open>Writing the document\<close>

lemma fput_files [simp]:
  "dl_files (fput path txt st) = (case dl_files st path of None \<Rightarrow> dl_files st | Some b \<Rightarrow> (dl_files st)(path \<mapsto> b @ to_bytes txt))"
  by (simp add: fput_def split: option.split)

lemma to_bytes_append [simp]: "to_bytes (a @ b) = to_bytes a @ to_bytes b"
  by (simp add: to_bytes_def)

text \<open>A chunk that can be served: its path, its readable header with an offset, and room for its copy.\<close>

definition chunk_path :: "dl_env \<Rightarrow> int \<Rightarrow> dr_data \<Rightarrow> dr_chunk \<Rightarrow> string" where
  "chunk_path E drive data c = snd (make_filepath E drive data c)"

definition chunk_file_name :: "string \<Rightarrow> string" where
  "chunk_file_name tp = tl (the (strrchr tp CHR ''/''))"

definition copy_path :: "dl_env \<Rightarrow> string \<Rightarrow> string \<Rightarrow> string" where
  "copy_path E destination tp = snprintf (DS_PATH_MAX (dl_ds E) - 1) (destination @ ''/'' @ chunk_file_name tp)"

definition header_of :: "dl_env \<Rightarrow> u8 list \<Rightarrow> u8 list" where
  "header_of E bs = take (PFX_SIZE E) bs @ replicate (PFX_SIZE E - length bs) 0"

definition servable :: "dl_env \<Rightarrow> int \<Rightarrow> dr_data \<Rightarrow> string \<Rightarrow> files \<Rightarrow> dr_chunk \<Rightarrow> bool" where
  "servable E drive data destination fs c \<longleftrightarrow>
     (let tp = chunk_path E drive data c
      in fst (make_filepath E drive data c) = EXIT_SUCCESS \<and> strrchr tp CHR ''/'' \<noteq> None \<and>
         length (chunk_file_name tp) < 256 \<and> can_fopen E (copy_path E destination tp) \<and>
         (case fs tp of None \<Rightarrow> False
          | Some bs \<Rightarrow> bs \<noteq> [] \<and> length bs \<le> copy_room E \<and> fst (chunk_time_info E (header_of E bs)) \<noteq> [] \<and>
              0 \<le> snd (chunk_time_info E (header_of E bs)) \<and> snd (chunk_time_info E (header_of E bs)) < 2 ^ 53))"

definition chunk_offset :: "dl_env \<Rightarrow> int \<Rightarrow> dr_data \<Rightarrow> files \<Rightarrow> dr_chunk \<Rightarrow> u64" where
  "chunk_offset E drive data fs c =
     word_of_int (snd (chunk_time_info E (header_of E (the (fs (chunk_path E drive data c))))))"

lemma offset_read:
  assumes "servable E drive data destination fs c" "dl_files st (chunk_path E drive data c) = fs (chunk_path E drive data c)"
  shows "\<exists>x. get_timeoffset_from_chunk_header E (chunk_path E drive data c) first off False st =
    (chunk_offset E drive data fs c, st\<lparr>starttimeoffset := x\<rparr>)"
proof -
  let ?tp = "chunk_path E drive data c"
  from assms(1) obtain bs where bs: "fs ?tp = Some bs" "bs \<noteq> []"
    "fst (chunk_time_info E (header_of E bs)) \<noteq> []"
    "0 \<le> snd (chunk_time_info E (header_of E bs))" "snd (chunk_time_info E (header_of E bs)) < 2 ^ 53"
    by (auto simp: servable_def Let_def split: option.splits)
  obtain src x where t: "chunk_time_info E (header_of E bs) = (src, x)" by fastforce
  with bs have x: "src \<noteq> []" "0 \<le> x" "x < 2 ^ 53" by auto
  then have "nat x < 2 ^ 53" by simp
  with x have d: "dbl x = x" using round53_small [of "nat x"] by (simp add: dbl_def)
  obtain b bs' where b: "bs = b # bs'" using bs(2) by (cases bs) auto
  have "get_timeoffset_from_chunk_header E ?tp first off False st =
      (word_of_int x, if first then st\<lparr>starttimeoffset := x\<rparr> else st)"
    using assms(2) bs(1) x t d b
    by (simp add: get_timeoffset_from_chunk_header_def header_of_def d2u_def)
  moreover have "st = st\<lparr>starttimeoffset := starttimeoffset st\<rparr>" by simp
  moreover have "chunk_offset E drive data fs c = word_of_int x" using bs(1) t by (simp add: chunk_offset_def)
  ultimately show ?thesis by (metis (full_types))
qed

definition chunk_sig :: "dl_env \<Rightarrow> u8 list option \<Rightarrow> string" where
  "chunk_sig E content =
     (case get_stored_sig E content of (hex_sig, _) \<Rightarrow>
        take (HMACKEY_LEN E)
          (concat (map (\<lambda>i. hex02 (if i < length hex_sig then unat (hex_sig ! i) else 0)) [0..<HMACKEY_LEN E div 2])))"

definition entry_text :: "dl_env \<Rightarrow> int \<Rightarrow> dr_data \<Rightarrow> files \<Rightarrow> dr_chunk \<Rightarrow> string" where
  "entry_text E drive data fs c =
     metadata_video_chunk (chunk_file_name (chunk_path E drive data c)) (chunk_sig E (fs (chunk_path E drive data c)))"

definition ends_segment :: "dr_chunk \<Rightarrow> dr_chunk option \<Rightarrow> bool" where
  "ends_segment c nx \<longleftrightarrow> dr_gap c \<or> nx = None"

text \<open>The start time of the segment that is open behind a chunk, and what is written for the chunk.\<close>

definition next_start :: "dl_env \<Rightarrow> int \<Rightarrow> dr_data \<Rightarrow> files \<Rightarrow> dr_chunk \<Rightarrow> dr_chunk option \<Rightarrow> string \<Rightarrow> string" where
  "next_start E drive data fs c nx s =
     (case nx of
        Some d \<Rightarrow> if dr_gap c then epoch_to_string E (word_of_int (dr_epoch d) - chunk_offset E drive data fs c) else s
      | None \<Rightarrow> s)"

definition step_text :: "dl_env \<Rightarrow> int \<Rightarrow> dr_data \<Rightarrow> files \<Rightarrow> dr_chunk \<Rightarrow> dr_chunk option \<Rightarrow> string \<Rightarrow> string" where
  "step_text E drive data fs c nx s =
     entry_text E drive data fs c @
     (if ends_segment c nx
      then metadata_video_segment s (epoch_to_string E (chunk_end (chunk_offset E drive data fs c) c)) @
           (if nx = None then [] else metadata_video_segment_start)
      else [])"

lemma add_sig_effect:
  assumes "add_cumulative_sig E p hf st = (sig, st1)"
  shows "take (HMACKEY_LEN E) sig = chunk_sig E (dl_files st p)" "q \<noteq> hf \<Longrightarrow> dl_files st1 q = dl_files st q"
  using assms by (auto simp: add_cumulative_sig_def chunk_sig_def Let_def split: prod.splits option.splits)

lemma close_segment_text:
  assumes "servable E drive data destination fs c" "dl_files st (chunk_path E drive data c) = fs (chunk_path E drive data c)"
    and "chunk_path E drive data c \<noteq> mf" "dl_files st mf = Some txt" "ends_segment c nx"
  shows "\<exists>v' st'. close_segment E mf (chunk_path E drive data c) c nx v st = (v', st') \<and>
    dl_files st' mf = Some (txt @ to_bytes
      (metadata_video_segment (seg_start_time v) (epoch_to_string E (chunk_end (chunk_offset E drive data fs c) c)) @
       (if nx = None then [] else metadata_video_segment_start))) \<and>
    (\<forall>q. q \<noteq> mf \<longrightarrow> dl_files st' q = dl_files st q) \<and>
    seg_cc v' = seg_cc v \<and> first_chunk v' = first_chunk v \<and>
    seg_start_time v' = next_start E drive data fs c nx (seg_start_time v)"
proof -
  let ?tp = "chunk_path E drive data c" and ?o = "chunk_offset E drive data fs c"
  obtain x where r1: "get_timeoffset_from_chunk_header E ?tp False (last_offset v) False st = (?o, st\<lparr>starttimeoffset := x\<rparr>)"
    using offset_read [OF assms(1,2)] by blast
  let ?st1 = "st\<lparr>starttimeoffset := x\<rparr>"
  let ?st2 = "fput mf (metadata_video_segment (seg_start_time v) (epoch_to_string E (chunk_end ?o c))) ?st1"
  have keep: "dl_files ?st2 ?tp = fs ?tp" using assms(2-4) by simp
  obtain y where r2: "get_timeoffset_from_chunk_header E ?tp False (first_offset v) False ?st2 = (?o, ?st2\<lparr>starttimeoffset := y\<rparr>)"
    using offset_read [OF assms(1) keep] by blast
  show ?thesis
    using assms(4,5) r1 r2
    by (cases nx) (auto simp: close_segment_def next_start_def ends_segment_def Let_def)
qed

lemma chunk_entry_text:
  assumes "servable E drive data destination fs c" "dl_files st (chunk_path E drive data c) = fs (chunk_path E drive data c)"
    and "chunk_path E drive data c \<notin> {mf, hf}" "mf \<noteq> hf" "dl_files st mf = Some txt"
  shows "\<exists>v' st'. chunk_entry E mf hf (chunk_path E drive data c) (chunk_file_name (chunk_path E drive data c)) c nx v st = (v', st') \<and>
    dl_files st' mf = Some (txt @ to_bytes (step_text E drive data fs c nx (seg_start_time v))) \<and>
    (\<forall>q. q \<notin> {mf, hf} \<longrightarrow> dl_files st' q = dl_files st q) \<and>
    seg_cc v' = seg_cc v \<and> first_chunk v' = first_chunk v \<and>
    seg_start_time v' = next_start E drive data fs c nx (seg_start_time v)"
proof -
  let ?tp = "chunk_path E drive data c" and ?p = "chunk_file_name (chunk_path E drive data c)"
  obtain sig st1 where a: "add_cumulative_sig E ?tp hf st = (sig, st1)" by fastforce
  note e = add_sig_effect [OF a]
  let ?st2 = "fput mf (metadata_video_chunk ?p (take (HMACKEY_LEN E) sig)) st1"
  have m1: "dl_files st1 mf = Some txt" using e(2) [OF assms(4)] assms(5) by simp
  have sig: "metadata_video_chunk ?p (take (HMACKEY_LEN E) sig) = entry_text E drive data fs c"
    using e(1) assms(2) by (simp add: entry_text_def)
  have m2: "dl_files ?st2 mf = Some (txt @ to_bytes (entry_text E drive data fs c))" using m1 sig by simp
  have o2: "q \<notin> {mf, hf} \<Longrightarrow> dl_files ?st2 q = dl_files st q" for q using e(2) m1 by simp
  show ?thesis
  proof (cases "ends_segment c nx")
    case True
    have "dl_files ?st2 ?tp = fs ?tp" using o2 [OF assms(3)] assms(2) by simp
    from close_segment_text [OF assms(1) this _ m2 True, of v] assms(3) obtain v' st' where
      "close_segment E mf ?tp c nx v ?st2 = (v', st')"
      "dl_files st' mf = Some (txt @ to_bytes (step_text E drive data fs c nx (seg_start_time v)))"
      "\<forall>q. q \<noteq> mf \<longrightarrow> dl_files st' q = dl_files ?st2 q"
      "seg_cc v' = seg_cc v" "first_chunk v' = first_chunk v"
      "seg_start_time v' = next_start E drive data fs c nx (seg_start_time v)"
      using True by (auto simp: step_text_def)
    then show ?thesis using a True o2 by (auto simp: chunk_entry_def ends_segment_def)
  next
    case False
    then obtain d where d: "nx = Some d" "\<not> dr_gap c" by (auto simp: ends_segment_def)
    have "chunk_entry E mf hf ?tp ?p c nx v st = (v, ?st2)" using a d by (simp add: chunk_entry_def)
    moreover have "step_text E drive data fs c nx (seg_start_time v) = entry_text E drive data fs c"
      using False by (simp add: step_text_def)
    ultimately show ?thesis using m2 o2 d by (simp add: next_start_def)
  qed
qed

section \<open>Copying\<close>

definition target :: "dl_env \<Rightarrow> int \<Rightarrow> dr_data \<Rightarrow> string \<Rightarrow> dr_chunk \<Rightarrow> string" where
  "target E drive data destination c = copy_path E destination (chunk_path E drive data c)"

text \<open>
  The files of the document, of the chunks and of their copies are different files.
\<close>

definition apart :: "dl_env \<Rightarrow> int \<Rightarrow> dr_data \<Rightarrow> string \<Rightarrow> string \<Rightarrow> string \<Rightarrow> dr_chunk list \<Rightarrow> bool" where
  "apart E drive data destination mf hf cs \<longleftrightarrow>
     mf \<noteq> hf \<and> distinct (map (target E drive data destination) cs) \<and>
     (\<forall>c \<in> set cs. chunk_path E drive data c \<notin> {mf, hf} \<and> target E drive data destination c \<notin> {mf, hf} \<and>
        (\<forall>d \<in> set cs. target E drive data destination c \<noteq> chunk_path E drive data d))"

lemma chunk_step_text:
  assumes "servable E drive data destination fs c"
    and "open_first E mf (chunk_path E drive data c) v st = (v1, st1)"
    and "dl_files st1 (chunk_path E drive data c) = fs (chunk_path E drive data c)"
    and "chunk_path E drive data c \<notin> {mf, hf}" "mf \<noteq> hf" "dl_files st1 mf = Some txt"
    and "target E drive data destination c \<notin> {mf, hf}"
    and "target E drive data destination c \<noteq> chunk_path E drive data c"
  shows "\<exists>v' st'. chunk_step E mf hf destination (chunk_path E drive data c) c nx v st = Some (Inr (v', st')) \<and>
    dl_files st' mf = Some (txt @ to_bytes (step_text E drive data fs c nx (seg_start_time v1))) \<and>
    dl_files st' (target E drive data destination c) = fs (chunk_path E drive data c) \<and>
    (\<forall>q. q \<notin> {mf, hf, target E drive data destination c} \<longrightarrow> dl_files st' q = dl_files st1 q) \<and>
    seg_cc v' = seg_cc v1 \<and> first_chunk v' = first_chunk v1 \<and>
    seg_start_time v' = next_start E drive data fs c nx (seg_start_time v1)"
proof -
  let ?tp = "chunk_path E drive data c" and ?tq = "target E drive data destination c"
  from assms(1) obtain bs slash where bs: "fs ?tp = Some bs" "length bs \<le> copy_room E" "can_fopen E ?tq"
    "length (chunk_file_name ?tp) < 256" "strrchr ?tp CHR ''/'' = Some slash"
    by (auto simp: servable_def target_def Let_def simp del: strrchr_None split: option.splits)
  then have p: "tl slash = chunk_file_name ?tp" by (simp add: chunk_file_name_def)
  obtain v2 st2 where e: "chunk_entry E mf hf ?tp (chunk_file_name ?tp) c nx v1 st1 = (v2, st2)"
    "dl_files st2 mf = Some (txt @ to_bytes (step_text E drive data fs c nx (seg_start_time v1)))"
    "\<forall>q. q \<notin> {mf, hf} \<longrightarrow> dl_files st2 q = dl_files st1 q"
    "seg_cc v2 = seg_cc v1" "first_chunk v2 = first_chunk v1"
    "seg_start_time v2 = next_start E drive data fs c nx (seg_start_time v1)"
    using chunk_entry_text [OF assms(1,3-6)] by blast
  have f: "dl_files st2 ?tp = Some bs" using e(3) assms(3,4) bs(1) by simp
  have "copy_file (can_fopen E) (stdio_held E) (copy_room E) ?tp ?tq (dl_files st2) (open_streams st2) =
      (EXIT_SUCCESS, (dl_files st2)(?tq \<mapsto> bs), open_streams st2)"
    using f bs(2,3) assms(8) by (intro copy_file_fits) simp_all
  then have "chunk_step E mf hf destination ?tp c nx v st =
      Some (Inr (v2, st2\<lparr>dl_files := (dl_files st2)(?tq \<mapsto> bs), open_streams := open_streams st2\<rparr>))"
    using bs(4,5) p assms(2) e(1) by (simp add: chunk_step_def target_def copy_path_def Let_def)
  then show ?thesis using e(2-6) bs(1) assms(7) by auto
qed

text \<open>The text of the chunks from an open segment on.\<close>

fun rest_text :: "dl_env \<Rightarrow> int \<Rightarrow> dr_data \<Rightarrow> files \<Rightarrow> dr_chunk list \<Rightarrow> string \<Rightarrow> string" where
  "rest_text E drive data fs [] s = []"
| "rest_text E drive data fs (c # cs) s =
     step_text E drive data fs c (head_option cs) s @
     rest_text E drive data fs cs (next_start E drive data fs c (head_option cs) s)"

lemma apart_tl: "apart E drive data destination mf hf (c # cs) \<Longrightarrow> apart E drive data destination mf hf cs"
  by (simp add: apart_def)

lemma chunk_loop_text:
  assumes "\<forall>c \<in> set cs. servable E drive data destination fs c"
    and "\<forall>c \<in> set cs. dl_files st (chunk_path E drive data c) = fs (chunk_path E drive data c)"
    and "apart E drive data destination mf hf cs" "dl_files st mf = Some txt" "first_chunk v" "0 < seg_cc v"
  shows "\<exists>st'. chunk_loop E mf hf drive data destination cs v st = Some (DOWNLOAD_OK_FULL, st') \<and>
    dl_files st' mf = Some (txt @ to_bytes (rest_text E drive data fs cs (seg_start_time v))) \<and>
    (\<forall>c \<in> set cs. dl_files st' (target E drive data destination c) = fs (chunk_path E drive data c)) \<and>
    (\<forall>q. q \<notin> {mf, hf} \<union> target E drive data destination ` set cs \<longrightarrow> dl_files st' q = dl_files st q)"
  using assms
proof (induction cs arbitrary: v st "txt")
  case Nil
  then show ?case by (simp add: to_bytes_def)
next
  case (Cons c cs)
  let ?P = "chunk_path E drive data" and ?T = "target E drive data destination"
  have a: "?P c \<notin> {mf, hf}" "mf \<noteq> hf" "?T c \<notin> {mf, hf}" "?T c \<noteq> ?P c" "?T c \<notin> ?T ` set cs"
    "\<forall>d \<in> set cs. ?T c \<noteq> ?P d"
    using Cons.prems(3) by (auto simp: apart_def)
  have sv: "servable E drive data destination fs c" using Cons.prems(1) by simp
  have first: "open_first E mf (?P c) v st = (v\<lparr>seg_cc := seg_cc v + 1\<rparr>, st)"
    using Cons.prems(5,6) by (simp add: open_first_def)
  have f: "dl_files st (?P c) = fs (?P c)" using Cons.prems(2) by simp
  from chunk_step_text [OF sv first f a(1,2) Cons.prems(4) a(3,4), where nx = "head_option cs"]
  obtain v1 st1 where s: "chunk_step E mf hf destination (?P c) c (head_option cs) v st = Some (Inr (v1, st1))"
    "dl_files st1 mf = Some (txt @ to_bytes (step_text E drive data fs c (head_option cs) (seg_start_time v)))"
    "dl_files st1 (?T c) = fs (?P c)" "\<forall>q. q \<notin> {mf, hf, ?T c} \<longrightarrow> dl_files st1 q = dl_files st q"
    "seg_cc v1 = seg_cc v + 1" "first_chunk v1 = first_chunk v"
    "seg_start_time v1 = next_start E drive data fs c (head_option cs) (seg_start_time v)"
    by auto
  have keep: "\<forall>d \<in> set cs. dl_files st1 (?P d) = fs (?P d)"
    using s(4) a(6) Cons.prems(2,3) by (auto simp: apart_def)
  have sv': "\<forall>c \<in> set cs. servable E drive data destination fs c" using Cons.prems(1) by simp
  have op: "first_chunk v1" "0 < seg_cc v1" using s(5,6) Cons.prems(5) by simp_all
  from Cons.IH [OF sv' keep apart_tl [OF Cons.prems(3)] s(2) op]
  obtain st' where l: "chunk_loop E mf hf drive data destination cs v1 st1 = Some (DOWNLOAD_OK_FULL, st')"
    "dl_files st' mf = Some ((txt @ to_bytes (step_text E drive data fs c (head_option cs) (seg_start_time v))) @
       to_bytes (rest_text E drive data fs cs (seg_start_time v1)))"
    "\<forall>c \<in> set cs. dl_files st' (?T c) = fs (?P c)"
    "\<forall>q. q \<notin> {mf, hf} \<union> ?T ` set cs \<longrightarrow> dl_files st' q = dl_files st1 q"
    by blast
  have m: "make_filepath E drive data c = (EXIT_SUCCESS, ?P c)"
    using sv by (cases "make_filepath E drive data c") (simp add: servable_def chunk_path_def Let_def)
  have "chunk_loop E mf hf drive data destination (c # cs) v st = Some (DOWNLOAD_OK_FULL, st')"
    using m s(1) l(1) by simp
  moreover have "dl_files st' mf = Some (txt @ to_bytes (rest_text E drive data fs (c # cs) (seg_start_time v)))"
    using l(2) s(7) by simp
  moreover have "dl_files st' (?T c) = fs (?P c)" using l(4) s(3) a(3,5) by auto
  moreover have "\<forall>q. q \<notin> {mf, hf} \<union> ?T ` set (c # cs) \<longrightarrow> dl_files st' q = dl_files st q" using l(4) s(4) by auto
  ultimately show ?case using l(3) by auto
qed

section \<open>The segments\<close>

text \<open>The chunks cut behind every gap.\<close>

fun gap_runs :: "dr_chunk list \<Rightarrow> dr_chunk list list" where
  "gap_runs [] = []"
| "gap_runs (c # cs) =
     (if dr_gap c then [c] # gap_runs cs
      else (case gap_runs cs of [] \<Rightarrow> [[c]] | r # rs \<Rightarrow> (c # r) # rs))"

lemma gap_runs_Cons: "cs \<noteq> [] \<Longrightarrow> \<exists>r rs. gap_runs cs = r # rs \<and> r \<noteq> [] \<and> hd r = hd cs"
  by (cases cs) (auto split: list.split)

lemma concat_gap_runs: "concat (gap_runs cs) = cs"
  by (induction cs) (auto split: list.split)

lemma gap_runs_gaps: "r \<in> set (gap_runs cs) \<Longrightarrow> r \<noteq> [] \<and> list_all (\<lambda>c. \<not> dr_gap c) (butlast r)"
proof (induction cs arbitrary: r)
  case (Cons c cs)
  show ?case
  proof (cases "gap_runs cs")
    case Nil
    then show ?thesis using Cons.prems by (auto split: if_splits)
  next
    case (Cons r0 rs)
    have "r0 \<noteq> [] \<and> list_all (\<lambda>c. \<not> dr_gap c) (butlast r0)" using Cons.IH [of r0] Cons by simp
    then show ?thesis using Cons.IH [of r] Cons Cons.prems by (auto split: if_splits)
  qed
qed simp

definition segment_text :: "dl_env \<Rightarrow> int \<Rightarrow> dr_data \<Rightarrow> files \<Rightarrow> string \<Rightarrow> dr_chunk list \<Rightarrow> string" where
  "segment_text E drive data fs s r =
     concat (map (entry_text E drive data fs) r) @
     metadata_video_segment s (epoch_to_string E (chunk_end (chunk_offset E drive data fs (last r)) (last r)))"

text \<open>
  A segment starts with its first chunk, corrected by an offset: its own for the first segment, that of the
  chunk before the gap for the others.
\<close>

fun segments_text :: "dl_env \<Rightarrow> int \<Rightarrow> dr_data \<Rightarrow> files \<Rightarrow> u64 \<Rightarrow> dr_chunk list list \<Rightarrow> string" where
  "segments_text E drive data fs off [] = []"
| "segments_text E drive data fs off (r # rs) =
     metadata_video_segment_start @
     segment_text E drive data fs (epoch_to_string E (word_of_int (dr_epoch (hd r)) - off)) r @
     segments_text E drive data fs (chunk_offset E drive data fs (last r)) rs"

lemma rest_gap_runs:
  assumes "gap_runs cs = r # rs"
  shows "rest_text E drive data fs cs s =
    segment_text E drive data fs s r @ segments_text E drive data fs (chunk_offset E drive data fs (last r)) rs"
  using assms
proof (induction cs arbitrary: r rs s)
  case (Cons c cs)
  show ?case
  proof (cases cs)
    case Nil
    then show ?thesis using Cons.prems
      by (auto simp: step_text_def ends_segment_def head_option_def segment_text_def split: if_splits)
  next
    case (Cons d ds)
    then obtain r1 rs1 where r1: "gap_runs cs = r1 # rs1" "r1 \<noteq> []" "hd r1 = d" using gap_runs_Cons [of cs] by auto
    have h: "head_option cs = Some d" using Cons by (simp add: head_option_def)
    have gap_case: ?thesis if "dr_gap c"
    proof -
      have "r = [c]" "rs = r1 # rs1" using Cons.prems that r1(1) by simp_all
      then show ?thesis
        using that h r1(3) Cons.IH [OF r1(1), of "next_start E drive data fs c (Some d) s"]
        by (simp add: step_text_def ends_segment_def next_start_def segment_text_def)
    qed
    have run_case: ?thesis if "\<not> dr_gap c"
    proof -
      have "r = c # r1" "rs = rs1" using Cons.prems that r1(1) by simp_all
      then show ?thesis
        using that h r1(2) Cons.IH [OF r1(1), of s]
        by (simp add: step_text_def ends_segment_def next_start_def segment_text_def)
    qed
    show ?thesis using gap_case run_case by blast
  qed
qed simp

definition start_seg :: "dr_chunk \<Rightarrow> seg_state" where
  "start_seg c = \<lparr>seg_s = word_of_int (dr_epoch c), seg_cc = 0, first_chunk = False, first_offset = 0, last_offset = 0,
     seg_start_time = []\<rparr>"

lemma first_chunk_opens:
  assumes "servable E drive data destination (dl_files st) c" "chunk_path E drive data c \<noteq> mf" "dl_files st mf = Some txt"
  shows "\<exists>v1 st1. open_first E mf (chunk_path E drive data c) (start_seg c) st = (v1, st1) \<and>
    first_chunk v1 \<and> seg_cc v1 = 1 \<and>
    seg_start_time v1 = epoch_to_string E (word_of_int (dr_epoch c) - chunk_offset E drive data (dl_files st) c) \<and>
    dl_files st1 = (dl_files st)(mf \<mapsto> txt @ to_bytes metadata_video_segment_start)"
proof -
  obtain x where "get_timeoffset_from_chunk_header E (chunk_path E drive data c) True 0 False st =
      (chunk_offset E drive data (dl_files st) c, st\<lparr>starttimeoffset := x\<rparr>)"
    using offset_read [OF assms(1) refl] by blast
  then show ?thesis using assms(3) by (simp add: open_first_def start_seg_def)
qed

lemma chunk_loop_first:
  assumes "\<forall>c \<in> set (c # ds). servable E drive data destination (dl_files st) c"
    and "apart E drive data destination mf hf (c # ds)" "dl_files st mf = Some txt"
  shows "\<exists>st'. chunk_loop E mf hf drive data destination (c # ds) (start_seg c) st = Some (DOWNLOAD_OK_FULL, st') \<and>
    dl_files st' mf = Some (txt @ to_bytes (metadata_video_segment_start @ rest_text E drive data (dl_files st) (c # ds)
      (epoch_to_string E (word_of_int (dr_epoch c) - chunk_offset E drive data (dl_files st) c)))) \<and>
    (\<forall>c \<in> set (c # ds). dl_files st' (target E drive data destination c) = dl_files st (chunk_path E drive data c))"
proof -
  let ?fs = "dl_files st" and ?P = "chunk_path E drive data" and ?T = "target E drive data destination"
  let ?s0 = "epoch_to_string E (word_of_int (dr_epoch c) - chunk_offset E drive data ?fs c)"
  have a: "?P c \<notin> {mf, hf}" "mf \<noteq> hf" "?T c \<notin> {mf, hf}" "?T c \<noteq> ?P c" "?T c \<notin> ?T ` set ds"
    "\<forall>d \<in> set ds. ?T c \<noteq> ?P d \<and> ?P d \<notin> {mf, hf}"
    using assms(2) by (auto simp: apart_def)
  have sv: "servable E drive data destination ?fs c" "\<forall>c \<in> set ds. servable E drive data destination ?fs c"
    using assms(1) by auto
  obtain v1 st1 where f: "open_first E mf (?P c) (start_seg c) st = (v1, st1)" "first_chunk v1" "seg_cc v1 = 1"
    "seg_start_time v1 = ?s0" "dl_files st1 = ?fs(mf \<mapsto> txt @ to_bytes metadata_video_segment_start)"
    using first_chunk_opens [OF sv(1) _ assms(3)] a(1) by blast
  have m1: "dl_files st1 mf = Some (txt @ to_bytes metadata_video_segment_start)" and kc: "dl_files st1 (?P c) = ?fs (?P c)"
    using f(5) a(1) by auto
  from chunk_step_text [OF sv(1) f(1) kc a(1,2) m1 a(3,4), where nx = "head_option ds"]
  obtain v2 st2 where s: "chunk_step E mf hf destination (?P c) c (head_option ds) (start_seg c) st = Some (Inr (v2, st2))"
    "dl_files st2 mf = Some ((txt @ to_bytes metadata_video_segment_start) @
       to_bytes (step_text E drive data ?fs c (head_option ds) ?s0))"
    "dl_files st2 (?T c) = ?fs (?P c)" "\<forall>q. q \<notin> {mf, hf, ?T c} \<longrightarrow> dl_files st2 q = dl_files st1 q"
    "seg_cc v2 = 1" "first_chunk v2" "seg_start_time v2 = next_start E drive data ?fs c (head_option ds) ?s0"
    unfolding f(4) using f(2,3) by auto
  have keep: "\<forall>d \<in> set ds. dl_files st2 (?P d) = ?fs (?P d)" using s(4) a(6) f(5) by auto
  have op: "first_chunk v2" "0 < seg_cc v2" using s(5,6) by simp_all
  from chunk_loop_text [OF sv(2) keep apart_tl [OF assms(2)] s(2) op]
  obtain st' where l: "chunk_loop E mf hf drive data destination ds v2 st2 = Some (DOWNLOAD_OK_FULL, st')"
    "dl_files st' mf = Some (((txt @ to_bytes metadata_video_segment_start) @
       to_bytes (step_text E drive data ?fs c (head_option ds) ?s0)) @
       to_bytes (rest_text E drive data ?fs ds (seg_start_time v2)))"
    "\<forall>c \<in> set ds. dl_files st' (?T c) = ?fs (?P c)"
    "\<forall>q. q \<notin> {mf, hf} \<union> ?T ` set ds \<longrightarrow> dl_files st' q = dl_files st2 q"
    by blast
  have mk: "make_filepath E drive data c = (EXIT_SUCCESS, ?P c)"
    using sv(1) by (cases "make_filepath E drive data c") (simp add: servable_def chunk_path_def Let_def)
  have "dl_files st' (?T c) = ?fs (?P c)" using l(4) s(3) a(3,5) by auto
  then show ?thesis using mk s(1) l s(7) by simp
qed

text \<open>
  C36: the document of a download. When the paths of all found chunks are known, their headers can be read,
  the copies fit and no two of the files are the same, the chunks are copied to the destination and the
  metadata document is extended by one segment for every run of chunks without a gap, in order, with the
  name and the signature of every chunk and the start and end time of the run.
\<close>

theorem download_document:
  assumes "cs = take (nat (found_chunks data)) (dr_chunks data)" "0 < found_chunks data"
    and "nat (found_chunks data) \<le> length (dr_chunks data)"
    and "\<forall>c \<in> set cs. servable E (drive - 1) data destination (dl_files st) c"
    and "apart E (drive - 1) data destination mf hf cs" "dl_files st mf = Some txt" "temp_hash_fp st = Some hf"
    and "dl_statvfs E destination (dl_files st) = Some v"
    and "\<not> too_large (free_bytes v) (size_pass E (drive - 1) data (dl_files st) cs (stale_size E) 0)"
  shows "\<exists>st'. insert_chunk_metadata E mf data drive destination st = Some (DOWNLOAD_OK_FULL, st') \<and>
    dl_files st' mf = Some (txt @ to_bytes
      (segments_text E (drive - 1) data (dl_files st) (chunk_offset E (drive - 1) data (dl_files st) (hd cs)) (gap_runs cs))) \<and>
    (\<forall>c \<in> set cs. dl_files st' (target E (drive - 1) data destination c) = dl_files st (chunk_path E (drive - 1) data c))"
proof -
  from assms(1-3) have "cs \<noteq> []" by auto
  then obtain c ds where cs: "cs = c # ds" by (cases cs) auto
  have tk: "take (nat (found_chunks data)) (dr_chunks data) = c # ds" using assms(1) cs by simp
  have "insert_chunk_metadata E mf data drive destination st =
      chunk_loop E mf hf (drive - 1) data destination (c # ds) (start_seg c) st"
    using assms(2,3,7-9) tk by (simp add: insert_chunk_metadata_def Let_def cs start_seg_def)
  moreover obtain r rs where rs: "gap_runs cs = r # rs" "hd r = c" using gap_runs_Cons [of cs] by (auto simp: cs)
  moreover have "metadata_video_segment_start @ rest_text E (drive - 1) data (dl_files st) cs
       (epoch_to_string E (word_of_int (dr_epoch c) - chunk_offset E (drive - 1) data (dl_files st) c)) =
      segments_text E (drive - 1) data (dl_files st) (chunk_offset E (drive - 1) data (dl_files st) c) (gap_runs cs)"
    using rest_gap_runs [OF rs(1)] rs by simp
  ultimately show ?thesis
    using chunk_loop_first [of c ds E "drive - 1" data destination st mf hf "txt"] assms(4-6) by (simp add: cs)
qed

definition demo_dl :: dl_env where
  "demo_dl = \<lparr>dl_ds = demo_ds, dl_minfo = None, CAM_NAME_LEN = 8, CAM_ARRAY = 16, LOCO_STORAGE = 16, PFX_SIZE = 2,
     HMACKEY_LEN = 4, usecs_per_second = 1000000,
     retrive_data = (\<lambda>_ _ _ _. (0, \<lparr>dr_name = ''C'', dr_model = ''M'', dr_compression = 0, dr_chunks = [], found_chunks = 0\<rparr>)),
     make_filepath = (\<lambda>_ _ c. (EXIT_SUCCESS, if dr_epoch c = 100 then ''/d/a'' else ''/d/b'')),
     chunk_time_info = (\<lambda>_. (''GPS'', 5)), dl_TIME_INFO = None, neg_to_u64 = (\<lambda>_. 0),
     get_stored_sig = (\<lambda>_. ([1, 2], 5, 640, 480)), calc_HMAC = (\<lambda>_. [7, 8]), encrypt_file = (\<lambda>_ _ fs. (EXIT_SUCCESS, fs)),
     shell = (\<lambda>_ fs. (0, fs)), mkstemp = (\<lambda>_. None), epoch_to_string = (\<lambda>u. int_str (uint u)),
     dl_statvfs = (\<lambda>_ _. Some (1000, 1)), is_directory = (\<lambda>_. True), copy_room = 100, stdio_held = (\<lambda>n. n mod 4096), can_fopen = (\<lambda>_. True),
     can_unlink = (\<lambda>_. True), stale_size = 0\<rparr>"

definition demo_chunks :: "dr_chunk list" where
  "demo_chunks = [\<lparr>dr_epoch = 100, dr_duration = 60000000, dr_gap = True\<rparr>, \<lparr>dr_epoch = 200, dr_duration = 60000000, dr_gap = False\<rparr>]"

definition demo_found :: dr_data where
  "demo_found = \<lparr>dr_name = ''C'', dr_model = ''M'', dr_compression = 0, dr_chunks = demo_chunks, found_chunks = 2\<rparr>"

definition demo_dl_state :: dl_state where
  "demo_dl_state = \<lparr>dl_files = [''/d/a'' \<mapsto> [1], ''/d/b'' \<mapsto> [2], ''/o/m'' \<mapsto> [], ''/o/h'' \<mapsto> []],
     open_streams = {#''/o/m'', ''/o/h''#}, meta_fp = Some ''/o/m'',
     temp_hash_fp = Some ''/o/h'', destination_dir = ''/o'', metadata_file = ''/o/m'', temphash_file = ''/o/h'', dl_fps = 0,
     dl_hres = 0, dl_vres = 0, starttimeoffset = 0\<rparr>"

lemma demo_clip_paths:
  "chunk_path demo_dl 0 demo_found c = (if dr_epoch c = 100 then ''/d/a'' else ''/d/b'')"
  "chunk_file_name ''/d/a'' = ''a''" "chunk_file_name ''/d/b'' = ''b''"
  "copy_path demo_dl ''/o'' ''/d/a'' = ''/o/a''" "copy_path demo_dl ''/o'' ''/d/b'' = ''/o/b''"
  by (simp_all add: chunk_path_def demo_dl_def chunk_file_name_def copy_path_def demo_ds_def snprintf_def)

lemma demo_servable: "\<forall>c \<in> set demo_chunks. servable demo_dl 0 demo_found ''/o'' (dl_files demo_dl_state) c"
  by (simp add: demo_chunks_def servable_def demo_clip_paths Let_def demo_dl_state_def)
    (simp add: demo_dl_def)

theorem download_document_witness:
  "\<exists>st'. insert_chunk_metadata demo_dl ''/o/m'' demo_found 1 ''/o'' demo_dl_state = Some (DOWNLOAD_OK_FULL, st') \<and>
    dl_files st' ''/o/m'' = Some (to_bytes (segments_text demo_dl 0 demo_found (dl_files demo_dl_state) 5
      [[demo_chunks ! 0], [demo_chunks ! 1]]))"
proof -
  have d: "demo_chunks = take (nat (found_chunks demo_found)) (dr_chunks demo_found)"
    by (simp add: demo_found_def demo_chunks_def)
  have n: "0 < found_chunks demo_found" "nat (found_chunks demo_found) \<le> length (dr_chunks demo_found)"
    by (simp_all add: demo_found_def demo_chunks_def)
  have a: "apart demo_dl (1 - 1) demo_found ''/o'' ''/o/m'' ''/o/h'' demo_chunks"
    by (simp add: apart_def demo_chunks_def target_def demo_clip_paths)
  have f: "dl_files demo_dl_state ''/o/m'' = Some []" "temp_hash_fp demo_dl_state = Some ''/o/h''"
    "dl_statvfs demo_dl ''/o'' (dl_files demo_dl_state) = Some (1000, 1)"
    by (simp_all add: demo_dl_state_def demo_dl_def)
  have z: "free_bytes (1000, 1) = 1000" by code_simp
  have p: "size_pass demo_dl (1 - 1) demo_found (dl_files demo_dl_state) demo_chunks (stale_size demo_dl) 0 = 2"
  proof -
    have "dbl 1 = 1" "dbl 2 = 2" by code_simp+
    then show ?thesis by (simp add: demo_chunks_def demo_dl_def demo_dl_state_def)
  qed
  have t: "\<not> too_large 1000 2"
  proof -
    have "bitlen 5404319552844595000 \<le> 63" by (rule bitlen_less) simp
    then have "(2::nat) ^ (bitlen 5404319552844595000 - 53) \<le> 2 ^ 10" by (intro power_increasing) auto
    then have "5404319552844595000 \<le> round53 5404319552844595000 + 512"
      using round53_ge [of 5404319552844595000] by simp
    then show ?thesis by (simp add: too_large_def dbl_def C06_def)
  qed
  have r: "gap_runs demo_chunks = [[demo_chunks ! 0], [demo_chunks ! 1]]" by (simp add: demo_chunks_def)
  have o0: "chunk_offset demo_dl (1 - 1) demo_found (dl_files demo_dl_state) (hd demo_chunks) = 5"
    by (simp add: chunk_offset_def demo_clip_paths demo_chunks_def) (simp add: demo_dl_def)
  have s: "\<forall>c \<in> set demo_chunks. servable demo_dl (1 - 1) demo_found ''/o'' (dl_files demo_dl_state) c"
    using demo_servable by simp
  have z2: "\<not> too_large (free_bytes (1000, 1))
      (size_pass demo_dl (1 - 1) demo_found (dl_files demo_dl_state) demo_chunks (stale_size demo_dl) 0)"
    using z p t by simp
  from download_document [OF d n s a f z2] show ?thesis unfolding r o0 by auto
qed

section \<open>Streams\<close>

text \<open>
  What a state says about streams, with the directory of the request, and the steps that leave it as it is:
  what they open they close again.
\<close>

definition stream_state :: "dl_state \<Rightarrow> streams \<times> string option \<times> string option \<times> string" where
  "stream_state st = (open_streams st, meta_fp st, temp_hash_fp st, destination_dir st)"

lemma stream_state_upd [simp]:
  "stream_state (st\<lparr>dl_files := a\<rparr>) = stream_state st" "stream_state (st\<lparr>starttimeoffset := b\<rparr>) = stream_state st"
  "stream_state (st\<lparr>dl_fps := c, dl_hres := d, dl_vres := e\<rparr>) = stream_state st"
  by (simp_all add: stream_state_def)

lemma stream_state_local: "stream_state (fclose p (fput q t (fopen_stream p st))) = stream_state st"
  by (simp add: stream_state_def fput_def fclose_def fopen_stream_def split: option.split)

lemma stream_state_put [simp]:
  "stream_state (fput p t st) = stream_state st" "stream_state (unlink E p st) = stream_state st"
  by (simp_all add: fput_def unlink_def split: option.split)

lemma put_globals [simp]:
  "meta_fp (fput p t st) = meta_fp st" "temp_hash_fp (fput p t st) = temp_hash_fp st"
  "destination_dir (fput p t st) = destination_dir st"
  "meta_fp (unlink E p st) = meta_fp st" "temp_hash_fp (unlink E p st) = temp_hash_fp st"
  "destination_dir (unlink E p st) = destination_dir st"
  using stream_state_put(1) [of p t st] stream_state_put(2) [of E p st] by (simp_all add: stream_state_def)

lemma run_streams: "run E cmd st = (rc, st1) \<Longrightarrow> stream_state st1 = stream_state st"
  by (auto simp: run_def split: prod.splits)

lemma clean_streams: "clean_download_dir E path st = (rc, st1) \<Longrightarrow> stream_state st1 = stream_state st"
  by (auto simp: clean_download_dir_def Let_def run_streams split: prod.splits if_splits)

lemma validate_streams: "validate_destination E d ty st = (rc, st1) \<Longrightarrow> stream_state st1 = stream_state st"
  by (auto simp: validate_destination_def clean_streams split: prod.splits if_splits exit_code.splits option.splits)

lemma offset_streams:
  "get_timeoffset_from_chunk_header E p a off b st = (x, st1) \<Longrightarrow> stream_state st1 = stream_state st"
  by (auto simp: get_timeoffset_from_chunk_header_def Let_def split: prod.splits if_splits option.splits)

lemma playback_loop_streams:
  "playback_loop E drive data n cs seen fo lo rg ls st = Some (rg1, ls1, st1) \<Longrightarrow> stream_state st1 = stream_state st"
proof (induction E drive data n cs seen fo lo rg ls st rule: playback_loop.induct)
  case (2 E drive data n i c cs seen fo lo rg ls st)
  then show ?case
    by (auto simp: Let_def offset_streams split: prod.splits if_splits)
qed simp

lemma playback_streams:
  "prepare_playback E data drive d rg n st = Some (rc, rg1, ls, st1) \<Longrightarrow> stream_state st1 = stream_state st"
  by (auto simp: prepare_playback_def playback_loop_streams split: if_splits)

lemma sig_streams: "add_cumulative_sig E p h st = (sig, st1) \<Longrightarrow> stream_state st1 = stream_state st"
  by (auto simp: add_cumulative_sig_def Let_def split: prod.splits)

lemma close_segment_streams: "close_segment E mf tp c nx v st = (v1, st1) \<Longrightarrow> stream_state st1 = stream_state st"
  by (auto simp: close_segment_def Let_def offset_streams split: prod.splits option.splits)

lemma open_first_streams: "open_first E mf tp v st = (v1, st1) \<Longrightarrow> stream_state st1 = stream_state st"
  by (auto simp: open_first_def Let_def offset_streams split: prod.splits if_splits)

lemma chunk_entry_streams: "chunk_entry E mf hf tp p c nx v st = (v1, st1) \<Longrightarrow> stream_state st1 = stream_state st"
  by (auto simp: chunk_entry_def Let_def sig_streams dest!: close_segment_streams split: prod.splits if_splits)

lemma chunk_step_streams:
  "chunk_step E mf hf d tp c nx v st = Some r \<Longrightarrow> stream_state (case r of Inl s \<Rightarrow> s | Inr (_, s) \<Rightarrow> s) = stream_state st"
  by (auto simp: chunk_step_def Let_def chunk_entry_streams open_first_streams
      dest!: copy_file_streams split: option.splits prod.splits if_splits exit_code.splits)

lemma chunk_loop_streams:
  "chunk_loop E mf hf drive data d cs v st = Some (rc, st1) \<Longrightarrow> stream_state st1 = stream_state st"
proof (induction E mf hf drive data d cs v st rule: chunk_loop.induct)
  case (2 E mf hf drive data d c cs v st)
  then show ?case
    by (auto split: prod.splits exit_code.splits option.splits sum.splits dest!: chunk_step_streams)
qed simp

lemma chunk_metadata_streams:
  "insert_chunk_metadata E mf data drive d st = Some (rc, st1) \<Longrightarrow> stream_state st1 = stream_state st"
  by (auto simp: insert_chunk_metadata_def Let_def dest: chunk_loop_streams split: if_splits option.splits)

lemma drive_metadata_streams: "get_metadata_from_drive E mf m msg drive st = Some st1 \<Longrightarrow> stream_state st1 = stream_state st"
  by (auto simp: get_metadata_from_drive_def Let_def stream_state_local split: option.splits prod.splits if_splits)

lemma zip_streams: "zip_files E f b st = Some (rc, sz, st1) \<Longrightarrow> stream_state st1 = stream_state st"
proof -
  have c: "stream_state (snd (clean_download_dir E d s)) = stream_state s" for d s
    by (rule clean_streams [OF prod.collapse [symmetric]])
  show "zip_files E f b st = Some (rc, sz, st1) \<Longrightarrow> stream_state st1 = stream_state st"
    by (auto simp: zip_files_def Let_def run_streams c split: prod.splits if_splits exit_code.splits)
qed

text \<open>
  Of the open streams, two may be those of the global variables; \<open>os\<close> are all the others.
\<close>

definition stream_of :: "string option \<Rightarrow> streams" where
  "stream_of p = (case p of None \<Rightarrow> {#} | Some x \<Rightarrow> {#x#})"

definition balanced :: "streams \<Rightarrow> dl_state \<Rightarrow> bool" where
  "balanced os st \<longleftrightarrow> open_streams st = os + stream_of (meta_fp st) + stream_of (temp_hash_fp st)"

definition closed :: "streams \<Rightarrow> dl_state \<Rightarrow> bool" where
  "closed os st \<longleftrightarrow> open_streams st = os \<and> meta_fp st = None \<and> temp_hash_fp st = None"

lemma balanced_same: "stream_state st1 = stream_state st \<Longrightarrow> balanced os st1 = balanced os st"
  by (simp add: balanced_def stream_state_def)

lemma closed_same: "stream_state st1 = stream_state st \<Longrightarrow> closed os st1 = closed os st"
  by (simp add: closed_def stream_state_def)

lemma balanced_steps [simp]:
  "balanced os (st\<lparr>dl_files := a\<rparr>) = balanced os st" "balanced os (st\<lparr>starttimeoffset := b\<rparr>) = balanced os st"
  "balanced os (fput p t st) = balanced os st" "balanced os (unlink E p st) = balanced os st"
  by (rule balanced_same, simp)+

lemma closed_cleanup: "balanced os st \<Longrightarrow> closed os (cleanup st)"
  by (auto simp: balanced_def closed_def stream_state_def cleanup_def Let_def fclose_def fclosed_def stream_of_def
      split: option.split)

lemma init_meta_balanced:
  assumes "init_meta_file E d st = Some (r, st1)" "closed os st"
  shows "case r of None \<Rightarrow> balanced os st1 | Some mf \<Rightarrow> balanced os (st1\<lparr>meta_fp := Some mf\<rparr>)"
  using assms
  by (auto simp: init_meta_file_def Let_def closed_def balanced_def stream_state_def stream_of_def cleanup_def fput_def
      fclose_def fclosed_def fopen_new_def fopen_stream_def fopened_def split: if_splits option.split)

lemma close_meta: "meta_fp st = Some p \<Longrightarrow> balanced os st \<Longrightarrow> balanced os ((fclose p st)\<lparr>meta_fp := None\<rparr>)"
  and close_hash: "temp_hash_fp st = Some p \<Longrightarrow> balanced os st \<Longrightarrow> balanced os ((fclose p st)\<lparr>temp_hash_fp := None\<rparr>)"
  by (simp_all add: balanced_def stream_of_def fclose_def fclosed_def)

lemma close_metadata_balanced:
  "close_metadata E msg st = Some (rc, msg1, st1) \<Longrightarrow> balanced os st \<Longrightarrow> balanced os st1"
  by (auto simp: close_metadata_def Let_def close_meta split: option.splits prod.splits)

lemma write_maindata_balanced:
  "temp_hash_fp st = Some hf \<Longrightarrow> balanced os st \<Longrightarrow> balanced os (write_maindata E mf m data msg clips nm hf st)"
  by (simp add: write_maindata_def Let_def close_hash)

lemma maindata_balanced:
  assumes "insert_maindata E mf data msg drive clips st = Some (rc, msg1, st1)" "balanced os st"
  shows "balanced os st1"
proof -
  let ?st1 = "fput mf metadata_segments_end st"
  have b: "balanced os ?st1" using assms(2) by simp
  have h: "temp_hash_fp ?st1 = temp_hash_fp st"
    using stream_state_put(1) [of mf metadata_segments_end st] by (simp add: stream_state_def)
  consider (none) "st1 = ?st1\<lparr>starttimeoffset := 0\<rparr>"
    | (some) m nm hf st2 where "temp_hash_fp st = Some hf"
      "get_metadata_from_drive E mf m (found_period data clips msg) drive
         (write_maindata E mf m data msg clips nm hf ?st1) = Some st2"
      "close_metadata E (found_period data clips msg) (fput mf metadata_end st2) = Some (rc, msg1, st1)"
    using assms(1) by (fastforce simp: insert_maindata_def Let_def split: option.splits if_splits)
  then show ?thesis
  proof cases
    case none
    then show ?thesis using b by simp
  next
    case some
    have "balanced os (write_maindata E mf m data msg clips nm hf ?st1)"
      using write_maindata_balanced [of ?st1 hf os] some(1) h b by simp
    then have "balanced os (fput mf metadata_end st2)"
      using balanced_same [OF drive_metadata_streams [OF some(2)]] by simp
    with some(3) show ?thesis by (rule close_metadata_balanced)
  qed
qed

lemma status_not_ok [simp]: "step_status rc \<noteq> DOWNLOAD_OK_FULL" "later_status rc \<noteq> DOWNLOAD_OK_FULL"
  by (auto simp: step_status_def later_status_def)

text \<open>What a step leaves, whatever the exit: the streams closed and a status that agrees with the exit code.\<close>

definition ended :: "streams \<Rightarrow> dl_result \<Rightarrow> dl_state \<Rightarrow> bool" where
  "ended os r st \<longleftrightarrow> closed os st \<and> (dl_rc r = EXIT_SUCCESS \<longleftrightarrow> dl_status r = DOWNLOAD_OK_FULL)"

lemma ended_failed [simp]: "st \<noteq> DOWNLOAD_OK_FULL \<Longrightarrow> ended os (failed st rg msg) s \<longleftrightarrow> closed os s"
  by (simp add: ended_def failed_def)

lemma build_download_end:
  assumes "build_download E mf d data msg drive rg st = Some (r, st1)" "balanced os st"
  shows "ended os r st1"
proof -
  obtain rc1 s1 where m: "insert_chunk_metadata E mf data drive d st = Some (rc1, s1)"
    using assms(1) by (auto simp: build_download_def split: option.splits)
  have b1: "balanced os s1" using balanced_same [OF chunk_metadata_streams [OF m]] assms(2) by simp
  show ?thesis
  proof (cases "rc1 = DOWNLOAD_OK_FULL")
    case False
    then show ?thesis using assms(1) m b1 by (auto simp: build_download_def intro!: closed_cleanup)
  next
    case True
    then obtain rc2 msg2 s2 where n: "insert_maindata E mf data msg drive (found_chunks data) s1 = Some (rc2, msg2, s2)"
      using assms(1) m by (auto simp: build_download_def split: option.splits)
    have b2: "balanced os s2" by (rule maindata_balanced [OF n b1])
    show ?thesis
    proof (cases "rc2 = DOWNLOAD_OK_FULL")
      case False
      then show ?thesis using assms(1) m n True b2 by (auto simp: build_download_def intro!: closed_cleanup)
    next
      case ok: True
      then obtain rc3 sz s3 where z: "zip_files E (pl_destination msg2) True s2 = Some (rc3, sz, s3)"
        using assms(1) m n True by (auto simp: build_download_def split: option.splits)
      have "closed os (cleanup s3)" using balanced_same [OF zip_streams [OF z]] b2 by (intro closed_cleanup) simp
      then show ?thesis using assms(1) m n True ok z by (auto simp: build_download_def ended_def failed_def split: if_splits)
    qed
  qed
qed

lemma start_download_end:
  assumes "start_download E msg drive d data rg st = Some (r, st1)" "closed os st"
  shows "ended os r st1"
proof (cases "dl_minfo E")
  case None
  then show ?thesis using assms by (auto simp: start_download_def)
next
  case (Some m)
  then obtain mf s1 where i: "init_meta_file E d st = Some (mf, s1)"
    using assms(1) by (auto simp: start_download_def split: option.splits)
  note b = init_meta_balanced [OF i assms(2)]
  show ?thesis
  proof (cases mf)
    case None
    then show ?thesis using assms(1) Some i b by (auto simp: start_download_def intro!: closed_cleanup)
  next
    case (Some f)
    then show ?thesis using assms(1) \<open>dl_minfo E = Some m\<close> i b
      by (auto simp: start_download_def intro: build_download_end)
  qed
qed

lemma find_and_serve_end:
  assumes "find_and_serve E msg ty drive d rg st = Some (r, st1)" "closed os st" "ty \<noteq> 2"
  shows "ended os r st1"
  using assms by (auto simp: find_and_serve_def intro: start_download_end split: prod.splits if_splits)

lemma perform_download_end:
  assumes "perform_download E msg ty drive rg st = Some (r, st1)" "closed os st" "ty \<noteq> 2"
  shows "ended os r st1"
proof -
  let ?dir = "dest_directory (take (DESTINATION_LENGTH (dl_ds E)) (pl_destination msg))"
  obtain rc s1 where v: "validate_destination E ?dir ty st = (rc, s1)" by fastforce
  have c: "closed os s1" using closed_same [OF validate_streams [OF v]] assms(2) by simp
  show ?thesis
    using assms(1,3) v c
    by (cases rc) (auto simp: perform_download_def intro: find_and_serve_end)
qed

text \<open>
  C37: what a download request leaves. Whatever fails on the way, in either of the two attempts, every stream
  the request has opened is closed again, those of local variables included, and the others stay open; the
  two global variables are null, and the status is that of a complete download exactly when the exit code is
  success.
\<close>

theorem download_leaves_no_stream:
  assumes "meta_fp st = None" "temp_hash_fp st = None" "do_download E msg st = Some (r, st')"
  shows "open_streams st' = open_streams st \<and> meta_fp st' = None \<and> temp_hash_fp st' = None \<and>
    (dl_rc r = EXIT_SUCCESS \<longleftrightarrow> dl_status r = DOWNLOAD_OK_FULL)"
proof -
  let ?os = "open_streams st"
  have c: "closed ?os st" using assms by (simp add: closed_def stream_state_def)
  obtain cam where cam: "padded_camera E (pl_camera msg) = Some cam"
    using assms(3) by (auto simp: do_download_def split: option.splits)
  obtain r1 st1 where p: "perform_download E (msg\<lparr>pl_camera := cam\<rparr>) 1 2 no_range st = Some (r1, st1)"
    using assms(3) cam by (auto simp: do_download_def split: option.splits)
  have e: "ended ?os r1 st1" by (rule perform_download_end [OF p c]) simp
  have "ended ?os r st'"
    using assms(3) cam p e perform_download_end [of E "dl_msg r1" 1 1 no_range st1 r st' ?os]
    by (auto simp: do_download_def ended_def split: if_splits)
  then show ?thesis by (simp add: ended_def closed_def stream_state_def)
qed

definition demo_request :: download_payload where
  "demo_request = \<lparr>pl_camera = ''FRONT'', pl_start = 100, pl_end = 300, pl_destination = ''/o/x''\<rparr>"

text \<open>A request that is served: one chunk, enough room, and a collector that writes an empty document.\<close>

definition served_chunk :: dr_chunk where
  "served_chunk = \<lparr>dr_epoch = 100, dr_duration = 60000000, dr_gap = False\<rparr>"

definition served_found :: dr_data where
  "served_found = \<lparr>dr_name = ''C'', dr_model = ''M'', dr_compression = 0, dr_chunks = [served_chunk], found_chunks = 1\<rparr>"

definition served_dl :: dl_env where
  "served_dl = demo_dl\<lparr>dl_minfo := Some demo_media, dl_statvfs := \<lambda>_ _. Some (2 ^ 30, 4096),
     retrive_data := \<lambda>_ _ _ _. (1, served_found), mkstemp := \<lambda>_. Some ''/tmp/m''\<rparr>"

definition idle_state :: dl_state where
  "idle_state = \<lparr>dl_files = [''/d/a'' \<mapsto> [1]], open_streams = {#''/var/log/agent''#}, meta_fp = None, temp_hash_fp = None,
     destination_dir = [], metadata_file = [], temphash_file = [], dl_fps = 0, dl_hres = 0, dl_vres = 0, starttimeoffset = 0\<rparr>"

lemma served_room: "free_bytes (2 ^ 30, 4096) = 2 ^ 42" "\<not> too_large (2 ^ 42) 1"
proof -
  have "s64 (2 ^ 30 * 4096) = 2 ^ 42" by (simp add: s64_id)
  moreover have "dbl (2 ^ 42) = 2 ^ 42" using round53_small [of "2 ^ 42"] by (simp add: dbl_def)
  ultimately show "free_bytes (2 ^ 30, 4096) = 2 ^ 42" by (simp add: free_bytes_def)
  show "\<not> too_large (2 ^ 42) 1" using size_check_exact [of "2 ^ 42" 1] by simp
qed

lemma dbl_one: "dbl 1 = 1" "dbl 5 = 5" by code_simp+

lemma served_fields:
  "dl_ds served_dl = demo_ds" "dl_minfo served_dl = Some demo_media" "CAM_NAME_LEN served_dl = 8" "CAM_ARRAY served_dl = 16"
  "HMACKEY_LEN served_dl = 4" "retrive_data served_dl = (\<lambda>_ _ _ _. (1, served_found))"
  "make_filepath served_dl = (\<lambda>_ _ c. (EXIT_SUCCESS, if dr_epoch c = 100 then ''/d/a'' else ''/d/b''))"
  "encrypt_file served_dl = (\<lambda>_ _ fs. (EXIT_SUCCESS, fs))" "shell served_dl = (\<lambda>_ fs. (0, fs))"
  "mkstemp served_dl = (\<lambda>_. Some ''/tmp/m'')" "dl_statvfs served_dl = (\<lambda>_ _. Some (2 ^ 30, 4096))"
  "is_directory served_dl = (\<lambda>_. True)" "copy_room served_dl = 100" "can_fopen served_dl = (\<lambda>_. True)"
  "can_unlink served_dl = (\<lambda>_. True)"
  by (simp_all add: served_dl_def demo_dl_def)

lemma served_metadata:
  assumes "dl_files st1 ''/d/a'' = Some [1]" "temp_hash_fp st1 = Some ''/o/temp_hash''" "destination_dir st1 = ''/o/''"
    "dl_files st1 ''/o/metadata.xml'' \<noteq> None"
  shows "\<exists>st2. insert_chunk_metadata served_dl ''/o/metadata.xml'' served_found 2 ''/o/''
      (st1\<lparr>meta_fp := Some ''/o/metadata.xml''\<rparr>) = Some (DOWNLOAD_OK_FULL, st2) \<and>
    meta_fp st2 = Some ''/o/metadata.xml'' \<and> temp_hash_fp st2 = Some ''/o/temp_hash'' \<and> destination_dir st2 = ''/o/''"
proof -
  let ?mf = "''/o/metadata.xml''" and ?st1 = "st1\<lparr>meta_fp := Some ''/o/metadata.xml''\<rparr>"
  have paths: "chunk_path served_dl 1 served_found c = (if dr_epoch c = 100 then ''/d/a'' else ''/d/b'')" for c
    by (simp add: chunk_path_def served_fields)
  have copy: "copy_path served_dl ''/o/'' ''/d/a'' = ''/o//a''"
    by (simp add: copy_path_def demo_clip_paths served_fields demo_ds_def snprintf_def)
  have sv: "servable served_dl 1 served_found ''/o/'' (dl_files ?st1) served_chunk"
    using assms(1) by (simp add: servable_def paths copy served_chunk_def demo_clip_paths served_fields Let_def)
      (simp add: served_dl_def demo_dl_def)
  have ap: "apart served_dl 1 served_found ''/o/'' ?mf ''/o/temp_hash'' [served_chunk]"
    by (simp add: apart_def target_def paths copy served_chunk_def)
  obtain m where m: "dl_files ?st1 ?mf = Some m" using assms(4) by auto
  have size: "size_pass served_dl 1 served_found (dl_files ?st1) [served_chunk] (stale_size served_dl) 0 = 1"
    using assms(1) by (simp add: served_fields served_chunk_def dbl_one)
  from chunk_loop_first [OF _ ap m] sv obtain st2 where
    "chunk_loop served_dl ?mf ''/o/temp_hash'' 1 served_found ''/o/'' [served_chunk] (start_seg served_chunk) ?st1 =
      Some (DOWNLOAD_OK_FULL, st2)" by auto
  then have c: "insert_chunk_metadata served_dl ?mf served_found 2 ''/o/'' ?st1 = Some (DOWNLOAD_OK_FULL, st2)"
    using assms(2) served_room size
    by (simp add: insert_chunk_metadata_def served_found_def served_fields start_seg_def Let_def)
  have s2: "meta_fp st2 = Some ?mf" "temp_hash_fp st2 = Some ''/o/temp_hash''" "destination_dir st2 = ''/o/''"
    using chunk_metadata_streams [OF c] assms(2,3) by (simp_all add: stream_state_def)
  with c show ?thesis by blast
qed

lemma served_maindata:
  assumes "meta_fp st = Some mf" "temp_hash_fp st = Some hf" "destination_dir st = ''/o/''" "pl_destination msg = ''/o/x''"
  shows "\<exists>msg1 st1. insert_maindata served_dl mf served_found msg 2 1 st = Some (DOWNLOAD_OK_FULL, msg1, st1) \<and>
    destination_dir st1 = ''/o/'' \<and> pl_destination msg1 = ''/o/x''"
proof -
  obtain nm where nm: "maindata_name served_dl served_found = Some nm"
    by (simp add: maindata_name_def served_fields trim_trailing_undersore_def served_found_def)
  let ?st = "write_maindata served_dl mf demo_media served_found msg 1 nm hf (fput mf metadata_segments_end st)"
    and ?msg = "found_period served_found 1 msg"
  have cb: "\<exists>txt. copy_blocks [] False = Some txt" by (simp add: copy_blocks.simps from_bytes_def c_str_def)
  then obtain s1 where s1: "get_metadata_from_drive served_dl mf demo_media ?msg 2 ?st = Some s1"
    by (auto simp: get_metadata_from_drive_def served_fields Let_def)
  have "stream_state (fput mf metadata_end s1) = stream_state ?st"
    using drive_metadata_streams [OF s1] by simp
  moreover have "meta_fp ?st = Some mf" "destination_dir ?st = ''/o/''"
    using assms(1,3) by (simp_all add: write_maindata_def Let_def fclose_def)
  ultimately have "meta_fp (fput mf metadata_end s1) = Some mf" "destination_dir (fput mf metadata_end s1) = ''/o/''"
    by (simp_all add: stream_state_def)
  then have "\<exists>st1. close_metadata served_dl ?msg (fput mf metadata_end s1) = Some (DOWNLOAD_OK_FULL, ?msg, st1) \<and>
      destination_dir st1 = ''/o/''"
    by (simp add: close_metadata_def served_fields Let_def fclose_def)
  moreover have "insert_maindata served_dl mf served_found msg 2 1 st = close_metadata served_dl ?msg (fput mf metadata_end s1)"
    using nm s1 assms(2) by (simp add: insert_maindata_def served_fields served_found_def)
  moreover have "pl_destination ?msg = ''/o/x''" using assms(4) by (simp add: found_period_def Let_def)
  ultimately show ?thesis by metis
qed

lemma served: "\<exists>r st'. do_download served_dl demo_request idle_state = Some (r, st') \<and> dl_rc r = EXIT_SUCCESS"
proof -
  have v: "validate_destination served_dl ''/o/'' 1 idle_state = (EXIT_SUCCESS, idle_state)"
    using served_room(1)
    by (simp add: validate_destination_def served_fields clean_download_dir_def run_def storage_limit_def demo_ds_def
        VIDEO_DOWNLOAD_STAGE_LOCATION_def VIDEO_DOWNLOAD_BACKUP_STAGE_LOCATION_def)
  obtain st1 where i: "init_meta_file served_dl ''/o/'' idle_state = Some (Some ''/o/metadata.xml'', st1)"
    "dl_files st1 ''/d/a'' = Some [1]" "temp_hash_fp st1 = Some ''/o/temp_hash''" "destination_dir st1 = ''/o/''"
    "dl_files st1 ''/o/metadata.xml'' \<noteq> None"
    by (simp add: init_meta_file_def served_fields demo_ds_def META_FILE_def TEMP_HASH_def Let_def idle_state_def
        fopen_new_def fopen_stream_def fput_def)
  let ?mf = "''/o/metadata.xml''"
  obtain cam where cam: "padded_camera served_dl ''FRONT'' = Some cam"
    by (simp add: padded_camera_def add_trailing_underscore_def served_fields Let_def c_str_def)
  let ?msg = "\<lparr>pl_camera = cam, pl_start = 100, pl_end = 300, pl_destination = ''/o/x''\<rparr>"
  obtain st2 where m: "insert_chunk_metadata served_dl ?mf served_found 2 ''/o/'' (st1\<lparr>meta_fp := Some ?mf\<rparr>) =
      Some (DOWNLOAD_OK_FULL, st2)" "meta_fp st2 = Some ?mf" "temp_hash_fp st2 = Some ''/o/temp_hash''" "destination_dir st2 = ''/o/''"
    using served_metadata [OF i(2-5)] by blast
  obtain msg1 st3 where n: "insert_maindata served_dl ?mf served_found ?msg 2 1 st2 = Some (DOWNLOAD_OK_FULL, msg1, st3)"
    "destination_dir st3 = ''/o/''" "pl_destination msg1 = ''/o/x''"
    using served_maindata [OF m(2-4), of ?msg] by auto
  have z: "\<exists>sz st4. zip_files served_dl ''/o/x'' True st3 = Some (DOWNLOAD_OK_FULL, sz, st4)"
    using n(2) by (simp add: zip_files_def served_fields demo_ds_def zip_command_def BUFF_SIZE_BIG_def run_def Let_def)
  have "found_chunks served_found = 1" by (simp add: served_found_def)
  then have "\<exists>r st4. build_download served_dl ?mf ''/o/'' served_found ?msg 2 no_range (st1\<lparr>meta_fp := Some ?mf\<rparr>) = Some (r, st4) \<and>
      dl_rc r = EXIT_SUCCESS"
    using m(1) n(1,3) z by (auto simp: build_download_def)
  moreover have "take 64 ''/o/x'' = ''/o/x''" "dest_directory ''/o/x'' = ''/o/''" by (simp_all add: dest_directory_def)
  ultimately show ?thesis
    using v i(1) cam
    by (auto simp: do_download_def demo_request_def perform_download_def find_and_serve_def start_download_def served_fields
        demo_ds_def Let_def)
qed

text \<open>The witness serves the request; the stream that was open before is the only one open afterwards.\<close>

theorem download_leaves_no_stream_witness:
  "\<exists>r st'. do_download served_dl demo_request idle_state = Some (r, st') \<and> dl_rc r = EXIT_SUCCESS \<and>
    open_streams st' = {#''/var/log/agent''#} \<and> meta_fp st' = None \<and> temp_hash_fp st' = None \<and> dl_status r = DOWNLOAD_OK_FULL"
proof -
  obtain r st' where r: "do_download served_dl demo_request idle_state = Some (r, st')" "dl_rc r = EXIT_SUCCESS"
    using served by blast
  have "meta_fp idle_state = None" "temp_hash_fp idle_state = None" by (simp_all add: idle_state_def)
  from download_leaves_no_stream [OF this r(1)] r show ?thesis by (simp add: idle_state_def)
qed

end
