(* ===== verification/Agent_Control.thy ===== *)
theory Agent_Control
  imports Video_Download
begin

text \<open>
  The control of the recording agent (\<open>ptc_intf.c\<close>): the handlers of the messages it receives, the timer
  that watches cameras and processes, and the start and stop of recorders, of the metadata recorder and of
  the space monitor. What the agent does to the outside (processes, messages, environment) is a list of
  calls in its state, the latest first; what the outside answers (the pid of a new process, the state of a
  child, cameras that report) is a function of that list, so every sequence of answers is covered. A
  spawned child that cannot execute its program goes on as a copy of the agent; only the parent is modelled.
  The arrays indexed by cameras have \<open>MAX_CAMS\<close> elements; they are functions here. \<open>None\<close> is the use of a
  null pointer or a write behind an array. The text for the HTTP server's Lua state, the log and the QNX
  branches are left out.
\<close>

unbundle bit_operations_syntax

section \<open>Data\<close>

datatype re_error =
    NO_ERROR | ERROR_CONNECTION_FAILURE | ERROR_MALLOC_FAILURE | ERROR_HTTPS_NOT_SUPPORTED | ERROR_RECIVED_TIMEOUT
  | ERROR_INVALID_CONTENT | ERROR_NULL_CONTENT | ERROR_PARSE_FAILURE | ERROR_HANDLE_FAILURE | ERROR_HTTP_RESPONSE
  | ERROR_AUTHENTICATION_FAILURE

datatype hb_mode = HB_GOOD_RESPONSE | HB_NO_RESPONSE | HB_INVALID_SEQUENCE | HB_RESTART | HB_QUIT

datatype heartbeat_status = HEARTBEAT_NORMAL | HEARTBEAT_RESTART_REQUIRED

datatype msg_kind =
    K_TIME_INFO | K_LOCOMOTIVE_ID | CAMERA_SETTINGS | CAMERA_RESOLUTION | CAMERA_COMPRESSION | CAMERA_FRAME_RATE
  | K_RECORD_PAUSE | K_READY_STATUS | K_HEARTBEAT | K_REQUEST_STATUS | K_SNAPSHOT | K_SHUTDOWN | K_ACCESSORY_POWER
  | K_CAMERA_PROFILE

datatype child_status = No_Such_Process | No_Change | Exited | Signaled | Stopped | Continued | Other_Status

datatype drive = E_CHM | E_RSSD

record camera_status =
  cs_camera :: string
  cs_serial :: string
  cs_model :: string
  cs_resolution :: u8
  cs_compression :: u8
  cs_frame_rate :: u8
  cs_actual_resolution :: string
  cs_actual_compression :: u8
  cs_actual_framerate :: u8
  cs_no_audio_recording :: bool
  cs_no_chm_recording :: bool
  cs_recording :: bool
  cs_camera_online :: bool
  cs_camera_assignment :: bool

datatype agent_call =
    Spawn "string list option" | Proc proc_call | Poll int
  | Send_Camera_Status camera_status | Send_Recording_Status u32 u32 | Send_Error u16 string
  | Send_Heartbeat u8 heartbeat_status | Send_Download_Ack nat | Send_Download_Status download_status
  | Set_Drive drive bool | Set_Track_Age string string u64 | Setenv string | Update_Config string
  | Update_Camera string string string string | Init_Shared_Memory | Camon_Tx int | Ptc_Stop

record camon_entry =
  ip_addr :: string
  mac_addr :: string
  is_alive :: int

record ctl_env =
  ac_conf :: conf_env
  ac_dl :: dl_env
  msg_version :: "msg_kind \<Rightarrow> int"
  char_is_signed :: bool
  SERIAL_LEN :: nat
  MODEL_LEN :: nat
  RESOLUTION_LEN :: nat
  TIME_SOURCE_LEN :: nat
  FT_SHUTDOWN_CHM :: int
  FT_SHUTDOWN_RSSD :: int
  FT_SHUTDOWN_ALL :: int
  fork :: "agent_call list \<Rightarrow> int"
  waitpid_nohang :: "agent_call list \<Rightarrow> int \<Rightarrow> child_status"
  extended_info :: "agent_call list \<Rightarrow> string \<Rightarrow> (int \<times> int \<times> int \<times> int) option"
  init_shared_memory :: "agent_call list \<Rightarrow> bool"
  camon_rx :: "agent_call list \<Rightarrow> media_info \<Rightarrow> camon_entry list"
  ip_from_mac :: "agent_call list \<Rightarrow> string \<Rightarrow> string option"

record agent =
  conf_loaded :: bool
  media :: media_info
  retry_count :: "nat \<Rightarrow> int"
  rp_ttl :: "nat \<Rightarrow> int"
  camon_ttl :: "nat \<Rightarrow> int"
  shutdownInProcess :: bool
  sm_init :: bool
  pass_flag :: bool
  camon_status :: "camon_entry list"
  startTimer :: int
  g_mode :: hb_mode
  ag_dl :: dl_state
  ag_calls :: "agent_call list"

definition CAMON_TTL :: int where "CAMON_TTL = 6"
definition START_TIMER_LIMIT :: int where "START_TIMER_LIMIT = 10"

definition call :: "agent_call \<Rightarrow> agent \<Rightarrow> agent" where
  "call c s = s\<lparr>ag_calls := c # ag_calls s\<rparr>"

definition the_cam :: "agent \<Rightarrow> nat \<Rightarrow> camdef" where "the_cam s i = cameras (media s) ! i"

definition upd_cam :: "nat \<Rightarrow> (camdef \<Rightarrow> camdef) \<Rightarrow> agent \<Rightarrow> agent" where
  "upd_cam i f s = s\<lparr>media := (media s)\<lparr>cameras := (cameras (media s))[i := f (cameras (media s) ! i)]\<rparr>\<rparr>"

definition upd_rt :: "nat \<Rightarrow> (cam_runtime_s \<Rightarrow> cam_runtime_s) \<Rightarrow> agent \<Rightarrow> agent" where
  "upd_rt i f = upd_cam i (\<lambda>c. c\<lparr>cam_rt := f (cam_rt c)\<rparr>)"

definition cam_pid :: "camdef \<Rightarrow> int" where "cam_pid c = worker_pid (cam_worker c)"

definition set_pid :: "nat \<Rightarrow> int \<Rightarrow> agent \<Rightarrow> agent" where
  "set_pid i p = upd_cam i (\<lambda>c. c\<lparr>cam_worker := (cam_worker c)\<lparr>worker_pid := p\<rparr>\<rparr>)"

definition set_retry :: "nat \<Rightarrow> int \<Rightarrow> agent \<Rightarrow> agent" where
  "set_retry i n s = s\<lparr>retry_count := (retry_count s)(i := n)\<rparr>"

definition set_camon_ttl :: "nat \<Rightarrow> int \<Rightarrow> agent \<Rightarrow> agent" where
  "set_camon_ttl i n s = s\<lparr>camon_ttl := (camon_ttl s)(i := n)\<rparr>"

section \<open>Names\<close>

text \<open>Trailing underscores and blanks of a buffer are cleared, except in its first character.\<close>

definition blank :: "bool \<Rightarrow> char \<Rightarrow> bool" where
  "blank sg c \<longleftrightarrow> c = CHR ''_'' \<or> (of_char c :: nat) \<le> 32 \<or> (sg \<and> 128 \<le> (of_char c :: nat))"

fun trunc_rev :: "bool \<Rightarrow> string \<Rightarrow> string" where
  "trunc_rev sg (c # d # r) = (if blank sg c then trunc_rev sg (d # r) else c # d # r)"
| "trunc_rev sg r = r"

definition trunc_name :: "bool \<Rightarrow> nat \<Rightarrow> string \<Rightarrow> string" where
  "trunc_name sg sz s = c_str (rev (trunc_rev sg (rev (take sz (s @ replicate sz (CHR 0x00))))))"

text \<open>\<open>replace_ip\<close> of \<open>domutil.c\<close>: the host of a URL replaced, up to the port or the path.\<close>

definition replace_ip :: "string \<Rightarrow> string \<Rightarrow> string" where
  "replace_ip str ip =
     (case (case strstr str ''http://'' of Some p \<Rightarrow> Some p | None \<Rightarrow> strstr str ''rtsp://'') of
        None \<Rightarrow> str
      | Some p \<Rightarrow>
          (let start = drop 7 p; pre = take (length str - length p + 7) str;
               rest = (\<lambda>x. dropWhile (\<lambda>c. c \<noteq> x) start)
           in if CHR '':'' \<in> set start then pre @ ip @ rest (CHR '':'')
              else if CHR ''/'' \<in> set start then pre @ ip @ rest (CHR ''/'')
              else str))"

section \<open>Messages to the host\<close>

text \<open>The texts of \<open>send_video_application_error\<close>.\<close>

definition secondary_error :: "int \<Rightarrow> string" where
  "secondary_error e =
     (if e = 0 then ''No Error.''
      else if e = 1 then ''Cannot detect camera, camera offline.''
      else if e = 2 then ''Camera connection bad, camera online but data not received.''
      else if e = 3 then ''Camera connection bad, camera online by RTSP setup failure.''
      else if e = 4 then ''Camera connection bad, camera online but RTSP play failure.''
      else if e = 5 then ''Camera connection bad, too many users connected with the camera.''
      else if e = 6 then ''Camera connection bad, bandwidth is narrow.''
      else if e = 7 then ''Camera connection bad, sequence break detected.''
      else if e = 8 then ''Cannot configure camera, invalid camera credentials.''
      else if e = 9 then ''Cannot configure camera, unable to send data to a camera.''
      else if e = 10 then ''Audio unavailable.''
      else if e = 11 then ''CHM error, CHM not present.''
      else if e = 12 then ''CHM error, unable to record on CHM.''
      else if e = 13 then ''Removable SSD error, removable SSD is not present.''
      else if e = 14 then ''Removable SSD error, unable to record on removable SSD.''
      else if e = 16 then ''Locomotive ID mismatch, locomotive ID mismatch occurred.''
      else if e = 21 then ''Camera Settings Failure, settings of camera not successful.''
      else if e = 17 then ''Camera names mismatch, Camera names does not match.''
      else if e = 18 then ''Camera not available, camera is not available.''
      else if e = 19 then ''Unassigned camera, camera is unassigned.''
      else if e = 23 then ''Frame rate setting failure, frame rate not set successfully.''
      else if e = 25 then ''Resolution setting failure, resolution not set successfully.''
      else if e = 27 then ''Compression setting failure, compression not set successfully.''
      else if e = 29 then ''Audio Setting Failure, Camera audio is not set successfully.''
      else [])"

definition send_video_application_error :: "int \<Rightarrow> agent \<Rightarrow> agent" where
  "send_video_application_error e = call (Send_Error (word_of_int e) (secondary_error e))"

definition eCameraOffline :: int where "eCameraOffline = 1"
definition eCameraNoDataRecvd :: int where "eCameraNoDataRecvd = 2"
definition eCameraSetupFailure :: int where "eCameraSetupFailure = 3"
definition eCameraInvalidCredentials :: int where "eCameraInvalidCredentials = 8"
definition eCameraUnableToSendData :: int where "eCameraUnableToSendData = 9"
definition eCameraNameMismatch :: int where "eCameraNameMismatch = 17"

text \<open>The error of the setting a message is about; other messages have none.\<close>

definition setting_failure :: "msg_kind \<Rightarrow> int option" where
  "setting_failure k =
     (case k of CAMERA_SETTINGS \<Rightarrow> Some 21 | CAMERA_RESOLUTION \<Rightarrow> Some 25 | CAMERA_COMPRESSION \<Rightarrow> Some 27
      | CAMERA_FRAME_RATE \<Rightarrow> Some 23 | _ \<Rightarrow> None)"

text \<open>What is reported before it.\<close>

definition error_cause :: "re_error \<Rightarrow> int list" where
  "error_cause e =
     (case e of ERROR_CONNECTION_FAILURE \<Rightarrow> [eCameraOffline] | ERROR_RECIVED_TIMEOUT \<Rightarrow> [eCameraNoDataRecvd]
      | ERROR_INVALID_CONTENT \<Rightarrow> [eCameraUnableToSendData] | ERROR_NULL_CONTENT \<Rightarrow> [eCameraUnableToSendData]
      | ERROR_PARSE_FAILURE \<Rightarrow> [eCameraUnableToSendData] | ERROR_HTTP_RESPONSE \<Rightarrow> [eCameraSetupFailure]
      | ERROR_AUTHENTICATION_FAILURE \<Rightarrow> [eCameraInvalidCredentials] | _ \<Rightarrow> [])"

definition processConfigError :: "re_error \<Rightarrow> msg_kind \<Rightarrow> agent \<Rightarrow> agent" where
  "processConfigError e k s =
     (if e = NO_ERROR then send_video_application_error 0 s
      else (case setting_failure k of
              None \<Rightarrow> s
            | Some f \<Rightarrow> fold send_video_application_error (error_cause e @ [f]) s))"

text \<open>\<open>send_camera_status\<close>; \<open>recording\<close> is set as soon as any status flag is.\<close>

definition camera_status_of :: "ctl_env \<Rightarrow> agent_call list \<Rightarrow> camdef \<Rightarrow> camera_status" where
  "camera_status_of E calls c =
     (let rt = cam_rt c; fl = recording_status_flags rt;
          actual = (if fl = 0 then None else extended_info E calls (homepage c))
      in \<lparr>cs_camera = trunc_name (char_is_signed E) (CAM_NAME_LEN (ac_dl E)) (cam_name c),
          cs_serial = take (SERIAL_LEN E) (disp_mac c), cs_model = take (MODEL_LEN E) (cam_model c),
          cs_resolution = word_of_int (rt_resolution rt), cs_compression = word_of_int (rt_compression rt),
          cs_frame_rate = word_of_int (rt_frame_rate rt),
          cs_actual_resolution = (case actual of None \<Rightarrow> []
            | Some (resh, resw, _, _) \<Rightarrow> take (RESOLUTION_LEN E) (int_str resw @ ''x'' @ int_str resh)),
          cs_actual_compression = (case actual of None \<Rightarrow> 0 | Some (_, _, compr, _) \<Rightarrow> word_of_int compr),
          cs_actual_framerate = (case actual of None \<Rightarrow> 0 | Some (_, _, _, frate) \<Rightarrow> word_of_int frate),
          cs_no_audio_recording = (fl AND (DO_RECORD_CHM_AUDIO OR DO_RECORD_SSD_AUDIO) = 0),
          cs_no_chm_recording = (fl AND DO_RECORD_CHM_VIDEO = 0),
          cs_recording = (fl \<noteq> 0),
          cs_camera_online = (is_assigned rt \<and> is_online rt \<noteq> 0), cs_camera_assignment = is_assigned rt\<rparr>)"

definition send_camera_status :: "ctl_env \<Rightarrow> nat \<Rightarrow> agent \<Rightarrow> agent" where
  "send_camera_status E i s = call (Send_Camera_Status (camera_status_of E (ag_calls s) (the_cam s i))) s"

text \<open>\<open>see_if_recording\<close>: bit 0 for the CHM, bit 1 for the removable disk, cleared for a camera that lacks.\<close>

fun see_if_recording :: "camdef list \<Rightarrow> u32 \<Rightarrow> u32" where
  "see_if_recording [] rc = rc"
| "see_if_recording (c # cs) rc =
     (let md = recording_mode_flags (cam_rt c); fl = recording_status_flags (cam_rt c);
          rc1 = (if conf_is_essential c \<noteq> [] \<and> md AND DO_RECORD_CHM_VIDEO \<noteq> 0 \<and> fl AND DO_RECORD_CHM_VIDEO = 0
                 then rc AND NOT 1 else rc);
          rc2 = (if md AND DO_RECORD_SSD_VIDEO \<noteq> 0 \<and> fl AND DO_RECORD_SSD_VIDEO = 0 then rc1 AND NOT 2 else rc1)
      in see_if_recording cs rc2)"

definition configured :: "agent \<Rightarrow> camdef list" where
  "configured s = take (n_cameras (media s)) (cameras (media s))"

definition report_recording :: "agent \<Rightarrow> agent" where
  "report_recording s =
     (let status = see_if_recording (configured s) 3 in call (Send_Recording_Status (status AND 1) (status AND 2)) s)"

section \<open>Processes\<close>

definition spawn_process :: "ctl_env \<Rightarrow> string list option \<Rightarrow> agent \<Rightarrow> int \<times> agent" where
  "spawn_process E words s = (fork E (ag_calls s), call (Spawn words) s)"

definition dead :: "child_status \<Rightarrow> bool" where
  "dead st \<longleftrightarrow> st \<in> {No_Such_Process, Exited, Signaled, Stopped}"

definition check_worker_status :: "ctl_env \<Rightarrow> int \<Rightarrow> agent \<Rightarrow> bool \<times> agent" where
  "check_worker_status E pid s = (dead (waitpid_nohang E (ag_calls s) pid), call (Poll pid) s)"

definition set_monitor_pid :: "int \<Rightarrow> agent \<Rightarrow> agent" where
  "set_monitor_pid p s = s\<lparr>media := (media s)\<lparr>spacemonitor := (spacemonitor (media s))\<lparr>worker_pid := p\<rparr>\<rparr>\<rparr>"

definition start_space_monitor :: "ctl_env \<Rightarrow> agent \<Rightarrow> agent" where
  "start_space_monitor E s =
     (case spawn_process E (lwe_words (spacemonitor (media s))) s of
        (pid, s1) \<Rightarrow> set_monitor_pid (if pid \<noteq> - 1 then pid else 0) s1)"

definition handle_space_monitor :: "ctl_env \<Rightarrow> agent \<Rightarrow> agent" where
  "handle_space_monitor E s =
     (let pid = worker_pid (spacemonitor (media s))
      in if n_cams_recording (media s) \<le> 0 then s
         else if pid \<le> 0 then start_space_monitor E s
         else (case check_worker_status E pid s of
                 (died, s1) \<Rightarrow>
                   if died then start_space_monitor E (set_monitor_pid 0 (call (Proc (Waitpid pid)) s1)) else s1))"

definition stop_space_monitor :: "agent \<Rightarrow> agent" where
  "stop_space_monitor s =
     (let pid = worker_pid (spacemonitor (media s))
      in if pid \<noteq> 0 then set_monitor_pid 0 (call (Proc (Waitpid pid)) (call (Proc (Kill pid SIGKILL)) s)) else s)"

definition set_metarec_pid :: "int \<Rightarrow> agent \<Rightarrow> agent" where
  "set_metarec_pid p s = s\<lparr>media := (media s)\<lparr>metaworker := (metaworker (media s))\<lparr>worker_pid := p\<rparr>\<rparr>\<rparr>"

definition start_metarec :: "ctl_env \<Rightarrow> agent \<Rightarrow> agent" where
  "start_metarec E s =
     (case raconf_prepare_for_metarecording (ac_conf E) (media s) of
        (m, calls) \<Rightarrow>
          (case spawn_process E (lwe_words (metaworker m)) (fold (\<lambda>c. call (Proc c)) calls (s\<lparr>media := m\<rparr>)) of
             (pid, s1) \<Rightarrow> set_metarec_pid (if pid \<noteq> - 1 then pid else 0) s1))"

definition handle_metarec :: "ctl_env \<Rightarrow> agent \<Rightarrow> agent" where
  "handle_metarec E s =
     (let pid = worker_pid (metaworker (media s))
      in if \<not> (is_chm_ready (media s) \<or> is_rssd_ready (media s)) then s
         else if pid \<le> 0 then start_metarec E s
         else (case check_worker_status E pid s of
                 (died, s1) \<Rightarrow>
                   if died then start_metarec E (set_metarec_pid 0 (call (Proc (Waitpid pid)) s1)) else s1))"

section \<open>Recording from a camera\<close>

definition all_recording_flags :: u32 where
  "all_recording_flags = (DO_RECORD_CHM_VIDEO OR DO_RECORD_CHM_AUDIO) OR (DO_RECORD_SSD_VIDEO OR DO_RECORD_SSD_AUDIO)"

text \<open>The status flags of a running recorder with the given mode.\<close>

definition status_of_mode :: "u32 \<Rightarrow> u32" where
  "status_of_mode md =
     (if md AND DO_RECORD_CHM_VIDEO \<noteq> 0
      then DO_RECORD_CHM_VIDEO OR (if md AND DO_RECORD_CHM_AUDIO \<noteq> 0 then DO_RECORD_CHM_AUDIO else 0) else 0) OR
     (if md AND DO_RECORD_SSD_VIDEO \<noteq> 0
      then DO_RECORD_SSD_VIDEO OR (if md AND DO_RECORD_SSD_AUDIO \<noteq> 0 then DO_RECORD_SSD_AUDIO else 0) else 0)"

definition clear_recording :: "u32 \<Rightarrow> u32" where
  "clear_recording fl =
     (fl AND NOT (DO_RECORD_CHM_VIDEO OR DO_RECORD_CHM_AUDIO)) AND NOT (DO_RECORD_SSD_VIDEO OR DO_RECORD_SSD_AUDIO)"

definition camera_recording_just_stopped :: "ctl_env \<Rightarrow> nat \<Rightarrow> agent \<Rightarrow> agent" where
  "camera_recording_just_stopped E i s =
     (let s1 = upd_rt i (\<lambda>rt. rt\<lparr>recording_status_flags := clear_recording (recording_status_flags rt)\<rparr>) (set_pid i 0 s);
          s2 = report_recording (send_camera_status E i s1);
          s3 = (if n_cams_recording (media s2) > 0
                then s2\<lparr>media := (media s2)\<lparr>n_cams_recording := n_cams_recording (media s2) - 1\<rparr>\<rparr> else s2)
      in handle_space_monitor E (handle_metarec E s3))"

text \<open>A camera whose files are groomed by age has the space monitor restarted.\<close>

definition grooming :: "camdef \<Rightarrow> bool" where "grooming c \<longleftrightarrow> max_age c \<noteq> [] \<and> 0 < atoi (max_age c)"

definition regroom :: "nat \<Rightarrow> agent \<Rightarrow> agent" where
  "regroom i s = (if grooming (the_cam s i) then stop_space_monitor s else s)"

definition clear_words :: "nat \<Rightarrow> agent \<Rightarrow> agent" where
  "clear_words i = upd_cam i (\<lambda>c. c\<lparr>cam_worker := (cam_worker c)\<lparr>lwe_words := None\<rparr>\<rparr>)"

definition stop_recording_process :: "ctl_env \<Rightarrow> nat \<Rightarrow> agent \<Rightarrow> exit_code \<times> agent" where
  "stop_recording_process E i s =
     (let pid = cam_pid (the_cam s i)
      in if pid = 0 then (EXIT_FAILURE, s)
         else (EXIT_SUCCESS,
               regroom i (clear_words i (set_pid i 0 (camera_recording_just_stopped E i
                 (call (Proc (Waitpid pid)) (call (Proc (Kill pid SIGQUIT)) s)))))))"

text \<open>The mode a camera is started with: the disk it is essential for, the removable disk, and audio.\<close>

definition commanded_mode :: "camdef \<Rightarrow> u32" where
  "commanded_mode c =
     (let audio = str2bool (Some (do_audio c)); md = recording_mode_flags (cam_rt c);
          m1 = (if rt_is_essential (cam_rt c) \<noteq> 0
                then (md OR DO_RECORD_CHM_VIDEO) OR (if audio then DO_RECORD_CHM_AUDIO else 0)
                else md OR DONT_USE_CHM)
      in (m1 OR DO_RECORD_SSD_VIDEO) OR (if audio then DO_RECORD_SSD_AUDIO else 0))"

definition camera_id :: "ctl_env \<Rightarrow> nat \<Rightarrow> agent \<Rightarrow> nat" where
  "camera_id E i s =
     (case find_index (\<lambda>p. same_name (CAM_NAME_LEN (ac_dl E)) (cam_name (the_cam s i)) (cam_name p)) (configured s) of
        None \<Rightarrow> 0 | Some k \<Rightarrow> k)"

definition set_mode :: "nat \<Rightarrow> u32 \<Rightarrow> agent \<Rightarrow> agent" where
  "set_mode i md = upd_rt i (\<lambda>rt. rt\<lparr>recording_mode_flags := md\<rparr>)"

definition spawn_recorder :: "ctl_env \<Rightarrow> nat \<Rightarrow> nat \<Rightarrow> agent \<Rightarrow> exit_code \<times> agent" where
  "spawn_recorder E i cid s =
     (case spawn_process E (lwe_words (cam_worker (the_cam s i))) s of
        (pid, s1) \<Rightarrow>
          if pid = - 1 then (EXIT_FAILURE, set_retry cid (retry_count s1 cid + 1) s1)
          else
            (let s2 = upd_rt i (\<lambda>rt. rt\<lparr>recording_status_flags := status_of_mode (recording_mode_flags rt)\<rparr>)
                        (set_pid i pid (set_retry cid 0 s1));
                 s3 = s2\<lparr>media := (media s2)\<lparr>n_cams_recording := n_cams_recording (media s2) + 1\<rparr>\<rparr>
             in (EXIT_SUCCESS, regroom i (report_recording (send_camera_status E i s3)))))"

definition prepare_recorder :: "ctl_env \<Rightarrow> nat \<Rightarrow> agent \<Rightarrow> agent" where
  "prepare_recorder E i s = upd_cam i (\<lambda>c. snd (raconf_prepare_for_recording (ac_conf E) (media s) c)) s"

text \<open>The part of \<open>start_recording_process\<close> behind its checks.\<close>

definition launch_recorder :: "ctl_env \<Rightarrow> nat \<Rightarrow> nat \<Rightarrow> agent \<Rightarrow> exit_code \<times> agent" where
  "launch_recorder E i cid s =
     (let s1 = prepare_recorder E i s;
          (rc, s2) = (if is_assigned (cam_rt (the_cam s1 i)) \<and> cam_pid (the_cam s1 i) \<in> {0, - 1}
                      then spawn_recorder E i cid s1 else (EXIT_SUCCESS, s1))
      in (rc, handle_space_monitor E (handle_metarec E s2)))"

definition start_recording_process :: "ctl_env \<Rightarrow> nat \<Rightarrow> agent \<Rightarrow> exit_code \<times> agent" where
  "start_recording_process E i s =
     (let cid = camera_id E i s; md = commanded_mode (the_cam s i); s1 = set_mode i md s
      in if retry_count s cid > 2 then (EXIT_FAILURE, upd_rt i (\<lambda>rt. rt\<lparr>is_assigned := False\<rparr>) s)
         else if md AND (DO_RECORD_CHM_VIDEO OR DO_RECORD_SSD_VIDEO) = 0 then (EXIT_FAILURE, set_retry cid 0 s1)
         else if md AND DO_RECORD_CHM_VIDEO \<noteq> 0 \<and> \<not> is_chm_ready (media s) then (EXIT_FAILURE, set_retry cid 0 s1)
         else launch_recorder E i cid
                (if md AND DO_RECORD_SSD_VIDEO \<noteq> 0 \<and> \<not> is_rssd_ready (media s)
                 then set_mode i (md AND NOT (DO_RECORD_SSD_VIDEO OR DO_RECORD_SSD_AUDIO)) s1 else s1))"

section \<open>Commands about a camera\<close>

definition find_cam :: "agent \<Rightarrow> string \<Rightarrow> nat option" where
  "find_cam s nm = (if conf_loaded s then raconf_find_camera (Some (media s)) (Some nm) else None)"

definition name_of :: "ctl_env \<Rightarrow> string \<Rightarrow> string" where
  "name_of E nm = take (CAM_NAME_LEN (ac_dl E)) (c_str nm)"

definition is_recording :: "camdef \<Rightarrow> bool" where
  "is_recording c \<longleftrightarrow> recording_status_flags (cam_rt c) AND (DO_RECORD_CHM_VIDEO OR DO_RECORD_SSD_VIDEO) \<noteq> 0"

definition shared_memory :: "ctl_env \<Rightarrow> agent \<Rightarrow> agent" where
  "shared_memory E s =
     (if sm_init s then s
      else call Init_Shared_Memory (s\<lparr>sm_init := init_shared_memory E (ag_calls s)\<rparr>))"

definition set_paused :: "nat \<Rightarrow> bool \<Rightarrow> agent \<Rightarrow> agent" where
  "set_paused i b = upd_rt i (\<lambda>rt. rt\<lparr>commanded_paused := b\<rparr>)"

definition record_or_pause :: "ctl_env \<Rightarrow> nat \<Rightarrow> bool \<Rightarrow> agent \<Rightarrow> exit_code \<times> agent" where
  "record_or_pause E i commanded s =
     (let now = is_recording (the_cam s i)
      in if now = commanded then (EXIT_SUCCESS, s)
         else if now then stop_recording_process E i (set_paused i True (set_mode i 0 s))
         else if is_chm_ready (media s) \<or> is_rssd_ready (media s)
              then start_recording_process E i (set_paused i False s)
         else (EXIT_FAILURE, s))"

definition handle_camera_record_pause :: "ctl_env \<Rightarrow> string \<Rightarrow> bool \<Rightarrow> agent \<Rightarrow> exit_code \<times> agent" where
  "handle_camera_record_pause E nm commanded s =
     (if shutdownInProcess s then (EXIT_FAILURE, s)
      else
        (let s1 = shared_memory E s
         in if \<not> conf_loaded s1 then (EXIT_FAILURE, s1)
            else (case find_cam s1 (name_of E nm) of
                    None \<Rightarrow> (EXIT_FAILURE, s1)
                  | Some i \<Rightarrow>
                      if is_online (cam_rt (the_cam s1 i)) \<noteq> 0 \<and> is_assigned (cam_rt (the_cam s1 i))
                      then record_or_pause E i commanded s1
                      else (EXIT_FAILURE, send_video_application_error eCameraOffline s1))))"

definition reset_camera_stream :: "ctl_env \<Rightarrow> string \<Rightarrow> agent \<Rightarrow> exit_code \<times> agent" where
  "reset_camera_stream E nm s =
     (case handle_camera_record_pause E nm False s of
        (EXIT_FAILURE, s1) \<Rightarrow> (EXIT_FAILURE, s1)
      | (EXIT_SUCCESS, s1) \<Rightarrow> handle_camera_record_pause E nm True s1)"

text \<open>A changed setting restarts the stream.\<close>

definition change_setting :: "ctl_env \<Rightarrow> msg_kind \<Rightarrow> string \<Rightarrow> (cam_runtime_s \<Rightarrow> cam_runtime_s) \<Rightarrow> agent \<Rightarrow> agent" where
  "change_setting E k camera f s =
     (case find_cam s (name_of E camera) of
        None \<Rightarrow> s
      | Some i \<Rightarrow>
          (case reset_camera_stream E (name_of E camera) (upd_rt i f s) of
             (EXIT_FAILURE, s1) \<Rightarrow> processConfigError ERROR_HANDLE_FAILURE k s1
           | (EXIT_SUCCESS, s1) \<Rightarrow> s1))"

section \<open>Message handlers\<close>

text \<open>A message: whether the library's check of the payload let it pass, and the version in its header.\<close>

record msg_head =
  verified :: bool
  head_version :: int

definition accepted :: "ctl_env \<Rightarrow> msg_kind \<Rightarrow> msg_head \<Rightarrow> bool" where
  "accepted E k h \<longleftrightarrow> verified h \<and> head_version h = msg_version E k"

record cam_settings =
  st_camera :: string
  st_resolution :: int
  st_compression :: int
  st_frame_rate :: int
  st_grooming_duration :: int
  st_no_audio :: bool
  st_no_chm :: bool

text \<open>The environment variable that recorders and downloads read the time offset from.\<close>

definition time_info_variable :: "ctl_env \<Rightarrow> u32 \<Rightarrow> int \<Rightarrow> string \<Rightarrow> string" where
  "time_info_variable E system_time time_offset time_source =
     ''timestamp='' @ nat_str (unat system_time) @ '', time_offset='' @ int_str time_offset @ '', src='' @
     [CHR 0x27] @ take (TIME_SOURCE_LEN E) time_source @ [CHR 0x27]"

definition msgcb_time_info :: "ctl_env \<Rightarrow> msg_head \<Rightarrow> u32 \<Rightarrow> int \<Rightarrow> string \<Rightarrow> agent \<Rightarrow> agent" where
  "msgcb_time_info E h system_time time_offset time_source s =
     (if accepted E K_TIME_INFO h then call (Setenv (time_info_variable E system_time time_offset time_source)) s else s)"

definition loco_id_of :: "ctl_env \<Rightarrow> string \<Rightarrow> string" where
  "loco_id_of E nm =
     (let k = min (length nm) (MAX_LOCO_ID_SIZE (ac_conf E))
      in take k nm @ replicate (MAX_LOCO_ID_SIZE (ac_conf E) - k) (CHR ''_''))"

definition agent_locomotive_id :: "ctl_env \<Rightarrow> msg_head \<Rightarrow> string \<Rightarrow> agent \<Rightarrow> agent option" where
  "agent_locomotive_id E h nm s =
     (if \<not> accepted E K_LOCOMOTIVE_ID h then Some s
      else if \<not> conf_loaded s then None
      else Some (call (Update_Config (loco_id_of E nm)) (s\<lparr>media := (media s)\<lparr>rt_loco_id := loco_id_of E nm\<rparr>\<rparr>)))"

text \<open>The two permissions a settings message can change.\<close>

definition permit_audio :: "bool \<Rightarrow> u32 \<Rightarrow> u32" where
  "permit_audio no_audio md =
     (let bits = DO_RECORD_CHM_AUDIO OR DO_RECORD_SSD_AUDIO
      in if no_audio = (md AND bits = 0) then md else if no_audio then md AND NOT bits else md OR bits)"

definition permit_chm :: "bool \<Rightarrow> u32 \<Rightarrow> u32" where
  "permit_chm no_chm md =
     (let bits = DO_RECORD_CHM_VIDEO OR DO_RECORD_CHM_AUDIO
      in if no_chm = (md AND DO_RECORD_CHM_VIDEO = 0) then md else if no_chm then md AND NOT bits else md OR bits)"

definition track_age_usecs :: "int \<Rightarrow> u64" where
  "track_age_usecs hours = word_of_int hours * 60 * 60 * 1000000"

definition msgcb_camera_settings :: "ctl_env \<Rightarrow> msg_head \<Rightarrow> cam_settings \<Rightarrow> agent \<Rightarrow> agent" where
  "msgcb_camera_settings E h d s =
     (if \<not> accepted E CAMERA_SETTINGS h \<or> \<not> conf_loaded s then s
      else (case find_cam s (name_of E (st_camera d)) of
              None \<Rightarrow> send_video_application_error eCameraNameMismatch s
            | Some i \<Rightarrow>
                (let s1 = upd_rt i (\<lambda>rt. rt\<lparr>rt_resolution := st_resolution d, rt_compression := st_compression d,
                             rt_frame_rate := st_frame_rate d\<rparr>) s;
                     age = st_grooming_duration d;
                     s2 = (if head_version h > 2 \<and> rt_max_age (cam_rt (the_cam s1 i)) \<noteq> age
                           then call (Set_Track_Age (name_of E (st_camera d)) (disp_mac (the_cam s1 i)) (track_age_usecs age))
                                  (upd_rt i (\<lambda>rt. rt\<lparr>rt_max_age := age\<rparr>) s1) else s1)
                 in upd_rt i (\<lambda>rt. rt\<lparr>recording_mode_flags :=
                      permit_chm (st_no_chm d) (permit_audio (st_no_audio d) (recording_mode_flags rt))\<rparr>) s2)))"

definition msgcb_camera_resolution :: "ctl_env \<Rightarrow> msg_head \<Rightarrow> string \<Rightarrow> int \<Rightarrow> agent \<Rightarrow> agent" where
  "msgcb_camera_resolution E h camera v s =
     (if accepted E CAMERA_RESOLUTION h
      then change_setting E CAMERA_RESOLUTION camera (\<lambda>rt. rt\<lparr>rt_resolution := v\<rparr>) s else s)"

definition msgcb_camera_compression :: "ctl_env \<Rightarrow> msg_head \<Rightarrow> string \<Rightarrow> int \<Rightarrow> agent \<Rightarrow> agent" where
  "msgcb_camera_compression E h camera v s =
     (if accepted E CAMERA_COMPRESSION h
      then change_setting E CAMERA_COMPRESSION camera (\<lambda>rt. rt\<lparr>rt_compression := v\<rparr>) s else s)"

definition msgcb_camera_frame_rate :: "ctl_env \<Rightarrow> msg_head \<Rightarrow> string \<Rightarrow> int \<Rightarrow> agent \<Rightarrow> agent" where
  "msgcb_camera_frame_rate E h camera v s =
     (if accepted E CAMERA_FRAME_RATE h
      then change_setting E CAMERA_FRAME_RATE camera (\<lambda>rt. rt\<lparr>rt_frame_rate := v\<rparr>) s else s)"

definition msgcb_camera_record_pause :: "ctl_env \<Rightarrow> msg_head \<Rightarrow> string \<Rightarrow> bool \<Rightarrow> agent \<Rightarrow> agent" where
  "msgcb_camera_record_pause E h camera commanded s =
     (if accepted E K_RECORD_PAUSE h then snd (handle_camera_record_pause E camera commanded s) else s)"

text \<open>A camera after the drives have changed: its mode, and its status when it has a recorder.\<close>

definition ready_mode :: "bool \<Rightarrow> bool \<Rightarrow> bool \<Rightarrow> u32" where
  "ready_mode chm rssd audio =
     (if chm then DO_RECORD_CHM_VIDEO OR (if audio then DO_RECORD_CHM_AUDIO else 0) else 0) OR
     (if rssd then DO_RECORD_SSD_VIDEO OR (if audio then DO_RECORD_SSD_AUDIO else 0) else 0)"

definition ready_camera :: "bool \<Rightarrow> bool \<Rightarrow> camdef \<Rightarrow> camdef" where
  "ready_camera chm rssd c =
     (let rt = cam_rt c;
          md = (if is_online rt \<noteq> 0 \<and> \<not> commanded_paused rt then ready_mode chm rssd (str2bool (Some (do_audio c)))
                else recording_mode_flags rt)
      in c\<lparr>cam_rt := rt\<lparr>recording_mode_flags := md,
             recording_status_flags := (if cam_pid c > 0 then status_of_mode md else recording_status_flags rt)\<rparr>\<rparr>)"

definition each_configured :: "(camdef \<Rightarrow> camdef) \<Rightarrow> agent \<Rightarrow> agent" where
  "each_configured f s =
     s\<lparr>media := (media s)\<lparr>cameras := map f (configured s) @ drop (n_cameras (media s)) (cameras (media s))\<rparr>\<rparr>"

definition msgcb_ready_status :: "ctl_env \<Rightarrow> msg_head \<Rightarrow> bool \<Rightarrow> bool \<Rightarrow> agent \<Rightarrow> agent option" where
  "msgcb_ready_status E h chm rssd s =
     (if \<not> accepted E K_READY_STATUS h then Some s
      else if \<not> conf_loaded s then None
      else Some (report_recording (each_configured (ready_camera chm rssd)
             (call (Set_Drive E_RSSD rssd) (call (Set_Drive E_CHM chm)
               (s\<lparr>media := (media s)\<lparr>is_chm_ready := chm, is_rssd_ready := rssd\<rparr>\<rparr>))))))"

definition shutdown_camera :: "bool \<Rightarrow> bool \<Rightarrow> camdef \<Rightarrow> camdef" where
  "shutdown_camera chm rssd c =
     (let lost = (if chm then 0 else DO_RECORD_CHM_VIDEO OR DO_RECORD_CHM_AUDIO) OR
                 (if rssd then 0 else DO_RECORD_SSD_VIDEO OR DO_RECORD_SSD_AUDIO)
      in c\<lparr>cam_rt := (cam_rt c)\<lparr>recording_mode_flags := recording_mode_flags (cam_rt c) AND NOT lost,
             recording_status_flags := recording_status_flags (cam_rt c) AND NOT lost\<rparr>\<rparr>)"

definition lose_chm :: "agent \<Rightarrow> agent" where
  "lose_chm s = call (Set_Drive E_CHM False) (s\<lparr>media := (media s)\<lparr>is_chm_ready := False\<rparr>\<rparr>)"

definition lose_rssd :: "agent \<Rightarrow> agent" where
  "lose_rssd s = call (Set_Drive E_RSSD False) (s\<lparr>media := (media s)\<lparr>is_rssd_ready := False\<rparr>\<rparr>)"

definition msgcb_shutdown_rec :: "ctl_env \<Rightarrow> msg_head \<Rightarrow> int \<Rightarrow> agent \<Rightarrow> agent" where
  "msgcb_shutdown_rec E h function_type s =
     (if \<not> accepted E K_SHUTDOWN h \<or> \<not> conf_loaded s then s
      else
        (let upd = (\<lambda>s1. each_configured (shutdown_camera (is_chm_ready (media s1)) (is_rssd_ready (media s1))) s1)
         in if function_type = FT_SHUTDOWN_CHM E then upd (lose_chm s)
            else if function_type = FT_SHUTDOWN_RSSD E then upd (lose_rssd s)
            else if function_type = FT_SHUTDOWN_ALL E then upd ((lose_rssd (lose_chm s))\<lparr>shutdownInProcess := True\<rparr>)
            else s))"

definition msgcb_heartbeat_request :: "ctl_env \<Rightarrow> msg_head \<Rightarrow> u8 \<Rightarrow> agent \<Rightarrow> agent" where
  "msgcb_heartbeat_request E h sq s =
     (if \<not> accepted E K_HEARTBEAT h then s
      else (case g_mode s of
              HB_GOOD_RESPONSE \<Rightarrow> call (Send_Heartbeat sq HEARTBEAT_NORMAL) s
            | HB_INVALID_SEQUENCE \<Rightarrow> call (Send_Heartbeat (NOT sq) HEARTBEAT_NORMAL) s
            | HB_RESTART \<Rightarrow> call (Send_Heartbeat sq HEARTBEAT_RESTART_REQUIRED) s
            | _ \<Rightarrow> s))"

definition msgcb_request_camera_status :: "ctl_env \<Rightarrow> msg_head \<Rightarrow> agent \<Rightarrow> agent" where
  "msgcb_request_camera_status E h s =
     (if accepted E K_REQUEST_STATUS h \<and> conf_loaded s then fold (send_camera_status E) [0..<n_cameras (media s)] s else s)"

definition download_env :: "ctl_env \<Rightarrow> agent \<Rightarrow> dl_env" where
  "download_env E s = (ac_dl E)\<lparr>dl_minfo := (if conf_loaded s then Some (media s) else None)\<rparr>"

definition answer_download :: "nat \<Rightarrow> download_status \<Rightarrow> agent \<Rightarrow> agent" where
  "answer_download sz status s = call (Send_Download_Status status) (call (Send_Download_Ack sz) s)"

definition msgcb_download :: "ctl_env \<Rightarrow> bool \<Rightarrow> download_payload \<Rightarrow> agent \<Rightarrow> agent option" where
  "msgcb_download E ok msg s =
     (if \<not> ok then Some s
      else map_option (\<lambda>(r, d). answer_download (dl_size r) (dl_status r) (s\<lparr>ag_dl := d\<rparr>))
             (do_download (download_env E s) msg (ag_dl s)))"

definition msgcb_camera_snapshot :: "ctl_env \<Rightarrow> msg_head \<Rightarrow> string \<Rightarrow> string \<Rightarrow> agent \<Rightarrow> agent option" where
  "msgcb_camera_snapshot E h camera destination s =
     (if \<not> accepted E K_SNAPSHOT h then Some s
      else map_option (\<lambda>((rc, sz, status), d). answer_download sz status (s\<lparr>ag_dl := d\<rparr>))
             (get_snapshot (download_env E s) camera destination (ag_dl s)))"

section \<open>Watching the cameras\<close>

definition lose_camera :: "ctl_env \<Rightarrow> nat \<Rightarrow> agent \<Rightarrow> agent" where
  "lose_camera E i s =
     (let c = the_cam s i; pid = cam_pid c
      in if recording_status_flags (cam_rt c) AND all_recording_flags = 0 then s
         else if pid > 0 then
           (case check_worker_status E pid s of
              (died, s1) \<Rightarrow> if died then camera_recording_just_stopped E i (set_pid i 0 (call (Proc (Waitpid pid)) s1))
                           else snd (stop_recording_process E i s1))
         else clear_words i (upd_rt i (\<lambda>rt. rt\<lparr>recording_status_flags := clear_recording (recording_status_flags rt)\<rparr>) s))"

definition regain_camera :: "ctl_env \<Rightarrow> nat \<Rightarrow> agent \<Rightarrow> agent" where
  "regain_camera E i s =
     (let c = the_cam s i; pid = cam_pid c
      in if \<not> is_assigned (cam_rt c) \<or> recording_mode_flags (cam_rt c) = 0 then s
         else if pid > 0 then
           (case check_worker_status E pid s of
              (died, s1) \<Rightarrow> if died then snd (start_recording_process E i s1) else set_camon_ttl i (10 * CAMON_TTL) s1)
         else if camon_ttl s i - 1 \<ge> 0 then set_camon_ttl i (10 * CAMON_TTL) s
         else snd (start_recording_process E i (set_camon_ttl i (camon_ttl s i - 1) s)))"

definition settle_online :: "ctl_env \<Rightarrow> nat \<Rightarrow> int \<Rightarrow> agent \<Rightarrow> int \<times> agent" where
  "settle_online E i alive s =
     (if is_online (cam_rt (the_cam s i)) = alive then (0, s)
      else (alive, set_camon_ttl i CAMON_TTL (send_camera_status E i (upd_rt i (\<lambda>rt. rt\<lparr>is_online := alive\<rparr>) s))))"

definition reflect_camera_online_status :: "ctl_env \<Rightarrow> nat \<Rightarrow> int \<Rightarrow> agent \<Rightarrow> int \<times> agent" where
  "reflect_camera_online_status E i alive s =
     (let s1 = (if alive \<noteq> 0 then set_camon_ttl i CAMON_TTL s else s)
      in if is_online (cam_rt (the_cam s1 i)) = alive then (0, s1)
         else if alive = 0 \<and> camon_ttl s1 i > 1 then (1, set_camon_ttl i (camon_ttl s1 i - 1) s1)
         else settle_online E i alive (if alive = 0 then lose_camera E i s1 else regain_camera E i s1))"

text \<open>A camera that has been silent for long is looked up under its hardware address.\<close>

definition relocate_camera :: "ctl_env \<Rightarrow> nat \<Rightarrow> agent \<Rightarrow> agent" where
  "relocate_camera E i s =
     (let n = startTimer s + 1; s1 = s\<lparr>startTimer := min n START_TIMER_LIMIT\<rparr>
      in if n < START_TIMER_LIMIT then s1
         else (case ip_from_mac E (ag_calls s1) (disp_mac (the_cam s1 i)) of
                 None \<Rightarrow> s1
               | Some ip \<Rightarrow>
                   (let s2 = upd_cam i (\<lambda>c. c\<lparr>homepage := replace_ip (homepage c) ip, stream_url := replace_ip (stream_url c) ip,
                                snapshot_url := replace_ip (snapshot_url c) ip\<rparr>) (s1\<lparr>startTimer := 0\<rparr>);
                        c = the_cam s2 i
                    in call (Update_Camera (trunc_name (char_is_signed E) (CAM_NAME_LEN (ac_dl E)) (cam_name c))
                               (homepage c) (snapshot_url c) (stream_url c)) s2)))"

definition reported :: "ctl_env \<Rightarrow> camdef \<Rightarrow> camon_entry list \<Rightarrow> nat option" where
  "reported E c es =
     find_index (\<lambda>e. strstr (homepage c) (ip_addr e) \<noteq> None \<and>
       same_name (CAM_NAME_LEN (ac_dl E)) (disp_mac c) (mac_addr e)) es"

definition reflect_camera :: "ctl_env \<Rightarrow> nat \<Rightarrow> agent \<Rightarrow> agent option" where
  "reflect_camera E i s =
     (let es = camon_status s
      in if \<not> is_assigned (cam_rt (the_cam s i)) then Some s
         else (case reported E (the_cam s i) es of
                 Some j \<Rightarrow>
                   (case reflect_camera_online_status E i (is_alive (es ! j)) s of
                      (r, s1) \<Rightarrow> Some (s1\<lparr>camon_status := es[j := (es ! j)\<lparr>is_alive := r\<rparr>]\<rparr>))
               | None \<Rightarrow>
                   if length es \<ge> MAX_CAMS then None
                   else (case reflect_camera_online_status E i 0 s of
                           (r, s1) \<Rightarrow> Some (if r = 0 then relocate_camera E i s1 else s1))))"

definition reflect_cameras :: "ctl_env \<Rightarrow> agent \<Rightarrow> agent option" where
  "reflect_cameras E s =
     (if pass_flag s
      then Some (s\<lparr>camon_status := take MAX_CAMS (camon_rx E (ag_calls s) (media s)), pass_flag := False\<rparr>)
      else map_option (\<lambda>s1. s1\<lparr>camon_status := []\<rparr>)
             (foldM (reflect_camera E) [0..<n_cameras (media s)]
               ((call (Camon_Tx (camon_sock (media s))) s)\<lparr>pass_flag := True\<rparr>)))"

text \<open>The recorder of a camera that should record: a dead one is cleaned up, a missing one started in time.\<close>

definition watch_camera :: "ctl_env \<Rightarrow> nat \<Rightarrow> agent \<Rightarrow> agent" where
  "watch_camera E i s =
     (let c = the_cam s i; pid = cam_pid c
      in if recording_mode_flags (cam_rt c) = 0 then s
         else if pid \<noteq> 0 then
           (case check_worker_status E pid (s\<lparr>rp_ttl := (rp_ttl s)(i := 0)\<rparr>) of
              (died, s1) \<Rightarrow>
                if died then camera_recording_just_stopped E i (upd_rt i (\<lambda>rt. rt\<lparr>is_online := 0\<rparr>)
                               (set_pid i 0 (call (Proc (Waitpid pid)) s1)))
                else s1)
         else if is_online (cam_rt c) \<noteq> 0 \<and> is_assigned (cam_rt c) then
           (if rp_ttl s i > 2 * CAMON_TTL
            then snd (start_recording_process E i (s\<lparr>rp_ttl := (rp_ttl s)(i := 0)\<rparr>))
            else s\<lparr>rp_ttl := (rp_ttl s)(i := rp_ttl s i + 1)\<rparr>)
         else s)"

definition one_hz_timer :: "ctl_env \<Rightarrow> agent \<Rightarrow> agent option" where
  "one_hz_timer E s =
     (if \<not> conf_loaded s then Some s
      else map_option (\<lambda>s1. handle_space_monitor E (handle_metarec E
             (fold (watch_camera E) [0..<n_cameras (media s)] s1))) (reflect_cameras E s))"

definition ten_hz_timer :: "hb_mode \<Rightarrow> agent \<Rightarrow> agent" where
  "ten_hz_timer m s = (if m = HB_QUIT then call Ptc_Stop (s\<lparr>g_mode := m\<rparr>) else s\<lparr>g_mode := m\<rparr>)"

section \<open>The agent\<close>

datatype agent_input =
    Time_Info msg_head u32 int string | Loco_Id msg_head string | Settings msg_head cam_settings
  | Resolution msg_head string int | Compression msg_head string int | Frame_Rate msg_head string int
  | Record_Pause msg_head string bool | Ready msg_head bool bool | Shutdown msg_head int
  | Heartbeat msg_head u8 | Request_Status msg_head | Download bool download_payload
  | Snapshot msg_head string string | Accessory_Power msg_head bool | Camera_Profile msg_head string
  | One_Hz | Ten_Hz hb_mode

fun agent_event :: "ctl_env \<Rightarrow> agent_input \<Rightarrow> agent \<Rightarrow> agent option" where
  "agent_event E (Time_Info h t off src) s = Some (msgcb_time_info E h t off src s)"
| "agent_event E (Loco_Id h nm) s = agent_locomotive_id E h nm s"
| "agent_event E (Settings h d) s = Some (msgcb_camera_settings E h d s)"
| "agent_event E (Resolution h c v) s = Some (msgcb_camera_resolution E h c v s)"
| "agent_event E (Compression h c v) s = Some (msgcb_camera_compression E h c v s)"
| "agent_event E (Frame_Rate h c v) s = Some (msgcb_camera_frame_rate E h c v s)"
| "agent_event E (Record_Pause h c b) s = Some (msgcb_camera_record_pause E h c b s)"
| "agent_event E (Ready h chm rssd) s = msgcb_ready_status E h chm rssd s"
| "agent_event E (Shutdown h ft) s = Some (msgcb_shutdown_rec E h ft s)"
| "agent_event E (Heartbeat h sq) s = Some (msgcb_heartbeat_request E h sq s)"
| "agent_event E (Request_Status h) s = Some (msgcb_request_camera_status E h s)"
| "agent_event E (Download ok msg) s = msgcb_download E ok msg s"
| "agent_event E (Snapshot h c d) s = msgcb_camera_snapshot E h c d s"
| "agent_event E (Accessory_Power h b) s = Some s"
| "agent_event E (Camera_Profile h c) s = Some s"
| "agent_event E One_Hz s = one_hz_timer E s"
| "agent_event E (Ten_Hz m) s = Some (ten_hz_timer m s)"

text \<open>
  The states the agent passes through, event after event: every message and every call of a timer. The signal
  that makes \<open>main.c\<close> read the configuration again replaces the whole table and is not an event, so a run is
  one between two readings.
\<close>

inductive agent_reaches :: "ctl_env \<Rightarrow> agent \<Rightarrow> agent \<Rightarrow> bool" for E s0 where
  start: "agent_reaches E s0 s0"
| event: "agent_reaches E s0 s \<Longrightarrow> agent_event E ev s = Some s' \<Longrightarrow> agent_reaches E s0 s'"

end
