(* ===== verification/Agent_Claims.thy ===== *)
theory Agent_Claims
  imports Agent_Control Launch_Claims Download_Claims
begin

text \<open>
  The properties of the agent's control: the number of cameras that are recorded and the recorders behind
  it in every state the agent reaches, the time offset on its way from a message to a download, and what a
  changed setting does to a paused camera.
\<close>

section \<open>Invariants of events\<close>

locale kept_by_events =
  fixes ev :: "'e \<Rightarrow> 's \<Rightarrow> 's option"
    and I :: "'s \<Rightarrow> bool"
  assumes keep: "I s \<Longrightarrow> ev e s = Some s' \<Longrightarrow> I s'"
begin

lemma keep_star: "(\<lambda>s s'. \<exists>e. ev e s = Some s')\<^sup>*\<^sup>* s s' \<Longrightarrow> I s \<Longrightarrow> I s'"
  by (induction rule: rtranclp_induct) (auto intro: keep)

lemma keep_run: "foldM ev es s = Some s' \<Longrightarrow> I s \<Longrightarrow> I s'"
  by (induction es arbitrary: s) (auto split: option.splits intro: keep)

end

lemma reaches_star: "agent_reaches E s0 s \<Longrightarrow> (\<lambda>s s'. \<exists>e. agent_event E e s = Some s')\<^sup>*\<^sup>* s0 s"
  by (induction rule: agent_reaches.induct) (auto intro: rtranclp.rtrancl_into_rtrancl)

section \<open>Cameras and recorders\<close>

definition cam_ok :: "camdef \<Rightarrow> bool" where
  "cam_ok c \<longleftrightarrow> 0 \<le> cam_pid c \<and> (recording_status_flags (cam_rt c) \<noteq> 0 \<longrightarrow> 0 < cam_pid c) \<and>
     recording_status_flags (cam_rt c) AND NOT all_recording_flags = 0"

definition busy :: "media_info \<Rightarrow> nat set" where
  "busy m = {j. j < n_cameras m \<and> cam_pid (cameras m ! j) \<noteq> 0}"

definition recording_inv :: "media_info \<Rightarrow> bool" where
  "recording_inv m \<longleftrightarrow> n_cameras m \<le> length (cameras m) \<and> (\<forall>j < n_cameras m. cam_ok (cameras m ! j)) \<and>
     n_cams_recording m = int (card (busy m))"

text \<open>In between: the recorder of camera \<open>i\<close> is gone and still counted.\<close>

definition stopping_inv :: "nat \<Rightarrow> media_info \<Rightarrow> bool" where
  "stopping_inv i m \<longleftrightarrow> n_cameras m \<le> length (cameras m) \<and> i < n_cameras m \<and>
     (\<forall>j < n_cameras m. j \<noteq> i \<longrightarrow> cam_ok (cameras m ! j)) \<and>
     recording_status_flags (cam_rt (cameras m ! i)) AND NOT all_recording_flags = 0 \<and>
     n_cams_recording m = int (card (busy m - {i})) + 1"

definition same_cams :: "media_info \<Rightarrow> media_info \<Rightarrow> bool" where
  "same_cams m m' \<longleftrightarrow> cameras m' = cameras m \<and> n_cameras m' = n_cameras m \<and> n_cams_recording m' = n_cams_recording m"

lemma finite_busy [simp]: "finite (busy m)" by (simp add: busy_def)

lemma inv_same: "same_cams m m' \<Longrightarrow> recording_inv m' = recording_inv m"
  by (simp add: same_cams_def recording_inv_def busy_def)

lemma stopping_same: "same_cams m m' \<Longrightarrow> stopping_inv i m' = stopping_inv i m"
  by (simp add: same_cams_def stopping_inv_def busy_def)

lemma same_trans: "same_cams m m1 \<Longrightarrow> same_cams m1 m2 \<Longrightarrow> same_cams m m2"
  by (simp add: same_cams_def)

lemma recording_to_stopping:
  "recording_inv m \<Longrightarrow> i < n_cameras m \<Longrightarrow> cam_pid (cameras m ! i) \<noteq> 0 \<Longrightarrow> stopping_inv i m"
proof -
  assume a: "recording_inv m" "i < n_cameras m" "cam_pid (cameras m ! i) \<noteq> 0"
  then have "i \<in> busy m" by (simp add: busy_def)
  then have "card (busy m) = Suc (card (busy m - {i}))" by (intro card.remove) simp_all
  then show ?thesis using a by (auto simp: recording_inv_def stopping_inv_def cam_ok_def)
qed

section \<open>Steps that keep cameras and count\<close>

lemma media_call [simp]: "media (call c s) = media s" by (simp add: call_def)

lemma media_calls [simp]: "media (fold (\<lambda>c. call (f c)) cs s) = media s"
  by (induction cs arbitrary: s) simp_all

lemma media_small [simp]:
  "media (set_retry k n s) = media s" "media (set_camon_ttl k n s) = media s"
  "media (send_camera_status E i s) = media s" "media (report_recording s) = media s"
  "media (send_video_application_error e s) = media s" "media (shared_memory E s) = media s"
  by (simp_all add: set_retry_def set_camon_ttl_def send_camera_status_def report_recording_def
      send_video_application_error_def shared_memory_def Let_def)

lemma check_media: "check_worker_status E pid s = (d, s1) \<Longrightarrow> media s1 = media s"
  by (auto simp: check_worker_status_def)

lemma same_set_pids [simp]: "same_cams m (media (set_monitor_pid p s)) = same_cams m (media s)"
  "same_cams m (media (set_metarec_pid p s)) = same_cams m (media s)"
  by (simp_all add: set_monitor_pid_def set_metarec_pid_def same_cams_def)

lemma same_refl [simp]: "same_cams m m" by (simp add: same_cams_def)

lemma same_start_monitor: "same_cams (media s) (media (start_space_monitor E s))"
  by (simp add: start_space_monitor_def spawn_process_def)

lemma same_monitor: "same_cams (media s) (media (handle_space_monitor E s))"
proof -
  have "same_cams (media s) (media (start_space_monitor E (set_monitor_pid 0 (call c (call d s)))))" for c d
    by (rule same_trans [OF _ same_start_monitor]) simp
  then show ?thesis
    by (simp add: handle_space_monitor_def check_worker_status_def Let_def same_start_monitor)
qed

lemma same_stop_monitor: "same_cams (media s) (media (stop_space_monitor s))"
  by (simp add: stop_space_monitor_def Let_def)

lemma same_start_metarec: "same_cams (media s) (media (start_metarec E s))"
  by (simp add: start_metarec_def spawn_process_def raconf_prepare_for_metarecording_def Let_def)
    (simp add: same_cams_def)

lemma same_metarec: "same_cams (media s) (media (handle_metarec E s))"
proof -
  have "same_cams (media s) (media (start_metarec E (set_metarec_pid 0 (call c (call d s)))))" for c d
    by (rule same_trans [OF _ same_start_metarec]) simp
  then show ?thesis
    by (simp add: handle_metarec_def check_worker_status_def Let_def same_start_metarec)
qed

lemma same_regroom: "same_cams (media s) (media (regroom i s))"
  by (simp add: regroom_def same_stop_monitor)

lemma inv_watch [simp]: "recording_inv (media (handle_space_monitor E (handle_metarec E s))) = recording_inv (media s)"
  by (rule inv_same) (rule same_trans [OF same_metarec same_monitor])

lemma inv_regroom [simp]: "recording_inv (media (regroom i s)) = recording_inv (media s)"
  by (rule inv_same) (rule same_regroom)

section \<open>Changing a camera\<close>

lemma media_upd_cam [simp]:
  "n_cameras (media (upd_cam i f s)) = n_cameras (media s)"
  "n_cams_recording (media (upd_cam i f s)) = n_cams_recording (media s)"
  "cameras (media (upd_cam i f s)) = (cameras (media s))[i := f (cameras (media s) ! i)]"
  by (simp_all add: upd_cam_def)

text \<open>A change that keeps the recorder and the status flags.\<close>

definition harmless :: "(camdef \<Rightarrow> camdef) \<Rightarrow> bool" where
  "harmless f \<longleftrightarrow> (\<forall>c. cam_pid (f c) = cam_pid c \<and>
     recording_status_flags (cam_rt (f c)) = recording_status_flags (cam_rt c))"

lemma cam_ok_harmless: "harmless f \<Longrightarrow> cam_ok (f c) = cam_ok c"
  by (simp add: harmless_def cam_ok_def)

lemma nth_upd: "(xs[i := f (xs ! i)]) ! j = (if i = j \<and> j < length xs then f (xs ! j) else xs ! j)"
  by (cases "i < length xs") (auto simp: nth_list_update list_update_beyond)

lemma inv_upd: "harmless f \<Longrightarrow> recording_inv (media (upd_cam i f s)) = recording_inv (media s)"
proof -
  assume h: "harmless f"
  have "cam_pid (cameras (media (upd_cam i f s)) ! j) = cam_pid (cameras (media s) ! j)"
    "cam_ok (cameras (media (upd_cam i f s)) ! j) = cam_ok (cameras (media s) ! j)" for j
    using h by (simp_all add: nth_upd cam_ok_harmless) (simp_all add: harmless_def)
  then show ?thesis by (simp add: recording_inv_def busy_def)
qed

lemma inv_set_mode [simp]: "recording_inv (media (set_mode i md s)) = recording_inv (media s)"
  and inv_set_paused [simp]: "recording_inv (media (set_paused i b s)) = recording_inv (media s)"
  and inv_clear_words [simp]: "recording_inv (media (clear_words i s)) = recording_inv (media s)"
  and inv_prepare [simp]: "recording_inv (media (prepare_recorder E i s)) = recording_inv (media s)"
  by (simp_all add: set_mode_def set_paused_def clear_words_def prepare_recorder_def upd_rt_def inv_upd harmless_def
      cam_pid_def raconf_prepare_for_recording_def Let_def)

lemma inv_upd_rt:
  "(\<And>rt. recording_status_flags (f rt) = recording_status_flags rt) \<Longrightarrow>
     recording_inv (media (upd_rt i f s)) = recording_inv (media s)"
  by (simp add: upd_rt_def inv_upd harmless_def cam_pid_def)

section \<open>Stopping and starting\<close>

lemma mask_twice: "(x AND NOT a) AND NOT b = x AND NOT (a OR b)" for x :: "'a::len word"
  by (rule bit_word_eqI) (simp add: bit_simps)

lemma clear_recording_eq: "clear_recording x = x AND NOT all_recording_flags"
  unfolding clear_recording_def all_recording_flags_def by (rule mask_twice)

lemma idle_inv:
  assumes "stopping_inv i m" "cam_pid c = 0" "recording_status_flags (cam_rt c) = 0"
    and "cameras m' = (cameras m)[i := c]" "n_cameras m' = n_cameras m" "n_cams_recording m' = n_cams_recording m - 1"
  shows "recording_inv m'"
proof -
  have l: "n_cameras m \<le> length (cameras m)" "i < n_cameras m" using assms(1) by (simp_all add: stopping_inv_def)
  then have n: "cameras m' ! j = (if j = i then c else cameras m ! j)" for j
    using assms(4) by (simp add: nth_list_update)
  have "busy m' = busy m - {i}" using n assms(2,5) by (auto simp: busy_def split: if_splits)
  moreover have "cam_ok c" using assms(2,3) by (simp add: cam_ok_def)
  ultimately show ?thesis using assms l by (auto simp: recording_inv_def stopping_inv_def nth_list_update)
qed

lemma just_stopped_inv:
  assumes "stopping_inv i (media s)"
  shows "recording_inv (media (camera_recording_just_stopped E i s))"
proof -
  let ?s1 = "upd_rt i (\<lambda>rt. rt\<lparr>recording_status_flags := clear_recording (recording_status_flags rt)\<rparr>) (set_pid i 0 s)"
  let ?c = "cameras (media ?s1) ! i"
  have l: "i < length (cameras (media s))" "0 < n_cams_recording (media s)"
    using assms by (simp_all add: stopping_inv_def)
  have "cam_pid ?c = 0" "recording_status_flags (cam_rt ?c) = 0"
    using assms l by (simp_all add: upd_rt_def set_pid_def nth_upd cam_pid_def clear_recording_eq stopping_inv_def)
  moreover have "cameras (media ?s1) = (cameras (media s))[i := ?c]"
    using l by (simp add: upd_rt_def set_pid_def nth_upd)
  moreover have "n_cameras (media ?s1) = n_cameras (media s)" "n_cams_recording (media ?s1) = n_cams_recording (media s)"
    by (simp_all add: upd_rt_def set_pid_def)
  ultimately have "recording_inv ((media ?s1)\<lparr>n_cams_recording := n_cams_recording (media ?s1) - 1\<rparr>)"
    using idle_inv [OF assms, of ?c] by simp
  then show ?thesis using l(2) by (simp add: camera_recording_just_stopped_def Let_def upd_rt_def set_pid_def)
qed

text \<open>The answers of \<open>fork\<close> in the parent.\<close>

definition fork_ok :: "ctl_env \<Rightarrow> bool" where
  "fork_ok E \<longleftrightarrow> (\<forall>h. fork E h = - 1 \<or> 0 < fork E h)"

lemma mode_bits: "status_of_mode md AND NOT all_recording_flags = 0"
  by (auto simp: status_of_mode_def all_recording_flags_def DO_RECORD_CHM_VIDEO_def DO_RECORD_CHM_AUDIO_def
      DO_RECORD_SSD_VIDEO_def DO_RECORD_SSD_AUDIO_def)

lemma stopping_calls [simp]: "stopping_inv i (media (call c s)) = stopping_inv i (media s)" by simp

lemma no_recorder_again:
  "worker_pid (cam_worker c) = 0 \<Longrightarrow> c\<lparr>cam_worker := (cam_worker c)\<lparr>worker_pid := 0\<rparr>\<rparr> = c"
proof -
  assume "worker_pid (cam_worker c) = 0"
  then have "(cam_worker c)\<lparr>worker_pid := 0\<rparr> = cam_worker c" by simp
  then show ?thesis by simp
qed

lemma set_pid_zero_again:
  "recording_inv (media s) \<Longrightarrow> recording_inv (media (set_pid i 0 s)) \<or> cam_pid (cameras (media s) ! i) \<noteq> 0"
proof -
  assume a: "recording_inv (media s)"
  have "cam_pid (cameras (media s) ! i) = 0 \<Longrightarrow> cameras (media (set_pid i 0 s)) = cameras (media s)"
    by (simp add: set_pid_def cam_pid_def no_recorder_again)
  then show ?thesis using a by (auto simp: recording_inv_def busy_def set_pid_def)
qed

lemma pid_kept [simp]: "cameras (media (handle_space_monitor E (handle_metarec E s))) = cameras (media s)"
  using same_trans [OF same_metarec [of s E] same_monitor [of "handle_metarec E s" E]] by (simp add: same_cams_def)

lemma just_stopped_pid:
  assumes "i < length (cameras (media s))"
  shows "cam_pid (cameras (media (camera_recording_just_stopped E i s)) ! i) = 0"
  using assms by (simp add: camera_recording_just_stopped_def Let_def upd_rt_def set_pid_def cam_pid_def)

lemma stop_inv:
  assumes "recording_inv (media s)" "i < n_cameras (media s)"
  shows "recording_inv (media (snd (stop_recording_process E i s)))"
proof (cases "cam_pid (the_cam s i) = 0")
  case False
  let ?s1 = "call (Proc (Waitpid (cam_pid (the_cam s i)))) (call (Proc (Kill (cam_pid (the_cam s i)) SIGQUIT)) s)"
  have "stopping_inv i (media ?s1)"
    using recording_to_stopping [OF assms] False by (simp add: the_cam_def)
  then have j: "recording_inv (media (camera_recording_just_stopped E i ?s1))" by (rule just_stopped_inv)
  moreover have "cam_pid (cameras (media (camera_recording_just_stopped E i ?s1)) ! i) = 0"
    using assms by (intro just_stopped_pid) (simp add: recording_inv_def)
  ultimately have "recording_inv (media (set_pid i 0 (camera_recording_just_stopped E i ?s1)))"
    using set_pid_zero_again [OF j] by blast
  then show ?thesis using False by (simp add: stop_recording_process_def Let_def)
qed (use assms in \<open>simp add: stop_recording_process_def\<close>)

lemma started_inv:
  assumes "recording_inv m" "i < n_cameras m" "cam_pid (cameras m ! i) = 0" "cam_ok c" "cam_pid c \<noteq> 0"
    and "cameras m' = (cameras m)[i := c]" "n_cameras m' = n_cameras m" "n_cams_recording m' = n_cams_recording m + 1"
  shows "recording_inv m'"
proof -
  have l: "n_cameras m \<le> length (cameras m)" using assms(1) by (simp add: recording_inv_def)
  then have n: "j < n_cameras m \<Longrightarrow> cameras m' ! j = (if j = i then c else cameras m ! j)" for j
    using assms(6) by (simp add: nth_list_update)
  have "busy m' = insert i (busy m)" "i \<notin> busy m"
    using n assms(2,3,5,7) by (auto simp: busy_def split: if_splits)
  then have "card (busy m') = Suc (card (busy m))" by simp
  then show ?thesis using assms(1,2,4,6-8) l by (auto simp: recording_inv_def nth_list_update)
qed

lemma the_cam_media: "media s' = media s \<Longrightarrow> the_cam s' i = the_cam s i"
  by (simp add: the_cam_def)

lemma spawn_inv:
  assumes "fork_ok E" "recording_inv (media s)" "i < n_cameras (media s)" "cam_pid (the_cam s i) \<in> {0, - 1}"
  shows "recording_inv (media (snd (spawn_recorder E i cid s)))"
proof -
  let ?p = "fork E (ag_calls s)" and ?c = "cameras (media s) ! i"
  have l: "i < length (cameras (media s))" using assms(2,3) by (simp add: recording_inv_def)
  have "cam_ok ?c" using assms(2,3) by (simp add: recording_inv_def)
  then have z: "cam_pid ?c = 0" using assms(4) by (auto simp: cam_ok_def the_cam_def)
  show ?thesis
  proof (cases "?p = - 1")
    case True
    then show ?thesis using assms(2) by (simp add: spawn_recorder_def spawn_process_def)
  next
    case False
    then have p: "0 < ?p" using assms(1) by (auto simp: fork_ok_def)
    define c where "c = ?c\<lparr>cam_worker := (cam_worker ?c)\<lparr>worker_pid := ?p\<rparr>,
      cam_rt := (cam_rt ?c)\<lparr>recording_status_flags := status_of_mode (recording_mode_flags (cam_rt ?c))\<rparr>\<rparr>"
    let ?s2 = "upd_rt i (\<lambda>rt. rt\<lparr>recording_status_flags := status_of_mode (recording_mode_flags rt)\<rparr>)
      (set_pid i ?p (set_retry cid 0 (call (Spawn (lwe_words (cam_worker (the_cam s i)))) s)))"
    have "cam_ok c" "cam_pid c \<noteq> 0" using p by (simp_all add: c_def cam_ok_def cam_pid_def mode_bits)
    moreover have "cameras (media ?s2) = (cameras (media s))[i := c]"
      using l by (simp add: upd_rt_def set_pid_def c_def)
    moreover have "n_cameras (media ?s2) = n_cameras (media s)" "n_cams_recording (media ?s2) = n_cams_recording (media s)"
      by (simp_all add: upd_rt_def set_pid_def)
    ultimately have "recording_inv ((media ?s2)\<lparr>n_cams_recording := n_cams_recording (media ?s2) + 1\<rparr>)"
      using started_inv [OF assms(2,3) z, of c] by simp
    then show ?thesis using False by (simp add: spawn_recorder_def spawn_process_def Let_def)
  qed
qed

lemma launch_inv:
  assumes "fork_ok E" "recording_inv (media s)" "i < n_cameras (media s)"
  shows "recording_inv (media (snd (launch_recorder E i cid s)))"
proof -
  have "recording_inv (media (snd (spawn_recorder E i cid (prepare_recorder E i s))))"
    if "cam_pid (the_cam (prepare_recorder E i s) i) \<in> {0, - 1}"
    using that assms by (intro spawn_inv) (simp_all add: prepare_recorder_def inv_upd harmless_def
        raconf_prepare_for_recording_def Let_def cam_pid_def)
  then show ?thesis
    using assms by (auto simp: launch_recorder_def Let_def split: prod.split)
qed

lemma start_inv:
  assumes "fork_ok E" "recording_inv (media s)" "i < n_cameras (media s)"
  shows "recording_inv (media (snd (start_recording_process E i s)))"
proof -
  have "n_cameras (media (set_mode i md t)) = n_cameras (media t)" for md t
    by (simp add: set_mode_def upd_rt_def)
  then show ?thesis
    using assms by (auto simp: start_recording_process_def Let_def inv_upd_rt intro!: launch_inv)
qed

section \<open>Every event keeps the count\<close>

lemma find_index_less: "find_index P xs = Some i \<Longrightarrow> i < length xs"
  by (induction xs arbitrary: i) (auto split: if_splits)

lemma found_less: "find_cam s nm = Some i \<Longrightarrow> i < n_cameras (media s)"
  by (auto simp: find_cam_def raconf_find_camera_def dest!: find_index_less split: if_splits)

lemma n_small [simp]:
  "n_cameras (media (set_mode i md s)) = n_cameras (media s)"
  "n_cameras (media (set_paused i b s)) = n_cameras (media s)"
  "n_cameras (media (upd_rt i f s)) = n_cameras (media s)"
  by (simp_all add: set_mode_def set_paused_def upd_rt_def)

lemma record_or_pause_inv:
  assumes "fork_ok E" "recording_inv (media s)" "i < n_cameras (media s)"
  shows "recording_inv (media (snd (record_or_pause E i b s)))"
  using assms by (auto simp: record_or_pause_def Let_def intro!: stop_inv start_inv)

lemma record_pause_inv:
  assumes "fork_ok E" "recording_inv (media s)"
  shows "recording_inv (media (snd (handle_camera_record_pause E nm b s)))"
proof -
  have "i < n_cameras (media s)" if "find_cam (shared_memory E s) k = Some i" for i k
    using found_less [OF that] by simp
  then show ?thesis
    using assms by (auto simp: handle_camera_record_pause_def Let_def intro!: record_or_pause_inv split: option.splits)
qed

lemma reset_inv:
  assumes "fork_ok E" "recording_inv (media s)"
  shows "recording_inv (media (snd (reset_camera_stream E nm s)))"
proof -
  obtain r s1 where h: "handle_camera_record_pause E nm False s = (r, s1)" by fastforce
  have "recording_inv (media s1)" using record_pause_inv [OF assms, of nm False] h by simp
  then show ?thesis
    using record_pause_inv [OF assms(1), of s1 nm True] h by (cases r) (simp_all add: reset_camera_stream_def)
qed

lemma media_errors [simp]: "media (fold send_video_application_error es s) = media s"
  by (induction es arbitrary: s) simp_all

lemma media_config_error [simp]: "media (processConfigError e k s) = media s"
  by (simp add: processConfigError_def split: option.split)

lemma change_setting_inv:
  assumes "fork_ok E" "recording_inv (media s)"
    and "\<And>rt. recording_status_flags (f rt) = recording_status_flags rt"
  shows "recording_inv (media (change_setting E k camera f s))"
proof (cases "find_cam s (name_of E camera)")
  case (Some i)
  obtain r s1 where h: "reset_camera_stream E (name_of E camera) (upd_rt i f s) = (r, s1)" by fastforce
  have "recording_inv (media (upd_rt i f s))" using assms(2,3) by (simp add: inv_upd_rt)
  then have "recording_inv (media s1)"
    using reset_inv [OF assms(1), of "upd_rt i f s" "name_of E camera"] h by simp
  then show ?thesis using Some h by (cases r) (simp_all add: change_setting_def)
qed (use assms in \<open>simp add: change_setting_def\<close>)

lemma each_inv:
  assumes "recording_inv (media s)" "\<And>c. cam_ok c \<Longrightarrow> cam_ok (f c)" "\<And>c. cam_pid (f c) = cam_pid c"
  shows "recording_inv (media (each_configured f s))"
proof -
  let ?m = "media s"
  have l: "n_cameras ?m \<le> length (cameras ?m)" using assms(1) by (simp add: recording_inv_def)
  have n: "j < n_cameras ?m \<Longrightarrow> cameras (media (each_configured f s)) ! j = f (cameras ?m ! j)" for j
    using l by (simp add: each_configured_def configured_def nth_append)
  have "busy (media (each_configured f s)) = busy ?m"
    using n assms(3) by (auto simp: busy_def each_configured_def)
  moreover have "n_cameras (media (each_configured f s)) = n_cameras ?m"
    "n_cams_recording (media (each_configured f s)) = n_cams_recording ?m"
    "length (cameras (media (each_configured f s))) = length (cameras ?m)"
    using l by (simp_all add: each_configured_def configured_def)
  ultimately show ?thesis using assms(1,2) n by (simp add: recording_inv_def)
qed

lemma ready_camera_ok: "cam_ok c \<Longrightarrow> cam_ok (ready_camera chm rssd c)"
  by (auto simp: cam_ok_def ready_camera_def Let_def cam_pid_def mode_bits)

lemma mask_zero: "x AND NOT b = 0 \<Longrightarrow> (x AND NOT a) AND NOT b = 0" for x :: "'a::len word"
proof -
  assume "x AND NOT b = 0"
  moreover have "(x AND NOT a) AND NOT b = (x AND NOT b) AND NOT a" by (simp only: ac_simps)
  ultimately show ?thesis by simp
qed

lemma shutdown_camera_ok: "cam_ok c \<Longrightarrow> cam_ok (shutdown_camera chm rssd c)"
  unfolding cam_ok_def shutdown_camera_def Let_def cam_pid_def by (auto intro: mask_zero simp del: bit.de_Morgan_disj)

lemma pid_camera: "cam_pid (ready_camera chm rssd c) = cam_pid c" "cam_pid (shutdown_camera chm rssd c) = cam_pid c"
  by (simp_all add: ready_camera_def shutdown_camera_def Let_def cam_pid_def)

lemma inv_fields [simp]:
  "recording_inv (m\<lparr>is_chm_ready := a\<rparr>) = recording_inv m" "recording_inv (m\<lparr>is_rssd_ready := a\<rparr>) = recording_inv m"
  "recording_inv (m\<lparr>rt_loco_id := nm\<rparr>) = recording_inv m"
  by (simp_all add: recording_inv_def busy_def)

lemma ready_inv: "msgcb_ready_status E h chm rssd s = Some s' \<Longrightarrow> recording_inv (media s) \<Longrightarrow> recording_inv (media s')"
  by (auto simp: msgcb_ready_status_def intro!: each_inv ready_camera_ok pid_camera split: if_splits)

lemma shutdown_inv: "recording_inv (media s) \<Longrightarrow> recording_inv (media (msgcb_shutdown_rec E h ft s))"
proof -
  assume a: "recording_inv (media s)"
  have "recording_inv (media (each_configured (shutdown_camera x y) t))" if "recording_inv (media t)" for x y t
    using that by (intro each_inv shutdown_camera_ok pid_camera)
  moreover have "recording_inv (media (lose_chm t)) = recording_inv (media t)"
    "recording_inv (media (lose_rssd t)) = recording_inv (media t)" for t
    by (simp_all add: lose_chm_def lose_rssd_def)
  moreover have "recording_inv (media (t\<lparr>shutdownInProcess := True\<rparr>)) = recording_inv (media t)" for t by simp
  ultimately show ?thesis using a by (simp add: msgcb_shutdown_rec_def Let_def)
qed

lemma settings_inv: "recording_inv (media s) \<Longrightarrow> recording_inv (media (msgcb_camera_settings E h d s))"
  by (simp add: msgcb_camera_settings_def Let_def inv_upd_rt split: option.split)

lemma statuses_media [simp]: "media (fold (send_camera_status E) xs s) = media s"
  by (induction xs arbitrary: s) simp_all

lemma simple_inv [simp]:
  "media (msgcb_time_info E h t off src s) = media s" "media (msgcb_heartbeat_request E h sq s) = media s"
  "media (msgcb_request_camera_status E h s) = media s" "media (ten_hz_timer m s) = media s"
  by (simp_all add: msgcb_time_info_def msgcb_heartbeat_request_def msgcb_request_camera_status_def ten_hz_timer_def
      split: hb_mode.split)

lemma loco_inv: "agent_locomotive_id E h nm s = Some s' \<Longrightarrow> recording_inv (media s) \<Longrightarrow> recording_inv (media s')"
  by (auto simp: agent_locomotive_id_def split: if_splits)

lemma downloads_media:
  "msgcb_download E ok msg s = Some s' \<Longrightarrow> media s' = media s"
  "msgcb_camera_snapshot E h c d s = Some s' \<Longrightarrow> media s' = media s"
  by (auto simp: msgcb_download_def msgcb_camera_snapshot_def answer_download_def split: if_splits)

section \<open>The timer\<close>

text \<open>No step changes the number of configured cameras.\<close>

lemma n_same: "same_cams m m' \<Longrightarrow> n_cameras m' = n_cameras m" by (simp add: same_cams_def)

lemma n_watch [simp]: "n_cameras (media (handle_space_monitor E (handle_metarec E s))) = n_cameras (media s)"
  by (rule n_same) (rule same_trans [OF same_metarec same_monitor])

lemma n_steps [simp]:
  "n_cameras (media (regroom i s)) = n_cameras (media s)" "n_cameras (media (set_pid i p s)) = n_cameras (media s)"
  "n_cameras (media (clear_words i s)) = n_cameras (media s)" "n_cameras (media (prepare_recorder E i s)) = n_cameras (media s)"
  using n_same [OF same_regroom] by (simp_all add: set_pid_def clear_words_def prepare_recorder_def)

lemma n_stopped [simp]: "n_cameras (media (camera_recording_just_stopped E i s)) = n_cameras (media s)"
  by (simp add: camera_recording_just_stopped_def Let_def)

lemma n_stop [simp]: "n_cameras (media (snd (stop_recording_process E i s))) = n_cameras (media s)"
  by (simp add: stop_recording_process_def Let_def)

lemma n_spawn [simp]: "n_cameras (media (snd (spawn_recorder E i cid s))) = n_cameras (media s)"
  by (simp add: spawn_recorder_def spawn_process_def Let_def)

lemma n_launch [simp]: "n_cameras (media (snd (launch_recorder E i cid s))) = n_cameras (media s)"
  by (simp add: launch_recorder_def Let_def split_beta)

lemma n_start [simp]: "n_cameras (media (snd (start_recording_process E i s))) = n_cameras (media s)"
  by (simp add: start_recording_process_def Let_def)

definition watched :: "nat \<Rightarrow> agent \<Rightarrow> bool" where
  "watched n s \<longleftrightarrow> recording_inv (media s) \<and> n_cameras (media s) = n"

lemma stopping_upd:
  assumes "\<And>c. recording_status_flags (cam_rt (f c)) = recording_status_flags (cam_rt c)" "stopping_inv i (media s)"
  shows "stopping_inv i (media (upd_cam i f s))"
proof -
  have l: "i < length (cameras (media s))" using assms(2) by (simp add: stopping_inv_def)
  have "busy (media (upd_cam i f s)) - {i} = busy (media s) - {i}" by (auto simp: busy_def)
  then show ?thesis using assms l by (simp add: stopping_inv_def)
qed

lemma died_inv:
  assumes "recording_inv (media s)" "i < n_cameras (media s)" "cam_pid (the_cam s i) \<noteq> 0" "media s1 = media s"
  shows "recording_inv (media (camera_recording_just_stopped E i (set_pid i 0 s1)))"
    "recording_inv (media (camera_recording_just_stopped E i (upd_rt i (\<lambda>rt. rt\<lparr>is_online := 0\<rparr>) (set_pid i 0 s1))))"
proof -
  have "stopping_inv i (media s1)" using recording_to_stopping [OF assms(1,2)] assms(3,4) by (simp add: the_cam_def)
  then have st: "stopping_inv i (media (set_pid i 0 s1))" unfolding set_pid_def by (intro stopping_upd) simp_all
  then show "recording_inv (media (camera_recording_just_stopped E i (set_pid i 0 s1)))" by (rule just_stopped_inv)
  show "recording_inv (media (camera_recording_just_stopped E i (upd_rt i (\<lambda>rt. rt\<lparr>is_online := 0\<rparr>) (set_pid i 0 s1))))"
    unfolding upd_rt_def by (rule just_stopped_inv, rule stopping_upd [OF _ st]) simp
qed

lemma lose_watched: "watched n s \<Longrightarrow> i < n \<Longrightarrow> watched n (lose_camera E i s)"
proof -
  assume a: "watched n s" "i < n"
  let ?c = "the_cam s i"
  have c: "cam_ok ?c" using a by (simp add: watched_def recording_inv_def the_cam_def)
  show ?thesis
  proof (cases "cam_pid ?c > 0")
    case True
    then show ?thesis
      using a stop_inv [of "call (Poll (cam_pid ?c)) s" i E] died_inv(1) [of s i]
      by (auto simp: lose_camera_def watched_def check_worker_status_def Let_def)
  next
    case False
    then have "recording_status_flags (cam_rt ?c) = 0" using c by (auto simp: cam_ok_def)
    then show ?thesis using a by (simp add: lose_camera_def)
  qed
qed

lemma regain_watched: "fork_ok E \<Longrightarrow> watched n s \<Longrightarrow> i < n \<Longrightarrow> watched n (regain_camera E i s)"
  by (auto simp: regain_camera_def watched_def check_worker_status_def Let_def intro!: start_inv)

lemma settle_watched: "watched n s \<Longrightarrow> watched n (snd (settle_online E i a s))"
  by (simp add: settle_online_def watched_def inv_upd_rt)

lemma reflect_watched:
  assumes "fork_ok E" "watched n s" "i < n"
  shows "watched n (snd (reflect_camera_online_status E i a s))"
proof -
  have w: "watched n (set_camon_ttl i k s) = watched n s" for k by (simp add: watched_def)
  show ?thesis
    using assms by (auto simp: reflect_camera_online_status_def Let_def w
        intro!: settle_watched lose_watched regain_watched)
qed

lemma relocate_watched: "watched n s \<Longrightarrow> watched n (relocate_camera E i s)"
  by (simp add: relocate_camera_def watched_def Let_def inv_upd harmless_def cam_pid_def split: option.split)

lemma reflect_camera_watched:
  assumes "fork_ok E" "watched n s" "i < n" "reflect_camera E i s = Some s'"
  shows "watched n s'"
proof -
  have "watched n (s1\<lparr>camon_status := es\<rparr>) = watched n s1" for s1 es by (simp add: watched_def)
  then show ?thesis
    using assms(2,4) reflect_watched [OF assms(1-3)]
    by (auto simp: reflect_camera_def Let_def split_beta intro: relocate_watched split: if_splits option.splits)
qed

lemma reflect_loop_watched:
  "fork_ok E \<Longrightarrow> foldM (reflect_camera E) is s = Some s' \<Longrightarrow> \<forall>i \<in> set is. i < n \<Longrightarrow> watched n s \<Longrightarrow> watched n s'"
  by (induction "is" arbitrary: s) (auto split: option.splits dest: reflect_camera_watched)

lemma watch_watched:
  assumes "fork_ok E" "watched n s" "i < n"
  shows "watched n (watch_camera E i s)"
proof -
  have "watched n (snd (start_recording_process E i (s\<lparr>rp_ttl := f\<rparr>)))" for f
    using assms by (simp add: watched_def start_inv)
  then show ?thesis
    using assms died_inv(2) [of s i]
    by (auto simp: watch_camera_def watched_def check_worker_status_def Let_def)
qed

lemma watch_loop_watched:
  "fork_ok E \<Longrightarrow> \<forall>i \<in> set is. i < n \<Longrightarrow> watched n s \<Longrightarrow> watched n (fold (watch_camera E) is s)"
  by (induction "is" arbitrary: s) (auto simp: watch_watched)

lemma reflects_watched:
  assumes "fork_ok E" "watched (n_cameras (media s)) s" "reflect_cameras E s = Some s'"
  shows "watched (n_cameras (media s)) s'"
proof (cases "pass_flag s")
  case True
  then have "media s' = media s" using assms(3) by (auto simp: reflect_cameras_def)
  then show ?thesis using assms(2) by (simp add: watched_def)
next
  case False
  let ?t = "(call (Camon_Tx (camon_sock (media s))) s)\<lparr>pass_flag := True\<rparr>"
  obtain s1 where s1: "foldM (reflect_camera E) [0..<n_cameras (media s)] ?t = Some s1" "s' = s1\<lparr>camon_status := []\<rparr>"
    using assms(3) False by (auto simp: reflect_cameras_def)
  have "watched (n_cameras (media s)) ?t" using assms(2) by (simp add: watched_def)
  from reflect_loop_watched [OF assms(1) s1(1) _ this] have "watched (n_cameras (media s)) s1" by simp
  then show ?thesis by (simp add: s1(2) watched_def)
qed

lemma tick_inv:
  assumes "fork_ok E" "recording_inv (media s)" "one_hz_timer E s = Some s'"
  shows "recording_inv (media s')"
proof (cases "conf_loaded s")
  case True
  let ?n = "n_cameras (media s)"
  have w: "watched ?n s" using assms(2) by (simp add: watched_def)
  from True assms(3) obtain s1 where s1: "reflect_cameras E s = Some s1"
    "s' = handle_space_monitor E (handle_metarec E (fold (watch_camera E) [0..<?n] s1))"
    unfolding one_hz_timer_def by auto
  have "watched ?n (fold (watch_camera E) [0..<?n] s1)"
    by (rule watch_loop_watched [OF assms(1) _ reflects_watched [OF assms(1) w s1(1)]]) simp
  then show ?thesis unfolding s1(2) watched_def by simp
qed (use assms in \<open>simp add: one_hz_timer_def\<close>)

lemma setting_msgs_inv:
  assumes "fork_ok E" "recording_inv (media s)"
  shows "recording_inv (media (msgcb_camera_resolution E h c v s))"
    "recording_inv (media (msgcb_camera_compression E h c v s))"
    "recording_inv (media (msgcb_camera_frame_rate E h c v s))"
    "recording_inv (media (msgcb_camera_record_pause E h c b s))"
  using assms by (auto simp: msgcb_camera_resolution_def msgcb_camera_compression_def msgcb_camera_frame_rate_def
      msgcb_camera_record_pause_def record_pause_inv intro!: change_setting_inv)

lemma event_inv:
  assumes "fork_ok E" "recording_inv (media s)" "agent_event E ev s = Some s'"
  shows "recording_inv (media s')"
proof (cases ev)
  case (Download ok msg)
  then show ?thesis using assms(2,3) downloads_media(1) [of E ok msg s s'] by simp
next
  case (Snapshot h c d)
  then show ?thesis using assms(2,3) downloads_media(2) [of E h c d s s'] by simp
qed (use assms in \<open>auto simp: setting_msgs_inv settings_inv shutdown_inv intro: loco_inv ready_inv tick_inv\<close>)

interpretation recording: kept_by_events "agent_event E" "\<lambda>s. fork_ok E \<longrightarrow> recording_inv (media s)" for E
  by unfold_locales (auto intro: event_inv)

text \<open>
  C38: recorders and their count. From a freshly loaded configuration, after any sequence of messages and
  timer calls and whatever the processes do, the number of cameras the agent reports as being recorded is
  the number of cameras that have a recorder process, and no camera is shown as recording without one.
\<close>

theorem recording_count:
  assumes "agent_reaches E s0 s" "\<forall>h. fork E h = - 1 \<or> 0 < fork E h" "n_cameras (media s0) \<le> length (cameras (media s0))"
    and "n_cams_recording (media s0) = 0"
    and "\<forall>c \<in> set (configured s0). worker_pid (cam_worker c) = 0 \<and> recording_status_flags (cam_rt c) = 0"
  shows "n_cams_recording (media s) = int (card {i. i < n_cameras (media s) \<and> cam_pid (the_cam s i) \<noteq> 0}) \<and>
    (\<forall>c \<in> set (configured s). recording_status_flags (cam_rt c) \<noteq> 0 \<longrightarrow> 0 < cam_pid c)"
proof -
  have c0: "cam_pid (cameras (media s0) ! j) = 0 \<and> recording_status_flags (cam_rt (cameras (media s0) ! j)) = 0"
    if "j < n_cameras (media s0)" for j
    using that assms(3,5) by (fastforce simp: configured_def cam_pid_def in_set_conv_nth)
  then have "busy (media s0) = {}" by (auto simp: busy_def)
  then have "recording_inv (media s0)" using c0 assms(3,4) by (simp add: recording_inv_def cam_ok_def)
  then have "recording_inv (media s)"
    using recording.keep_star [OF reaches_star [OF assms(1)]] assms(2) by (simp add: fork_ok_def)
  then show ?thesis
    by (auto simp: recording_inv_def busy_def the_cam_def configured_def cam_ok_def in_set_conv_nth)
qed

definition demo_ctl :: ctl_env where
  "demo_ctl = \<lparr>ac_conf = demo_conf, ac_dl = demo_dl, msg_version = (\<lambda>_. 1), char_is_signed = True, SERIAL_LEN = 12,
     MODEL_LEN = 16, RESOLUTION_LEN = 16, TIME_SOURCE_LEN = 8, FT_SHUTDOWN_CHM = 1, FT_SHUTDOWN_RSSD = 2,
     FT_SHUTDOWN_ALL = 3, fork = (\<lambda>_. 42), waitpid_nohang = (\<lambda>_ _. No_Change), extended_info = (\<lambda>_ _. None),
     init_shared_memory = (\<lambda>_. True), camon_rx = (\<lambda>_ _. []), ip_from_mac = (\<lambda>_ _. None)\<rparr>"

definition paused_cam :: camdef where
  "paused_cam = (demo_cam ''CAM1________'')\<lparr>cam_rt := (cam_rt (demo_cam []))\<lparr>is_online := 1, commanded_paused := True\<rparr>\<rparr>"

definition demo_agent :: agent where
  "demo_agent = \<lparr>conf_loaded = True, media = demo_media\<lparr>cameras := [paused_cam], n_cameras := 1, is_rssd_ready := True\<rparr>,
     retry_count = (\<lambda>_. 0), rp_ttl = (\<lambda>_. - 1), camon_ttl = (\<lambda>_. CAMON_TTL), shutdownInProcess = False, sm_init = False,
     pass_flag = False, camon_status = [], startTimer = 0, g_mode = HB_GOOD_RESPONSE, ag_dl = demo_dl_state, ag_calls = []\<rparr>"

text \<open>The witness takes the agent through a command to record.\<close>

theorem recording_count_witness:
  "\<exists>s. agent_event demo_ctl (Record_Pause \<lparr>verified = True, head_version = 1\<rparr> ''CAM1'' True) demo_agent = Some s \<and>
     n_cams_recording (media s) = int (card {i. i < n_cameras (media s) \<and> cam_pid (the_cam s i) \<noteq> 0})"
proof -
  let ?ev = "Record_Pause \<lparr>verified = True, head_version = 1\<rparr> ''CAM1'' True"
  obtain s where s: "agent_event demo_ctl ?ev demo_agent = Some s" by simp
  then have r: "agent_reaches demo_ctl demo_agent s" by (rule agent_reaches.event [OF agent_reaches.start])
  have c: "\<forall>c \<in> set (configured demo_agent). worker_pid (cam_worker c) = 0 \<and> recording_status_flags (cam_rt c) = 0"
    by (simp add: configured_def demo_agent_def paused_cam_def demo_cam_def demo_worker_def)
  have "n_cameras (media demo_agent) \<le> length (cameras (media demo_agent))" "n_cams_recording (media demo_agent) = 0"
    "\<forall>h. fork demo_ctl h = - 1 \<or> 0 < fork demo_ctl h"
    by (simp_all add: demo_agent_def demo_media_def demo_ctl_def)
  from recording_count [OF r this(3,1,2) c] s show ?thesis by blast
qed

section \<open>The time offset\<close>

text \<open>
  C39: the time offset from the host to a download. The environment variable that a time message leaves is
  the text whose reading by the metadata recorder is stated above, and a download reads from it the offset
  of the message, for every offset that fits a long integer, negative ones included.
\<close>

theorem time_offset_reaches_download:
  assumes "accepted E K_TIME_INFO h" "LONG_MIN \<le> off" "off \<le> LONG_MAX"
  shows "\<exists>v. ag_calls (msgcb_time_info E h t off src s) = Setenv v # ag_calls s \<and>
    v = time_info_text (unat t) off (take (TIME_SOURCE_LEN E) src) \<and> get_timeoffset (Some v) = off"
proof -
  let ?v = "time_info_text (unat t) off (take (TIME_SOURCE_LEN E) src)"
  have v: "time_info_variable E t off src = ?v" by (simp add: time_info_variable_def time_info_text_def)
  have "get_timeoffset (Some ?v) = off"
    using atol_int_str [OF _ assms(2,3), of "'', src='' @ [CHR 0x27] @ take (TIME_SOURCE_LEN E) src @ [CHR 0x27]"]
    by (simp add: get_timeoffset_def time_info_keys is_digit_def)
  then show ?thesis using assms(1) v by (simp add: msgcb_time_info_def call_def)
qed

theorem time_offset_reaches_download_witness:
  "get_timeoffset (Some (time_info_text 100 (- 3600) ''GPS'')) = - 3600"
  using time_offset_reaches_download [of demo_ctl "\<lparr>verified = True, head_version = 1\<rparr>" "- 3600" 100 "''GPS''" demo_agent]
  by (simp add: accepted_def demo_ctl_def LONG_MIN_def LONG_MAX_def)

section \<open>A paused camera\<close>

lemma name_of_twice: "name_of E (name_of E nm) = name_of E nm"
proof -
  have "CHR 0x00 \<notin> set (take n (c_str nm))" for n
    using set_take_subset [of n "c_str nm"] by (auto simp: c_str_def dest: set_takeWhileD)
  then have "c_str (take n (c_str nm)) = take n (c_str nm)" for n by (auto simp: c_str_def takeWhile_eq_all_conv)
  then show ?thesis by (simp add: name_of_def)
qed

lemma find_index_names:
  "map f xs = map f ys \<Longrightarrow> find_index (\<lambda>c. P (f c)) xs = find_index (\<lambda>c. P (f c)) ys"
proof (induction xs arbitrary: ys)
  case (Cons x xs)
  then obtain y ys' where "ys = y # ys'" "f x = f y" "map f xs = map f ys'" by (cases ys) auto
  then show ?case using Cons.IH [of ys'] by simp
qed simp

lemma names_upd_rt: "map cam_name (cameras (media (upd_rt i f s))) = map cam_name (cameras (media s))"
  by (rule nth_equalityI) (simp_all add: upd_rt_def nth_upd)

lemma find_upd_rt [simp]: "find_cam (upd_rt i f s) nm = find_cam s nm"
proof -
  have "map cam_name (take n (cameras (media (upd_rt i f s)))) = map cam_name (take n (cameras (media s)))" for n
    by (simp add: names_upd_rt flip: take_map)
  from find_index_names [where f = cam_name, OF this]
  have "find_index (\<lambda>c. same_name k nm (cam_name c)) (take n (cameras (media (upd_rt i f s)))) =
      find_index (\<lambda>c. same_name k nm (cam_name c)) (take n (cameras (media s)))" for k n
    by (rule meta_allE)
  moreover have "conf_loaded (upd_rt i f s) = conf_loaded s" by (simp add: upd_rt_def upd_cam_def)
  ultimately show ?thesis by (simp add: find_cam_def raconf_find_camera_def)
qed

lemma camera_id_upd_rt:
  assumes "i < length (cameras (media s))"
  shows "camera_id E i (upd_rt i f s) = camera_id E i s"
proof -
  have n: "map cam_name (configured (upd_rt i f s)) = map cam_name (configured s)"
    by (simp add: configured_def names_upd_rt flip: take_map)
  have "cam_name (the_cam (upd_rt i f s) i) = cam_name (the_cam s i)"
    using assms by (simp add: the_cam_def upd_rt_def)
  moreover from find_index_names [where f = cam_name, OF n]
  have "find_index (\<lambda>c. same_name k nm (cam_name c)) (configured (upd_rt i f s)) =
      find_index (\<lambda>c. same_name k nm (cam_name c)) (configured s)" for k nm
    by (rule meta_allE)
  ultimately show ?thesis by (simp add: camera_id_def)
qed

lemma upd_rt_fields [simp]:
  "is_chm_ready (media (upd_rt i f s)) = is_chm_ready (media s)" "is_rssd_ready (media (upd_rt i f s)) = is_rssd_ready (media s)"
  "retry_count (upd_rt i f s) = retry_count s" "shutdownInProcess (upd_rt i f s) = shutdownInProcess s"
  "conf_loaded (upd_rt i f s) = conf_loaded s" "sm_init (upd_rt i f s) = sm_init s"
  by (simp_all add: upd_rt_def upd_cam_def)

lemma shared_fields [simp]:
  "retry_count (shared_memory E s) = retry_count s" "shutdownInProcess (shared_memory E s) = shutdownInProcess s"
  "conf_loaded (shared_memory E s) = conf_loaded s"
  by (simp_all add: shared_memory_def call_def)

lemma same_media_facts:
  "find_cam (shared_memory E s) nm = find_cam s nm" "the_cam (shared_memory E s) i = the_cam s i"
  "camera_id E i (shared_memory E s) = camera_id E i s"
  by (simp_all add: find_cam_def the_cam_def camera_id_def configured_def)

lemma ssd_recorded: "status_of_mode (md OR DO_RECORD_SSD_VIDEO) AND (DO_RECORD_CHM_VIDEO OR DO_RECORD_SSD_VIDEO) \<noteq> 0"
proof -
  have "(md OR DO_RECORD_SSD_VIDEO) AND DO_RECORD_SSD_VIDEO = DO_RECORD_SSD_VIDEO" by (simp add: word_ao_absorbs)
  moreover have "DO_RECORD_SSD_VIDEO \<noteq> 0" by (simp add: DO_RECORD_SSD_VIDEO_def)
  ultimately show ?thesis
    by (auto simp: status_of_mode_def DO_RECORD_CHM_VIDEO_def DO_RECORD_CHM_AUDIO_def DO_RECORD_SSD_VIDEO_def
        DO_RECORD_SSD_AUDIO_def)
qed

lemma commanded_ssd: "\<exists>md. commanded_mode c = md OR DO_RECORD_SSD_VIDEO"
proof -
  have "(x OR DO_RECORD_SSD_VIDEO) OR y = (x OR y) OR DO_RECORD_SSD_VIDEO" for x y by (simp only: ac_simps)
  then show ?thesis unfolding commanded_mode_def Let_def by blast
qed

lemma regroom_cam: "the_cam (regroom j s) i = the_cam s i" "the_cam (report_recording s) i = the_cam s i"
  "the_cam (send_camera_status E j s) i = the_cam s i"
  "the_cam (handle_space_monitor E (handle_metarec E s)) i = the_cam s i"
  using same_regroom [of s j] by (simp_all add: the_cam_def same_cams_def)

text \<open>What the start of a recorder leaves in the camera, when everything it asks for is there.\<close>

lemma started_cam:
  assumes "i < length (cameras (media s))" "is_assigned (cam_rt (the_cam s i))" "cam_pid (the_cam s i) = 0"
    and "is_chm_ready (media s)" "is_rssd_ready (media s)" "retry_count s (camera_id E i s) \<le> 2" "\<forall>h. 0 < fork E h"
  shows "let c = the_cam (snd (start_recording_process E i s)) i
    in is_recording c \<and> 0 < cam_pid c \<and> commanded_paused (cam_rt c) = commanded_paused (cam_rt (the_cam s i))"
proof -
  obtain md where md: "commanded_mode (the_cam s i) = md OR DO_RECORD_SSD_VIDEO" using commanded_ssd by blast
  let ?m = "md OR DO_RECORD_SSD_VIDEO" and ?cid = "camera_id E i s"
  have nz: "?m AND (DO_RECORD_CHM_VIDEO OR DO_RECORD_SSD_VIDEO) \<noteq> 0"
  proof
    assume "?m AND (DO_RECORD_CHM_VIDEO OR DO_RECORD_SSD_VIDEO) = 0"
    then have "(?m AND (DO_RECORD_CHM_VIDEO OR DO_RECORD_SSD_VIDEO)) AND DO_RECORD_SSD_VIDEO = 0" by simp
    then have "?m AND DO_RECORD_SSD_VIDEO = 0" by (simp add: and.assoc word_ao_absorbs)
    then show False by (simp add: word_ao_absorbs DO_RECORD_SSD_VIDEO_def)
  qed
  have st: "start_recording_process E i s = launch_recorder E i ?cid (set_mode i ?m s)"
    using assms(4-6) md nz by (simp add: start_recording_process_def Let_def)
  let ?s1 = "prepare_recorder E i (set_mode i ?m s)"
  have c1: "is_assigned (cam_rt (the_cam ?s1 i))" "cam_pid (the_cam ?s1 i) = 0"
    "recording_mode_flags (cam_rt (the_cam ?s1 i)) = ?m"
    "commanded_paused (cam_rt (the_cam ?s1 i)) = commanded_paused (cam_rt (the_cam s i))"
    "i < length (cameras (media ?s1))"
    using assms(1-3) by (simp_all add: prepare_recorder_def set_mode_def upd_rt_def the_cam_def
        raconf_prepare_for_recording_def Let_def cam_pid_def)
  have p1: "0 < fork E h" for h using assms(7) by blast
  have p2: "fork E h \<noteq> - 1" for h using p1 [of h] by linarith
  have "the_cam (snd (spawn_recorder E i ?cid ?s1)) i =
     (let c = the_cam ?s1 i; pid = fork E (ag_calls ?s1)
      in c\<lparr>cam_worker := (cam_worker c)\<lparr>worker_pid := pid\<rparr>,
           cam_rt := (cam_rt c)\<lparr>recording_status_flags := status_of_mode ?m\<rparr>\<rparr>)"
    using c1 p2 by (simp add: spawn_recorder_def spawn_process_def Let_def regroom_cam)
      (simp add: the_cam_def upd_rt_def set_pid_def)
  then show ?thesis
    using c1 p1 ssd_recorded [of md]
    by (simp add: st launch_recorder_def Let_def split_beta regroom_cam is_recording_def cam_pid_def)
qed

text \<open>
  C40: a changed setting and a paused camera. The command that pauses a camera is remembered, but a message
  that only changes its resolution restarts the stream: with both disks ready, a paused camera without a
  recorder records again afterwards and no longer counts as paused.
\<close>

theorem resolution_resumes_paused_camera:
  assumes "accepted E CAMERA_RESOLUTION h" "conf_loaded s" "\<not> shutdownInProcess s" "find_cam s (name_of E camera) = Some i"
    and "n_cameras (media s) \<le> length (cameras (media s))"
    and "is_online (cam_rt (the_cam s i)) \<noteq> 0" "is_assigned (cam_rt (the_cam s i))"
    and "commanded_paused (cam_rt (the_cam s i))" "\<not> is_recording (the_cam s i)" "cam_pid (the_cam s i) = 0"
    and "is_chm_ready (media s)" "is_rssd_ready (media s)" "retry_count s (camera_id E i s) \<le> 2" "\<forall>h. 0 < fork E h"
  shows "let c = the_cam (msgcb_camera_resolution E h camera v s) i
    in is_recording c \<and> 0 < cam_pid c \<and> \<not> commanded_paused (cam_rt c)"
proof -
  let ?nm = "name_of E camera" and ?f = "\<lambda>rt. rt\<lparr>rt_resolution := v\<rparr>"
  let ?s1 = "shared_memory E (upd_rt i ?f s)"
  let ?s2 = "set_paused i False (shared_memory E ?s1)"
  have l: "i < length (cameras (media s))" using found_less [OF assms(4)] assms(5) by simp
  have c1: "the_cam (upd_rt i ?f s) i = (the_cam s i)\<lparr>cam_rt := ?f (cam_rt (the_cam s i))\<rparr>"
    using l by (simp add: the_cam_def upd_rt_def)
  have f: "find_cam (upd_rt i ?f s) ?nm = Some i" using assms(4) by simp
  have pause: "handle_camera_record_pause E ?nm False (upd_rt i ?f s) = (EXIT_SUCCESS, ?s1)"
    using assms(2,3,6,7,9) f c1
    by (simp add: handle_camera_record_pause_def Let_def name_of_twice same_media_facts record_or_pause_def is_recording_def)
  have resume: "handle_camera_record_pause E ?nm True ?s1 = start_recording_process E i ?s2"
    using assms(2,3,6,7,9,11) f c1
    by (simp add: handle_camera_record_pause_def Let_def name_of_twice same_media_facts record_or_pause_def is_recording_def)
  have m: "media ?s2 = media (set_paused i False (upd_rt i ?f s))"
    by (simp add: set_paused_def upd_rt_def upd_cam_def)
  have c2: "the_cam ?s2 i = (the_cam s i)\<lparr>cam_rt := (cam_rt (the_cam s i))\<lparr>rt_resolution := v, commanded_paused := False\<rparr>\<rparr>"
    using l by (simp add: the_cam_def m) (simp add: set_paused_def upd_rt_def)
  have l1: "i < length (cameras (media (shared_memory E ?s1)))" using l by simp (simp add: upd_rt_def)
  have "camera_id E i ?s2 = camera_id E i (shared_memory E ?s1)"
    unfolding set_paused_def by (rule camera_id_upd_rt [OF l1])
  also have "\<dots> = camera_id E i (upd_rt i ?f s)" by (simp only: same_media_facts)
  also have "\<dots> = camera_id E i s" by (rule camera_id_upd_rt [OF l])
  finally have cid: "camera_id E i ?s2 = camera_id E i s" .
  have r: "retry_count ?s2 (camera_id E i ?s2) \<le> 2" using assms(13) cid by (simp add: set_paused_def)
  have "i < length (cameras (media ?s2))" "is_chm_ready (media ?s2)" "is_rssd_ready (media ?s2)"
    using l assms(11,12) by (simp_all add: set_paused_def) (simp add: upd_rt_def)
  moreover have "is_assigned (cam_rt (the_cam ?s2 i))" "cam_pid (the_cam ?s2 i) = 0"
    using assms(7,10) by (simp_all add: c2 cam_pid_def)
  ultimately have st: "let c = the_cam (snd (start_recording_process E i ?s2)) i
      in is_recording c \<and> 0 < cam_pid c \<and> commanded_paused (cam_rt c) = commanded_paused (cam_rt (the_cam ?s2 i))"
    using r assms(14) by (intro started_cam)
  obtain rc s3 where s3: "start_recording_process E i ?s2 = (rc, s3)" by fastforce
  have "the_cam (msgcb_camera_resolution E h camera v s) i = the_cam s3 i"
    using assms(1,4) pause resume s3
    by (cases rc) (simp_all add: msgcb_camera_resolution_def change_setting_def reset_camera_stream_def the_cam_def)
  then show ?thesis using st s3 by (simp add: c2 Let_def)
qed

lemma demo_found: "find_cam demo_agent (name_of demo_ctl ''CAM1'') = Some 0"
  by (simp add: find_cam_def demo_agent_def raconf_find_camera_def name_of_def c_str_def demo_ctl_def demo_dl_def
      paused_cam_def demo_cam_def same_name_def)

theorem resolution_resumes_paused_camera_witness:
  "let c = the_cam (msgcb_camera_resolution demo_ctl \<lparr>verified = True, head_version = 1\<rparr> ''CAM1'' 2 demo_agent) 0
   in is_recording c \<and> 0 < cam_pid c \<and> \<not> commanded_paused (cam_rt c)"
proof (rule resolution_resumes_paused_camera [OF _ _ _ demo_found])
  show "accepted demo_ctl CAMERA_RESOLUTION \<lparr>verified = True, head_version = 1\<rparr>"
    by (simp add: accepted_def demo_ctl_def)
qed (simp_all add: demo_agent_def demo_media_def demo_ctl_def the_cam_def paused_cam_def demo_cam_def demo_worker_def
      is_recording_def cam_pid_def)

end
