(* ===== verification/Spec2Isabelle.thy ===== *)
theory Spec2Isabelle
  imports Meta_Intf Recorder_Props Collector_Props Metarec_Main Space_Claims Recording_Claims Data_Claims
    Service_Claims Launch_Claims Download_Claims Agent_Claims
begin

text \<open>
  A model of the video recording agent for locomotives and of the programs around it, with the theorems that
  say what they do. This theory imports all others; every property stands in the theory of its component,
  behind a text block with its identifier C1 to C40.

  The program. The agent (\<open>src/reagent\<close>) receives messages from a host, watches cameras, starts one recorder
  process per camera, a metadata recorder (\<open>src/metarec\<close>) and a space monitor (\<open>src/space_monitor\<close>), and
  serves downloads. The metadata recorder takes time, position, events and locomotive numbers from the same
  messages, passes them through a ring buffer to a thread, and writes chunk files to up to two drives. The
  metadata collector (\<open>src/metacollector\<close>) searches the chunk files and writes an XML document; the agent
  runs it for a download. Further commands list the recorded intervals (\<open>src/recording_list\<close>), serve
  playback and downloads (\<open>src/access_data\<close>), and list, look up and remove files (\<open>src/dirworker\<close>). The
  programs meet in command lines, environment variables, file names and file formats, and the properties
  that span components are about these.

  What models what.

  \<^item> \<open>Prelude\<close>, \<open>C_String\<close>, \<open>C_Time\<close>, \<open>C_File\<close>, \<open>C_Getopt\<close>: the parts of the C library that the sources use:
    integers of 32 and 64 bits, string functions, number parsing and printing, the calendar, streams over a
    store of files, \<open>strtok_r\<close> and \<open>getopt\<close>. \<open>Fifo\<close> is the specification of a bounded queue and its contract
    as a locale.
  \<^item> \<open>Meta_Types\<close>: the structures recorder and collector share. \<open>Meta_Queue\<close> (\<open>metaqueue.c\<close>): the ring
    buffer, record \<open>meta_desc_q\<close>; \<open>q_enq\<close> and \<open>q_deq\<close> are the bodies inside the lock; it interprets the
    contract of \<open>Fifo\<close> (C1). \<open>Meta_Intf\<close> (\<open>metaintf.c\<close>): the setters and the fetch, state \<open>intf_state\<close>
    (C2 to C6). \<open>Ptc_Meta\<close> (\<open>ptc_meta_intf.c\<close>): the message handlers, state \<open>ptc_state\<close> (C7 to C10).
  \<^item> \<open>Meta_Chunk\<close> (\<open>metaio.c\<close>, \<open>metachunk.c\<close>): the recording thread, state \<open>recorder\<close>. \<open>Chunk_Format\<close>: the
    bytes of a finished chunk. \<open>Chunk_Session\<close>: one session step by step. \<open>Meta_Reader\<close> (\<open>metareader.c\<close>):
    the index and the records. \<open>Recorder_Props\<close>: what is written is what is read (C11).
  \<^item> \<open>Xml_Writer\<close> (\<open>xml_writer.c\<close>), \<open>Meta_Writer\<close> (\<open>metawriter.c\<close>, \<open>main.c\<close>): elements, document, command
    line. \<open>Collector_Props\<close>: tags, the way from descriptors to the document, timestamps (C12 to C14).
  \<^item> \<open>Metarec_Main\<close> (\<open>metarec/src/main.c\<close>): options, directories, start-up record (C15 to C17).
  \<^item> \<open>Chunk_Name\<close>, \<open>Dir_Tree\<close>, \<open>Dir_Delete\<close>: file names, directory trees, the scan that three programs share,
    deletion. \<open>Space_Monitor\<close> (\<open>ra_space_monitor.c\<close>), \<open>Space_Props\<close>, \<open>Space_Claims\<close>: both grooming loops
    (C18 to C22). \<open>Recording_List\<close> (\<open>camera_recordings.c\<close>), \<open>Recording_Props\<close>, \<open>Recording_Claims\<close>: scan,
    sort and intervals (C23, C24).
  \<^item> \<open>Data_Search\<close> (\<open>ra_data_search.c\<close>), \<open>Data_Claims\<close>: the agent's file helpers (C25 to C28). \<open>Access_Data\<close>
    (\<open>access_data.c\<close>), \<open>Dir_Worker\<close> (\<open>dir_worker.c\<close>), \<open>Service_Claims\<close>: the two commands (C29 to C31).
  \<^item> \<open>Agent_Config\<close> (\<open>reagent_config.c\<close>, \<open>reagent_config.h\<close>), \<open>Launch_Claims\<close>: the table of recorders and
    cameras, the command lines of the started programs read by their option loops (C32 to C34).
  \<^item> \<open>Video_Download\<close> (\<open>ra_download.c\<close>, \<open>lvdat_metadata.h\<close>), \<open>Download_Claims\<close>: the download from the found
    chunks to the archive, state \<open>dl_state\<close> (C35 to C37).
  \<^item> \<open>Agent_Control\<close> (\<open>ptc_intf.c\<close>), \<open>Agent_Claims\<close>: message handlers, timers, processes, state \<open>agent\<close>; the
    relation \<open>agent_reaches\<close> and the contract \<open>kept_by_events\<close>, interpreted on \<open>agent_event\<close> (C38 to C40).

  Conventions. A struct or the static variables of a file are a record with the source's field names, a
  prefix where two structs share one. \<open>None\<close> is undefined behaviour: a null pointer, an access outside a
  buffer, a stream that is not open; in the queue's functions also a caller that blocks. Error codes are
  values. Constants, layouts and functions from headers and libraries that are not part of the repository
  are fields of environment records (\<open>meta_layout\<close>, \<open>chunk_env\<close>, \<open>collector_env\<close>, \<open>ds_env\<close>, \<open>conf_env\<close>,
  \<open>dl_env\<close>, \<open>ctl_env\<close> and others), and theorems hold for all their values or name what they ask of them.
  Flags and counters that can wrap are words; other integers are \<open>int\<close> or \<open>nat\<close>, with conversions written
  out where they change a value. A \<open>double\<close> of the download is an integer rounded to 53 bits. The streams a
  download has open are a multiset of paths, so a stream of a local variable that is not closed shows (C37);
  a stream that is written is buffered, and how much its buffer holds back is a parameter (C25).

  What the groups of lemmas show. Each component has the preservation lemmas of its invariant
  (\<open>q_invar\<close>, \<open>files_inv\<close> and \<open>session_inv\<close>, \<open>wf_entries\<close>, \<open>recording_inv\<close>), the equations of its operations
  on every branch, and the lemmas that connect it with its neighbours: descriptors to bytes to records to
  elements, command lines printed and parsed, names printed and parsed, environment variables written and
  read.

  Loops. Most are structural recursion or \<open>function\<close> with a measure. The two loops of the space monitor can
  run for ever and are \<open>partial_function (option)\<close>, so that not returning is \<open>None\<close>: C19 and C20 say when
  they return, C21 when one does not. No fuel is used.

  Not modelled. Vendored cJSON and expat and the headers of linked libraries; the HTTP server and its Lua
  state (\<open>http.c\<close>, \<open>luaif.c\<close> and the text the agent's timer writes for it); the camera monitor's sockets
  (\<open>camon.c\<close>); reading and rewriting XML configuration (\<open>user_config.c\<close>, \<open>xmlutil.c\<close>, most of \<open>domutil.c\<close>),
  which calls XML libraries; the agent's \<open>main.c\<close>, signals and threads, with the signal that reads the
  configuration again: \<open>agent_reaches\<close> is a run between two readings; the RTSP player, C++ on a library;
  the interactive test program below \<open>host_utils\<close>; build files and scripts; the branches for QNX; log and
  debug output. The time between timer calls and the interleaving of threads appear as sequences of events
  and as outcomes of waits.
\<close>

end
